(* ===== verification/VF_Prelude.thy ===== *)
theory VF_Prelude
  imports Main "HOL-Library.Char_ord" "HOL-Library.List_Lexorder" "HOL-Library.Sublist"
begin

text \<open>
  What every component shares: the theorem collections of the development, lemmas on
  association of lists with optional results, and the error values of the modelled code.

  Go's \<^verbatim>\<open>error\<close> results become the left summand of a sum type, its \<^verbatim>\<open>(value, nil)\<close>
  results the right one.  A Go string is a list of bytes, which is what \<open>char list\<close> is.
\<close>

named_theorems time_simps \<open>durations of package time as numbers of nanoseconds\<close>
named_theorems preserve_intros \<open>rules that a database program keeps an invariant\<close>
named_theorems frame_simps \<open>fields an operation leaves unchanged\<close>

section \<open>Errors\<close>

text \<open>
  The errors the modelled functions return.  \<open>SysFault\<close> is any failure that the database or
  the operating system reports; \<open>NotFound\<close> is \<^verbatim>\<open>gorm.ErrRecordNotFound\<close> and
  \<^verbatim>\<open>os.ErrNotExist\<close>; \<open>Exists\<close> is \<^verbatim>\<open>os.ErrExist\<close>; \<open>Err\<close> carries the text
  of \<^verbatim>\<open>errors.New\<close> and \<^verbatim>\<open>fmt.Errorf\<close>; \<open>Wrap\<close> is \<^verbatim>\<open>fmt.Errorf("%w: ...")\<close>
  around a sentinel error, which \<^verbatim>\<open>errors.Is\<close> still recognises.
\<close>

datatype go_error = SysFault | NotFound | Exists | Err string | Wrap string string

type_synonym 'a outcome = "go_error + 'a"

fun errors_is :: "go_error \<Rightarrow> string \<Rightarrow> bool" where
  "errors_is (Err t) s = (t = s)"
| "errors_is (Wrap t _) s = (t = s)"
| "errors_is _ _ = False"

text \<open>The text of an error; the wording of a system fault is not modelled.\<close>

fun error_text :: "go_error \<Rightarrow> string" where
  "error_text (Err t) = t"
| "error_text (Wrap s t) = s @ '': '' @ t"
| "error_text NotFound = ''record not found''"
| "error_text Exists = ''file exists''"
| "error_text SysFault = ''system fault''"

section \<open>Lists\<close>

lemma filter_map_update_other:
  assumes "\<And>x. p x \<Longrightarrow> \<not> q x" and "\<And>x. p x \<Longrightarrow> \<not> q (f x)"
  shows "filter q (map (\<lambda>x. if p x then f x else x) xs) = filter q xs"
  using assms by (induction xs) auto

lemma map_update_cong_key:
  assumes "\<And>x. k (f x) = k x"
  shows "map k (map (\<lambda>x. if p x then f x else x) xs) = map k xs"
  using assms by (induction xs) auto

lemma distinct_map_eq:
  assumes "distinct (map k xs)" and "x \<in> set xs" and "y \<in> set xs" and "k x = k y"
  shows "x = y"
  using assms by (auto simp: distinct_map inj_on_def)

lemma length_filter_one:
  assumes "distinct (map k xs)" and "\<And>x. x \<in> set xs \<Longrightarrow> p x \<Longrightarrow> k x = c"
  shows "length (filter p xs) \<le> 1"
proof -
  have "distinct (map k (filter p xs))"
    using assms(1) by (rule distinct_map_filter)
  then have "card (set (map k (filter p xs))) = length (filter p xs)"
    by (metis distinct_card length_map)
  moreover have "card (set (map k (filter p xs))) \<le> card {c}"
    by (rule card_mono) (use assms(2) in auto)
  ultimately show ?thesis by simp
qed

text \<open>\<^verbatim>\<open>append([]T(nil), xs...)\<close> followed by a scan that keeps the first occurrence of
  each value: the shape of every deduplicating loop in the code.\<close>

fun first_occurrences :: "'a set \<Rightarrow> 'a list \<Rightarrow> 'a list" where
  "first_occurrences seen [] = []"
| "first_occurrences seen (x # xs) =
     (if x \<in> seen then first_occurrences seen xs
      else x # first_occurrences (insert x seen) xs)"

lemma set_first_occurrences [simp]:
  "set (first_occurrences seen xs) = set xs - seen"
  by (induction seen xs rule: first_occurrences.induct) auto

lemma distinct_first_occurrences [simp]: "distinct (first_occurrences seen xs)"
  by (induction seen xs rule: first_occurrences.induct) auto

lemma first_occurrences_id:
  "distinct xs \<Longrightarrow> set xs \<inter> seen = {} \<Longrightarrow> first_occurrences seen xs = xs"
  by (induction seen xs rule: first_occurrences.induct) auto

lemma first_occurrences_idem [simp]:
  "first_occurrences {} (first_occurrences {} xs) = first_occurrences {} xs"
  by (rule first_occurrences_id) auto

text \<open>The last \<open>n\<close> elements of a list.\<close>

definition take_last :: "nat \<Rightarrow> 'a list \<Rightarrow> 'a list" where
  "take_last n xs = drop (length xs - n) xs"

lemma length_take_last [simp]: "length (take_last n xs) = min n (length xs)"
  by (simp add: take_last_def)

lemma take_last_ge [simp]: "length xs \<le> n \<Longrightarrow> take_last n xs = xs"
  by (simp add: take_last_def)

lemma take_last_append_right:
  "n \<le> length ys \<Longrightarrow> take_last n (xs @ ys) = take_last n ys"
  by (simp add: take_last_def)

lemma take_last_take_last_append:
  "take_last n (take_last n xs @ ys) = take_last n (xs @ ys)"
proof (cases "n \<le> length xs")
  case True
  then have len: "length (take_last n xs) = n" by simp
  show ?thesis
  proof (cases "length ys \<le> n")
    case True
    have "drop (length ys) (drop (length xs - n) xs) = drop (length xs + length ys - n) xs"
      using True \<open>n \<le> length xs\<close> by (simp add: add.commute)
    then show ?thesis
      using True \<open>n \<le> length xs\<close> by (simp add: take_last_def)
  next
    case False
    then show ?thesis by (simp add: take_last_append_right)
  qed
next
  case False
  then show ?thesis by simp
qed

end
