(* ===== verification/VF_GoLib.thy ===== *)
theory VF_GoLib
  imports VF_Prelude
begin

text \<open>
  The parts of Go's standard library the modelled code calls: packages strings, path/filepath
  (on Unix), sort and time.  A string is its list of UTF-8 bytes; functions of package strings
  that work on runes are written so that they give the same bytes.
\<close>

section \<open>Bytes\<close>

abbreviation byte :: "char \<Rightarrow> nat" where
  "byte c \<equiv> of_char c"

definition is_lower :: "char \<Rightarrow> bool" where
  "is_lower c \<longleftrightarrow> 97 \<le> byte c \<and> byte c \<le> 122"

definition is_upper :: "char \<Rightarrow> bool" where
  "is_upper c \<longleftrightarrow> 65 \<le> byte c \<and> byte c \<le> 90"

definition is_digit :: "char \<Rightarrow> bool" where
  "is_digit c \<longleftrightarrow> 48 \<le> byte c \<and> byte c \<le> 57"

lemmas byte_class_defs = is_lower_def is_upper_def is_digit_def

section \<open>Package strings\<close>

definition has_prefix :: "string \<Rightarrow> string \<Rightarrow> bool" where
  "has_prefix s p \<longleftrightarrow> prefix p s"

definition has_suffix :: "string \<Rightarrow> string \<Rightarrow> bool" where
  "has_suffix s p \<longleftrightarrow> suffix p s"

definition contains :: "string \<Rightarrow> string \<Rightarrow> bool" where
  "contains s p \<longleftrightarrow> sublist p s"

definition contains_any :: "string \<Rightarrow> string \<Rightarrow> bool" where
  "contains_any s cs \<longleftrightarrow> (\<exists>c \<in> set s. c \<in> set cs)"

definition trim_prefix :: "string \<Rightarrow> string \<Rightarrow> string" where
  "trim_prefix s p = (if prefix p s then drop (length p) s else s)"

definition trim_suffix :: "string \<Rightarrow> string \<Rightarrow> string" where
  "trim_suffix s p = (if suffix p s then take (length s - length p) s else s)"

lemma has_prefix_code [code]:
  "has_prefix s p = (take (length p) s = p)"
  by (auto simp: has_prefix_def prefix_def take_is_prefix) (metis append_take_drop_id)

text \<open>strings.Trim(s, cutset) for an ASCII cutset.\<close>

definition trim_set :: "string \<Rightarrow> string \<Rightarrow> string" where
  "trim_set cs s = rev (dropWhile (\<lambda>c. c \<in> set cs) (rev (dropWhile (\<lambda>c. c \<in> set cs) s)))"

text \<open>
  The runes unicode.IsSpace accepts, in UTF-8: the ASCII ones, U+0085 and U+00A0 in two bytes,
  U+1680, U+2000 to U+200A, U+2028, U+2029, U+202F, U+205F and U+3000 in three.
  strings.TrimSpace removes them from both ends: at the left end the next rune is one of them
  exactly when the string starts with its bytes, at the right end exactly when it ends with them.
\<close>

definition ascii_space :: "char \<Rightarrow> bool" where
  "ascii_space c \<longleftrightarrow> byte c = 32 \<or> 9 \<le> byte c \<and> byte c \<le> 13"

definition space2 :: "char \<Rightarrow> char \<Rightarrow> bool" where
  "space2 c d \<longleftrightarrow> byte c = 0xC2 \<and> (byte d = 0x85 \<or> byte d = 0xA0)"

definition space3 :: "char \<Rightarrow> char \<Rightarrow> char \<Rightarrow> bool" where
  "space3 c d e \<longleftrightarrow>
     byte c = 0xE1 \<and> byte d = 0x9A \<and> byte e = 0x80 \<or>
     byte c = 0xE2 \<and> byte d = 0x80 \<and>
       (0x80 \<le> byte e \<and> byte e \<le> 0x8A \<or> byte e = 0xA8 \<or> byte e = 0xA9 \<or> byte e = 0xAF) \<or>
     byte c = 0xE2 \<and> byte d = 0x81 \<and> byte e = 0x9F \<or>
     byte c = 0xE3 \<and> byte d = 0x80 \<and> byte e = 0x80"

text \<open>The number of bytes of the white space at the front of a string, and at the front of a
  reversed one; 0 when there is none.\<close>

definition space_len :: "string \<Rightarrow> nat" where
  "space_len s = (case s of [] \<Rightarrow> 0 | c # cs \<Rightarrow>
     if byte c < 0x80 then (if ascii_space c then 1 else 0)
     else (case cs of [] \<Rightarrow> 0 | d # ds \<Rightarrow>
       if space2 c d then 2
       else (case ds of [] \<Rightarrow> 0 | e # _ \<Rightarrow> if space3 c d e then 3 else 0)))"

definition space_len_rev :: "string \<Rightarrow> nat" where
  "space_len_rev s = (case s of [] \<Rightarrow> 0 | c # cs \<Rightarrow>
     if byte c < 0x80 then (if ascii_space c then 1 else 0)
     else (case cs of [] \<Rightarrow> 0 | d # ds \<Rightarrow>
       if space2 d c then 2
       else (case ds of [] \<Rightarrow> 0 | e # _ \<Rightarrow> if space3 e d c then 3 else 0)))"

fun strip_front :: "(string \<Rightarrow> nat) \<Rightarrow> nat \<Rightarrow> string \<Rightarrow> string" where
  "strip_front len 0 s = s"
| "strip_front len (Suc n) s =
     (if len s = 0 then s else strip_front len n (drop (len s) s))"

definition trim_left :: "(string \<Rightarrow> nat) \<Rightarrow> string \<Rightarrow> string" where
  "trim_left len s = strip_front len (length s) s"

definition trim_space :: "string \<Rightarrow> string" where
  "trim_space s = rev (trim_left space_len_rev (rev (trim_left space_len s)))"

text \<open>
  strings.ToLower, byte for byte on ASCII text.  Two runes outside ASCII have an ASCII lower
  case (U+0130 and the Kelvin sign U+212A); every other one keeps outside ASCII, and the
  callers in the model only ask whether the result is a given ASCII text or within ASCII.
\<close>

definition lower_char :: "char \<Rightarrow> char" where
  "lower_char c = (if is_upper c then char_of (byte c + 32) else c)"

fun to_lower :: "string \<Rightarrow> string" where
  "to_lower [] = []"
| "to_lower [c] = [lower_char c]"
| "to_lower [c, d] =
     (if byte c = 0xC4 \<and> byte d = 0xB0 then ''i'' else lower_char c # to_lower [d])"
| "to_lower (c # d # e # rest) =
     (if byte c = 0xC4 \<and> byte d = 0xB0 then CHR ''i'' # to_lower (e # rest)
      else if byte c = 0xE2 \<and> byte d = 0x84 \<and> byte e = 0xAA then CHR ''k'' # to_lower rest
      else lower_char c # to_lower (d # e # rest))"

text \<open>strings.EqualFold against an ASCII text without the letters k and s, which have no
  case variants outside ASCII.\<close>

definition equal_fold :: "string \<Rightarrow> string \<Rightarrow> bool" where
  "equal_fold s t \<longleftrightarrow> map lower_char s = map lower_char t"

fun split_on :: "char \<Rightarrow> string \<Rightarrow> string list" where
  "split_on c [] = [[]]"
| "split_on c (x # xs) =
     (if x = c then [] # split_on c xs
      else (case split_on c xs of [] \<Rightarrow> [[x]] | p # ps \<Rightarrow> (x # p) # ps))"

fun join_with :: "string \<Rightarrow> string list \<Rightarrow> string" where
  "join_with sep [] = []"
| "join_with sep [s] = s"
| "join_with sep (s # t # ss) = s @ sep @ join_with sep (t # ss)"

text \<open>strings.Fields on ASCII white space, used only to count the fields.\<close>

fun count_fields :: "bool \<Rightarrow> string \<Rightarrow> nat" where
  "count_fields inside [] = 0"
| "count_fields inside (c # cs) =
     (if byte c \<in> {9, 10, 11, 12, 13, 32} then count_fields False cs
      else (if inside then 0 else 1) + count_fields True cs)"

text \<open>The \<^verbatim>\<open>%q\<close> verb on a text without quotes, backslashes and unprintable bytes.\<close>

definition quoted :: "string \<Rightarrow> string" where
  "quoted s = [CHR 0x22] @ s @ [CHR 0x22]"

subsection \<open>Laws of the string functions\<close>

lemma split_on_nonempty [simp]: "split_on c s \<noteq> []"
  by (induction s) (auto split: list.splits)

lemma join_split [simp]: "join_with [c] (split_on c s) = s"
proof (induction s)
  case Nil
  then show ?case by simp
next
  case (Cons x xs)
  obtain p ps where "split_on c xs = p # ps"
    using split_on_nonempty by (metis list.exhaust)
  with Cons show ?case by (cases ps) auto
qed

lemma split_on_segments: "seg \<in> set (split_on c s) \<Longrightarrow> c \<notin> set seg \<and> set seg \<subseteq> set s"
proof (induction s arbitrary: seg)
  case Nil
  then show ?case by simp
next
  case (Cons x xs)
  obtain p ps where "split_on c xs = p # ps"
    using split_on_nonempty by (metis list.exhaust)
  with Cons show ?case by (force split: if_splits)
qed

lemma split_on_no_sep: "c \<notin> set s \<Longrightarrow> split_on c s = [s]"
  by (induction s) auto

lemma split_on_append: "split_on c (a @ c # b) = split_on c a @ split_on c b"
proof (induction a)
  case Nil
  then show ?case by simp
next
  case (Cons x xs)
  then show ?case by (cases "split_on c xs") (auto split: list.splits)
qed

lemma split_join:
  "ss \<noteq> [] \<Longrightarrow> (\<And>s. s \<in> set ss \<Longrightarrow> c \<notin> set s) \<Longrightarrow> split_on c (join_with [c] ss) = ss"
proof (induction "[c]" ss rule: join_with.induct)
  case (3 s t ss)
  then show ?case by (simp add: split_on_append split_on_no_sep)
qed (auto simp: split_on_no_sep)

lemma strip_front_suffix: "\<exists>pre. s = pre @ strip_front len n s"
proof (induction n arbitrary: s)
  case 0
  then show ?case by simp
next
  case (Suc n)
  obtain pre where "drop (len s) s = pre @ strip_front len n (drop (len s) s)"
    using Suc by blast
  then have "s = (take (len s) s @ pre) @ strip_front len n (drop (len s) s)"
    by (metis append.assoc append_take_drop_id)
  then have "\<exists>pre. s = pre @ strip_front len n (drop (len s) s)"
    by blast
  then show ?case by simp
qed

lemma trim_left_suffix: "\<exists>pre. s = pre @ trim_left len s"
  by (simp add: trim_left_def strip_front_suffix)

lemma trim_space_infix: "\<exists>pre post. s = pre @ trim_space s @ post"
proof -
  obtain pre where pre: "s = pre @ trim_left space_len s"
    using trim_left_suffix by blast
  obtain q where "rev (trim_left space_len s) = q @ trim_left space_len_rev (rev (trim_left space_len s))"
    using trim_left_suffix by blast
  then have "trim_left space_len s = trim_space s @ rev q"
    by (metis rev_append rev_rev_ident trim_space_def)
  with pre show ?thesis by metis
qed

lemma set_trim_space: "set (trim_space s) \<subseteq> set s"
proof -
  obtain pre post where "s = pre @ trim_space s @ post"
    using trim_space_infix by blast
  then have "set s = set pre \<union> set (trim_space s) \<union> set post"
    by (metis set_append sup.assoc)
  then show ?thesis by blast
qed

lemma trim_space_Nil [simp]: "trim_space [] = []"
  by (simp add: trim_space_def trim_left_def)

lemma strip_front_unchanged: "len s = 0 \<Longrightarrow> strip_front len n s = s"
  by (cases n) simp_all

lemma trim_left_unchanged: "len s = 0 \<Longrightarrow> trim_left len s = s"
  by (simp add: trim_left_def strip_front_unchanged)

text \<open>What strings.TrimSpace returns neither starts nor ends with white space.\<close>

lemma strip_front_done:
  "length s \<le> n \<Longrightarrow> len [] = 0 \<Longrightarrow> len (strip_front len n s) = 0"
proof (induction n arbitrary: s)
  case (Suc n)
  then show ?case by (cases s) auto
qed simp

lemma space_len_Nil [simp]: "space_len [] = 0" "space_len_rev [] = 0"
  by (simp_all add: space_len_def space_len_rev_def)

lemma trim_left_done: "len [] = 0 \<Longrightarrow> len (trim_left len s) = 0"
  by (simp add: trim_left_def strip_front_done)

text \<open>Only white space bytes are cut off; no other ASCII byte is lost.\<close>

definition space_byte :: "char \<Rightarrow> bool" where
  "space_byte c \<longleftrightarrow> ascii_space c \<or> 0x80 \<le> byte c"

lemma space_len_bytes:
  "c \<in> set (take (space_len s) s) \<Longrightarrow> space_byte c"
  "c \<in> set (take (space_len_rev s) s) \<Longrightarrow> space_byte c"
  by (auto simp: space_len_def space_len_rev_def space_byte_def space2_def space3_def
      split: list.splits if_splits)

lemma strip_front_bytes:
  assumes "\<And>s c. c \<in> set (take (len s) s) \<Longrightarrow> space_byte c"
  shows "\<exists>pre. s = pre @ strip_front len n s \<and> (\<forall>c \<in> set pre. space_byte c)"
proof (induction n arbitrary: s)
  case 0
  then show ?case by simp
next
  case (Suc n)
  obtain pre where pre: "drop (len s) s = pre @ strip_front len n (drop (len s) s)"
    "\<forall>c \<in> set pre. space_byte c"
    using Suc by blast
  then have "s = (take (len s) s @ pre) @ strip_front len n (drop (len s) s)"
    by (metis append.assoc append_take_drop_id)
  moreover have "\<forall>c \<in> set (take (len s) s @ pre). space_byte c"
    using pre(2) assms by auto
  ultimately have "\<exists>pre. s = pre @ strip_front len n (drop (len s) s) \<and> (\<forall>c \<in> set pre. space_byte c)"
    by blast
  then show ?case by simp
qed

lemma trim_space_cuts:
  "\<exists>pre post. s = pre @ trim_space s @ post \<and> (\<forall>c \<in> set pre \<union> set post. space_byte c)"
proof -
  obtain pre where pre: "s = pre @ trim_left space_len s" "\<forall>c \<in> set pre. space_byte c"
    using strip_front_bytes [of space_len] space_len_bytes(1) unfolding trim_left_def by blast
  obtain q where q: "rev (trim_left space_len s) = q @ trim_left space_len_rev (rev (trim_left space_len s))"
    "\<forall>c \<in> set q. space_byte c"
    using strip_front_bytes [of space_len_rev] space_len_bytes(2) unfolding trim_left_def by blast
  from q(1) have "trim_left space_len s = trim_space s @ rev q"
    by (metis rev_append rev_rev_ident trim_space_def)
  with pre q(2) have "s = pre @ trim_space s @ rev q" and "\<forall>c \<in> set pre \<union> set (rev q). space_byte c"
    by auto
  then show ?thesis by blast
qed

lemma space_byte_plain: "space_byte c \<Longrightarrow> c \<noteq> CHR ''/'' \<and> c \<noteq> CHR ''.'' \<and> c \<noteq> CHR 0x5C"
  by (auto simp: space_byte_def ascii_space_def)

lemma space_len_append: "space_len t \<noteq> 0 \<Longrightarrow> space_len (t @ q) = space_len t"
proof -
  consider "t = []" | c where "t = [c]" | c d where "t = [c, d]" | c d e r where "t = c # d # e # r"
    by (metis list.exhaust)
  then show "space_len t \<noteq> 0 \<Longrightarrow> ?thesis"
    by cases (simp_all add: space_len_def split: if_split_asm)
qed

lemma trim_space_idem [simp]: "trim_space (trim_space s) = trim_space s"
proof -
  let ?u = "trim_left space_len s"
  obtain q where "rev ?u = q @ trim_left space_len_rev (rev ?u)"
    using trim_left_suffix by blast
  then have u: "?u = trim_space s @ rev q"
    by (metis rev_append rev_rev_ident trim_space_def)
  have "space_len ?u = 0" by (simp add: trim_left_done)
  with u have "space_len (trim_space s) = 0"
    using space_len_append by metis
  moreover have "space_len_rev (rev (trim_space s)) = 0"
    by (simp add: trim_space_def trim_left_done)
  ultimately show ?thesis
    by (simp add: trim_left_unchanged trim_space_def [of "trim_space s"])
qed

text \<open>A string whose first and last bytes are ASCII and no white space is left alone.\<close>

definition tight :: "string \<Rightarrow> bool" where
  "tight s \<longleftrightarrow> s = [] \<or> (byte (hd s) < 0x80 \<and> \<not> ascii_space (hd s) \<and>
      byte (last s) < 0x80 \<and> \<not> ascii_space (last s))"

lemma trim_space_tight [simp]:
  assumes "tight s"
  shows "trim_space s = s"
proof (cases "s = []")
  case False
  from False assms have "space_len s = 0"
    by (cases s) (auto simp: space_len_def tight_def)
  moreover from False assms have "space_len_rev (rev s) = 0"
    by (cases s rule: rev_cases) (auto simp: space_len_rev_def tight_def)
  ultimately show ?thesis by (simp add: trim_space_def trim_left_unchanged)
qed simp

section \<open>Package path/filepath on Unix\<close>

abbreviation slash :: char where "slash \<equiv> CHR ''/''"
abbreviation backslash :: char where "backslash \<equiv> CHR 0x5C"

text \<open>filepath.Clean: the segments are read left to right onto a stack.\<close>

fun clean_segs :: "bool \<Rightarrow> string list \<Rightarrow> string list \<Rightarrow> string list" where
  "clean_segs rooted stack [] = rev stack"
| "clean_segs rooted stack (s # ss) =
     (if s = '''' \<or> s = ''.'' then clean_segs rooted stack ss
      else if s = ''..'' then
        (case stack of
           [] \<Rightarrow> clean_segs rooted (if rooted then [] else [''..'']) ss
         | t # ts \<Rightarrow> if t = ''..'' then clean_segs rooted (s # stack) ss
                    else clean_segs rooted ts ss)
      else clean_segs rooted (s # stack) ss)"

definition path_clean :: "string \<Rightarrow> string" where
  "path_clean p =
     (if p = '''' then ''.''
      else if hd p = slash then slash # join_with [slash] (clean_segs True [] (split_on slash p))
      else (let q = join_with [slash] (clean_segs False [] (split_on slash p))
            in if q = '''' then ''.'' else q))"

definition path_join :: "string list \<Rightarrow> string" where
  "path_join es = (case dropWhile (\<lambda>e. e = '''') es of
     [] \<Rightarrow> '''' | fs \<Rightarrow> path_clean (join_with [slash] fs))"

definition path_base :: "string \<Rightarrow> string" where
  "path_base p =
     (if p = '''' then ''.''
      else (let q = rev (dropWhile (\<lambda>c. c = slash) (rev p))
            in if q = '''' then [slash] else last (split_on slash q)))"

definition is_abs :: "string \<Rightarrow> bool" where
  "is_abs p \<longleftrightarrow> has_prefix p [slash]"

text \<open>A path segment that stays where it is.\<close>

definition plain_segment :: "string \<Rightarrow> bool" where
  "plain_segment s \<longleftrightarrow> s \<noteq> '''' \<and> s \<noteq> ''.'' \<and> s \<noteq> ''..''"

lemma clean_segs_plain:
  "(\<And>s. s \<in> set ss \<Longrightarrow> plain_segment s) \<Longrightarrow> clean_segs r stack ss = rev stack @ ss"
  by (induction r stack ss rule: clean_segs.induct) (auto simp: plain_segment_def)

lemma path_clean_plain:
  assumes "\<And>s. s \<in> set (split_on slash p) \<Longrightarrow> plain_segment s"
  shows "path_clean p = p"
proof -
  have p: "p \<noteq> ''''"
    using assms [of "''''"] by (auto simp: plain_segment_def)
  have "hd p \<noteq> slash"
  proof
    assume "hd p = slash"
    with p obtain q where "p = slash # q" by (cases p) auto
    with assms [of "''''"] show False by (auto simp: plain_segment_def)
  qed
  with p assms show ?thesis
    by (simp add: path_clean_def clean_segs_plain Let_def)
qed

text \<open>Bytes other than slash and dot at either end keep every segment plain.\<close>

definition plain_path :: "string \<Rightarrow> bool" where
  "plain_path p \<longleftrightarrow> (\<forall>s \<in> set (split_on slash p). plain_segment s)"

lemma plain_path_Cons:
  assumes "plain_path t" and "c \<noteq> slash" and "c \<noteq> CHR ''.''"
  shows "plain_path (c # t)"
proof -
  obtain p ps where "split_on slash t = p # ps"
    using split_on_nonempty by (metis list.exhaust)
  with assms show ?thesis by (auto simp: plain_path_def plain_segment_def)
qed

lemma plain_path_prepend:
  "plain_path t \<Longrightarrow> (\<And>c. c \<in> set pre \<Longrightarrow> c \<noteq> slash \<and> c \<noteq> CHR ''.'') \<Longrightarrow> plain_path (pre @ t)"
  by (induction pre) (auto intro: plain_path_Cons)

lemma split_on_snoc:
  "c \<noteq> sep \<Longrightarrow> split_on sep (t @ [c]) = butlast (split_on sep t) @ [last (split_on sep t) @ [c]]"
proof (induction t)
  case (Cons x xs)
  then show ?case
    by (cases "split_on sep xs") (auto split: list.splits)
qed simp

lemma plain_path_append:
  assumes "plain_path t" and "\<And>c. c \<in> set post \<Longrightarrow> c \<noteq> slash \<and> c \<noteq> CHR ''.''"
  shows "plain_path (t @ post)"
  using assms
proof (induction post rule: rev_induct)
  case (snoc c post)
  then have IH: "plain_path (t @ post)" and c: "c \<noteq> slash" "c \<noteq> CHR ''.''" by auto
  have "set (butlast (split_on slash (t @ post))) \<subseteq> set (split_on slash (t @ post))"
    by (auto dest: in_set_butlastD)
  with IH c show ?case
    unfolding plain_path_def append_assoc [symmetric] split_on_snoc [OF c(1)]
    by (auto simp: plain_segment_def append_eq_Cons_conv)
qed simp

lemma plain_path_ne: "plain_path p \<Longrightarrow> p \<noteq> ''''"
  unfolding plain_path_def plain_segment_def by (metis list.set_intros(1) split_on.simps(1))

lemma plain_path_clean: "plain_path p \<Longrightarrow> path_clean p = p"
  by (simp add: path_clean_plain plain_path_def)

lemma plain_path_join:
  "plain_path p \<Longrightarrow> plain_path q \<Longrightarrow> plain_path (p @ slash # q)"
  by (auto simp: plain_path_def split_on_append)

lemma plain_path_not_abs:
  assumes "plain_path p"
  shows "\<not> is_abs p"
proof
  assume "is_abs p"
  then obtain q where "p = slash # q"
    by (auto simp: is_abs_def has_prefix_def prefix_def)
  with assms show False by (simp add: plain_path_def plain_segment_def)
qed

section \<open>Package time\<close>

text \<open>
  An instant is the number of nanoseconds since the zero \<^verbatim>\<open>time.Time\<close> (January 1, year 1,
  UTC), so that \<^verbatim>\<open>IsZero\<close> is equality with 0; a \<^verbatim>\<open>time.Duration\<close> is a number of nanoseconds.
  \<^verbatim>\<open>Sub\<close> saturates at the ends of int64.
\<close>

type_synonym time = int
type_synonym duration = int

definition second :: duration where [time_simps]: "second = 1000000000"
definition minute :: duration where [time_simps]: "minute = 60 * second"
definition hour :: duration where [time_simps]: "hour = 60 * minute"

definition max_duration :: duration where [time_simps]: "max_duration = 2 ^ 63 - 1"

text \<open>A product of durations is computed modulo \<open>2 ^ 64\<close>.\<close>

definition int64 :: "int \<Rightarrow> int" where
  "int64 x = (x + 2 ^ 63) mod 2 ^ 64 - 2 ^ 63"

lemma int64_id: "- (2 ^ 63) \<le> x \<Longrightarrow> x < 2 ^ 63 \<Longrightarrow> int64 x = x"
  by (simp add: int64_def)

definition time_sub :: "time \<Rightarrow> time \<Rightarrow> duration" where
  "time_sub a b = max (- max_duration - 1) (min max_duration (a - b))"

lemma time_sub_le_iff: "0 \<le> d \<Longrightarrow> d < max_duration \<Longrightarrow> time_sub a b \<le> d \<longleftrightarrow> a - b \<le> d"
  by (auto simp: time_sub_def)

lemma time_sub_mono: "a \<le> a' \<Longrightarrow> time_sub a b \<le> time_sub a' b"
  by (auto simp: time_sub_def)

text \<open>The civil date of an instant in UTC: (year, month, day), (hour, minute, second).\<close>

definition civil_date :: "time \<Rightarrow> int \<times> int \<times> int" where
  "civil_date t =
     (let z = t div (24 * hour) + 306; era = z div 146097; doe = z mod 146097;
          yoe = (doe - doe div 1460 + doe div 36524 - doe div 146096) div 365;
          doy = doe - (365 * yoe + yoe div 4 - yoe div 100);
          mp = (5 * doy + 2) div 153;
          d = doy - (153 * mp + 2) div 5 + 1;
          m = (if mp < 10 then mp + 3 else mp - 9);
          y = yoe + era * 400 + (if m \<le> 2 then 1 else 0)
      in (y, m, d))"

definition civil_clock :: "time \<Rightarrow> int \<times> int \<times> int" where
  "civil_clock t =
     (let s = (t mod (24 * hour)) div second
      in (s div 3600, (s mod 3600) div 60, s mod 60))"

fun dec_digits :: "nat \<Rightarrow> string" where
  "dec_digits n = (if n < 10 then [char_of (48 + n)] else dec_digits (n div 10) @ [char_of (48 + n mod 10)])"

declare dec_digits.simps [simp del]

definition pad_digits :: "nat \<Rightarrow> int \<Rightarrow> string" where
  "pad_digits w n = (let ds = dec_digits (nat n) in replicate (w - length ds) (CHR ''0'') @ ds)"

lemma dec_digits_digit: "c \<in> set (dec_digits n) \<Longrightarrow> is_digit c"
proof (induction n rule: dec_digits.induct)
  case (1 n)
  then show ?case
    by (subst (asm) dec_digits.simps) (auto split: if_splits simp: is_digit_def)
qed

lemma dec_digits_ne [simp]: "dec_digits n \<noteq> []"
  by (subst dec_digits.simps) simp

lemma pad_digits_digit: "c \<in> set (pad_digits w n) \<Longrightarrow> is_digit c"
  by (auto simp: pad_digits_def Let_def is_digit_def dest: dec_digits_digit split: if_splits)

definition format_date :: "time \<Rightarrow> string" where
  "format_date t = (case civil_date t of (y, m, d) \<Rightarrow>
     pad_digits 4 y @ ''-'' @ pad_digits 2 m @ ''-'' @ pad_digits 2 d)"

definition format_clock :: "time \<Rightarrow> string" where
  "format_clock t = (case civil_clock t of (h, m, s) \<Rightarrow>
     pad_digits 2 h @ pad_digits 2 m @ pad_digits 2 s)"

definition format_stamp :: "time \<Rightarrow> string" where
  "format_stamp t = (case civil_date t of (y, m, d) \<Rightarrow>
     pad_digits 4 y @ pad_digits 2 m @ pad_digits 2 d @ ''-'' @ format_clock t)"

end
