(* ===== verification/VF_Protocol.thy ===== *)
theory VF_Protocol
  imports VF_GoLib
begin

text \<open>
  The wire protocol of pkg/protocol/message.go: the message kinds, the envelope, and the
  payload structures the other components read.  Pointers to structures are options.
  Payloads travel as JSON text; encoding/json is a parameter of the operations that decode one.
\<close>

section \<open>Message kinds\<close>

datatype msg_type =
    TypeHeartbeat | TypeDirBrowseReq | TypeDirBrowseResp | TypeDockerDiscoveryReq
  | TypeDockerDiscoveryResp | TypeDatabaseDiscoveryReq | TypeDatabaseDiscoveryResp
  | TypePolicyPush | TypePolicyReconcile | TypePolicyAck | TypeBackupNow | TypeBackupVerifyReq
  | TypeTaskResult | TypeRestoreReq | TypeSelectiveRestoreReq | TypeRestoreProgress
  | TypeRestorePreflightReq | TypeRestorePreflightResp | TypeSnapshotListReq | TypeSnapshotListResp
  | TypeSnapshotBrowseReq | TypeSnapshotBrowseResp | TypeCollectLogsReq | TypeCollectLogsResp
  | TypeDirSizeReq | TypeDirSizeResp | TypeVersionInfo | TypeUpdateAgent | TypeUpdateAgentResp
  | TypeBackupProgress | TypeTaskLog | TypeCancelTask
  | TypeOther string

text \<open>The constant each name stands for; any other text is a \<open>TypeOther\<close>.\<close>

fun type_text :: "msg_type \<Rightarrow> string" where
  "type_text TypeHeartbeat = ''heartbeat''"
| "type_text TypeDirBrowseReq = ''dir_browse_req''"
| "type_text TypeDirBrowseResp = ''dir_browse_resp''"
| "type_text TypeDockerDiscoveryReq = ''docker_discovery_req''"
| "type_text TypeDockerDiscoveryResp = ''docker_discovery_resp''"
| "type_text TypeDatabaseDiscoveryReq = ''database_discovery_req''"
| "type_text TypeDatabaseDiscoveryResp = ''database_discovery_resp''"
| "type_text TypePolicyPush = ''policy_push''"
| "type_text TypePolicyReconcile = ''policy_reconcile''"
| "type_text TypePolicyAck = ''policy_ack''"
| "type_text TypeBackupNow = ''backup_now''"
| "type_text TypeBackupVerifyReq = ''backup_verify_req''"
| "type_text TypeTaskResult = ''task_result''"
| "type_text TypeRestoreReq = ''restore_req''"
| "type_text TypeSelectiveRestoreReq = ''selective_restore_req''"
| "type_text TypeRestoreProgress = ''restore_progress''"
| "type_text TypeRestorePreflightReq = ''restore_preflight_req''"
| "type_text TypeRestorePreflightResp = ''restore_preflight_resp''"
| "type_text TypeSnapshotListReq = ''snapshot_list_req''"
| "type_text TypeSnapshotListResp = ''snapshot_list_resp''"
| "type_text TypeSnapshotBrowseReq = ''snapshot_browse_req''"
| "type_text TypeSnapshotBrowseResp = ''snapshot_browse_resp''"
| "type_text TypeCollectLogsReq = ''collect_logs_req''"
| "type_text TypeCollectLogsResp = ''collect_logs_resp''"
| "type_text TypeDirSizeReq = ''dir_size_req''"
| "type_text TypeDirSizeResp = ''dir_size_resp''"
| "type_text TypeVersionInfo = ''version_info''"
| "type_text TypeUpdateAgent = ''update_agent''"
| "type_text TypeUpdateAgentResp = ''update_agent_resp''"
| "type_text TypeBackupProgress = ''backup_progress''"
| "type_text TypeTaskLog = ''task_log''"
| "type_text TypeCancelTask = ''cancel_task''"
| "type_text (TypeOther s) = s"

definition known_types :: "msg_type list" where
  "known_types =
    [TypeHeartbeat, TypeDirBrowseReq, TypeDirBrowseResp, TypeDockerDiscoveryReq,
     TypeDockerDiscoveryResp, TypeDatabaseDiscoveryReq, TypeDatabaseDiscoveryResp,
     TypePolicyPush, TypePolicyReconcile, TypePolicyAck, TypeBackupNow, TypeBackupVerifyReq,
     TypeTaskResult, TypeRestoreReq, TypeSelectiveRestoreReq, TypeRestoreProgress,
     TypeRestorePreflightReq, TypeRestorePreflightResp, TypeSnapshotListReq, TypeSnapshotListResp,
     TypeSnapshotBrowseReq, TypeSnapshotBrowseResp, TypeCollectLogsReq, TypeCollectLogsResp,
     TypeDirSizeReq, TypeDirSizeResp, TypeVersionInfo, TypeUpdateAgent, TypeUpdateAgentResp,
     TypeBackupProgress, TypeTaskLog, TypeCancelTask]"

definition type_of_text :: "string \<Rightarrow> msg_type" where
  "type_of_text s = (case find (\<lambda>t. type_text t = s) known_types of
     Some t \<Rightarrow> t | None \<Rightarrow> TypeOther s)"

lemma distinct_type_texts: "distinct (map type_text known_types)"
  by (simp add: known_types_def)

lemma type_text_of_text [simp]: "type_text (type_of_text s) = s"
  by (auto simp: type_of_text_def find_Some_iff split: option.splits)

lemma find_unique:
  "distinct (map f xs) \<Longrightarrow> x \<in> set xs \<Longrightarrow> find (\<lambda>y. f y = f x) xs = Some x"
  by (induction xs) (auto simp: image_iff)

lemma type_of_type_text: "t \<in> set known_types \<Longrightarrow> type_of_text (type_text t) = t"
  using find_unique [OF distinct_type_texts] by (simp add: type_of_text_def)

section \<open>The envelope\<close>

record message =
  m_type :: msg_type
  m_id :: string
  m_payload :: string

section \<open>Capabilities\<close>

abbreviation CapabilityRestoreIncludePaths :: string where
  "CapabilityRestoreIncludePaths \<equiv> ''restore_include_paths''"

definition DefaultAgentCapabilities :: "string list" where
  "DefaultAgentCapabilities =
    [''snapshot_browse'', ''restore_include_paths'', ''restore_preflight'',
     ''policy_plaintext_rclone_pass'', ''archive_backup'', ''typed_backup_sources'',
     ''database_backups'', ''backup_verification'', ''live_task_logs'']"

section \<open>Backup sources and their metadata\<close>

abbreviation BackupModeSnapshot :: string where "BackupModeSnapshot \<equiv> ''snapshot''"
abbreviation BackupModeArchive :: string where "BackupModeArchive \<equiv> ''archive''"
abbreviation ArchiveFormatZip :: string where "ArchiveFormatZip \<equiv> ''zip''"
abbreviation ArchiveFormatTarGz :: string where "ArchiveFormatTarGz \<equiv> ''tar.gz''"

abbreviation BackupSourceTypePath :: string where "BackupSourceTypePath \<equiv> ''path''"
abbreviation BackupSourceTypeDockerContainer :: string where
  "BackupSourceTypeDockerContainer \<equiv> ''docker_container''"
abbreviation BackupSourceTypeDatabase :: string where "BackupSourceTypeDatabase \<equiv> ''database''"

record docker_mount =
  dm_type :: string
  dm_name :: string
  dm_source :: string
  dm_destination :: string
  dm_rw :: bool

record compose_info =
  ci_project :: string
  ci_service :: string
  ci_working_dir :: string
  ci_config_files :: "string list"
  ci_env_files :: "string list"

record docker_container_source =
  dcs_container_id :: string
  dcs_name :: string
  dcs_image :: string
  dcs_labels :: "(string \<times> string) list"
  dcs_compose_project :: string
  dcs_compose_service :: string
  dcs_compose_working_dir :: string
  dcs_compose_config_files :: "string list"
  dcs_include_bind_mounts :: bool
  dcs_include_volumes :: bool
  dcs_include_compose_files :: bool

record database_source =
  ds_engine :: string
  ds_execution_mode :: string
  ds_host :: string
  ds_port :: int
  ds_username :: string
  ds_password :: string
  ds_password_set :: bool
  ds_database :: string
  ds_all_databases :: bool
  ds_compress :: bool
  ds_output_name :: string
  ds_extra_args :: "string list"
  ds_docker_container :: "docker_container_source option"
  ds_connection_name :: string
  ds_dump_timeout_seconds :: int

record backup_source =
  bs_type :: string
  bs_path :: string
  bs_docker_container :: "docker_container_source option"
  bs_database :: "database_source option"

record database_dump =
  dd_engine :: string
  dd_execution_mode :: string
  dd_database :: string
  dd_all_databases :: bool
  dd_container_name :: string
  dd_output_path :: string
  dd_output_name :: string
  dd_size :: int
  dd_compressed :: bool
  dd_warnings :: "string list"

record database_metadata =
  dbm_dumps :: "database_dump list"
  dbm_warnings :: "string list"

record port_binding =
  pb_container_port :: string
  pb_protocol :: string
  pb_host_ip :: string
  pb_host_port :: string

record docker_resolved_source =
  rs_selection :: docker_container_source
  rs_container_id :: string
  rs_name :: string
  rs_image :: string
  rs_labels :: "(string \<times> string) list"
  rs_compose :: compose_info
  rs_mounts :: "docker_mount list"
  rs_env :: "string list"
  rs_cmd :: "string list"
  rs_entrypoint :: "string list"
  rs_working_dir :: string
  rs_user :: string
  rs_ports :: "port_binding list"
  rs_restart_policy :: string
  rs_network_mode :: string
  rs_state :: string
  rs_resolved_paths :: "string list"
  rs_warnings :: "string list"

record docker_metadata =
  dkm_sources :: "docker_resolved_source list"
  dkm_warnings :: "string list"

text \<open>DockerSourceID and DockerSourceName: the first usable identity of a container.\<close>

definition DockerSourceID :: "docker_resolved_source \<Rightarrow> string" where
  "DockerSourceID s =
     (case find (\<lambda>v. trim_space v \<noteq> '''')
        [rs_container_id s, dcs_container_id (rs_selection s), rs_name s, dcs_name (rs_selection s)] of
        Some v \<Rightarrow> trim_space v
      | None \<Rightarrow>
         (let p0 = trim_space (ci_project (rs_compose s));
              project = (if p0 = '''' then trim_space (dcs_compose_project (rs_selection s)) else p0);
              s0 = trim_space (ci_service (rs_compose s));
              service = (if s0 = '''' then trim_space (dcs_compose_service (rs_selection s)) else s0)
          in if project \<noteq> '''' \<and> service \<noteq> '''' then project @ ''/'' @ service else ''''))"

definition DockerSourceName :: "docker_resolved_source \<Rightarrow> string" where
  "DockerSourceName s =
     (if trim_space (rs_name s) \<noteq> '''' then trim_space (rs_name s)
      else if trim_space (dcs_name (rs_selection s)) \<noteq> '''' then trim_space (dcs_name (rs_selection s))
      else DockerSourceID s)"

section \<open>Task results, restore items, progress and log lines\<close>

abbreviation RestoreItemStatusSuccess :: string where "RestoreItemStatusSuccess \<equiv> ''success''"
abbreviation RestoreItemStatusFailed :: string where "RestoreItemStatusFailed \<equiv> ''failed''"
abbreviation RestoreItemStatusCancelled :: string where "RestoreItemStatusCancelled \<equiv> ''cancelled''"
abbreviation RestoreItemStatusSkipped :: string where "RestoreItemStatusSkipped \<equiv> ''skipped''"

record restore_item =
  ri_source_id :: string
  ri_source_name :: string
  ri_status :: string
  ri_error :: string
  ri_retryable :: bool
  ri_started_at :: time
  ri_finished_at :: time

record snapshot_info =
  si_id :: string
  si_time :: time
  si_paths :: "string list"
  si_size :: int

record snapshot_list =
  sl_agent_id :: string
  sl_snapshots :: "snapshot_info list"
  sl_error :: string

text \<open>The structured metadata of a result that the master only stores stays as its JSON text.\<close>

record task_result =
  tr_agent_id :: string
  tr_task_type :: string
  tr_status :: string
  tr_snapshot_id :: string
  tr_policy_name :: string
  tr_backup_mode :: string
  tr_archive_format :: string
  tr_artifact_path :: string
  tr_artifact_name :: string
  tr_artifact_size :: int
  tr_artifact_content_type :: string
  tr_duration_ms :: int
  tr_repo_size :: int
  tr_error_log :: string
  tr_started_at :: time
  tr_finished_at :: time
  tr_snapshots :: "snapshot_info list"
  tr_docker :: "string option"
  tr_database :: "string option"
  tr_verification :: "string option"
  tr_manifest :: "string option"
  tr_artifact_naming :: "string option"
  tr_restore_items :: "restore_item list option"

record task_log_payload =
  tl_agent_id :: string
  tl_message_id :: string
  tl_task_type :: string
  tl_sequence :: int
  tl_timestamp :: time
  tl_level :: string
  tl_phase :: string
  tl_stream :: string
  tl_line :: string
  tl_truncated :: bool

text \<open>A finite \<^verbatim>\<open>float64\<close> is an integer multiple of \<open>2 ^ -1074\<close> and is modelled by that integer, so that
  comparisons are exact; its arithmetic, which rounds, is a parameter where the code uses it.\<close>

type_synonym float64 = int

definition float_nat :: "nat \<Rightarrow> float64" where
  "float_nat n = int n * 2 ^ 1074"

record backup_progress =
  bp_agent_id :: string
  bp_phase :: string
  bp_percent_done :: float64
  bp_total_files :: int
  bp_files_done :: int
  bp_total_bytes :: int
  bp_bytes_done :: int
  bp_bytes_per_sec :: int
  bp_current_file :: string

section \<open>Policies\<close>

record policy_hook =
  ph_command :: string
  ph_timeout_seconds :: int

record verification_settings =
  vs_enabled :: bool
  vs_schedule :: string
  vs_sample_count :: int
  vs_sample_restore_enabled :: bool
  vs_timeout_minutes :: int

record retention_policy =
  keep_last :: int
  keep_daily :: int
  keep_weekly :: int
  keep_monthly :: int

record storage_config =
  sc_rclone_type :: string
  sc_rclone_config :: "(string \<times> string) list"
  sc_repo_path :: string
  sc_rclone_args :: "(string \<times> string) list"
  sc_rclone_pass_obscured :: bool

record policy_push =
  pp_policy_id :: string
  pp_policy_name :: string
  pp_agent_id :: string
  pp_storage :: storage_config
  pp_restic_password :: string
  pp_plain_backup :: bool
  pp_backup_mode :: string
  pp_archive_format :: string
  pp_artifact_context_name :: string
  pp_archive_remote_dir_template :: string
  pp_archive_name_template :: string
  pp_backup_dirs :: "string list"
  pp_backup_sources :: "backup_source list"
  pp_exclude_patterns :: "string list"
  pp_pre_backup_hook :: "policy_hook option"
  pp_post_backup_hook :: "policy_hook option"
  pp_schedule :: string
  pp_retention :: retention_policy
  pp_verification :: "verification_settings option"

end
