(* ===== verification/VF_ArtifactNaming.thy ===== *)
theory VF_ArtifactNaming
  imports VF_Protocol
begin

text \<open>
  internal/artifactnaming/naming.go: the remote directory and file name templates of archive
  backups, their variables, and the checks on the rendered path.
\<close>

section \<open>Templates and their tokens\<close>

abbreviation LegacyRemoteDirTemplate :: string where
  "LegacyRemoteDirTemplate \<equiv> ''artifacts''"
abbreviation LegacyArchiveNameTemplate :: string where
  "LegacyArchiveNameTemplate \<equiv> ''backup-{{datetime}}.{{ext}}''"
abbreviation RecommendedRemoteDirTemplate :: string where
  "RecommendedRemoteDirTemplate \<equiv> ''archives/{{agent_name}}/{{context_name}}/{{date}}''"
abbreviation RecommendedArchiveNameTemplate :: string where
  "RecommendedArchiveNameTemplate \<equiv> ''{{context_name}}_{{agent_name}}_{{datetime}}.{{ext}}''"

abbreviation SourceTypePath :: string where "SourceTypePath \<equiv> ''path''"
abbreviation SourceTypeDocker :: string where "SourceTypeDocker \<equiv> ''docker''"
abbreviation SourceTypeDatabase :: string where "SourceTypeDatabase \<equiv> ''database''"
abbreviation SourceTypeMixed :: string where "SourceTypeMixed \<equiv> ''mixed''"

text \<open>
  tokenPattern is \<^verbatim>\<open>{{\s*([a-zA-Z0-9_]+)\s*}}\<close>.  Its three character classes are disjoint, so a
  greedy match from the left is the leftmost-first match of package regexp.
\<close>

definition regex_space :: "char \<Rightarrow> bool" where
  "regex_space c \<longleftrightarrow> byte c \<in> {9, 10, 12, 13, 32}"

definition word_char :: "char \<Rightarrow> bool" where
  "word_char c \<longleftrightarrow> is_lower c \<or> is_upper c \<or> is_digit c \<or> c = CHR ''_''"

definition match_token :: "string \<Rightarrow> (string \<times> string) option" where
  "match_token s =
     (if has_prefix s ''{{'' then
        (let r = dropWhile regex_space (drop 2 s);
             name = takeWhile word_char r;
             r2 = dropWhile regex_space (dropWhile word_char r)
         in if name \<noteq> '''' \<and> has_prefix r2 ''}}'' then Some (name, drop 2 r2) else None)
      else None)"

lemma match_token_shorter [termination_simp]:
  "match_token s = Some (name, rest) \<Longrightarrow> length rest < length s"
proof -
  assume m: "match_token s = Some (name, rest)"
  have le: "length (dropWhile p xs) \<le> length xs" for p and xs :: string
    by (induction xs) auto
  from m obtain r2 where pre: "has_prefix s ''{{''" and rest: "rest = drop 2 r2"
    and r2: "r2 = dropWhile regex_space (dropWhile word_char (dropWhile regex_space (drop 2 s)))"
    by (auto simp: match_token_def Let_def split: if_splits)
  have "length r2 \<le> length (drop 2 s)"
    unfolding r2 by (meson le le_trans)
  moreover from pre have "2 \<le> length s"
    by (auto simp: has_prefix_def prefix_def)
  ultimately show ?thesis using rest by simp
qed

datatype piece = Lit char | Tok string

function pieces :: "string \<Rightarrow> piece list" where
  "pieces [] = []"
| "pieces (c # cs) =
     (case match_token (c # cs) of
        Some (name, rest) \<Rightarrow> Tok name # pieces rest
      | None \<Rightarrow> Lit c # pieces cs)"
  by pat_completeness auto
termination
  by (relation "measure length") (auto dest: match_token_shorter)

fun lits :: "piece list \<Rightarrow> string" where
  "lits [] = []"
| "lits (Lit c # ps) = c # lits ps"
| "lits (Tok n # ps) = lits ps"

fun toks :: "piece list \<Rightarrow> string list" where
  "toks [] = []"
| "toks (Lit c # ps) = toks ps"
| "toks (Tok n # ps) = n # toks ps"

definition supportedVariables :: "string list" where
  "supportedVariables =
     [''date'', ''time'', ''datetime'', ''agent_id'', ''agent_name'', ''policy_id'',
      ''policy_name'', ''context_name'', ''site_name'', ''source_type'', ''container_name'',
      ''compose_project'', ''compose_service'', ''database_engine'', ''database_name'',
      ''format'', ''ext'']"

definition SupportedVariables :: "string list" where
  "SupportedVariables = sort supportedVariables"

definition firstNonEmpty :: "string list \<Rightarrow> string" where
  "firstNonEmpty vs = (case find (\<lambda>v. trim_space v \<noteq> '''') vs of
     Some v \<Rightarrow> trim_space v | None \<Rightarrow> '''')"

definition hasControl :: "string \<Rightarrow> bool" where
  "hasControl s \<longleftrightarrow> (\<exists>c \<in> set s. byte c < 32 \<or> byte c = 127)"

definition normalizeArchiveFormat :: "string \<Rightarrow> string" where
  "normalizeArchiveFormat f =
     (if to_lower (trim_space f) = ArchiveFormatZip then ArchiveFormatZip else ArchiveFormatTarGz)"

text \<open>
  sanitizeValue folds every run of other runes into one underscore.  The bytes of a rune outside
  ASCII are all disallowed, so reading bytes instead of runes gives the same result.
\<close>

definition allowed_char :: "char \<Rightarrow> bool" where
  "allowed_char c \<longleftrightarrow> is_lower c \<or> is_upper c \<or> is_digit c \<or>
     c = CHR ''.'' \<or> c = CHR ''-'' \<or> c = CHR ''_''"

fun sanitize_loop :: "bool \<Rightarrow> string \<Rightarrow> string" where
  "sanitize_loop lastUnderscore [] = []"
| "sanitize_loop lastUnderscore (c # cs) =
     (if allowed_char c then c # sanitize_loop False cs
      else if lastUnderscore then sanitize_loop True cs
      else CHR ''_'' # sanitize_loop True cs)"

definition sanitizeValue :: "string \<Rightarrow> string" where
  "sanitizeValue value =
     (let v = trim_space value in
      if v = '''' then ''''
      else (let r = trim_set ''._-'' (sanitize_loop False v) in if r = '''' then ''value'' else r))"

definition effectiveTemplates :: "string \<Rightarrow> string \<Rightarrow> bool \<Rightarrow> string \<times> string \<times> bool" where
  "effectiveTemplates remote nam recommended =
     (let r = trim_space remote; n = trim_space nam;
          r' = (if r = '''' then RecommendedRemoteDirTemplate else r);
          n' = (if n = '''' then RecommendedArchiveNameTemplate else n)
      in if recommended then (r', n', False)
         else if r = '''' \<and> n = '''' then (LegacyRemoteDirTemplate, LegacyArchiveNameTemplate, True)
         else (r', n', False))"

definition validateTemplateSyntax :: "string \<Rightarrow> bool \<Rightarrow> unit outcome" where
  "validateTemplateSyntax template allowPathSeparators =
     (if trim_space template = '''' then Inl (Err ''artifact naming template is required'')
      else if hasControl template then Inl (Err ''artifact naming template contains control characters'')
      else if \<not> allowPathSeparators \<and> contains_any template [slash, backslash] then
        Inl (Err ''archive filename template cannot contain path separators'')
      else (case find (\<lambda>t. t \<notin> set supportedVariables) (toks (pieces template)) of
        Some t \<Rightarrow> Inl (Err (''unsupported artifact naming variable '' @ quoted t))
      | None \<Rightarrow>
          if (contains template ''{{'' \<or> contains template ''}}'') \<and>
             (let stripped = lits (pieces template)
              in contains stripped ''{{'' \<or> contains stripped ''}}'')
          then Inl (Err ''invalid artifact naming template token'')
          else Inr ()))"

fun render_pieces :: "(string \<rightharpoonup> string) \<Rightarrow> piece list \<Rightarrow> string" where
  "render_pieces values [] = []"
| "render_pieces values (Lit c # ps) = c # render_pieces values ps"
| "render_pieces values (Tok n # ps) =
     (case values n of Some v \<Rightarrow> v | None \<Rightarrow> '''') @ render_pieces values ps"

definition renderTemplate :: "string \<Rightarrow> (string \<rightharpoonup> string) \<Rightarrow> string" where
  "renderTemplate template values = render_pieces values (pieces template)"

definition collisionWarnings :: "string \<Rightarrow> string list" where
  "collisionWarnings template =
     (if \<exists>t \<in> set [''{{datetime}}'', ''{{date}}'', ''{{time}}'']. contains template t then []
      else [''possible_collision''])"

section \<open>What is backed up\<close>

record naming_context =
  nc_agent_id :: string
  nc_agent_name :: string
  nc_policy_id :: string
  nc_policy_name :: string
  nc_context_name :: string
  nc_archive_format :: string
  nc_now :: time
  nc_sources :: "backup_source list"
  nc_docker :: "docker_metadata option"
  nc_database :: "database_metadata option"

definition source_kind :: "backup_source \<Rightarrow> string option" where
  "source_kind s =
     (if bs_type s = BackupSourceTypePath then Some SourceTypePath
      else if bs_type s = BackupSourceTypeDockerContainer then Some SourceTypeDocker
      else if bs_type s = BackupSourceTypeDatabase then Some SourceTypeDatabase
      else None)"

text \<open>The Go map \<^verbatim>\<open>seen\<close> as the list of its keys.\<close>

definition seen_types ::
  "backup_source list \<Rightarrow> docker_metadata option \<Rightarrow> database_metadata option \<Rightarrow> string list" where
  "seen_types sources docker database =
     (let seen = remdups (List.map_filter source_kind sources) in
      if seen = [] then
        (case docker of Some d \<Rightarrow> if dkm_sources d \<noteq> [] then [SourceTypeDocker] else [] | None \<Rightarrow> []) @
        (case database of Some d \<Rightarrow> if dbm_dumps d \<noteq> [] then [SourceTypeDatabase] else [] | None \<Rightarrow> [])
      else seen)"

definition inferSourceType ::
  "backup_source list \<Rightarrow> docker_metadata option \<Rightarrow> database_metadata option \<Rightarrow> string" where
  "inferSourceType sources docker database =
     (case seen_types sources docker database of
        [] \<Rightarrow> SourceTypePath | [t] \<Rightarrow> t | _ \<Rightarrow> SourceTypeMixed)"

record docker_values =
  dv_container_name :: string
  dv_compose_project :: string
  dv_compose_service :: string

definition container_values :: "docker_container_source \<Rightarrow> docker_values" where
  "container_values d =
     \<lparr>dv_container_name = firstNonEmpty [dcs_name d, dcs_container_id d],
      dv_compose_project = dcs_compose_project d, dv_compose_service = dcs_compose_service d\<rparr>"

definition dockerValues :: "naming_context \<Rightarrow> docker_values" where
  "dockerValues ctx =
     (case List.map_filter (\<lambda>s. if bs_type s = BackupSourceTypeDockerContainer
                                 then bs_docker_container s else None) (nc_sources ctx) of
        d # _ \<Rightarrow> container_values d
      | [] \<Rightarrow>
        (case (case nc_docker ctx of Some m \<Rightarrow> dkm_sources m | None \<Rightarrow> []) of
           r # _ \<Rightarrow> \<lparr>dv_container_name = firstNonEmpty [rs_name r, rs_container_id r],
                     dv_compose_project = ci_project (rs_compose r),
                     dv_compose_service = ci_service (rs_compose r)\<rparr>
         | [] \<Rightarrow>
           (case List.map_filter (\<lambda>s. if bs_type s = BackupSourceTypeDatabase
                then Option.bind (bs_database s) ds_docker_container else None) (nc_sources ctx) of
              d # _ \<Rightarrow> container_values d
            | [] \<Rightarrow> \<lparr>dv_container_name = '''', dv_compose_project = '''', dv_compose_service = ''''\<rparr>)))"

definition databaseValues :: "naming_context \<Rightarrow> string \<times> string" where
  "databaseValues ctx =
     (case List.map_filter (\<lambda>s. if bs_type s = BackupSourceTypeDatabase then bs_database s else None)
        (nc_sources ctx) of
        d # _ \<Rightarrow> (ds_engine d, if ds_all_databases d then ''all-databases'' else trim_space (ds_database d))
      | [] \<Rightarrow>
        (case (case nc_database ctx of Some m \<Rightarrow> dbm_dumps m | None \<Rightarrow> []) of
           f # rest \<Rightarrow>
             (dd_engine f,
              if dd_all_databases f \<or> trim_space (dd_database f) = '''' \<and> rest \<noteq> []
              then ''all-databases'' else trim_space (dd_database f))
         | [] \<Rightarrow> ('''', '''')))"

definition agent_or_policy :: "naming_context \<Rightarrow> string" where
  "agent_or_policy ctx =
     firstNonEmpty [nc_policy_name ctx, nc_policy_id ctx, nc_agent_name ctx, nc_agent_id ctx]"

definition inferContextName :: "naming_context \<Rightarrow> string \<Rightarrow> string" where
  "inferContextName ctx sourceType =
     (if sourceType = SourceTypeDocker then
        (let d = dockerValues ctx in
         if dv_compose_project d \<noteq> '''' then dv_compose_project d
         else if dv_container_name d \<noteq> '''' then dv_container_name d
         else agent_or_policy ctx)
      else if sourceType = SourceTypeDatabase then
        (case databaseValues ctx of (engine, name) \<Rightarrow>
           if engine \<noteq> '''' \<and> name \<noteq> '''' then engine @ ''-'' @ name
           else if engine \<noteq> '''' then engine @ ''-database''
           else agent_or_policy ctx)
      else if sourceType = SourceTypePath then
        (case nc_sources ctx of
           [s] \<Rightarrow>
             (let p = trim_space (bs_path s); base = path_base (path_clean p) in
              if p \<noteq> '''' \<and> base \<noteq> ''.'' \<and> base \<noteq> [slash] then base else agent_or_policy ctx)
         | _ \<Rightarrow> agent_or_policy ctx)
      else agent_or_policy ctx)"

definition renderVariables ::
  "naming_context \<Rightarrow> time \<Rightarrow> string \<Rightarrow> string \<Rightarrow> string \<Rightarrow> (string \<times> string) list" where
  "renderVariables ctx now format sourceType contextName =
     (let docker = dockerValues ctx; (engine, dbname) = databaseValues ctx in
      [(''date'', format_date now),
       (''time'', format_clock now),
       (''datetime'', format_stamp now),
       (''agent_id'', sanitizeValue (nc_agent_id ctx)),
       (''agent_name'', sanitizeValue (firstNonEmpty [nc_agent_name ctx, nc_agent_id ctx, ''agent''])),
       (''policy_id'', sanitizeValue (nc_policy_id ctx)),
       (''policy_name'', sanitizeValue (nc_policy_name ctx)),
       (''context_name'', sanitizeValue contextName),
       (''site_name'', sanitizeValue contextName),
       (''source_type'', sanitizeValue sourceType),
       (''container_name'', sanitizeValue (dv_container_name docker)),
       (''compose_project'', sanitizeValue (dv_compose_project docker)),
       (''compose_service'', sanitizeValue (dv_compose_service docker)),
       (''database_engine'', sanitizeValue engine),
       (''database_name'', sanitizeValue dbname),
       (''format'', sanitizeValue format),
       (''ext'', sanitizeValue format)])"

section \<open>Checks on the rendered path\<close>

definition validateRenderedPath :: "string \<Rightarrow> unit outcome" where
  "validateRenderedPath path =
     (let p = trim_space path in
      if p = '''' then Inl (Err ''artifact path cannot be empty'')
      else if has_prefix p [slash] \<or> is_abs p then Inl (Err ''artifact path cannot be absolute'')
      else if hasControl p then Inl (Err ''artifact path contains control characters'')
      else (case find (\<lambda>seg. \<not> plain_segment seg) (split_on slash p) of
              Some seg \<Rightarrow> Inl (Err (''artifact path contains unsafe segment '' @ quoted seg))
            | None \<Rightarrow> Inr ()))"

definition validateRenderedRemoteDir :: "string \<Rightarrow> unit outcome" where
  "validateRenderedRemoteDir path =
     (let p = trim_space path in
      if p = '''' then Inl (Err ''archive remote directory cannot be empty'')
      else validateRenderedPath p)"

definition validateRenderedFilename :: "string \<Rightarrow> unit outcome" where
  "validateRenderedFilename name =
     (let n = trim_space name in
      if n = '''' then Inl (Err ''archive filename cannot be empty'')
      else if hasControl n then Inl (Err ''archive filename contains control characters'')
      else if contains_any n [slash, backslash] then Inl (Err ''archive filename cannot contain path separators'')
      else if n = ''.'' \<or> n = ''..'' then Inl (Err (''archive filename cannot be '' @ quoted n))
      else Inr ())"

section \<open>Render\<close>

record render_input =
  in_context :: naming_context
  in_remote_dir_template :: string
  in_name_template :: string
  in_recommended :: bool

record naming_metadata =
  nm_context_name :: string
  nm_site_name :: string
  nm_source_type :: string
  nm_remote_dir :: string
  nm_artifact_name :: string
  nm_artifact_path :: string
  nm_remote_dir_template :: string
  nm_name_template :: string
  nm_variables :: "(string \<times> string) list"
  nm_warnings :: "string list"
  nm_legacy :: bool

text \<open>\<open>wall_clock\<close> is what \<^verbatim>\<open>time.Now()\<close> returns, used when the context carries no instant.\<close>

definition Render :: "time \<Rightarrow> render_input \<Rightarrow> naming_metadata outcome" where
  "Render wall_clock input =
     (let ctx = in_context input;
          now = (if nc_now ctx = 0 then wall_clock else nc_now ctx);
          format = normalizeArchiveFormat (nc_archive_format ctx)
      in case effectiveTemplates (in_remote_dir_template input) (in_name_template input)
                (in_recommended input) of (remoteTemplate, nameTemplate, legacy) \<Rightarrow>
      case validateTemplateSyntax remoteTemplate True of Inl e \<Rightarrow> Inl e | Inr _ \<Rightarrow>
      case validateTemplateSyntax nameTemplate False of Inl e \<Rightarrow> Inl e | Inr _ \<Rightarrow>
      let sourceType = inferSourceType (nc_sources ctx) (nc_docker ctx) (nc_database ctx);
          contextName = firstNonEmpty [nc_context_name ctx, inferContextName ctx sourceType, ''backup''];
          values = renderVariables ctx now format sourceType contextName;
          remoteDir = renderTemplate remoteTemplate (map_of values);
          artifactName = renderTemplate nameTemplate (map_of values)
      in case validateRenderedRemoteDir remoteDir of Inl e \<Rightarrow> Inl e | Inr _ \<Rightarrow>
      case validateRenderedFilename artifactName of Inl e \<Rightarrow> Inl e | Inr _ \<Rightarrow>
      let artifactPath = path_join [remoteDir, artifactName]
      in case validateRenderedPath artifactPath of Inl e \<Rightarrow> Inl e | Inr _ \<Rightarrow>
      Inr \<lparr>nm_context_name = the (map_of values ''context_name''),
           nm_site_name = the (map_of values ''site_name''),
           nm_source_type = sourceType, nm_remote_dir = remoteDir,
           nm_artifact_name = artifactName, nm_artifact_path = artifactPath,
           nm_remote_dir_template = remoteTemplate, nm_name_template = nameTemplate,
           nm_variables = values, nm_warnings = collisionWarnings nameTemplate,
           nm_legacy = legacy\<rparr>)"

definition RecommendedPreview :: "time \<Rightarrow> render_input \<Rightarrow> naming_metadata outcome" where
  "RecommendedPreview wall_clock input = Render wall_clock (input\<lparr>in_recommended := True\<rparr>)"


section \<open>Sanitized values\<close>

lemma sanitize_loop_allowed: "c \<in> set (sanitize_loop u s) \<Longrightarrow> allowed_char c"
proof (induction u s rule: sanitize_loop.induct)
  case (2 u d cs)
  moreover have "allowed_char (CHR ''_'')" by (simp add: allowed_char_def)
  ultimately show ?case by (auto split: if_splits)
qed simp

lemma sanitize_loop_id: "(\<And>c. c \<in> set s \<Longrightarrow> allowed_char c) \<Longrightarrow> sanitize_loop u s = s"
  by (induction u s rule: sanitize_loop.induct) auto

lemma set_dropWhile_le: "set (dropWhile p xs) \<subseteq> set xs"
  by (meson set_dropWhileD subsetI)

lemma set_trim_set: "set (trim_set cs s) \<subseteq> set s"
proof -
  let ?d = "dropWhile (\<lambda>c. c \<in> set cs)"
  have "set (?d (rev (?d s))) \<subseteq> set (rev (?d s))" by (rule set_dropWhile_le)
  also have "\<dots> \<subseteq> set s" unfolding set_rev by (rule set_dropWhile_le)
  finally show ?thesis unfolding trim_set_def set_rev .
qed

lemma hd_trim_set: "trim_set cs s \<noteq> [] \<Longrightarrow> hd (trim_set cs s) \<notin> set cs"
proof -
  let ?t = "dropWhile (\<lambda>c. c \<in> set cs) s" and ?d = "dropWhile (\<lambda>c. c \<in> set cs)"
  assume ne: "trim_set cs s \<noteq> []"
  then have "?t \<noteq> []" by (metis dropWhile.simps(1) rev.simps(1) trim_set_def)
  then have hd_t: "hd ?t \<notin> set cs" by (rule hd_dropWhile)
  have "rev ?t = takeWhile (\<lambda>c. c \<in> set cs) (rev ?t) @ dropWhile (\<lambda>c. c \<in> set cs) (rev ?t)"
    by simp
  then have "?t = trim_set cs s @ rev (takeWhile (\<lambda>c. c \<in> set cs) (rev ?t))"
    unfolding trim_set_def by (metis rev_append rev_rev_ident)
  then have "hd ?t = hd (trim_set cs s)"
    using ne by (metis hd_append2)
  then show ?thesis using hd_t by simp
qed

lemma last_trim_set: "trim_set cs s \<noteq> [] \<Longrightarrow> last (trim_set cs s) \<notin> set cs"
proof -
  let ?u = "dropWhile (\<lambda>c. c \<in> set cs) (rev (dropWhile (\<lambda>c. c \<in> set cs) s))"
  assume "trim_set cs s \<noteq> []"
  then have "?u \<noteq> []" by (metis rev.simps(1) trim_set_def)
  then have "hd ?u \<notin> set cs" by (rule hd_dropWhile)
  then show ?thesis by (metis last_rev trim_set_def)
qed

lemma trim_set_id:
  "s \<noteq> [] \<Longrightarrow> hd s \<notin> set cs \<Longrightarrow> last s \<notin> set cs \<Longrightarrow> trim_set cs s = s"
proof -
  assume "s \<noteq> []" "hd s \<notin> set cs" "last s \<notin> set cs"
  then have "dropWhile (\<lambda>c. c \<in> set cs) s = s" "dropWhile (\<lambda>c. c \<in> set cs) (rev s) = rev s"
    by (simp_all add: dropWhile_eq_self_iff hd_rev)
  then show ?thesis by (simp add: trim_set_def)
qed

text \<open>The shape of a sanitized value: empty, or allowed characters with an alphanumeric one
  at each end.\<close>

definition sanitized :: "string \<Rightarrow> bool" where
  "sanitized s \<longleftrightarrow> (\<forall>c \<in> set s. allowed_char c) \<and>
     (s \<noteq> '''' \<longrightarrow> hd s \<notin> set ''._-'' \<and> last s \<notin> set ''._-'')"

lemma allowed_char_ascii: "allowed_char c \<Longrightarrow> 45 \<le> byte c \<and> byte c < 0x80 \<and> byte c \<noteq> 127"
  by (auto simp: allowed_char_def byte_class_defs)

lemma allowed_not_slash: "allowed_char c \<Longrightarrow> c \<noteq> slash \<and> c \<noteq> backslash"
  by (auto simp: allowed_char_def byte_class_defs)

lemma sanitized_tight: "sanitized s \<Longrightarrow> tight s"
proof (cases "s = ''''")
  case False
  assume "sanitized s"
  with False have "allowed_char (hd s)" "allowed_char (last s)"
    by (simp_all add: sanitized_def)
  from this [THEN allowed_char_ascii] show ?thesis
    by (auto simp: tight_def ascii_space_def)
qed (simp add: tight_def)

lemma sanitizeValue_sanitized: "sanitized (sanitizeValue v)"
proof -
  let ?r = "trim_set ''._-'' (sanitize_loop False (trim_space v))"
  have "\<forall>c \<in> set ?r. allowed_char c"
    using set_trim_set sanitize_loop_allowed by blast
  then have "?r \<noteq> '''' \<Longrightarrow> sanitized ?r"
    using hd_trim_set [of "''._-''"] last_trim_set [of "''._-''"] by (simp add: sanitized_def)
  moreover have "sanitized ''value''" "sanitized ''''"
    by (simp_all add: sanitized_def allowed_char_def byte_class_defs)
  ultimately show ?thesis by (simp add: sanitizeValue_def Let_def)
qed

lemma sanitizeValue_fixed: "sanitized v \<Longrightarrow> sanitizeValue v = v"
proof (cases "v = ''''")
  case False
  assume v: "sanitized v"
  then have "sanitize_loop False v = v"
    by (intro sanitize_loop_id) (simp add: sanitized_def)
  moreover have "trim_set ''._-'' v = v"
    using v False by (intro trim_set_id) (simp_all add: sanitized_def)
  ultimately show ?thesis
    using v False by (simp add: sanitizeValue_def sanitized_tight)
qed (simp add: sanitizeValue_def)

lemma sanitizeValue_empty_iff: "sanitizeValue v = '''' \<longleftrightarrow> trim_space v = ''''"
  by (simp add: sanitizeValue_def Let_def)

text \<open>
  A sanitized value is fit for a path segment: it is empty exactly when there was nothing but
  white space, it holds letters, digits, dots, dashes and underscores only, it neither starts
  nor ends with one of the three punctuation marks, and sanitizing again changes nothing.
\<close>

text \<open>sanitizeValue returns a value of safe shape, empty only for blank input, and is
  idempotent.\<close>

lemma sanitizeValue_spec:
  "sanitized (sanitizeValue v) \<and> (sanitizeValue v = '''' \<longleftrightarrow> trim_space v = '''') \<and>
   sanitizeValue (sanitizeValue v) = sanitizeValue v"
  by (simp add: sanitizeValue_sanitized sanitizeValue_fixed sanitizeValue_empty_iff)

section \<open>Rendering\<close>

lemma render_pieces_chars:
  "c \<in> set (render_pieces vals ps) \<Longrightarrow>
     c \<in> set (lits ps) \<or> (\<exists>n v. n \<in> set (toks ps) \<and> vals n = Some v \<and> c \<in> set v)"
  by (induction vals ps rule: render_pieces.induct) (force split: option.splits)+

lemma match_token_split:
  "match_token s = Some (name, rest) \<Longrightarrow> \<exists>pre. s = pre @ rest"
proof -
  have suf: "\<exists>pre. xs = pre @ dropWhile p xs" for p and xs :: string
    by (metis takeWhile_dropWhile_id)
  assume "match_token s = Some (name, rest)"
  then have "rest = drop 2 (dropWhile regex_space (dropWhile word_char (dropWhile regex_space (drop 2 s))))"
    by (auto simp: match_token_def Let_def split: if_splits)
  then show ?thesis
    by (metis (no_types) append.assoc append_take_drop_id suf)
qed

lemma set_lits_pieces: "set (lits (pieces s)) \<subseteq> set s"
proof (induction s rule: pieces.induct)
  case (2 c cs)
  show ?case
  proof (cases "match_token (c # cs)")
    case None
    then show ?thesis using "2.IH"(1) by auto
  next
    case (Some nr)
    obtain name rest where nr: "nr = (name, rest)" by (cases nr)
    with Some obtain pre where "c # cs = pre @ rest"
      using match_token_split by blast
    then have "set rest \<subseteq> set (c # cs)" by (metis Un_upper2 set_append)
    then show ?thesis using "2.IH"(2) [OF Some nr [symmetric]] Some nr by auto
  qed
qed simp

lemma validateTemplateSyntax_ok:
  assumes "validateTemplateSyntax t b = Inr u"
  shows "trim_space t \<noteq> ''''" "\<not> hasControl t" "set (toks (pieces t)) \<subseteq> set supportedVariables"
    and "\<not> b \<Longrightarrow> slash \<notin> set t \<and> backslash \<notin> set t"
  using assms
  by (auto simp: validateTemplateSyntax_def contains_any_def find_None_iff split: if_splits option.splits)

lemma renderVariables_keys:
  "map fst (renderVariables ctx now f st cn) = supportedVariables"
  by (simp add: renderVariables_def supportedVariables_def Let_def split: prod.splits)

lemma digits_sanitized:
  assumes "s \<noteq> ''''" "\<And>c. c \<in> set s \<Longrightarrow> is_digit c \<or> c = CHR ''-''" "is_digit (hd s)" "is_digit (last s)"
  shows "sanitized s"
  using assms(2) assms(3) assms(4)
  by (fastforce simp: sanitized_def allowed_char_def byte_class_defs)

lemma pad_digits_ne [simp]: "pad_digits w n \<noteq> []"
  by (simp add: pad_digits_def Let_def)

lemma pad_digits_ends [simp]: "is_digit (hd (pad_digits w n))" "is_digit (last (pad_digits w n))"
  using pad_digits_digit [OF hd_in_set [OF pad_digits_ne]] pad_digits_digit [OF last_in_set [OF pad_digits_ne]]
  by simp_all

lemma stamps_sanitized: "sanitized (format_date t)" "sanitized (format_clock t)" "sanitized (format_stamp t)"
proof -
  note [dest] = pad_digits_digit
  show "sanitized (format_clock t)"
    by (rule digits_sanitized) (auto simp: format_clock_def split: prod.splits)
  show "sanitized (format_date t)"
    by (rule digits_sanitized) (auto simp: format_date_def split: prod.splits)
  show "sanitized (format_stamp t)"
    by (rule digits_sanitized) (auto simp: format_stamp_def format_clock_def split: prod.splits)
qed

lemma renderVariables_sanitized:
  assumes "(n, v) \<in> set (renderVariables ctx now f st cn)"
  shows "sanitized v"
  using assms by (auto simp: renderVariables_def Let_def sanitizeValue_sanitized stamps_sanitized split: prod.splits)

section \<open>The rendered path is safe\<close>

lemma trimmed_plain_path:
  assumes "plain_path (trim_space p)"
  shows "plain_path p"
proof -
  obtain pre post where p: "p = pre @ trim_space p @ post"
    and b: "\<forall>c \<in> set pre \<union> set post. space_byte c"
    using trim_space_cuts by blast
  have "plain_path (trim_space p @ post)"
    by (rule plain_path_append [OF assms]) (use b space_byte_plain in auto)
  then have "plain_path (pre @ trim_space p @ post)"
    by (rule plain_path_prepend) (use b space_byte_plain in auto)
  then show ?thesis by (subst p)
qed

lemma validateRenderedPath_plain:
  "validateRenderedPath p = Inr u \<Longrightarrow> plain_path p"
proof (rule trimmed_plain_path)
  assume "validateRenderedPath p = Inr u"
  then have "find (\<lambda>seg. \<not> plain_segment seg) (split_on slash (trim_space p)) = None"
    by (simp add: validateRenderedPath_def Let_def split: if_split_asm option.split_asm)
  then show "plain_path (trim_space p)"
    unfolding plain_path_def find_None_iff by blast
qed

lemma validateRenderedFilename_plain:
  assumes "validateRenderedFilename n = Inr u"
  shows "slash \<notin> set n" "backslash \<notin> set n" "plain_path n"
proof -
  have t: "slash \<notin> set (trim_space n)" "backslash \<notin> set (trim_space n)" "plain_segment (trim_space n)"
    using assms
    by (auto simp: validateRenderedFilename_def Let_def contains_any_def plain_segment_def split: if_splits)
  obtain pre post where p: "n = pre @ trim_space n @ post"
    and b: "\<forall>c \<in> set pre \<union> set post. space_byte c"
    using trim_space_cuts by blast
  have "set n = set pre \<union> set (trim_space n) \<union> set post"
    using p by (metis set_append sup_assoc)
  with t b space_byte_plain show "slash \<notin> set n" "backslash \<notin> set n" by auto
  show "plain_path n"
    by (rule trimmed_plain_path) (use t in \<open>simp add: plain_path_def split_on_no_sep\<close>)
qed

lemma renderTemplate_chars:
  assumes "c \<in> set (renderTemplate t (map_of (renderVariables ctx now f st cn)))"
  shows "c \<in> set t \<or> allowed_char c"
proof -
  let ?vals = "map_of (renderVariables ctx now f st cn)"
  from assms consider "c \<in> set (lits (pieces t))" | n v where "?vals n = Some v" "c \<in> set v"
    unfolding renderTemplate_def using render_pieces_chars by blast
  then show ?thesis
  proof cases
    case 1
    then show ?thesis using set_lits_pieces by blast
  next
    case 2
    then have "sanitized v" using map_of_SomeD renderVariables_sanitized by metis
    with 2 show ?thesis by (simp add: sanitized_def)
  qed
qed

lemma renderTemplate_no_control:
  assumes "\<not> hasControl t"
  shows "\<not> hasControl (renderTemplate t (map_of (renderVariables ctx now f st cn)))"
proof
  assume "hasControl (renderTemplate t (map_of (renderVariables ctx now f st cn)))"
  then obtain c where c: "c \<in> set (renderTemplate t (map_of (renderVariables ctx now f st cn)))"
    "byte c < 32 \<or> byte c = 127"
    by (auto simp: hasControl_def)
  from renderTemplate_chars [OF c(1)] show False
    using assms c(2) allowed_char_ascii [of c] by (auto simp: hasControl_def)
qed


lemma Render_cases:
  assumes "Render wc inp = Inr md"
  obtains rt nt lg ctx now f st cn where
    "effectiveTemplates (in_remote_dir_template inp) (in_name_template inp) (in_recommended inp) = (rt, nt, lg)"
    "validateTemplateSyntax rt True = Inr ()" "validateTemplateSyntax nt False = Inr ()"
    "nm_remote_dir md = renderTemplate rt (map_of (renderVariables ctx now f st cn))"
    "nm_artifact_name md = renderTemplate nt (map_of (renderVariables ctx now f st cn))"
    "validateRenderedRemoteDir (nm_remote_dir md) = Inr ()"
    "validateRenderedFilename (nm_artifact_name md) = Inr ()"
    "nm_artifact_path md = path_join [nm_remote_dir md, nm_artifact_name md]"
    "validateRenderedPath (nm_artifact_path md) = Inr ()"
    "nm_variables md = renderVariables ctx now f st cn"
    "nm_remote_dir_template md = rt" "nm_name_template md = nt"
  using assms
  by (auto simp: Render_def Let_def split: prod.splits sum.splits)

text \<open>C3. Whatever templates, policy names, container names or tags an operator enters, a
  rendered artifact path stays below the storage root: it is relative, none of its segments is
  empty, a dot or a double dot, it holds no control character, and it is exactly the remote
  directory followed by a file name without any path separator.\<close>

theorem Render_safe:
  assumes "Render wc inp = Inr md"
  shows "plain_path (nm_artifact_path md) \<and> \<not> is_abs (nm_artifact_path md) \<and>
    \<not> hasControl (nm_artifact_path md) \<and>
    nm_artifact_path md = nm_remote_dir md @ [slash] @ nm_artifact_name md \<and>
    slash \<notin> set (nm_artifact_name md) \<and> backslash \<notin> set (nm_artifact_name md)"
proof -
  from assms obtain rt nt lg ctx now f st cn where r:
    "validateTemplateSyntax rt True = Inr ()" "validateTemplateSyntax nt False = Inr ()"
    "nm_remote_dir md = renderTemplate rt (map_of (renderVariables ctx now f st cn))"
    "nm_artifact_name md = renderTemplate nt (map_of (renderVariables ctx now f st cn))"
    "validateRenderedRemoteDir (nm_remote_dir md) = Inr ()"
    "validateRenderedFilename (nm_artifact_name md) = Inr ()"
    "nm_artifact_path md = path_join [nm_remote_dir md, nm_artifact_name md]"
    by (elim Render_cases)
  have dir: "plain_path (nm_remote_dir md)"
    using r(5) by (auto simp: validateRenderedRemoteDir_def Let_def split: if_split_asm
        intro: trimmed_plain_path validateRenderedPath_plain)
  note name = validateRenderedFilename_plain [OF r(6)]
  have joined: "plain_path (nm_remote_dir md @ slash # nm_artifact_name md)"
    using dir name(3) by (rule plain_path_join)
  have "nm_remote_dir md \<noteq> ''''" using dir plain_path_ne by blast
  then have path: "nm_artifact_path md = nm_remote_dir md @ slash # nm_artifact_name md"
    using r(7) joined by (simp add: path_join_def plain_path_clean)
  have "\<not> hasControl (nm_remote_dir md)" "\<not> hasControl (nm_artifact_name md)"
    using r(3,4) validateTemplateSyntax_ok(2) [OF r(1)] validateTemplateSyntax_ok(2) [OF r(2)]
      renderTemplate_no_control by simp_all
  then have "\<not> hasControl (nm_artifact_path md)"
    by (auto simp: path hasControl_def)
  with path joined name plain_path_not_abs show ?thesis by simp
qed

text \<open>A template the syntax check accepts uses only variables that have a value: no token
  of an accepted template is rendered as a missing map entry.\<close>

lemma accepted_tokens_have_values:
  assumes "Render wc inp = Inr md"
  shows "set (toks (pieces (nm_remote_dir_template md)) @ toks (pieces (nm_name_template md)))
    \<subseteq> dom (map_of (nm_variables md))"
proof -
  from assms obtain rt nt lg ctx now f st cn where r:
    "validateTemplateSyntax rt True = Inr ()" "validateTemplateSyntax nt False = Inr ()"
    "nm_variables md = renderVariables ctx now f st cn"
    "nm_remote_dir_template md = rt" "nm_name_template md = nt"
    by (elim Render_cases)
  have "dom (map_of (nm_variables md)) = set supportedVariables"
    unfolding r(3) dom_map_of_conv_image_fst by (metis renderVariables_keys set_map)
  with validateTemplateSyntax_ok(3) [OF r(1)] validateTemplateSyntax_ok(3) [OF r(2)] r(4,5)
  show ?thesis by simp
qed

section \<open>The default templates always render\<close>

lemma sanitized_plain: "sanitized s \<Longrightarrow> s \<noteq> '''' \<Longrightarrow> plain_segment s"
  by (auto simp: sanitized_def plain_segment_def)

lemma sanitized_no_slash: "sanitized s \<Longrightarrow> slash \<notin> set s \<and> backslash \<notin> set s"
  using allowed_not_slash by (auto simp: sanitized_def)

lemma sanitized_path: "sanitized s \<Longrightarrow> s \<noteq> '''' \<Longrightarrow> plain_path s"
  by (simp add: plain_path_def split_on_no_sep sanitized_no_slash sanitized_plain)

text \<open>Bytes of a path made of sanitized pieces.\<close>

definition path_char :: "char \<Rightarrow> bool" where
  "path_char c \<longleftrightarrow> allowed_char c \<or> c = slash"

lemma path_char_ascii: "path_char c \<Longrightarrow> 45 \<le> byte c \<and> byte c < 0x80 \<and> byte c \<noteq> 127"
  using allowed_char_ascii [of c] by (auto simp: path_char_def)

lemma path_chars_tight: "(\<And>c. c \<in> set s \<Longrightarrow> path_char c) \<Longrightarrow> tight s"
proof (cases "s = ''''")
  case False
  assume "\<And>c. c \<in> set s \<Longrightarrow> path_char c"
  with False have "path_char (hd s)" "path_char (last s)" by simp_all
  from this [THEN path_char_ascii] show ?thesis by (auto simp: tight_def ascii_space_def)
qed (simp add: tight_def)

lemma path_chars_no_control: "(\<And>c. c \<in> set s \<Longrightarrow> path_char c) \<Longrightarrow> \<not> hasControl s"
  using path_char_ascii by (fastforce simp: hasControl_def)

lemma validateRenderedPath_ok:
  assumes "\<And>c. c \<in> set p \<Longrightarrow> path_char c" and "plain_path p"
  shows "validateRenderedPath p = Inr ()"
proof -
  have "find (\<lambda>seg. \<not> plain_segment seg) (split_on slash p) = None"
    using assms(2) unfolding find_None_iff plain_path_def by blast
  moreover have "p \<noteq> ''''" "\<not> is_abs p" "\<not> has_prefix p [slash]"
    using plain_path_ne [OF assms(2)] plain_path_not_abs [OF assms(2)] by (simp_all add: is_abs_def)
  moreover have "trim_space p = p" "\<not> hasControl p"
    using path_chars_tight [OF assms(1)] path_chars_no_control [OF assms(1)] by simp_all
  ultimately show ?thesis by (simp add: validateRenderedPath_def)
qed

lemma validateRenderedFilename_ok:
  assumes "sanitized n" and "n \<noteq> ''''"
  shows "validateRenderedFilename n = Inr ()"
proof -
  have "trim_space n = n" using assms(1) by (simp add: sanitized_tight)
  moreover have "\<not> hasControl n"
    using assms(1) by (intro path_chars_no_control) (simp add: path_char_def sanitized_def)
  moreover have "n \<noteq> ''.''" "n \<noteq> ''..''"
    using assms by (auto simp: sanitized_def)
  ultimately show ?thesis
    using assms sanitized_no_slash [OF assms(1)]
    by (auto simp: validateRenderedFilename_def contains_any_def)
qed

lemma firstNonEmpty_default: "trim_space d \<noteq> '''' \<Longrightarrow> d \<in> set vs \<Longrightarrow> trim_space (firstNonEmpty vs) \<noteq> ''''"
  by (auto simp: firstNonEmpty_def find_None_iff find_Some_iff split: option.splits)

lemma normalizeArchiveFormat_cases:
  "normalizeArchiveFormat f = ArchiveFormatZip \<or> normalizeArchiveFormat f = ArchiveFormatTarGz"
  by (simp add: normalizeArchiveFormat_def)

lemma sanitize_formats [simp]: "sanitizeValue ArchiveFormatZip = ''zip''" "sanitizeValue ArchiveFormatTarGz = ''tar.gz''"
  by (rule sanitizeValue_fixed, simp add: sanitized_def allowed_char_def byte_class_defs)+

lemma pieces_defaults:
  "pieces LegacyRemoteDirTemplate = map Lit ''artifacts''"
  "pieces LegacyArchiveNameTemplate = map Lit ''backup-'' @ [Tok ''datetime'', Lit CHR ''.'', Tok ''ext'']"
  "pieces RecommendedRemoteDirTemplate =
     map Lit ''archives/'' @ [Tok ''agent_name'', Lit slash, Tok ''context_name'', Lit slash, Tok ''date'']"
  "pieces RecommendedArchiveNameTemplate =
     [Tok ''context_name'', Lit CHR ''_'', Tok ''agent_name'', Lit CHR ''_'', Tok ''datetime'', Lit CHR ''.'', Tok ''ext'']"
  by code_simp+

lemma validate_defaults:
  "validateTemplateSyntax LegacyRemoteDirTemplate True = Inr ()"
  "validateTemplateSyntax LegacyArchiveNameTemplate False = Inr ()"
  "validateTemplateSyntax RecommendedRemoteDirTemplate True = Inr ()"
  "validateTemplateSyntax RecommendedArchiveNameTemplate False = Inr ()"
  by code_simp+

lemma sanitized_append:
  assumes "sanitized a" "sanitized b" "a \<noteq> ''''" "b \<noteq> ''''" "\<And>c. c \<in> set m \<Longrightarrow> allowed_char c"
  shows "sanitized (a @ m @ b)"
  using assms by (auto simp: sanitized_def)

lemma stamps_ne [simp]: "format_date t \<noteq> ''''" "format_clock t \<noteq> ''''" "format_stamp t \<noteq> ''''"
  by (auto simp: format_date_def format_clock_def format_stamp_def split: prod.splits)

lemma Render_succeeds:
  fixes inp wc
  defines "ctx \<equiv> in_context inp"
  defines "vals \<equiv> map_of (renderVariables ctx (if nc_now ctx = 0 then wc else nc_now ctx)
      (normalizeArchiveFormat (nc_archive_format ctx))
      (inferSourceType (nc_sources ctx) (nc_docker ctx) (nc_database ctx))
      (firstNonEmpty [nc_context_name ctx,
         inferContextName ctx (inferSourceType (nc_sources ctx) (nc_docker ctx) (nc_database ctx)), ''backup'']))"
  assumes eff: "effectiveTemplates (in_remote_dir_template inp) (in_name_template inp) (in_recommended inp) = (rt, nt, lg)"
    and ok: "validateTemplateSyntax rt True = Inr ()" "validateTemplateSyntax nt False = Inr ()"
    and dir: "plain_path (renderTemplate rt vals)" "\<And>c. c \<in> set (renderTemplate rt vals) \<Longrightarrow> path_char c"
    and name: "sanitized (renderTemplate nt vals)" "renderTemplate nt vals \<noteq> ''''"
  shows "\<exists>md. Render wc inp = Inr md \<and> nm_legacy md = lg \<and>
    nm_remote_dir md = renderTemplate rt vals \<and> nm_artifact_name md = renderTemplate nt vals"
proof -
  let ?r = "renderTemplate rt vals" and ?n = "renderTemplate nt vals"
  have joined: "plain_path (?r @ slash # ?n)"
    using dir(1) sanitized_path [OF name] by (rule plain_path_join)
  have r: "trim_space ?r = ?r" "?r \<noteq> ''''"
    using path_chars_tight [OF dir(2)] plain_path_ne [OF dir(1)] by simp_all
  then have path: "path_join [?r, ?n] = ?r @ slash # ?n"
    by (simp add: path_join_def plain_path_clean [OF joined])
  have chars: "path_char c" if "c \<in> set (?r @ slash # ?n)" for c
    using that dir(2) name(1) by (auto simp: path_char_def sanitized_def)
  have "validateRenderedRemoteDir ?r = Inr ()"
    using r validateRenderedPath_ok [OF dir(2,1)] by (simp add: validateRenderedRemoteDir_def)
  moreover note validateRenderedFilename_ok [OF name] validateRenderedPath_ok [OF chars joined]
  ultimately show ?thesis
    using eff ok path unfolding Render_def Let_def vals_def ctx_def by (simp split del: if_split)
qed

lemma rendered_defaults:
  fixes ctx :: naming_context and now :: time and st :: string
  assumes "trim_space cn \<noteq> ''''" and "f = ArchiveFormatZip \<or> f = ArchiveFormatTarGz"
  defines "vals \<equiv> map_of (renderVariables ctx now f st cn)"
  shows "plain_path (renderTemplate LegacyRemoteDirTemplate vals)"
    and "c \<in> set (renderTemplate LegacyRemoteDirTemplate vals) \<Longrightarrow> path_char c"
    and "sanitized (renderTemplate LegacyArchiveNameTemplate vals)"
    and "plain_path (renderTemplate RecommendedRemoteDirTemplate vals)"
    and "c \<in> set (renderTemplate RecommendedRemoteDirTemplate vals) \<Longrightarrow> path_char c"
    and "sanitized (renderTemplate RecommendedArchiveNameTemplate vals)"
    and "renderTemplate LegacyArchiveNameTemplate vals \<noteq> ''''"
    and "renderTemplate RecommendedArchiveNameTemplate vals \<noteq> ''''"
proof -
  let ?a = "sanitizeValue (firstNonEmpty [nc_agent_name ctx, nc_agent_id ctx, ''agent''])"
  let ?c = "sanitizeValue cn" and ?f = "sanitizeValue f"
  have a: "sanitized ?a" "?a \<noteq> ''''"
    using firstNonEmpty_default [of "''agent''" "[nc_agent_name ctx, nc_agent_id ctx, ''agent'']"]
    by (simp_all add: sanitizeValue_sanitized sanitizeValue_empty_iff tight_def ascii_space_def)
  have c: "sanitized ?c" "?c \<noteq> ''''"
    using assms(1) by (simp_all add: sanitizeValue_sanitized sanitizeValue_empty_iff)
  have f: "sanitized ?f" "?f \<noteq> ''''"
    using assms(2) by (auto simp: sanitizeValue_sanitized)
  note stamps_sanitized [simp] and a [simp] c [simp] f [simp]
  have leg: "renderTemplate LegacyRemoteDirTemplate vals = ''artifacts''"
    "renderTemplate LegacyArchiveNameTemplate vals = ''backup'' @ ''-'' @ (format_stamp now @ ''.'' @ ?f)"
    unfolding renderTemplate_def pieces_defaults vals_def renderVariables_def Let_def
    by (simp_all split: prod.splits)
  have rec: "renderTemplate RecommendedRemoteDirTemplate vals = ''archives'' @ slash # (?a @ slash # (?c @ slash # format_date now))"
    "renderTemplate RecommendedArchiveNameTemplate vals = ?c @ ''_'' @ (?a @ ''_'' @ (format_stamp now @ ''.'' @ ?f))"
    unfolding renderTemplate_def pieces_defaults vals_def renderVariables_def Let_def
    by (simp_all split: prod.splits)
  have lit: "sanitized ''artifacts''" "sanitized ''backup''" "sanitized ''archives''"
    by (simp_all add: sanitized_def allowed_char_def byte_class_defs)
  have sep: "d \<in> set ''.'' \<or> d \<in> set ''_'' \<or> d \<in> set ''-'' \<Longrightarrow> allowed_char d" for d
    by (auto simp: allowed_char_def)
  show "plain_path (renderTemplate LegacyRemoteDirTemplate vals)"
    unfolding leg by (rule sanitized_path) (simp_all add: lit)
  show "c \<in> set (renderTemplate LegacyRemoteDirTemplate vals) \<Longrightarrow> path_char c"
    unfolding leg using lit(1) by (auto simp: sanitized_def path_char_def)
  show "sanitized (renderTemplate LegacyArchiveNameTemplate vals)"
    unfolding leg by (intro sanitized_append lit) (use sep in auto)
  show "plain_path (renderTemplate RecommendedRemoteDirTemplate vals)"
    unfolding rec by (intro plain_path_join sanitized_path lit) simp_all
  show "c \<in> set (renderTemplate RecommendedRemoteDirTemplate vals) \<Longrightarrow> path_char c"
    unfolding rec using lit(3) a(1) c(1) stamps_sanitized(1) [of now]
    by (auto simp: sanitized_def path_char_def)
  show "sanitized (renderTemplate RecommendedArchiveNameTemplate vals)"
    unfolding rec by (intro sanitized_append) (use sep in auto)
  show "renderTemplate LegacyArchiveNameTemplate vals \<noteq> ''''"
    "renderTemplate RecommendedArchiveNameTemplate vals \<noteq> ''''"
    unfolding leg rec by simp_all
qed

text \<open>A policy that leaves both templates blank can always be backed up: whatever the
  context, rendering with the legacy or the recommended default templates returns a name.\<close>

lemma default_templates_render:
  assumes "trim_space (in_remote_dir_template inp) = ''''" and "trim_space (in_name_template inp) = ''''"
  shows "\<exists>md. Render wc inp = Inr md \<and> (nm_legacy md \<longleftrightarrow> \<not> in_recommended inp)"
proof -
  let ?ctx = "in_context inp"
  let ?cn = "firstNonEmpty [nc_context_name ?ctx,
         inferContextName ?ctx (inferSourceType (nc_sources ?ctx) (nc_docker ?ctx) (nc_database ?ctx)), ''backup'']"
  have cn: "trim_space ?cn \<noteq> ''''"
    by (rule firstNonEmpty_default [of "''backup''"]) (simp_all add: tight_def ascii_space_def)
  note d = rendered_defaults [where ctx = ?ctx and cn = ?cn and now = "if nc_now ?ctx = 0 then wc else nc_now ?ctx"
      and st = "inferSourceType (nc_sources ?ctx) (nc_docker ?ctx) (nc_database ?ctx)"
      and f = "normalizeArchiveFormat (nc_archive_format ?ctx)", OF cn normalizeArchiveFormat_cases]
  show ?thesis
  proof (cases "in_recommended inp")
    case True
    then have "effectiveTemplates (in_remote_dir_template inp) (in_name_template inp) (in_recommended inp) =
        (RecommendedRemoteDirTemplate, RecommendedArchiveNameTemplate, False)"
      using assms by (simp add: effectiveTemplates_def)
    from Render_succeeds [OF this validate_defaults(3,4) d(4) d(5) d(6) d(8)] True show ?thesis by auto
  next
    case False
    then have "effectiveTemplates (in_remote_dir_template inp) (in_name_template inp) (in_recommended inp) =
        (LegacyRemoteDirTemplate, LegacyArchiveNameTemplate, True)"
      using assms by (simp add: effectiveTemplates_def)
    from Render_succeeds [OF this validate_defaults(1,2) d(1) d(2) d(3) d(7)] False show ?thesis by auto
  qed
qed

section \<open>Witnesses\<close>

definition sample_context :: naming_context where
  "sample_context =
     \<lparr>nc_agent_id = ''a1'', nc_agent_name = ''web 01'', nc_policy_id = ''p1'', nc_policy_name = ''nightly'',
      nc_context_name = '''', nc_archive_format = ''zip'', nc_now = 0,
      nc_sources = [\<lparr>bs_type = BackupSourceTypePath, bs_path = ''/srv/../etc'',
        bs_docker_container = None, bs_database = None\<rparr>],
      nc_docker = None, nc_database = None\<rparr>"

definition sample_input :: render_input where
  "sample_input = \<lparr>in_context = sample_context, in_remote_dir_template = ''x/{{agent_name}}'',
     in_name_template = ''{{ context_name }}.{{ext}}'', in_recommended = False\<rparr>"

definition sample_metadata :: naming_metadata where
  "sample_metadata = projr (Render 1 sample_input)"

lemma sample_render:
  "Render 1 sample_input = Inr sample_metadata"
  "nm_artifact_path sample_metadata = ''x/web_01/etc.zip''"
proof -
  have "case Render 1 sample_input of Inr md \<Rightarrow> nm_artifact_path md = ''x/web_01/etc.zip'' | _ \<Rightarrow> False"
    by code_simp
  then show "Render 1 sample_input = Inr sample_metadata" "nm_artifact_path sample_metadata = ''x/web_01/etc.zip''"
    by (auto simp: sample_metadata_def split: sum.splits)
qed

theorem Render_safe_witness:
  "plain_path (nm_artifact_path sample_metadata) \<and> \<not> is_abs (nm_artifact_path sample_metadata) \<and>
    \<not> hasControl (nm_artifact_path sample_metadata) \<and>
    nm_artifact_path sample_metadata =
      nm_remote_dir sample_metadata @ [slash] @ nm_artifact_name sample_metadata \<and>
    slash \<notin> set (nm_artifact_name sample_metadata) \<and> backslash \<notin> set (nm_artifact_name sample_metadata)"
  by (rule Render_safe [OF sample_render(1)])

end
