(* ===== verification/VF_World.thy ===== *)
theory VF_World
  imports VF_Prelude VF_GoLib
begin

text \<open>
  Programs over the database of the master.  A service method of the master is a sequence of
  SQL statements, some grouped into a transaction, mixed with readings of the clock and calls
  of the WebSocket hub.  Its model is a function on a \<open>world\<close>, which holds the tables, the hub,
  and three scripts that quantify over everything the method does not control:

  \<^item> \<open>w_faults\<close>: for each statement to come, whether the database reports an error for it
    (an exhausted script means no further error);
  \<^item> \<open>w_others\<close>: what the other goroutines of the process do to the tables before the next
    statement outside a transaction, or before the next transaction begins (SQLite runs
    writing transactions one at a time, so nothing interferes inside one);
  \<^item> \<open>w_clock\<close>: the readings of the clock to come; the last one repeats.

  A claim about all worlds is a claim about all faults, all interleavings and all clocks.  The
  Go error result is the left summand; a panic does not occur in this code.
\<close>

record ('d, 'h) world =
  w_db :: 'd
  w_hub :: 'h
  w_faults :: "bool list"
  w_others :: "('d \<Rightarrow> 'd) list"
  w_clock :: "time list"
  w_now :: time

type_synonym ('d, 'h, 'a) prog = "('d, 'h) world \<Rightarrow> 'a outcome \<times> ('d, 'h) world"

section \<open>Program constructs\<close>

definition ret :: "'a \<Rightarrow> ('d, 'h, 'a) prog" where
  "ret a w = (Inr a, w)"

definition raise :: "go_error \<Rightarrow> ('d, 'h, 'a) prog" where
  "raise e w = (Inl e, w)"

text \<open>\<^verbatim>\<open>x, err := m(); if err != nil { return err }; k(x)\<close>\<close>

definition bnd :: "('d, 'h, 'a) prog \<Rightarrow> ('a \<Rightarrow> ('d, 'h, 'b) prog) \<Rightarrow> ('d, 'h, 'b) prog" where
  "bnd m k w = (case m w of (Inl e, w') \<Rightarrow> (Inl e, w') | (Inr a, w') \<Rightarrow> k a w')"

text \<open>\<^verbatim>\<open>x, err := m()\<close> with the error inspected by what follows.\<close>

definition attempt :: "('d, 'h, 'a) prog \<Rightarrow> ('a outcome \<Rightarrow> ('d, 'h, 'b) prog) \<Rightarrow> ('d, 'h, 'b) prog" where
  "attempt m k w = (case m w of (r, w') \<Rightarrow> k r w')"

definition clock :: "('d, 'h, time) prog" where
  "clock w = (case w_clock w of [] \<Rightarrow> (Inr (w_now w), w)
     | t # ts \<Rightarrow> (Inr t, w\<lparr>w_clock := ts, w_now := t\<rparr>))"

text \<open>A statement inside a transaction: it fails, or it acts on the tables at once.\<close>

definition in_tx :: "('d \<Rightarrow> 'a outcome \<times> 'd) \<Rightarrow> ('d, 'h, 'a) prog" where
  "in_tx f w =
     (let w1 = w\<lparr>w_faults := tl (w_faults w)\<rparr>
      in if w_faults w \<noteq> [] \<and> hd (w_faults w) then (Inl SysFault, w1)
         else case f (w_db w) of (r, d) \<Rightarrow> (r, w1\<lparr>w_db := d\<rparr>))"

definition drop_fault :: "('d, 'h) world \<Rightarrow> ('d, 'h) world" where
  "drop_fault w = w\<lparr>w_faults := tl (w_faults w)\<rparr>"

text \<open>BEGIN and COMMIT are statements that leave the tables as they are.\<close>

lemma tx_mark:
  "in_tx (\<lambda>d. (Inr a, d)) w =
    (if w_faults w \<noteq> [] \<and> hd (w_faults w) then Inl SysFault else Inr a, drop_fault w)"
  by (simp add: in_tx_def drop_fault_def Let_def)

lemma drop_fault_fields [simp]:
  "w_db (drop_fault w) = w_db w" "w_others (drop_fault w) = w_others w"
  "w_hub (drop_fault w) = w_hub w" "w_clock (drop_fault w) = w_clock w" "w_now (drop_fault w) = w_now w"
  by (simp_all add: drop_fault_def)

definition interfere :: "('d, 'h) world \<Rightarrow> ('d, 'h) world" where
  "interfere w = (case w_others w of [] \<Rightarrow> w | g # gs \<Rightarrow> w\<lparr>w_db := g (w_db w), w_others := gs\<rparr>)"

text \<open>A statement outside a transaction: the other goroutines may run before it.\<close>

definition stmt :: "('d \<Rightarrow> 'a outcome \<times> 'd) \<Rightarrow> ('d, 'h, 'a) prog" where
  "stmt f w = in_tx f (interfere w)"

text \<open>\<^verbatim>\<open>DB.Transaction(func(tx) error)\<close>: BEGIN may fail, an error of the body or of COMMIT
  puts every table back.\<close>

definition transaction :: "('d, 'h, 'a) prog \<Rightarrow> ('d, 'h, 'a) prog" where
  "transaction m w =
     (let w0 = interfere w
      in case in_tx (\<lambda>d. (Inr (), d)) w0 of
        (Inl e, w1) \<Rightarrow> (Inl e, w1)
      | (Inr _, w1) \<Rightarrow>
         (case m w1 of
           (Inl e, w2) \<Rightarrow> (Inl e, w2\<lparr>w_db := w_db w1\<rparr>)
         | (Inr a, w2) \<Rightarrow>
            (case in_tx (\<lambda>d. (Inr a, d)) w2 of
              (Inl e, w3) \<Rightarrow> (Inl e, w3\<lparr>w_db := w_db w1\<rparr>)
            | (Inr a', w3) \<Rightarrow> (Inr a', w3))))"

text \<open>\<^verbatim>\<open>for _, x := range xs { if err := body(x); err != nil { return err } }\<close>\<close>

fun for_each :: "('x \<Rightarrow> ('d, 'h, unit) prog) \<Rightarrow> 'x list \<Rightarrow> ('d, 'h, unit) prog" where
  "for_each body [] = ret ()"
| "for_each body (x # xs) = bnd (body x) (\<lambda>_. for_each body xs)"

section \<open>Rows\<close>

text \<open>\<^verbatim>\<open>Model(&T{}).Where(p).Updates(m)\<close> with its number of affected rows, \<^verbatim>\<open>First\<close> (which
  orders by the primary key) and \<^verbatim>\<open>Order(key).Find\<close>.\<close>

definition update_rows :: "('r \<Rightarrow> bool) \<Rightarrow> ('r \<Rightarrow> 'r) \<Rightarrow> 'r list \<Rightarrow> 'r list" where
  "update_rows p f rows = map (\<lambda>r. if p r then f r else r) rows"

definition affected :: "('r \<Rightarrow> bool) \<Rightarrow> 'r list \<Rightarrow> nat" where
  "affected p rows = length (filter p rows)"

definition first_row :: "('r \<Rightarrow> string) \<Rightarrow> ('r \<Rightarrow> bool) \<Rightarrow> 'r list \<Rightarrow> 'r outcome" where
  "first_row key p rows = (case sort_key key (filter p rows) of [] \<Rightarrow> Inl NotFound | r # _ \<Rightarrow> Inr r)"

lemma first_row_Inr: "first_row key p rows = Inr r \<Longrightarrow> r \<in> set rows \<and> p r"
proof -
  assume "first_row key p rows = Inr r"
  then have "r \<in> set (sort_key key (filter p rows))"
    by (auto simp: first_row_def simp del: set_sort split: list.splits)
  then show ?thesis by simp
qed

lemma first_row_Inl: "first_row key p rows = Inl e \<longleftrightarrow> e = NotFound \<and> (\<forall>r \<in> set rows. \<not> p r)"
proof -
  have "sort_key key (filter p rows) = [] \<longleftrightarrow> filter p rows = []"
    by (metis length_0_conv length_sort)
  then show ?thesis
    by (auto simp: first_row_def filter_empty_conv split: list.splits)
qed

lemma first_row_unique:
  assumes "r \<in> set rows" "p r" "\<And>s. s \<in> set rows \<Longrightarrow> p s \<Longrightarrow> s = r"
  shows "first_row key p rows = Inr r"
proof (cases "first_row key p rows")
  case (Inl e)
  with assms(1,2) show ?thesis by (auto simp: first_row_Inl)
next
  case (Inr s)
  with assms(3) first_row_Inr [OF Inr] show ?thesis by simp
qed

lemma set_update_rows: "set (update_rows p f rows) = (\<lambda>r. if p r then f r else r) ` set rows"
  by (simp add: update_rows_def)

lemma update_rows_none: "(\<And>r. r \<in> set rows \<Longrightarrow> \<not> p r) \<Longrightarrow> update_rows p f rows = rows"
  by (induction rows) (auto simp: update_rows_def)

lemma affected_0: "affected p rows = 0 \<longleftrightarrow> (\<forall>r \<in> set rows. \<not> p r)"
  by (auto simp: affected_def filter_empty_conv)

lemma map_update_rows: "(\<And>r. k (f r) = k r) \<Longrightarrow> map k (update_rows p f rows) = map k rows"
  by (induction rows) (auto simp: update_rows_def)

lemma transaction_db:
  assumes "m (drop_fault (interfere w)) = (r, w2)"
  shows "(w_db (snd (transaction m w)) = w_db (interfere w) \<or>
      (\<exists>a. r = Inr a) \<and> w_db (snd (transaction m w)) = w_db w2) \<and>
    w_others (snd (transaction m w)) \<in> {w_others (interfere w), w_others w2}"
  using assms by (cases r) (auto simp: transaction_def tx_mark Let_def)

section \<open>Pre- and postconditions under interference\<close>

text \<open>\<open>triple R P m Q\<close>: a run of \<open>m\<close> that starts where \<open>P\<close> holds ends where \<open>Q\<close> holds of its
  result, for all faults and all interference within \<open>R\<close>.  \<open>P\<close> has to be stable under \<open>R\<close> when
  a statement outside a transaction follows.\<close>

definition rely :: "('d \<Rightarrow> 'd \<Rightarrow> bool) \<Rightarrow> ('d, 'h) world \<Rightarrow> bool" where
  "rely R w \<longleftrightarrow> (\<forall>g \<in> set (w_others w). \<forall>d. R d (g d))"

definition stable :: "('d \<Rightarrow> 'd \<Rightarrow> bool) \<Rightarrow> ('d \<Rightarrow> bool) \<Rightarrow> bool" where
  "stable R P \<longleftrightarrow> (\<forall>d d'. P d \<longrightarrow> R d d' \<longrightarrow> P d')"

definition triple :: "('d \<Rightarrow> 'd \<Rightarrow> bool) \<Rightarrow> ('d \<Rightarrow> bool) \<Rightarrow> ('d, 'h, 'a) prog \<Rightarrow>
    ('a outcome \<Rightarrow> 'd \<Rightarrow> bool) \<Rightarrow> bool" where
  "triple R P m Q \<longleftrightarrow> (\<forall>w. rely R w \<longrightarrow> P (w_db w) \<longrightarrow>
     Q (fst (m w)) (w_db (snd (m w))) \<and> set (w_others (snd (m w))) \<subseteq> set (w_others w))"

lemma tripleD:
  "triple R P m Q \<Longrightarrow> rely R w \<Longrightarrow> P (w_db w) \<Longrightarrow> m w = (r, w') \<Longrightarrow>
   Q r (w_db w') \<and> rely R w' \<and> set (w_others w') \<subseteq> set (w_others w)"
proof -
  assume t: "triple R P m Q" and w: "rely R w" "P (w_db w)" and mw: "m w = (r, w')"
  from t w have "Q (fst (m w)) (w_db (snd (m w))) \<and> set (w_others (snd (m w))) \<subseteq> set (w_others w)"
    by (simp add: triple_def)
  with mw w(1) show ?thesis by (auto simp: rely_def)
qed

lemma triple_ret: "(\<And>d. P d \<Longrightarrow> Q (Inr a) d) \<Longrightarrow> triple R P (ret a) Q"
  by (simp add: triple_def ret_def)

lemma triple_raise: "(\<And>d. P d \<Longrightarrow> Q (Inl e) d) \<Longrightarrow> triple R P (raise e) Q"
  by (simp add: triple_def raise_def)

lemma triple_attempt:
  fixes m :: "('d, 'h, 'a) prog"
  assumes m: "triple R P m M" and k: "\<And>r. triple R (M r) (k r) Q"
  shows "triple R P (attempt m k) Q"
  unfolding triple_def
proof (intro allI impI)
  fix w :: "('d, 'h) world" assume w: "rely R w" "P (w_db w)"
  obtain r w' where mw: "m w = (r, w')" by fastforce
  from tripleD [OF m w mw] have 1: "M r (w_db w')" "rely R w'" "set (w_others w') \<subseteq> set (w_others w)" by auto
  obtain s w'' where kw: "k r w' = (s, w'')" by fastforce
  from tripleD [OF k 1(2,1) kw] 1(3)
  show "Q (fst (attempt m k w)) (w_db (snd (attempt m k w))) \<and>
      set (w_others (snd (attempt m k w))) \<subseteq> set (w_others w)"
    by (auto simp: attempt_def mw kw)
qed

lemma bnd_attempt: "bnd m k = attempt m (\<lambda>r. case r of Inl e \<Rightarrow> raise e | Inr a \<Rightarrow> k a)"
  by (rule ext) (auto simp: bnd_def attempt_def raise_def split: prod.splits sum.splits)

lemma triple_bnd:
  assumes m: "triple R P m M" and k: "\<And>a. triple R (M (Inr a)) (k a) Q"
    and e: "\<And>e d. M (Inl e) d \<Longrightarrow> Q (Inl e) d"
  shows "triple R P (bnd m k) Q"
  unfolding bnd_attempt
proof (rule triple_attempt [OF m])
  show "triple R (M r) (case r of Inl e \<Rightarrow> raise e | Inr a \<Rightarrow> k a) Q" for r
    by (cases r) (simp_all add: k triple_raise e)
qed

lemma interfere_stable:
  "rely R w \<Longrightarrow> stable R P \<Longrightarrow> P (w_db w) \<Longrightarrow>
   P (w_db (interfere w)) \<and> rely R (interfere w) \<and> set (w_others (interfere w)) \<subseteq> set (w_others w)"
  by (auto simp: interfere_def rely_def stable_def split: list.splits)

lemma triple_in_tx:
  assumes "\<And>d r d'. P d \<Longrightarrow> f d = (r, d') \<Longrightarrow> Q r d'" and "\<And>d. P d \<Longrightarrow> Q (Inl SysFault) d"
  shows "triple R P (in_tx f) Q"
  using assms by (auto simp: triple_def in_tx_def Let_def split: prod.splits)

lemma triple_stmt:
  assumes P: "stable R P" and f: "\<And>d r d'. P d \<Longrightarrow> f d = (r, d') \<Longrightarrow> Q r d'"
    and e: "\<And>d. P d \<Longrightarrow> Q (Inl SysFault) d"
  shows "triple R P (stmt f) Q"
  unfolding triple_def
proof (intro allI impI)
  fix w :: "('a, 'c) world" assume "rely R w" "P (w_db w)"
  note i = interfere_stable [OF this(1) P this(2)]
  have "triple R P (in_tx f) Q" using f e by (rule triple_in_tx)
  with i show "Q (fst (stmt f w)) (w_db (snd (stmt f w))) \<and>
      set (w_others (snd (stmt f w))) \<subseteq> set (w_others w)"
    unfolding triple_def stmt_def by blast
qed

text \<open>A transaction ends in the tables its body leaves, or in the tables it began with.\<close>

lemma triple_transaction:
  fixes m :: "('d, 'h, 'a) prog"
  assumes P: "stable R P" and m: "triple R P m M"
    and ok: "\<And>a d. M (Inr a) d \<Longrightarrow> Q (Inr a) d"
    and bad: "\<And>e d. P d \<Longrightarrow> Q (Inl e) d"
  shows "triple R P (transaction m) Q"
  unfolding triple_def
proof (intro allI impI)
  fix w :: "('d, 'h) world" assume "rely R w" "P (w_db w)"
  note i = interfere_stable [OF this(1) P this(2)]
  let ?w1 = "drop_fault (interfere w)"
  have w1: "rely R ?w1" "P (w_db ?w1)" using i by (simp_all add: rely_def)
  obtain r w2 where mw: "m ?w1 = (r, w2)" by fastforce
  from tripleD [OF m w1 mw] i w1 mw ok bad
  show "Q (fst (transaction m w)) (w_db (snd (transaction m w))) \<and>
      set (w_others (snd (transaction m w))) \<subseteq> set (w_others w)"
    by (cases r) (auto simp: transaction_def tx_mark Let_def)
qed

lemma triple_if:
  "(b \<Longrightarrow> triple R P m Q) \<Longrightarrow> (\<not> b \<Longrightarrow> triple R P n Q) \<Longrightarrow> triple R P (if b then m else n) Q"
  by simp

lemma triple_clock: "(\<And>d t. P d \<Longrightarrow> Q (Inr t) d) \<Longrightarrow> triple R P clock Q"
  by (auto simp: triple_def clock_def split: list.splits)

lemma triple_weaken:
  "triple R P' m Q' \<Longrightarrow> (\<And>d. P d \<Longrightarrow> P' d) \<Longrightarrow> (\<And>r d. Q' r d \<Longrightarrow> Q r d) \<Longrightarrow> triple R P m Q"
  unfolding triple_def by blast

section \<open>What a program may do to the tables\<close>

text \<open>\<open>obeys R m\<close>: whatever faults, clock and interleaving a run of \<open>m\<close> meets, the tables
  before and after it are related by \<open>R\<close>, as long as the other goroutines keep to \<open>R\<close> too.\<close>

definition obeys :: "('d \<Rightarrow> 'd \<Rightarrow> bool) \<Rightarrow> ('d, 'h, 'a) prog \<Rightarrow> bool" where
  "obeys R m \<longleftrightarrow> (\<forall>w. rely R w \<longrightarrow>
     R (w_db w) (w_db (snd (m w))) \<and> set (w_others (snd (m w))) \<subseteq> set (w_others w))"

lemma obeysD:
  "obeys R m \<Longrightarrow> rely R w \<Longrightarrow> R (w_db w) (w_db (snd (m w))) \<and> rely R (snd (m w))"
  by (auto simp: obeys_def rely_def)

lemma obeys_others:
  "obeys R m \<Longrightarrow> rely R w \<Longrightarrow> set (w_others (snd (m w))) \<subseteq> set (w_others w)"
  by (simp add: obeys_def)

text \<open>The rules hold for every preorder on the tables: an invariant (\<open>I d \<longrightarrow> I d'\<close>), a frame
  (a part of the tables stays) or a monotone history (no terminal row changes again).\<close>

locale table_relation =
  fixes R :: "'d \<Rightarrow> 'd \<Rightarrow> bool"
  assumes R_refl: "R d d" and R_trans: "R d e \<Longrightarrow> R e f \<Longrightarrow> R d f"
begin

lemma obeys_ret: "obeys R (ret a :: ('d, 'h, 'a) prog)"
  by (simp add: obeys_def ret_def R_refl)

lemma obeys_raise: "obeys R (raise e :: ('d, 'h, 'a) prog)"
  by (simp add: obeys_def raise_def R_refl)

lemma obeys_clock: "obeys R (clock :: ('d, 'h, time) prog)"
  by (auto simp: obeys_def clock_def R_refl split: list.splits)

lemma obeys_attempt:
  fixes m :: "('d, 'h, 'a) prog"
  assumes "obeys R m" and "\<And>r. obeys R (k r)"
  shows "obeys R (attempt m k)"
  unfolding obeys_def
proof (intro allI impI)
  fix w :: "('d, 'h) world"
  assume w: "rely R w"
  obtain r w' where mw: "m w = (r, w')" by fastforce
  with obeysD [OF assms(1) w] have 1: "R (w_db w) (w_db w')" "rely R w'" by auto
  from obeys_others [OF assms(1) w] mw have 2: "set (w_others w') \<subseteq> set (w_others w)" by simp
  from obeysD [OF assms(2) 1(2)] obeys_others [OF assms(2) 1(2)] 1(1) 2
  show "R (w_db w) (w_db (snd (attempt m k w))) \<and>
      set (w_others (snd (attempt m k w))) \<subseteq> set (w_others w)"
    unfolding attempt_def mw using R_trans by fastforce
qed

lemma obeys_bnd:
  fixes m :: "('d, 'h, 'a) prog"
  assumes "obeys R m" and "\<And>a. obeys R (k a)"
  shows "obeys R (bnd m k)"
proof -
  have "obeys R (case r of Inl e \<Rightarrow> raise e | Inr a \<Rightarrow> k a)" for r
    by (cases r) (simp_all add: obeys_raise assms(2))
  then show ?thesis unfolding bnd_attempt by (rule obeys_attempt [OF assms(1)])
qed

lemma obeys_in_tx:
  assumes "\<And>d. R d (snd (f d))"
  shows "obeys R (in_tx f :: ('d, 'h, 'a) prog)"
proof -
  have "R d d'" if "f d = (r, d')" for d r d'
    using assms [of d] that by simp
  then show ?thesis
    by (auto simp: obeys_def in_tx_def Let_def R_refl split: prod.splits)
qed

lemma interfere_ok:
  fixes w :: "('d, 'h) world"
  shows "rely R w \<Longrightarrow>
    R (w_db w) (w_db (interfere w)) \<and> rely R (interfere w) \<and> set (w_others (interfere w)) \<subseteq> set (w_others w)"
  by (auto simp: interfere_def rely_def R_refl split: list.splits)

lemma obeys_stmt:
  assumes "\<And>d. R d (snd (f d))"
  shows "obeys R (stmt f :: ('d, 'h, 'a) prog)"
  unfolding obeys_def
proof (intro allI impI)
  fix w :: "('d, 'h) world"
  assume "rely R w"
  note i = interfere_ok [OF this]
  from i have "rely R (interfere w)" by simp
  with i obeys_in_tx [of f, OF assms] have
    "R (w_db (interfere w)) (w_db (snd (in_tx f (interfere w))))"
    "set (w_others (snd (in_tx f (interfere w)))) \<subseteq> set (w_others (interfere w))"
    unfolding obeys_def by blast+
  with i show "R (w_db w) (w_db (snd (stmt f w))) \<and> set (w_others (snd (stmt f w))) \<subseteq> set (w_others w)"
    unfolding stmt_def using R_trans by blast
qed

lemma obeys_transaction:
  fixes m :: "('d, 'h, 'a) prog"
  assumes m: "obeys R m"
  shows "obeys R (transaction m)"
  unfolding obeys_def
proof (intro allI impI)
  fix w :: "('d, 'h) world"
  assume "rely R w"
  note i = interfere_ok [OF this]
  define w1 where "w1 = drop_fault (interfere w)"
  have w1: "w_db w1 = w_db (interfere w)" "w_others w1 = w_others (interfere w)" "rely R w1"
    using i by (simp_all add: w1_def drop_fault_def rely_def)
  obtain r w2 where mw: "m w1 = (r, w2)" by fastforce
  with obeysD [OF m w1(3)] obeys_others [OF m w1(3)]
  have "R (w_db w1) (w_db w2)" "set (w_others w2) \<subseteq> set (w_others w1)" by simp_all
  with i w1 have 2: "R (w_db w) (w_db w2)" "R (w_db w) (w_db w1)" "set (w_others w2) \<subseteq> set (w_others w)"
      "set (w_others w1) \<subseteq> set (w_others w)"
    using R_trans by auto
  have "w_db (snd (transaction m w)) \<in> {w_db w1, w_db w2} \<and>
      w_others (snd (transaction m w)) \<in> {w_others w1, w_others w2}"
    using mw by (cases r) (simp_all add: transaction_def tx_mark Let_def w1_def [symmetric])
  with 2 show "R (w_db w) (w_db (snd (transaction m w))) \<and>
      set (w_others (snd (transaction m w))) \<subseteq> set (w_others w)"
    by auto
qed

lemma obeys_for_each:
  assumes "\<And>x. obeys R (body x :: ('d, 'h, unit) prog)"
  shows "obeys R (for_each body xs)"
  by (induction xs) (simp_all add: obeys_ret obeys_bnd assms)

lemma obeys_if:
  "obeys R m \<Longrightarrow> obeys R n \<Longrightarrow> obeys R (if b then m else n :: ('d, 'h, 'a) prog)"
  by simp

lemma obeys_sum:
  "(\<And>e. obeys R (m e)) \<Longrightarrow> (\<And>a. obeys R (n a)) \<Longrightarrow>
   obeys R ((case s of Inl e \<Rightarrow> m e | Inr a \<Rightarrow> n a) :: ('d, 'h, 'a) prog)"
  by (cases s) simp_all

lemma obeys_option:
  "obeys R m \<Longrightarrow> (\<And>a. obeys R (n a)) \<Longrightarrow>
   obeys R ((case s of None \<Rightarrow> m | Some a \<Rightarrow> n a) :: ('d, 'h, 'a) prog)"
  by (cases s) simp_all

lemmas obeys_rules = obeys_ret obeys_raise obeys_clock obeys_attempt obeys_bnd
  obeys_in_tx obeys_stmt obeys_transaction obeys_for_each obeys_if obeys_sum
  obeys_option

end

section \<open>Relations that hold under what a program knows\<close>

text \<open>\<open>obeys_in R K m\<close>: a run of \<open>m\<close> from tables where \<open>K\<close> holds moves them along \<open>R\<close>.  \<open>K\<close> is
  what the program has learned by reading, so it has to be stable under \<open>R\<close>.\<close>

definition obeys_in :: "('d \<Rightarrow> 'd \<Rightarrow> bool) \<Rightarrow> ('d \<Rightarrow> bool) \<Rightarrow> ('d, 'h, 'a) prog \<Rightarrow> bool" where
  "obeys_in R K m \<longleftrightarrow> (\<forall>w. rely R w \<longrightarrow> K (w_db w) \<longrightarrow>
     R (w_db w) (w_db (snd (m w))) \<and> set (w_others (snd (m w))) \<subseteq> set (w_others w))"

text \<open>A successful end in \<open>S\<close>; inside a transaction nothing else has to be said of a failure.\<close>

definition okay :: "('d \<Rightarrow> bool) \<Rightarrow> 'a outcome \<Rightarrow> 'd \<Rightarrow> bool" where
  "okay S r d \<longleftrightarrow> (\<forall>a. r = Inr a \<longrightarrow> S d)"

lemma okay_simps [simp]: "okay S (Inl e) d" "okay S (Inr a) d = S d"
  by (simp_all add: okay_def)

lemma tx_ret: "S d \<Longrightarrow> triple R ((=) d) (ret a) (okay S)"
  by (rule triple_ret) simp

lemma tx_raise: "triple R P (raise e) (okay S)"
  by (rule triple_raise) simp

lemma tx_last: "(\<And>a d'. f d = (Inr a, d') \<Longrightarrow> S d') \<Longrightarrow> triple R ((=) d) (in_tx f) (okay S)"
  by (rule triple_in_tx, rename_tac d0 r d', case_tac r) auto

lemma tx_bnd:
  assumes "\<And>a d'. f d = (Inr a, d') \<Longrightarrow> triple R ((=) d') (k a) (okay S)"
  shows "triple R ((=) d) (bnd (in_tx f) k) (okay S)"
proof (rule triple_bnd)
  show "triple R ((=) d) (in_tx f) (\<lambda>r d'. r = Inl SysFault \<or> f d = (r, d'))"
    by (rule triple_in_tx) auto
  show "triple R (\<lambda>d'. Inr a = Inl SysFault \<or> f d = (Inr a, d')) (k a) (okay S)" for a
    using assms [of a] by (cases "f d") (auto simp: triple_def)
qed simp

lemma tx_attempt:
  assumes "\<And>r d'. f d = (r, d') \<Longrightarrow> triple R ((=) d') (k r) (okay S)"
    and "triple R ((=) d) (k (Inl SysFault)) (okay S)"
  shows "triple R ((=) d) (attempt (in_tx f) k) (okay S)"
proof (rule triple_attempt)
  show "triple R ((=) d) (in_tx f) (\<lambda>r d'. r = Inl SysFault \<and> d' = d \<or> f d = (r, d'))"
    by (rule triple_in_tx) auto
  show "triple R (\<lambda>d'. r = Inl SysFault \<and> d' = d \<or> f d = (r, d')) (k r) (okay S)" for r
    using assms by (cases "f d") (auto simp: triple_def)
qed

lemma tx_clock: "(\<And>t. triple R ((=) d) (k t) Q) \<Longrightarrow> (\<And>e d. Q (Inl e) d) \<Longrightarrow> triple R ((=) d) (bnd clock k) Q"
  by (rule triple_bnd [OF triple_clock [where Q = "\<lambda>_. (=) d"]]) auto

context table_relation
begin

lemma in_obeys: "obeys R m \<Longrightarrow> obeys_in R K m"
  by (auto simp: obeys_in_def obeys_def)

lemma in_attempt:
  fixes m :: "('d, 'h, 'a) prog"
  assumes m: "obeys_in R K m" and K: "stable R K" and k: "\<And>r. obeys_in R K (k r)"
  shows "obeys_in R K (attempt m k)"
  unfolding obeys_in_def
proof (intro allI impI)
  fix w :: "('d, 'h) world" assume w: "rely R w" "K (w_db w)"
  obtain r w' where mw: "m w = (r, w')" by fastforce
  with m w have 1: "R (w_db w) (w_db w')" "set (w_others w') \<subseteq> set (w_others w)"
    unfolding obeys_in_def by (metis snd_conv)+
  then have "rely R w'" "K (w_db w')" using w K by (auto simp: rely_def stable_def)
  with k have "R (w_db w') (w_db (snd (k r w')))" "set (w_others (snd (k r w'))) \<subseteq> set (w_others w')"
    unfolding obeys_in_def by blast+
  with 1 R_trans show "R (w_db w) (w_db (snd (attempt m k w))) \<and>
      set (w_others (snd (attempt m k w))) \<subseteq> set (w_others w)"
    by (auto simp: attempt_def mw)
qed

lemma in_bnd:
  fixes m :: "('d, 'h, 'a) prog"
  assumes "obeys_in R K m" and "stable R K" and "\<And>a. obeys_in R K (k a)"
  shows "obeys_in R K (bnd m k)"
  unfolding bnd_attempt
proof (rule in_attempt [OF assms(1,2)])
  show "obeys_in R K (case r of Inl e \<Rightarrow> raise e | Inr a \<Rightarrow> k a)" for r
    by (cases r) (simp_all add: assms(3) in_obeys obeys_raise)
qed

lemma in_stmt:
  assumes K: "stable R K" and f: "\<And>d. K d \<Longrightarrow> R d (snd (f d))"
  shows "obeys_in R K (stmt f :: ('d, 'h, 'a) prog)"
  unfolding obeys_in_def
proof (intro allI impI)
  fix w :: "('d, 'h) world" assume w: "rely R w" "K (w_db w)"
  note i = interfere_ok [OF w(1)] interfere_stable [OF w(1) K w(2)]
  obtain r d' where fd: "f (w_db (interfere w)) = (r, d')" by fastforce
  with f i have "R (w_db (interfere w)) d'" by (metis snd_conv)
  with i fd R_trans show "R (w_db w) (w_db (snd (stmt f w))) \<and> set (w_others (snd (stmt f w))) \<subseteq> set (w_others w)"
    by (auto simp: stmt_def in_tx_def Let_def)
qed

text \<open>What a reading statement yields is known to what follows.\<close>

lemma in_read:
  assumes K: "stable R K" and K': "\<And>r. stable R (K' r)" and same: "\<And>d. snd (f d) = d"
    and get: "\<And>d r. K d \<Longrightarrow> fst (f d) = r \<Longrightarrow> K' r d" "\<And>d. K d \<Longrightarrow> K' (Inl SysFault) d"
    and k: "\<And>r. obeys_in R (K' r) (k r)"
  shows "obeys_in R K (attempt (stmt f :: ('d, 'h, 'a) prog) k)"
  unfolding obeys_in_def
proof (intro allI impI)
  fix w :: "('d, 'h) world" assume w: "rely R w" "K (w_db w)"
  note i = interfere_ok [OF w(1)] interfere_stable [OF w(1) K w(2)]
  obtain r w' where s: "stmt f w = (r, w')" by fastforce
  have fd: "f d = (fst (f d), d)" for d using same [of d] by (metis prod.collapse)
  have 1: "w_db w' = w_db (interfere w)" "w_others w' = w_others (interfere w)" "K' r (w_db (interfere w))"
    using s i get fd [of "w_db (interfere w)"]
    by (auto simp: stmt_def in_tx_def Let_def split: if_splits prod.splits)
  then have "rely R w'" "K' r (w_db w')" using i by (auto simp: rely_def)
  with k have "R (w_db w') (w_db (snd (k r w')))" "set (w_others (snd (k r w'))) \<subseteq> set (w_others w')"
    unfolding obeys_in_def by blast+
  with 1 i R_trans show "R (w_db w) (w_db (snd (attempt (stmt f) k w))) \<and>
      set (w_others (snd (attempt (stmt f) k w))) \<subseteq> set (w_others w)"
    by (fastforce simp: attempt_def s)
qed

text \<open>The statements of a transaction need not keep to \<open>R\<close> one by one, only all of them together.\<close>

lemma in_transaction:
  fixes m :: "('d, 'h, 'a) prog"
  assumes K: "stable R K" and m: "\<And>d. K d \<Longrightarrow> triple R ((=) d) m (okay (R d))"
  shows "obeys_in R K (transaction m)"
  unfolding obeys_in_def
proof (intro allI impI)
  fix w :: "('d, 'h) world" assume w: "rely R w" "K (w_db w)"
  note i = interfere_ok [OF w(1)] interfere_stable [OF w(1) K w(2)]
  let ?w1 = "drop_fault (interfere w)"
  have w1: "rely R ?w1" "w_db ?w1 = w_db (interfere w)" using i by (simp_all add: rely_def)
  obtain r w2 where mw: "m ?w1 = (r, w2)" by fastforce
  have "okay (R (w_db (interfere w))) r (w_db w2) \<and> set (w_others w2) \<subseteq> set (w_others (interfere w))"
  proof -
    have "K (w_db (interfere w))" using i(2) by simp
    from tripleD [OF m [OF this] w1(1) _ mw] w1(2) show ?thesis by simp
  qed
  with transaction_db [of m w, OF mw] i have
    "w_db (snd (transaction m w)) = w_db (interfere w) \<or>
     R (w_db (interfere w)) (w_db (snd (transaction m w)))"
    "set (w_others (snd (transaction m w))) \<subseteq> set (w_others w)"
    by auto
  then have "R (w_db (interfere w)) (w_db (snd (transaction m w)))" "set (w_others (snd (transaction m w))) \<subseteq> set (w_others w)"
    using R_refl by auto
  with R_trans [OF conjunct1 [OF i(1)]] show "R (w_db w) (w_db (snd (transaction m w))) \<and>
      set (w_others (snd (transaction m w))) \<subseteq> set (w_others w)"
    by simp
qed

lemma in_for_each:
  assumes K: "stable R K" and body: "\<And>x. x \<in> set xs \<Longrightarrow> obeys_in R K (body x :: ('d, 'h, unit) prog)"
  shows "obeys_in R K (for_each body xs)"
  using body
proof (induction xs)
  case (Cons x xs)
  then have "obeys_in R K (body x)" "obeys_in R K (for_each body xs)" by auto
  then show ?case by (simp add: in_bnd [OF _ K])
qed (simp add: in_obeys obeys_ret)

end

section \<open>Runs without faults and without interference\<close>

definition quiet :: "('d, 'h) world \<Rightarrow> bool" where
  "quiet w \<longleftrightarrow> w_faults w = [] \<and> w_others w = [] \<and> w_clock w = []"

lemma quiet_ret [simp]: "ret a w = (Inr a, w)" by (simp add: ret_def)
lemma quiet_raise [simp]: "raise e w = (Inl e, w)" by (simp add: raise_def)

lemma quiet_clock: "quiet w \<Longrightarrow> clock w = (Inr (w_now w), w)"
  by (simp add: clock_def quiet_def)

lemma no_fault_left: "w_faults w = [] \<Longrightarrow> w\<lparr>w_faults := []\<rparr> = w"
  by (cases w) simp

lemma quiet_in_tx: "quiet w \<Longrightarrow> in_tx f w = (case f (w_db w) of (r, d) \<Rightarrow> (r, w\<lparr>w_db := d\<rparr>))"
  by (simp add: in_tx_def quiet_def Let_def no_fault_left)

lemma quiet_stmt: "quiet w \<Longrightarrow> stmt f w = (case f (w_db w) of (r, d) \<Rightarrow> (r, w\<lparr>w_db := d\<rparr>))"
proof -
  assume q: "quiet w"
  then have "interfere w = w" by (simp add: interfere_def quiet_def)
  then show ?thesis using q by (simp add: stmt_def quiet_in_tx)
qed

lemma quiet_transaction:
  fixes w :: "('d, 'h) world"
  shows "quiet w \<Longrightarrow> quiet (snd (m w)) \<Longrightarrow> transaction m w =
    (case m w of (Inl e, w2) \<Rightarrow> (Inl e, w2\<lparr>w_db := w_db w\<rparr>) | (Inr a, w2) \<Rightarrow> (Inr a, w2))"
proof -
  assume q: "quiet w" "quiet (snd (m w))"
  have "drop_fault v = v" if "quiet v" for v :: "('d, 'h) world"
    using that by (simp add: drop_fault_def quiet_def no_fault_left)
  moreover have "interfere w = w" using q by (simp add: interfere_def quiet_def)
  moreover have "w_faults v = []" if "quiet v" for v :: "('d, 'h) world"
    using that by (simp add: quiet_def)
  ultimately show ?thesis
    using q by (cases "m w") (simp add: transaction_def tx_mark split: sum.splits)
qed

lemma quiet_db [simp]: "quiet (w\<lparr>w_db := d\<rparr>) = quiet w"
  by (simp add: quiet_def)

lemma quiet_hub [simp]: "quiet (w\<lparr>w_hub := h\<rparr>) = quiet w"
  by (simp add: quiet_def)

lemmas quiet_run = quiet_clock quiet_in_tx quiet_stmt quiet_transaction bnd_def attempt_def


section \<open>Inverting a run\<close>

lemma transaction_outcome:
  assumes "transaction m w = (r, w')" and "w_others w = []"
  shows "(\<exists>e. r = Inl e \<and> w_db w' = w_db w) \<or>
    (\<exists>a w2. r = Inr a \<and> m (drop_fault w) = (Inr a, w2) \<and> w_db w' = w_db w2)"
proof -
  have "interfere w = w" using assms(2) by (simp add: interfere_def)
  with assms(1) show ?thesis
    by (auto simp: transaction_def tx_mark split: prod.splits sum.splits if_splits)
qed

lemma bnd_Inr: "bnd m k w = (Inr a, w') \<longleftrightarrow> (\<exists>b w1. m w = (Inr b, w1) \<and> k b w1 = (Inr a, w'))"
  by (auto simp: bnd_def split: prod.splits sum.splits)

lemma bnd_Inl: "bnd m k w = (Inl e, w') \<longleftrightarrow> m w = (Inl e, w') \<or> (\<exists>b w1. m w = (Inr b, w1) \<and> k b w1 = (Inl e, w'))"
  by (auto simp: bnd_def split: prod.splits sum.splits)

lemma in_tx_Inr: "in_tx f w = (Inr a, w') \<Longrightarrow> f (w_db w) = (Inr a, w_db w')"
  by (auto simp: in_tx_def Let_def split: if_splits prod.splits)

lemma clock_run: "clock w = (r, w') \<Longrightarrow>
  (\<exists>t. r = Inr t) \<and> w_db w' = w_db w \<and> w_hub w' = w_hub w \<and> w_others w' = w_others w"
  by (auto simp: clock_def split: list.splits)

lemma stmt_run:
  "stmt f w = (r, w') \<Longrightarrow> w_others w = [] \<Longrightarrow>
   w_others w' = [] \<and> w_hub w' = w_hub w \<and> w_clock w' = w_clock w \<and> w_now w' = w_now w \<and>
   w_faults w' = tl (w_faults w) \<and>
   (r = Inl SysFault \<and> w_db w' = w_db w \<and> w_faults w \<noteq> [] \<or> f (w_db w) = (r, w_db w'))"
  by (auto simp: stmt_def interfere_def in_tx_def Let_def split: if_splits prod.splits)

text \<open>The branches a run took.\<close>

lemma attempt_run: "attempt m k w = R \<longleftrightarrow> (\<exists>r w1. m w = (r, w1) \<and> k r w1 = R)"
  by (auto simp: attempt_def split: prod.splits)

lemma sum_run: "(case x of Inl a \<Rightarrow> f a | Inr b \<Rightarrow> g b) w = R \<longleftrightarrow>
    (\<exists>a. x = Inl a \<and> f a w = R) \<or> (\<exists>b. x = Inr b \<and> g b w = R)"
  by (cases x) auto

lemma option_run: "(case x of None \<Rightarrow> m | Some b \<Rightarrow> g b) w = R \<longleftrightarrow>
    (x = None \<and> m w = R) \<or> (\<exists>b. x = Some b \<and> g b w = R)"
  by (cases x) auto

lemma if_run: "(if b then m else n) w = R \<longleftrightarrow> (b \<and> m w = R) \<or> (\<not> b \<and> n w = R)"
  by auto

lemmas run_cases = attempt_run sum_run option_run if_run bnd_Inr


text \<open>A reading statement, when it succeeds.\<close>

lemma read_run:
  "stmt (\<lambda>d. (Inr (g d), d)) w = (Inr x, w') \<Longrightarrow> w_others w = [] \<Longrightarrow>
   x = g (w_db w) \<and> w_db w' = w_db w \<and> w_others w' = [] \<and> w_hub w' = w_hub w"
  by (auto dest: stmt_run)

lemma bnd_read:
  "bnd (stmt (\<lambda>d. (Inr (g d), d))) k w = (Inr a, w') \<Longrightarrow> w_others w = [] \<Longrightarrow>
   \<exists>w1. w_db w1 = w_db w \<and> w_others w1 = [] \<and> w_hub w1 = w_hub w \<and> k (g (w_db w)) w1 = (Inr a, w')"
proof -
  assume b: "bnd (stmt (\<lambda>d. (Inr (g d), d))) k w = (Inr a, w')" and w: "w_others w = []"
  from b obtain x w1 where s: "stmt (\<lambda>d. (Inr (g d), d)) w = (Inr x, w1)" and k: "k x w1 = (Inr a, w')"
    by (auto simp: bnd_Inr)
  from read_run [OF s w] k show ?thesis by auto
qed

lemma obeys_alone:
  assumes "obeys R m" "w_others w = []"
  shows "R (w_db w) (w_db (snd (m w))) \<and> w_others (snd (m w)) = []"
proof -
  have "rely R w" using assms(2) by (simp add: rely_def)
  with obeysD [OF assms(1) this] obeys_others [OF assms(1) this] assms(2) show ?thesis by simp
qed

end
