(* ===== verification/VF_Models.thy ===== *)
theory VF_Models
  imports VF_World VF_Protocol
begin

text \<open>
  The rows of the master's database (internal/master/db/models.go) and the tables the modelled
  services share.  A table is the list of its rows in the order they were inserted; a nullable
  \<^verbatim>\<open>*time.Time\<close> column is an option.  Columns of JSON text stay text.
\<close>

record agent =
  ag_id :: string
  ag_name :: string
  ag_enroll_token :: string
  ag_agent_token :: string
  ag_status :: string
  ag_last_seen_at :: "time option"
  ag_system_info :: string
  ag_tags :: string
  ag_created_at :: time
  ag_updated_at :: time

record agent_command =
  ac_id :: string
  ac_agent_id :: string
  ac_type :: string
  ac_status :: string
  ac_message_id :: string
  ac_payload :: string
  ac_result :: string
  ac_error_message :: string
  ac_attempts :: int
  ac_policy_id :: string
  ac_policy_updated_at :: "time option"
  ac_storage_id :: string
  ac_deadline_at :: "time option"
  ac_dispatched_at :: "time option"
  ac_completed_at :: "time option"
  ac_created_at :: time
  ac_updated_at :: time

record rollout =
  ro_id :: string
  ro_target_version :: string
  ro_github_repo :: string
  ro_target_tags :: string
  ro_target_agent_ids :: string
  ro_canary_count :: int
  ro_batch_size :: int
  ro_status :: string
  ro_failure_reason :: string
  ro_created_by_type :: string
  ro_created_by_id :: string
  ro_created_by_name :: string
  ro_started_at :: "time option"
  ro_completed_at :: "time option"
  ro_created_at :: time
  ro_updated_at :: time

record rollout_item =
  it_id :: string
  it_rollout_id :: string
  it_agent_id :: string
  it_phase :: string
  it_batch_index :: int
  it_status :: string
  it_current_version :: string
  it_target_version :: string
  it_architecture :: string
  it_message_id :: string
  it_error :: string
  it_skip_reason :: string
  it_last_seen_version :: string
  it_started_at :: "time option"
  it_completed_at :: "time option"
  it_deadline_at :: "time option"
  it_created_at :: time
  it_updated_at :: time

record task_history =
  th_id :: string
  th_agent_id :: string
  th_type :: string
  th_status :: string
  th_snapshot_id :: string
  th_artifact_path :: string
  th_artifact_name :: string
  th_artifact_size :: int
  th_artifact_content_type :: string
  th_backup_mode :: string
  th_archive_format :: string
  th_message_id :: string
  th_command_id :: string
  th_policy_id :: string
  th_policy_name :: string
  th_storage_id :: string
  th_docker :: string
  th_database :: string
  th_verification :: string
  th_manifest :: string
  th_artifact_naming :: string
  th_restore_items :: string
  th_restore_progress :: string
  th_started_at :: "time option"
  th_finished_at :: "time option"
  th_duration_ms :: int
  th_repo_size :: int
  th_error_log :: string
  th_created_at :: time
  th_updated_at :: time

record snapshot_row =
  sn_id :: string
  sn_agent_id :: string
  sn_snapshot_id :: string
  sn_timestamp :: time
  sn_paths :: string
  sn_size :: int
  sn_created_at :: time

record audit_event =
  au_actor_type :: string
  au_actor_id :: string
  au_actor_name :: string
  au_actor_role :: string
  au_token_id :: string
  au_action :: string
  au_target_type :: string
  au_target_id :: string
  au_result :: string
  au_message :: string

record tables =
  db_agents :: "agent list"
  db_commands :: "agent_command list"
  db_tasks :: "task_history list"
  db_rollouts :: "rollout list"
  db_items :: "rollout_item list"
  db_snapshots :: "snapshot_row list"
  db_audit :: "audit_event list"

text \<open>The primary key constraint of a table, checked by an INSERT.\<close>

definition insert_row :: "('r \<Rightarrow> string) \<Rightarrow> 'r \<Rightarrow> 'r list \<Rightarrow> 'r list outcome" where
  "insert_row key r rows =
     (if key r \<in> key ` set rows then Inl SysFault else Inr (rows @ [r]))"

text \<open>The keys the schema declares unique.\<close>

definition keys_unique :: "tables \<Rightarrow> bool" where
  "keys_unique d \<longleftrightarrow>
     distinct (map ag_id (db_agents d)) \<and>
     distinct (map ac_id (db_commands d)) \<and> distinct (map ac_message_id (db_commands d)) \<and>
     distinct (map th_id (db_tasks d)) \<and> distinct (map ro_id (db_rollouts d)) \<and>
     distinct (map it_id (db_items d))"

lemma insert_row_distinct:
  "insert_row key r rows = Inr rows' \<Longrightarrow> distinct (map key rows) \<Longrightarrow> distinct (map key rows')"
  by (auto simp: insert_row_def split: if_splits)

end
