(* ===== verification/VF_Link.thy ===== *)
theory VF_Link
  imports VF_World VF_Protocol
begin

text \<open>
  The interface \<^verbatim>\<open>Hub\<close> that the command service and the rollout service use to reach an
  agent: whether it is online, and sending it a message.  The service code takes the
  operations as an argument; the locale states what it may rely on, and the WebSocket hub of
  internal/master/ws provides it.
\<close>

record 'h hub_ops =
  hub_online :: "'h \<Rightarrow> string \<Rightarrow> bool"
  hub_send :: "'h \<Rightarrow> string \<Rightarrow> message \<Rightarrow> unit outcome \<times> 'h"

definition is_online :: "'h hub_ops \<Rightarrow> string \<Rightarrow> ('d, 'h, bool) prog" where
  "is_online ops a w = (Inr (hub_online ops (w_hub w) a), w)"

definition send_to :: "'h hub_ops \<Rightarrow> string \<Rightarrow> message \<Rightarrow> ('d, 'h, unit) prog" where
  "send_to ops a m w = (case hub_send ops (w_hub w) a m of (r, h) \<Rightarrow> (r, w\<lparr>w_hub := h\<rparr>))"

lemma triple_is_online: "(\<And>b d. P d \<Longrightarrow> Q (Inr b) d) \<Longrightarrow> triple R P (is_online ops a) Q"
  by (simp add: triple_def is_online_def)

lemma triple_send_to: "(\<And>r d. P d \<Longrightarrow> Q r d) \<Longrightarrow> triple R P (send_to ops a m) Q"
  by (auto simp: triple_def send_to_def split: prod.splits)

context table_relation
begin

lemma obeys_is_online: "obeys R (is_online ops a :: ('d, 'h, bool) prog)"
  by (simp add: obeys_def is_online_def R_refl)

lemma obeys_send_to: "obeys R (send_to ops a m :: ('d, 'h, unit) prog)"
  by (auto simp: obeys_def send_to_def R_refl split: prod.splits)

end

text \<open>The contract: what was delivered to an agent's connection so far (\<open>delivered\<close>) grows by the
  message exactly when Send succeeds, Send succeeds only for an agent that is online, and sending
  to one agent leaves the deliveries to the others alone.\<close>

locale agent_link =
  fixes ops :: "'h hub_ops" and delivered :: "'h \<Rightarrow> string \<Rightarrow> message list" and ok :: "'h \<Rightarrow> bool"
  assumes ok_send: "ok h \<Longrightarrow> ok (snd (hub_send ops h a m))"
    and sent: "ok h \<Longrightarrow> hub_send ops h a m = (Inr (), h') \<Longrightarrow> delivered h' a = delivered h a @ [m]"
    and not_sent: "ok h \<Longrightarrow> hub_send ops h a m = (Inl e, h') \<Longrightarrow> delivered h' a = delivered h a"
    and other: "ok h \<Longrightarrow> b \<noteq> a \<Longrightarrow> delivered (snd (hub_send ops h a m)) b = delivered h b"
    and offline: "ok h \<Longrightarrow> \<not> hub_online ops h a \<Longrightarrow>
      hub_send ops h a m = (Inl (Err ''agent not connected''), h)"
begin

lemma send_ok_online: "ok h \<Longrightarrow> hub_send ops h a m = (Inr (), h') \<Longrightarrow> hub_online ops h a"
  using offline by fastforce

lemma send_grows:
  "ok h \<Longrightarrow> hub_send ops h a m = (r, h') \<Longrightarrow>
   delivered h' b = delivered h b @ (if b = a \<and> r = Inr () then [m] else [])"
  using sent not_sent other by (cases r) (auto, (metis snd_conv)+)

end

end
