(* ===== verification/VF_Rollouts.thy ===== *)
theory VF_Rollouts
  imports VF_Models VF_Link
begin

text \<open>
  Agent upgrade rollouts (internal/master/agentrollout/service.go): targets are chosen by id or
  tag, planned into canaries and batches, and upgraded batch by batch as heartbeats confirm the
  target version.  The hub's SendAndWait and the JSON columns are parameters of
  \<open>rollout_service\<close>.
\<close>

abbreviation RolloutStatusPending :: string where "RolloutStatusPending \<equiv> ''pending''"
abbreviation RolloutStatusRunning :: string where "RolloutStatusRunning \<equiv> ''running''"
abbreviation RolloutStatusSucceeded :: string where "RolloutStatusSucceeded \<equiv> ''succeeded''"
abbreviation RolloutStatusFailed :: string where "RolloutStatusFailed \<equiv> ''failed''"
abbreviation RolloutStatusCancelled :: string where "RolloutStatusCancelled \<equiv> ''cancelled''"

abbreviation ItemStatusPending :: string where "ItemStatusPending \<equiv> ''pending''"
abbreviation ItemStatusRunning :: string where "ItemStatusRunning \<equiv> ''running''"
abbreviation ItemStatusSuccess :: string where "ItemStatusSuccess \<equiv> ''success''"
abbreviation ItemStatusFailed :: string where "ItemStatusFailed \<equiv> ''failed''"
abbreviation ItemStatusSkipped :: string where "ItemStatusSkipped \<equiv> ''skipped''"

abbreviation PhaseCanary :: string where "PhaseCanary \<equiv> ''canary''"
abbreviation PhaseBatch :: string where "PhaseBatch \<equiv> ''batch''"

abbreviation DefaultCanaryCount :: int where "DefaultCanaryCount \<equiv> 1"
abbreviation DefaultBatchSize :: int where "DefaultBatchSize \<equiv> 5"
abbreviation MaxCanaryCount :: int where "MaxCanaryCount \<equiv> 10"
abbreviation MaxBatchSize :: int where "MaxBatchSize \<equiv> 50"

abbreviation ErrNoTargets :: string where "ErrNoTargets \<equiv> ''rollout target selection is required''"
abbreviation ErrNoMatchedTargets :: string where
  "ErrNoMatchedTargets \<equiv> ''rollout target selection matched no agents''"
abbreviation ErrDuplicateActiveTarget :: string where
  "ErrDuplicateActiveTarget \<equiv> ''agent already has an active rollout''"

definition rolloutTerminal :: "string \<Rightarrow> bool" where
  "rolloutTerminal status \<longleftrightarrow>
     status \<in> {RolloutStatusSucceeded, RolloutStatusFailed, RolloutStatusCancelled}"

definition rollout_active :: "string \<Rightarrow> bool" where
  "rollout_active status \<longleftrightarrow> status \<in> {RolloutStatusPending, RolloutStatusRunning}"

definition item_open :: "string \<Rightarrow> bool" where
  "item_open status \<longleftrightarrow> status \<in> {ItemStatusPending, ItemStatusRunning}"

definition positiveOrDefault :: "int \<Rightarrow> int \<Rightarrow> int" where
  "positiveOrDefault value fallback = (if value > 0 then value else fallback)"

section \<open>What the service is built from\<close>

text \<open>The channel SendAndWait returns yields a reply, is closed by the timeout, or the caller's
  context ends first.\<close>

datatype ack = AckReply message | AckClosed | AckCtxDone

record system_info =
  inf_version :: string
  inf_arch :: string

record 'h rollout_service =
  rs_online :: "'h \<Rightarrow> string \<Rightarrow> bool"
  rs_send_and_wait :: "'h \<Rightarrow> string \<Rightarrow> message \<Rightarrow> duration \<Rightarrow> ack outcome \<times> 'h"
  rs_new_message_id :: "rollout_item \<Rightarrow> string outcome"
  rs_json_update :: "string \<Rightarrow> string \<Rightarrow> string outcome"
  rs_parse_ack :: "string \<Rightarrow> (bool \<times> string) option"
  rs_json_strings :: "string list \<Rightarrow> string"
  rs_parse_strings :: "string \<Rightarrow> string list option"
  rs_parse_info :: "string \<Rightarrow> system_info"
  rs_ack_timeout :: duration
  rs_item_timeout :: duration

record actor =
  act_type :: string
  act_id :: string
  act_name :: string

record create_rollout_input =
  cri_target_version :: string
  cri_github_repo :: string
  cri_target_tags :: "string list"
  cri_target_agent_ids :: "string list"
  cri_canary_count :: int
  cri_batch_size :: int
  cri_actor :: actor

type_synonym ('h, 'a) rollout_prog = "(tables, 'h, 'a) prog"

section \<open>Input\<close>

definition normalizeIDs :: "string list \<Rightarrow> string list" where
  "normalizeIDs ids = sort (first_occurrences {} (filter (\<lambda>v. v \<noteq> '''') (map trim_space ids)))"

definition tag_char :: "char \<Rightarrow> bool" where
  "tag_char c \<longleftrightarrow> is_lower c \<or> is_digit c \<or> c \<in> set ''-_.:''"

fun check_tags :: "string list \<Rightarrow> string list outcome" where
  "check_tags [] = Inr []"
| "check_tags (v # vs) =
     (let tag = to_lower (trim_space v)
      in if tag = '''' then check_tags vs
         else if length tag > 40 then Inl (Err ''tag is too long'')
         else if \<not> list_all tag_char tag then Inl (Err ''tag contains unsupported characters'')
         else case check_tags vs of Inl e \<Rightarrow> Inl e | Inr ts \<Rightarrow> Inr (tag # ts))"

definition normalizeTags :: "string list \<Rightarrow> string list outcome" where
  "normalizeTags vs = (case check_tags vs of Inl e \<Rightarrow> Inl e | Inr ts \<Rightarrow> Inr (sort (first_occurrences {} ts)))"

definition normalizeCreateInput :: "create_rollout_input \<Rightarrow> create_rollout_input outcome" where
  "normalizeCreateInput i =
     (case normalizeTags (cri_target_tags i) of Inl e \<Rightarrow> Inl e | Inr tags \<Rightarrow>
      let version = trim_space (cri_target_version i);
          ids = normalizeIDs (cri_target_agent_ids i);
          canary = (if cri_canary_count i \<le> 0 then DefaultCanaryCount else cri_canary_count i);
          batch = (if cri_batch_size i \<le> 0 then DefaultBatchSize else cri_batch_size i)
      in if version = '''' then Inl (Err ''target version is required'')
         else if ids = [] \<and> tags = [] then Inl (Err ErrNoTargets)
         else if canary > MaxCanaryCount then Inl (Err ''canary count cannot exceed 10'')
         else if batch > MaxBatchSize then Inl (Err ''batch size cannot exceed 50'')
         else Inr (i\<lparr>cri_target_version := version, cri_github_repo := trim_space (cri_github_repo i),
                     cri_target_agent_ids := ids, cri_target_tags := tags,
                     cri_canary_count := canary, cri_batch_size := batch\<rparr>))"

definition agentTags :: "'h rollout_service \<Rightarrow> agent \<Rightarrow> string list" where
  "agentTags s a =
     (if trim_space (ag_tags a) = '''' then []
      else case rs_parse_strings s (ag_tags a) of None \<Rightarrow> []
      | Some tags \<Rightarrow> (case normalizeTags tags of Inl _ \<Rightarrow> [] | Inr ts \<Rightarrow> ts))"

definition hasAllTags :: "string list \<Rightarrow> string list \<Rightarrow> bool" where
  "hasAllTags tags required \<longleftrightarrow> required \<noteq> [] \<and> set required \<subseteq> set tags"

definition parseSystemInfo :: "'h rollout_service \<Rightarrow> string \<Rightarrow> system_info" where
  "parseSystemInfo s raw =
     (if trim_space raw = '''' then \<lparr>inf_version = '''', inf_arch = ''''\<rparr> else rs_parse_info s raw)"

section \<open>Targets and plan\<close>

text \<open>The agents are already ordered by name and id.  An id occurs once: it is the primary key.\<close>

fun matching_agents ::
  "'h rollout_service \<Rightarrow> string list \<Rightarrow> string list \<Rightarrow> string set \<Rightarrow> agent list \<Rightarrow> agent list" where
  "matching_agents s explicitIDs tags seen [] = []"
| "matching_agents s explicitIDs tags seen (a # agents) =
     (if ag_id a \<in> set explicitIDs \<or> hasAllTags (agentTags s a) tags then
        (if ag_id a \<notin> seen then a # matching_agents s explicitIDs tags (insert (ag_id a) seen) agents
         else matching_agents s explicitIDs tags seen agents)
      else matching_agents s explicitIDs tags seen agents)"

definition resolveTargets :: "'h rollout_service \<Rightarrow> string list \<Rightarrow> string list \<Rightarrow> ('h, agent list) rollout_prog" where
  "resolveTargets s explicitIDs tags =
     bnd (stmt (\<lambda>d. (Inr (sort_key ag_name (sort_key ag_id (db_agents d))), d))) (\<lambda>agents.
     ret (matching_agents s explicitIDs tags {} agents))"

definition new_item :: "agent \<Rightarrow> system_info \<Rightarrow> string \<Rightarrow> rollout_item" where
  "new_item a info targetVersion =
     \<lparr>it_id = '''', it_rollout_id = '''', it_agent_id = ag_id a, it_phase = '''', it_batch_index = 0,
      it_status = ItemStatusPending, it_current_version = inf_version info,
      it_target_version = targetVersion, it_architecture = inf_arch info, it_message_id = '''',
      it_error = '''', it_skip_reason = '''', it_last_seen_version = '''', it_started_at = None,
      it_completed_at = None, it_deadline_at = None, it_created_at = 0, it_updated_at = 0\<rparr>"

fun plan_items ::
  "'h rollout_service \<Rightarrow> string \<Rightarrow> int \<Rightarrow> int \<Rightarrow> time \<Rightarrow> int \<Rightarrow> agent list \<Rightarrow> rollout_item list" where
  "plan_items s targetVersion canaryCount batchSize now idx [] = []"
| "plan_items s targetVersion canaryCount batchSize now idx (a # agents) =
     (let info = parseSystemInfo s (ag_system_info a);
          item = new_item a info targetVersion;
          skip = (\<lambda>reason. item\<lparr>it_status := ItemStatusSkipped, it_skip_reason := reason,
                               it_completed_at := Some now\<rparr>)
      in if ag_status a \<noteq> ''online'' then
           skip ''agent offline'' # plan_items s targetVersion canaryCount batchSize now idx agents
         else if inf_version info = '''' then
           skip ''agent version unknown'' # plan_items s targetVersion canaryCount batchSize now idx agents
         else if inf_arch info = '''' then
           skip ''agent architecture unknown'' # plan_items s targetVersion canaryCount batchSize now idx agents
         else if inf_version info = targetVersion then
           item\<lparr>it_status := ItemStatusSuccess, it_last_seen_version := inf_version info,
                it_completed_at := Some now\<rparr>
             # plan_items s targetVersion canaryCount batchSize now idx agents
         else (if idx < canaryCount then item\<lparr>it_phase := PhaseCanary, it_batch_index := 0\<rparr>
               else item\<lparr>it_phase := PhaseBatch,
                         it_batch_index := (idx - canaryCount) div positiveOrDefault batchSize DefaultBatchSize + 1\<rparr>)
             # plan_items s targetVersion canaryCount batchSize now (idx + 1) agents)"

definition planItems ::
  "'h rollout_service \<Rightarrow> agent list \<Rightarrow> string \<Rightarrow> int \<Rightarrow> int \<Rightarrow> time \<Rightarrow> rollout_item list" where
  "planItems s agents targetVersion canaryCount batchSize now =
     plan_items s targetVersion canaryCount batchSize now 0 agents"

section \<open>Statements and audit\<close>

definition update_rollouts ::
  "(rollout \<Rightarrow> bool) \<Rightarrow> (rollout \<Rightarrow> rollout) \<Rightarrow> tables \<Rightarrow> unit outcome \<times> tables" where
  "update_rollouts p f d = (Inr (), d\<lparr>db_rollouts := update_rows p f (db_rollouts d)\<rparr>)"

definition update_items ::
  "(rollout_item \<Rightarrow> bool) \<Rightarrow> (rollout_item \<Rightarrow> rollout_item) \<Rightarrow> tables \<Rightarrow> unit outcome \<times> tables" where
  "update_items p f d = (Inr (), d\<lparr>db_items := update_rows p f (db_items d)\<rparr>)"

definition find_items :: "(rollout_item \<Rightarrow> bool) \<Rightarrow> tables \<Rightarrow> rollout_item list outcome \<times> tables" where
  "find_items p d = (Inr (filter p (db_items d)), d)"

definition count_items :: "(rollout_item \<Rightarrow> bool) \<Rightarrow> tables \<Rightarrow> nat outcome \<times> tables" where
  "count_items p d = (Inr (affected p (db_items d)), d)"

definition first_rollout :: "string \<Rightarrow> tables \<Rightarrow> rollout outcome \<times> tables" where
  "first_rollout rid d = (first_row ro_id (\<lambda>r. ro_id r = rid) (db_rollouts d), d)"

definition rollout_row :: "string \<Rightarrow> rollout \<Rightarrow> bool" where
  "rollout_row rid r \<longleftrightarrow> ro_id r = rid \<and> rollout_active (ro_status r)"

definition recordAudit :: "string \<Rightarrow> string \<Rightarrow> string \<Rightarrow> string \<Rightarrow> ('h, unit) rollout_prog" where
  "recordAudit action targetID result message =
     (if trim_space action = '''' then ret ()
      else attempt (stmt (\<lambda>d. (Inr (), d\<lparr>db_audit := db_audit d @
        [\<lparr>au_actor_type = '''', au_actor_id = '''', au_actor_name = '''', au_actor_role = '''',
          au_token_id = '''', au_action = action, au_target_type = ''agent_rollout'',
          au_target_id = targetID, au_result = (if trim_space result = '''' then ''success'' else result),
          au_message = take 500 message\<rparr>]\<rparr>))) (\<lambda>_. ret ()))"

definition recordSkippedItems :: "string \<Rightarrow> string \<Rightarrow> ('h, unit) rollout_prog" where
  "recordSkippedItems rolloutID message =
     attempt (stmt (find_items (\<lambda>i. it_rollout_id i = rolloutID \<and> it_status i = ItemStatusSkipped))) (\<lambda>r.
     case r of Inl _ \<Rightarrow> ret ()
     | Inr items \<Rightarrow>
        for_each (\<lambda>i. recordAudit ''agent_rollout.item_skipped'' (it_id i) ''success'' message) items)"

section \<open>Creation\<close>

text \<open>A database error in the conflict check counts as no conflict.\<close>

definition active_item :: "tables \<Rightarrow> rollout_item \<Rightarrow> bool" where
  "active_item d i \<longleftrightarrow> item_open (it_status i) \<and>
     (\<exists>r \<in> set (db_rollouts d). ro_id r = it_rollout_id i \<and> rollout_active (ro_status r))"

definition firstActiveConflict :: "agent list \<Rightarrow> ('h, string) rollout_prog" where
  "firstActiveConflict agents =
     (if agents = [] then ret ''''
      else attempt (stmt (\<lambda>d. (Inr (sort_key it_created_at
             (filter (\<lambda>i. it_agent_id i \<in> ag_id ` set agents \<and> active_item d i) (db_items d))), d))) (\<lambda>r.
        case r of Inl _ \<Rightarrow> ret '''' | Inr [] \<Rightarrow> ret '''' | Inr (i # _) \<Rightarrow> ret (it_agent_id i)))"

definition HasActiveItem :: "string \<Rightarrow> ('h, bool) rollout_prog" where
  "HasActiveItem agentID =
     (if agentID = '''' then ret False
      else bnd (stmt (\<lambda>d. (Inr (affected (\<lambda>i. it_agent_id i = agentID \<and> active_item d i) (db_items d)), d)))
        (\<lambda>count. ret (count > 0)))"

definition insert_rollout :: "rollout \<Rightarrow> tables \<Rightarrow> unit outcome \<times> tables" where
  "insert_rollout r d = (case insert_row ro_id r (db_rollouts d) of
     Inl e \<Rightarrow> (Inl e, d) | Inr rows \<Rightarrow> (Inr (), d\<lparr>db_rollouts := rows\<rparr>))"

definition insert_item :: "rollout_item \<Rightarrow> tables \<Rightarrow> unit outcome \<times> tables" where
  "insert_item i d = (case insert_row it_id i (db_items d) of
     Inl e \<Rightarrow> (Inl e, d) | Inr rows \<Rightarrow> (Inr (), d\<lparr>db_items := rows\<rparr>))"

fun create_items :: "string \<Rightarrow> rollout_item list \<Rightarrow> ('h, rollout_item list) rollout_prog" where
  "create_items rid [] = ret []"
| "create_items rid (i # items) =
     bnd clock (\<lambda>t.
     let row = i\<lparr>it_rollout_id := rid, it_created_at := t, it_updated_at := t\<rparr>
     in bnd (in_tx (insert_item row)) (\<lambda>_.
        bnd (create_items rid items) (\<lambda>rows. ret (row # rows))))"

text \<open>\<open>rid\<close> and \<open>iids\<close> are the identifiers the BeforeCreate hooks draw.\<close>

definition create_rollout_rows ::
  "string \<Rightarrow> rollout \<Rightarrow> rollout_item list \<Rightarrow> ('h, rollout \<times> rollout_item list) rollout_prog" where
  "create_rollout_rows rid r items =
     bnd clock (\<lambda>t.
     let row = r\<lparr>ro_id := rid, ro_created_at := t, ro_updated_at := t\<rparr>
     in bnd (in_tx (insert_rollout row)) (\<lambda>_. bnd (create_items rid items) (\<lambda>rows. ret (row, rows))))"

definition new_rollout :: "'h rollout_service \<Rightarrow> create_rollout_input \<Rightarrow> rollout" where
  "new_rollout s i =
     \<lparr>ro_id = '''', ro_target_version = cri_target_version i, ro_github_repo = cri_github_repo i,
      ro_target_tags = rs_json_strings s (cri_target_tags i),
      ro_target_agent_ids = rs_json_strings s (cri_target_agent_ids i),
      ro_canary_count = cri_canary_count i, ro_batch_size = cri_batch_size i,
      ro_status = RolloutStatusPending, ro_failure_reason = '''',
      ro_created_by_type = act_type (cri_actor i), ro_created_by_id = act_id (cri_actor i),
      ro_created_by_name = act_name (cri_actor i), ro_started_at = None, ro_completed_at = None,
      ro_created_at = 0, ro_updated_at = 0\<rparr>"

definition CreateRollout ::
  "'h rollout_service \<Rightarrow> string \<Rightarrow> (nat \<Rightarrow> string) \<Rightarrow> create_rollout_input \<Rightarrow> ('h, rollout \<times> rollout_item list) rollout_prog" where
  "CreateRollout s rid iids input0 =
     (case normalizeCreateInput input0 of Inl e \<Rightarrow> raise e | Inr i \<Rightarrow>
      bnd (resolveTargets s (cri_target_agent_ids i) (cri_target_tags i)) (\<lambda>agents.
      if agents = [] then raise (Err ErrNoMatchedTargets)
      else bnd (firstActiveConflict agents) (\<lambda>conflict.
        if conflict \<noteq> '''' then raise (Wrap ErrDuplicateActiveTarget conflict)
        else bnd clock (\<lambda>now.
          let items = planItems s agents (cri_target_version i) (cri_canary_count i) (cri_batch_size i) now;
              named = map (\<lambda>(k, it). it\<lparr>it_id := iids k\<rparr>) (enumerate 0 items)
          in transaction (create_rollout_rows rid (new_rollout s i) named)))))"

section \<open>Progress\<close>

definition failRollout :: "string \<Rightarrow> string \<Rightarrow> ('h, unit) rollout_prog" where
  "failRollout rolloutID reason0 =
     bnd clock (\<lambda>now.
       let reason = (if trim_space reason0 = '''' then ''rollout failed'' else reason0);
           skipped = ''skipped because rollout stopped: '' @ reason
       in bnd (transaction
          (bnd (in_tx (update_rollouts (rollout_row rolloutID)
              (\<lambda>r. r\<lparr>ro_status := RolloutStatusFailed, ro_failure_reason := reason,
                     ro_completed_at := Some now, ro_updated_at := now\<rparr>))) (\<lambda>_.
           in_tx (update_items (\<lambda>i. it_rollout_id i = rolloutID \<and> it_status i = ItemStatusPending)
              (\<lambda>i. i\<lparr>it_status := ItemStatusSkipped, it_skip_reason := skipped,
                     it_completed_at := Some now, it_updated_at := now\<rparr>))))) (\<lambda>_.
          bnd (recordAudit ''agent_rollout.failed'' rolloutID ''failure'' reason) (\<lambda>_.
          recordSkippedItems rolloutID skipped)))"

definition failItem :: "rollout_item \<Rightarrow> string \<Rightarrow> ('h, unit) rollout_prog" where
  "failItem item reason0 =
     bnd clock (\<lambda>now.
       let reason = (if trim_space reason0 = '''' then ''item failed'' else reason0)
       in bnd (stmt (update_items (\<lambda>i. it_id i = it_id item)
            (\<lambda>i. i\<lparr>it_status := ItemStatusFailed, it_error := reason, it_completed_at := Some now,
                   it_updated_at := now\<rparr>))) (\<lambda>_.
          bnd (recordAudit ''agent_rollout.item_failed'' (it_id item) ''failure'' reason) (\<lambda>_.
          failRollout (it_rollout_id item) reason)))"

definition markRolloutRunning :: "string \<Rightarrow> ('h, unit) rollout_prog" where
  "markRolloutRunning rolloutID =
     bnd clock (\<lambda>now.
     attempt (stmt (first_rollout rolloutID)) (\<lambda>r.
       let fresh = (case r of Inl _ \<Rightarrow> False | Inr ro \<Rightarrow> ro_started_at ro = None)
       in stmt (update_rollouts (rollout_row rolloutID)
            (\<lambda>r. r\<lparr>ro_status := RolloutStatusRunning, ro_updated_at := now,
                   ro_started_at := (if fresh then Some now else ro_started_at r)\<rparr>))))"

definition completeRollout :: "string \<Rightarrow> ('h, unit) rollout_prog" where
  "completeRollout rolloutID =
     bnd clock (\<lambda>now.
     bnd (stmt (count_items (\<lambda>i. it_rollout_id i = rolloutID \<and> it_status i = ItemStatusFailed))) (\<lambda>failedCount.
       let status = (if failedCount > 0 then RolloutStatusFailed else RolloutStatusSucceeded);
           reason = (if failedCount > 0 then ''rollout item failed'' else '''')
       in bnd (stmt (update_rollouts (rollout_row rolloutID)
            (\<lambda>r. r\<lparr>ro_status := status, ro_failure_reason := reason, ro_completed_at := Some now,
                   ro_updated_at := now\<rparr>))) (\<lambda>_.
          if status = RolloutStatusFailed then recordAudit ''agent_rollout.failed'' rolloutID ''failure'' reason
          else recordAudit ''agent_rollout.succeeded'' rolloutID ''success'' reason)))"

definition expireTimedOutItems :: "string \<Rightarrow> ('h, unit) rollout_prog" where
  "expireTimedOutItems rolloutID =
     bnd clock (\<lambda>now.
     bnd (stmt (find_items (\<lambda>i. it_rollout_id i = rolloutID \<and> it_status i = ItemStatusRunning \<and>
            (case it_deadline_at i of None \<Rightarrow> False | Some t \<Rightarrow> t \<le> now)))) (\<lambda>items.
     for_each (\<lambda>i. failItem i ''timeout waiting for target version heartbeat'') items))"

text \<open>The queries of nextItems: the pending items of a phase in batch order, the canaries that
  have not succeeded, the items of one batch.\<close>

definition pending_in :: "string \<Rightarrow> rollout \<Rightarrow> tables \<Rightarrow> rollout_item list" where
  "pending_in phase r d = sort_key it_batch_index (sort_key it_created_at (filter (\<lambda>i. it_rollout_id i = ro_id r \<and>
     it_status i = ItemStatusPending \<and> it_phase i = phase) (db_items d)))"

definition canary_unsuccessful :: "rollout \<Rightarrow> rollout_item \<Rightarrow> bool" where
  "canary_unsuccessful r i \<longleftrightarrow> it_rollout_id i = ro_id r \<and> it_phase i = PhaseCanary \<and>
     it_status i \<notin> {ItemStatusSuccess, ItemStatusSkipped}"

definition batch_items :: "rollout \<Rightarrow> int \<Rightarrow> tables \<Rightarrow> rollout_item list" where
  "batch_items r b d = take (nat (positiveOrDefault (ro_batch_size r) DefaultBatchSize))
     (sort_key it_created_at (filter (\<lambda>i. it_rollout_id i = ro_id r \<and> it_status i = ItemStatusPending \<and>
        it_phase i = PhaseBatch \<and> it_batch_index i = b) (db_items d)))"

definition nextBatch :: "rollout \<Rightarrow> ('h, rollout_item list) rollout_prog" where
  "nextBatch r =
     bnd (stmt (\<lambda>d. (Inr (pending_in PhaseBatch r d), d))) (\<lambda>batchPending.
     case batchPending of [] \<Rightarrow> ret []
     | firstPending # _ \<Rightarrow> stmt (\<lambda>d. (Inr (batch_items r (it_batch_index firstPending) d), d)))"

definition nextItems :: "rollout \<Rightarrow> ('h, rollout_item list) rollout_prog" where
  "nextItems r =
     bnd (stmt (\<lambda>d. (Inr (pending_in PhaseCanary r d), d))) (\<lambda>canaryPending.
     if canaryPending \<noteq> [] then ret canaryPending
     else bnd (stmt (count_items (canary_unsuccessful r))) (\<lambda>canaryUnsuccessful.
     if canaryUnsuccessful > 0 then ret [] else nextBatch r))"

definition send_and_wait ::
  "'h rollout_service \<Rightarrow> string \<Rightarrow> message \<Rightarrow> duration \<Rightarrow> ('h, ack) rollout_prog" where
  "send_and_wait s a m t w = (case rs_send_and_wait s (w_hub w) a m t of (r, h) \<Rightarrow> (r, w\<lparr>w_hub := h\<rparr>))"

definition agent_online :: "'h rollout_service \<Rightarrow> string \<Rightarrow> ('h, bool) rollout_prog" where
  "agent_online s a w = (Inr (rs_online s (w_hub w) a), w)"

definition ack_duration :: "'h rollout_service \<Rightarrow> duration" where
  "ack_duration s = (if rs_ack_timeout s > 0 then rs_ack_timeout s else 15 * second)"

definition item_duration :: "'h rollout_service \<Rightarrow> duration" where
  "item_duration s = (if rs_item_timeout s > 0 then rs_item_timeout s else 10 * minute)"

definition startItem :: "'h rollout_service \<Rightarrow> rollout \<Rightarrow> rollout_item \<Rightarrow> ('h, unit) rollout_prog" where
  "startItem s r item =
     bnd (agent_online s (it_agent_id item)) (\<lambda>online.
     if \<not> online then failItem item ''agent offline''
     else case (rs_json_update s (ro_target_version r) (ro_github_repo r), rs_new_message_id s item) of
       (Inr payload, Inr mid) \<Rightarrow>
         bnd clock (\<lambda>now.
         bnd (stmt (update_items (\<lambda>i. it_id i = it_id item)
           (\<lambda>i. i\<lparr>it_status := ItemStatusRunning, it_message_id := mid, it_started_at := Some now,
                  it_deadline_at := Some (now + item_duration s), it_updated_at := now\<rparr>))) (\<lambda>_.
         attempt (send_and_wait s (it_agent_id item)
              \<lparr>m_type = TypeUpdateAgent, m_id = mid, m_payload = payload\<rparr> (ack_duration s)) (\<lambda>a. case a of
           Inl e \<Rightarrow> failItem item (error_text e)
         | Inr AckClosed \<Rightarrow> failItem item ''timeout waiting for update acknowledgement''
         | Inr AckCtxDone \<Rightarrow> raise (Err ''context canceled'')
         | Inr (AckReply reply) \<Rightarrow>
            (case rs_parse_ack s (m_payload reply) of
               None \<Rightarrow> failItem item ''invalid update acknowledgement''
             | Some (accepted, text) \<Rightarrow>
                 if \<not> accepted then
                   failItem item (if trim_space text = '''' then ''agent rejected update'' else trim_space text)
                 else ret ()))))
     | _ \<Rightarrow> failItem item ''encode update request'')"

definition AdvanceRollout :: "'h rollout_service \<Rightarrow> string \<Rightarrow> ('h, unit) rollout_prog" where
  "AdvanceRollout s rolloutID =
     (if rolloutID = '''' then ret () else
      bnd (expireTimedOutItems rolloutID) (\<lambda>_.
      bnd (stmt (first_rollout rolloutID)) (\<lambda>r.
      if rolloutTerminal (ro_status r) then ret () else
      bnd (stmt (count_items (\<lambda>i. it_rollout_id i = rolloutID \<and> it_status i = ItemStatusFailed))) (\<lambda>failedCount.
      if failedCount > 0 then failRollout rolloutID ''rollout item failed'' else
      bnd (stmt (count_items (\<lambda>i. it_rollout_id i = rolloutID \<and> it_status i = ItemStatusRunning))) (\<lambda>runningCount.
      if runningCount > 0 then markRolloutRunning rolloutID else
      bnd (stmt (count_items (\<lambda>i. it_rollout_id i = rolloutID \<and> it_status i = ItemStatusPending))) (\<lambda>remainingCount.
      if remainingCount = 0 then completeRollout rolloutID else
      bnd (nextItems r) (\<lambda>items.
      if items = [] then markRolloutRunning rolloutID else
      bnd (markRolloutRunning rolloutID) (\<lambda>_.
      for_each (startItem s r) items))))))))"

definition AdvanceAll :: "'h rollout_service \<Rightarrow> ('h, unit) rollout_prog" where
  "AdvanceAll s =
     bnd (stmt (\<lambda>d. (Inr (sort_key ro_created_at (filter (\<lambda>r. rollout_active (ro_status r)) (db_rollouts d))), d)))
       (\<lambda>rs. for_each (\<lambda>r. AdvanceRollout s (ro_id r)) rs)"

definition HandleHeartbeat :: "'h rollout_service \<Rightarrow> string \<Rightarrow> string \<Rightarrow> ('h, unit) rollout_prog" where
  "HandleHeartbeat s agentID version =
     (if agentID = '''' \<or> trim_space version = '''' then ret () else
      bnd clock (\<lambda>now.
      bnd (stmt (find_items (\<lambda>i. it_agent_id i = agentID \<and> it_status i = ItemStatusRunning))) (\<lambda>items.
      for_each (\<lambda>item.
        bnd (stmt (update_items (\<lambda>i. it_id i = it_id item)
          (\<lambda>i. if version = it_target_version item
               then i\<lparr>it_last_seen_version := version, it_updated_at := now, it_status := ItemStatusSuccess,
                      it_completed_at := Some now, it_error := ''''\<rparr>
               else i\<lparr>it_last_seen_version := version, it_updated_at := now\<rparr>))) (\<lambda>_.
        if version = it_target_version item then
          bnd (recordAudit ''agent_rollout.item_success'' (it_id item) ''success'' (it_agent_id item)) (\<lambda>_.
          AdvanceRollout s (it_rollout_id item))
        else ret ())) items)))"

definition CancelRollout :: "string \<Rightarrow> string \<Rightarrow> ('h, unit) rollout_prog" where
  "CancelRollout rolloutID reason0 =
     (if rolloutID = '''' then ret () else
      bnd clock (\<lambda>now.
        let reason = (if trim_space reason0 = '''' then ''cancelled by operator'' else reason0)
        in bnd (transaction
          (bnd (in_tx (update_rollouts (rollout_row rolloutID)
              (\<lambda>r. r\<lparr>ro_status := RolloutStatusCancelled, ro_failure_reason := reason,
                     ro_completed_at := Some now, ro_updated_at := now\<rparr>))) (\<lambda>_.
           in_tx (update_items (\<lambda>i. it_rollout_id i = rolloutID \<and> item_open (it_status i))
              (\<lambda>i. i\<lparr>it_status := ItemStatusSkipped, it_skip_reason := reason,
                     it_completed_at := Some now, it_updated_at := now\<rparr>))))) (\<lambda>_.
          bnd (recordAudit ''agent_rollout.cancelled'' rolloutID ''success'' reason) (\<lambda>_.
          recordSkippedItems rolloutID reason))))"

end
