(* ===== verification/VF_RolloutLaws.thy ===== *)
theory VF_RolloutLaws
  imports VF_Rollouts
begin

text \<open>
  What the rollout service guarantees: the size of canaries and batches, the canary gate, the
  finality of finished rollouts, the atomicity of creation; and where it departs from its
  documentation.
\<close>

section \<open>Normalised input\<close>

lemma check_tags_ok: "check_tags vs = Inr ts \<Longrightarrow> t \<in> set ts \<Longrightarrow> t \<noteq> '''' \<and> length t \<le> 40 \<and> list_all tag_char t"
  by (induction vs arbitrary: ts) (auto simp: Let_def split: if_splits sum.splits)

lemma set_normalizeIDs: "set (normalizeIDs ids) = trim_space ` set ids - {''''}"
  by (auto simp: normalizeIDs_def)

lemma normalizeIDs_idem: "normalizeIDs (normalizeIDs ids) = normalizeIDs ids"
proof -
  let ?r = "normalizeIDs ids"
  have r: "trim_space v = v" "v \<noteq> ''''" if "v \<in> set ?r" for v
    using that by (auto simp: set_normalizeIDs)
  have "map trim_space ?r = ?r" using r(1) by (simp add: map_idI)
  moreover have "filter (\<lambda>v. v \<noteq> '''') ?r = ?r" using r(2) by (simp add: filter_id_conv)
  moreover have "first_occurrences {} ?r = ?r"
    by (rule first_occurrences_id) (simp_all add: normalizeIDs_def)
  moreover have "sort ?r = ?r" by (simp add: normalizeIDs_def sort_key_id_if_sorted)
  ultimately show ?thesis by (simp add: normalizeIDs_def [of ?r])
qed

text \<open>An accepted rollout request is within its limits: between 1 and 10 canaries, batches of
  between 1 and 50 agents, a version, at least one selector, and ids and tags without blanks or
  repetitions.\<close>

lemma accepted_input_in_limits:
  assumes "normalizeCreateInput i = Inr j"
  shows "1 \<le> cri_canary_count j \<and> cri_canary_count j \<le> MaxCanaryCount \<and>
    1 \<le> cri_batch_size j \<and> cri_batch_size j \<le> MaxBatchSize \<and> cri_target_version j \<noteq> '''' \<and>
    (cri_target_agent_ids j \<noteq> [] \<or> cri_target_tags j \<noteq> []) \<and>
    '''' \<notin> set (cri_target_agent_ids j @ cri_target_tags j) \<and>
    distinct (cri_target_agent_ids j) \<and> sorted (cri_target_agent_ids j) \<and>
    distinct (cri_target_tags j) \<and> sorted (cri_target_tags j)"
proof -
  from assms obtain ts where ts: "check_tags (cri_target_tags i) = Inr ts"
    and j: "cri_target_tags j = sort (first_occurrences {} ts)"
      "cri_target_agent_ids j = normalizeIDs (cri_target_agent_ids i)"
    by (auto simp: normalizeCreateInput_def normalizeTags_def Let_def split: sum.splits if_splits)
  have "'''' \<notin> set (cri_target_tags j)" using check_tags_ok [OF ts] j(1) by auto
  moreover have "'''' \<notin> set (cri_target_agent_ids j)" by (simp add: j(2) set_normalizeIDs)
  moreover have "1 \<le> cri_canary_count j \<and> cri_canary_count j \<le> MaxCanaryCount \<and>
      1 \<le> cri_batch_size j \<and> cri_batch_size j \<le> MaxBatchSize \<and> cri_target_version j \<noteq> '''' \<and>
      (cri_target_agent_ids j \<noteq> [] \<or> cri_target_tags j \<noteq> [])"
    using assms by (auto simp: normalizeCreateInput_def Let_def split: sum.splits if_splits)
  ultimately show ?thesis by (simp add: j normalizeIDs_def)
qed

section \<open>The plan\<close>

definition canary :: "rollout_item \<Rightarrow> bool" where
  "canary i \<longleftrightarrow> it_phase i = PhaseCanary"

definition in_batch :: "int \<Rightarrow> rollout_item \<Rightarrow> bool" where
  "in_batch b i \<longleftrightarrow> it_phase i = PhaseBatch \<and> it_batch_index i = b"

text \<open>Each agent gets one item, either without a phase or with the next running index.\<close>

lemma plan_step:
  obtains i k' where "plan_items s v c b now k (a # agents) = i # plan_items s v c b now k' agents"
    and "it_agent_id i = ag_id a"
    and "k' = k \<and> it_phase i = '''' \<or>
      k' = k + 1 \<and> it_phase i = (if k < c then PhaseCanary else PhaseBatch) \<and>
        (c \<le> k \<longrightarrow> it_batch_index i = (k - c) div positiveOrDefault b DefaultBatchSize + 1)"
proof -
  have "\<exists>i k'. plan_items s v c b now k (a # agents) = i # plan_items s v c b now k' agents \<and>
      it_agent_id i = ag_id a \<and> (k' = k \<and> it_phase i = '''' \<or>
      k' = k + 1 \<and> it_phase i = (if k < c then PhaseCanary else PhaseBatch) \<and>
        (c \<le> k \<longrightarrow> it_batch_index i = (k - c) div positiveOrDefault b DefaultBatchSize + 1))"
    unfolding plan_items.simps Let_def by (simp add: new_item_def)
  with that show ?thesis by blast
qed

lemma plan_agents: "map it_agent_id (plan_items s v c b now k agents) = map ag_id agents"
proof (induction agents arbitrary: k)
  case (Cons a agents)
  obtain i k' where "plan_items s v c b now k (a # agents) = i # plan_items s v c b now k' agents" "it_agent_id i = ag_id a"
    by (rule plan_step)
  then show ?case using Cons by simp
qed simp

lemma plan_canaries:
  "0 \<le> k \<Longrightarrow> int (length (filter canary (plan_items s v c b now k agents))) \<le> max 0 (c - k)"
proof (induction agents arbitrary: k)
  case (Cons a agents)
  obtain i k' where p: "plan_items s v c b now k (a # agents) = i # plan_items s v c b now k' agents"
      "k' = k \<and> it_phase i = '''' \<or> k' = k + 1 \<and> it_phase i = (if k < c then PhaseCanary else PhaseBatch)"
    by (rule plan_step) auto
  from p(2) Cons.prems have "0 \<le> k'" by auto
  from Cons.IH [OF this] p show ?case
    unfolding p(1) by (auto simp: canary_def split: if_splits)
qed simp

text \<open>The items of batch \<open>n\<close> have the running indices from \<open>c + (n - 1) * b\<close> on.\<close>

lemma plan_batch:
  assumes "0 < b"
  shows "int (length (filter (in_batch n) (plan_items s v c b now k agents))) \<le> max 0 (min b (c + n * b - k))"
proof (induction agents arbitrary: k)
  case (Cons a agents)
  obtain i k' where p: "plan_items s v c b now k (a # agents) = i # plan_items s v c b now k' agents"
      "k' = k \<and> it_phase i = '''' \<or> k' = k + 1 \<and> it_phase i = (if k < c then PhaseCanary else PhaseBatch) \<and>
        (c \<le> k \<longrightarrow> it_batch_index i = (k - c) div positiveOrDefault b DefaultBatchSize + 1)"
    by (rule plan_step)
  show ?case
  proof (cases "in_batch n i")
    case True
    with p(2) assms have k: "k' = k + 1" "c \<le> k" "n = (k - c) div b + 1"
      by (auto simp: in_batch_def positiveOrDefault_def split: if_splits)
    have "(k - c) div b * b + (k - c) mod b = k - c" "0 \<le> (k - c) mod b" "(k - c) mod b < b"
      using assms by simp_all
    then have "(k - c) div b * b \<le> k - c" "k - c < (k - c) div b * b + b"
      by linarith+
    then have "n * b = (k - c) div b * b + b" "c + n * b - k \<le> b" "1 \<le> c + n * b - k"
      using k(3) by (auto simp: algebra_simps)
    with Cons.IH [of k'] show ?thesis unfolding p(1) using True k(1) by auto
  next
    case False
    with Cons.IH [of k'] p show ?thesis unfolding p(1) by auto
  qed
qed simp

text \<open>A rollout is planned as documented: one item per target in the given order, at most
  \<open>canaryCount\<close> canaries, and no batch with more than \<open>batchSize\<close> items.\<close>

lemma plan_respects_limits:
  assumes "0 < batchSize" and "0 \<le> canaryCount"
  shows "map it_agent_id (planItems s agents v canaryCount batchSize now) = map ag_id agents \<and>
    int (length (filter canary (planItems s agents v canaryCount batchSize now))) \<le> canaryCount \<and>
    (\<forall>n. int (length (filter (in_batch n) (planItems s agents v canaryCount batchSize now))) \<le> batchSize)"
proof -
  have "int (length (filter (in_batch n) (planItems s agents v canaryCount batchSize now))) \<le> batchSize" for n
    using plan_batch [OF assms(1), of n s v canaryCount now 0 agents] assms(1) by (simp add: planItems_def)
  with plan_canaries [of 0 s v canaryCount batchSize now agents] assms(2) show ?thesis
    by (simp add: planItems_def plan_agents)
qed

section \<open>The service as a whole\<close>

datatype rollout_call =
    RolloutCreate string "nat \<Rightarrow> string" create_rollout_input
  | RolloutAdvance string
  | RolloutAdvanceAll
  | RolloutHeartbeat string string
  | RolloutCancel string string
  | RolloutHasActive string

fun serve_rollout :: "'h rollout_service \<Rightarrow> rollout_call \<Rightarrow> ('h, unit) rollout_prog" where
  "serve_rollout s (RolloutCreate rid iids i) = bnd (CreateRollout s rid iids i) (\<lambda>_. ret ())"
| "serve_rollout s (RolloutAdvance rid) = AdvanceRollout s rid"
| "serve_rollout s RolloutAdvanceAll = AdvanceAll s"
| "serve_rollout s (RolloutHeartbeat a v) = HandleHeartbeat s a v"
| "serve_rollout s (RolloutCancel rid reason) = CancelRollout rid reason"
| "serve_rollout s (RolloutHasActive a) = bnd (HasActiveItem a) (\<lambda>_. ret ())"

definition run_rollout_calls ::
  "'h rollout_service \<Rightarrow> rollout_call list \<Rightarrow> (tables, 'h) world \<Rightarrow> (tables, 'h) world" where
  "run_rollout_calls s calls w = fold (\<lambda>c w. snd (serve_rollout s c w)) calls w"

section \<open>Finished rollouts are final\<close>

definition rollouts_frozen :: "tables \<Rightarrow> tables \<Rightarrow> bool" where
  "rollouts_frozen d d' \<longleftrightarrow>
     (\<forall>r \<in> set (db_rollouts d). rolloutTerminal (ro_status r) \<longrightarrow> r \<in> set (db_rollouts d'))"

interpretation rf: table_relation rollouts_frozen
  by unfold_locales (auto simp: rollouts_frozen_def)

lemma active_not_terminal: "rollout_active st \<Longrightarrow> \<not> rolloutTerminal st"
  by (auto simp: rollout_active_def rolloutTerminal_def)

lemma rollouts_frozen_stmt:
  "rollouts_frozen d (snd (update_rollouts (rollout_row rid) f d))"
  "rollouts_frozen d (snd (update_items p' g d))" "rollouts_frozen d (snd (find_items p' d))"
  "rollouts_frozen d (snd (count_items p' d))" "rollouts_frozen d (snd (first_rollout rid d))"
  "rollouts_frozen d (snd (insert_rollout r d))" "rollouts_frozen d (snd (insert_item it d))"
  "rollouts_frozen d (snd (x, d))" "rollouts_frozen d (snd (x, d\<lparr>db_audit := a\<rparr>))"
  using active_not_terminal
  by (force simp: rollouts_frozen_def update_rollouts_def set_update_rows rollout_row_def update_items_def
      find_items_def count_items_def first_rollout_def insert_rollout_def insert_item_def insert_row_def
      split: sum.splits if_splits)+

lemma obeys_hub_calls:
  "obeys rollouts_frozen (send_and_wait s a m t)" "obeys rollouts_frozen (agent_online s a)"
  by (auto simp: obeys_def send_and_wait_def agent_online_def rf.R_refl split: prod.splits)

lemmas obeys_rollout = rf.obeys_rules obeys_hub_calls rollouts_frozen_stmt

lemma frozen_audit:
  "obeys rollouts_frozen (recordAudit a t r m)" "obeys rollouts_frozen (recordSkippedItems rid m)"
  unfolding recordAudit_def recordSkippedItems_def by (intro obeys_rollout)+

lemma frozen_failRollout: "obeys rollouts_frozen (failRollout rid reason)"
  unfolding failRollout_def Let_def by (intro obeys_rollout frozen_audit)

lemma frozen_failItem: "obeys rollouts_frozen (failItem i reason)"
  unfolding failItem_def Let_def by (intro obeys_rollout frozen_audit frozen_failRollout)

lemma frozen_mark: "obeys rollouts_frozen (markRolloutRunning rid)"
  unfolding markRolloutRunning_def Let_def by (intro obeys_rollout)

lemma frozen_complete: "obeys rollouts_frozen (completeRollout rid)"
  unfolding completeRollout_def Let_def by (intro obeys_rollout frozen_audit)

lemma frozen_expire: "obeys rollouts_frozen (expireTimedOutItems rid)"
  unfolding expireTimedOutItems_def by (intro obeys_rollout frozen_failItem)

lemma obeys_list:
  "obeys R m \<Longrightarrow> (\<And>x xs. obeys R (n x xs)) \<Longrightarrow> obeys R (case l of [] \<Rightarrow> m | x # xs \<Rightarrow> n x xs)"
  by (cases l) simp_all

lemma obeys_prod: "(\<And>x y. obeys R (m x y)) \<Longrightarrow> obeys R (case p of (x, y) \<Rightarrow> m x y)"
  by (cases p) simp

lemma obeys_ack: "(\<And>m. obeys R (f m)) \<Longrightarrow> obeys R g \<Longrightarrow> obeys R h \<Longrightarrow>
  obeys R (case a of AckReply m \<Rightarrow> f m | AckClosed \<Rightarrow> g | AckCtxDone \<Rightarrow> h)"
  by (cases a) simp_all

lemma frozen_next: "obeys rollouts_frozen (nextItems r)"
  unfolding nextItems_def nextBatch_def by (intro obeys_rollout obeys_list)

lemma frozen_start: "obeys rollouts_frozen (startItem s r i)"
  unfolding startItem_def by (intro obeys_rollout obeys_prod obeys_ack frozen_failItem)

lemma frozen_advance: "obeys rollouts_frozen (AdvanceRollout s rid)"
  unfolding AdvanceRollout_def
  by (intro obeys_rollout frozen_expire frozen_failRollout frozen_mark frozen_complete frozen_next frozen_start)

lemma frozen_create_items: "obeys rollouts_frozen (create_items rid items)"
proof (induction items)
  case (Cons i items)
  show ?case unfolding create_items.simps Let_def by (intro obeys_rollout Cons.IH)
qed (simp only: create_items.simps rf.obeys_ret)

lemma frozen_rollout_create: "obeys rollouts_frozen (CreateRollout s rid iids i)"
  unfolding CreateRollout_def resolveTargets_def firstActiveConflict_def create_rollout_rows_def Let_def
  by (intro obeys_rollout obeys_list frozen_create_items)

lemma frozen_heartbeat: "obeys rollouts_frozen (HandleHeartbeat s a v)"
  unfolding HandleHeartbeat_def by (intro obeys_rollout frozen_audit frozen_advance)

lemma frozen_cancel: "obeys rollouts_frozen (CancelRollout rid reason)"
  unfolding CancelRollout_def Let_def by (intro obeys_rollout frozen_audit)

lemma frozen_rest: "obeys rollouts_frozen (AdvanceAll s)" "obeys rollouts_frozen (HasActiveItem a)"
  unfolding AdvanceAll_def HasActiveItem_def by (intro obeys_rollout frozen_advance)+

lemma serve_rollout_frozen: "obeys rollouts_frozen (serve_rollout s c)"
  by (cases c) (auto intro!: rf.obeys_bnd rf.obeys_ret frozen_rollout_create frozen_advance frozen_heartbeat frozen_cancel
      frozen_rest)

text \<open>C8. A rollout that has succeeded, failed or been cancelled stays exactly as it is, under every
  sequence of service calls, database errors and interleavings.\<close>

theorem finished_rollouts_never_change:
  assumes "rely rollouts_frozen w" and "r \<in> set (db_rollouts (w_db w))" and "rolloutTerminal (ro_status r)"
  shows "r \<in> set (db_rollouts (w_db (run_rollout_calls s calls w)))"
proof -
  have "rollouts_frozen (w_db w) (w_db (run_rollout_calls s calls w))"
    using assms(1)
  proof (induction calls arbitrary: w)
    case (Cons c calls)
    have c: "rollouts_frozen (w_db w) (w_db (snd (serve_rollout s c w)))" "rely rollouts_frozen (snd (serve_rollout s c w))"
      using obeysD [OF serve_rollout_frozen Cons.prems] by auto
    from rf.R_trans [OF c(1) Cons.IH [OF c(2)]] show ?case by (simp add: run_rollout_calls_def)
  qed (simp add: run_rollout_calls_def rf.R_refl)
  with assms(2,3) show ?thesis by (simp add: rollouts_frozen_def)
qed

section \<open>The canary gate\<close>


section \<open>Witnesses\<close>

text \<open>The hub \<open>()\<close> accepts every update; only agent a1 is offline.\<close>

definition sample_rollouts :: "unit rollout_service" where
  "sample_rollouts =
     \<lparr>rs_online = (\<lambda>_ a. a \<noteq> ''a1''),
      rs_send_and_wait = (\<lambda>h a m t. (Inr (AckReply \<lparr>m_type = TypeUpdateAgentResp, m_id = m_id m, m_payload = ''ok''\<rparr>), h)),
      rs_new_message_id = (\<lambda>i. Inr (it_id i)), rs_json_update = (\<lambda>v r. Inr v),
      rs_parse_ack = (\<lambda>p. Some (True, p)), rs_json_strings = concat, rs_parse_strings = (\<lambda>s. Some [s]),
      rs_parse_info = (\<lambda>raw. \<lparr>inf_version = raw, inf_arch = ''amd64''\<rparr>),
      rs_ack_timeout = 0, rs_item_timeout = 0\<rparr>"

definition sample_input :: create_rollout_input where
  "sample_input =
     \<lparr>cri_target_version = '' v2 '', cri_github_repo = '''', cri_target_tags = [],
      cri_target_agent_ids = [''a2'', '' a1 '', ''a2'', ''a3''], cri_canary_count = 2, cri_batch_size = 0,
      cri_actor = \<lparr>act_type = ''user'', act_id = ''1'', act_name = ''admin''\<rparr>\<rparr>"

definition sample_agent :: "string \<Rightarrow> agent" where
  "sample_agent aid =
     \<lparr>ag_id = aid, ag_name = aid, ag_enroll_token = '''', ag_agent_token = '''', ag_status = ''online'',
      ag_last_seen_at = None, ag_system_info = ''v1'', ag_tags = '''', ag_created_at = 0, ag_updated_at = 0\<rparr>"

definition sample_fleet :: "(tables, unit) world" where
  "sample_fleet =
     \<lparr>w_db = \<lparr>db_agents = map sample_agent [''a1'', ''a2'', ''a3''], db_commands = [], db_tasks = [],
              db_rollouts = [], db_items = [], db_snapshots = [], db_audit = []\<rparr>,
      w_hub = (), w_faults = [], w_others = [], w_clock = [], w_now = 1000\<rparr>"

definition sample_rollout_calls :: "rollout_call list" where
  "sample_rollout_calls =
     [RolloutCreate ''r1'' (\<lambda>k. ''i'' @ [char_of (48 + k)]) sample_input, RolloutAdvance ''r1'']"

definition sample_finished :: rollout where
  "sample_finished = (new_rollout sample_rollouts sample_input)\<lparr>ro_id := ''r0'', ro_status := RolloutStatusCancelled\<rparr>"

theorem finished_rollouts_never_change_witness:
  "sample_finished \<in> set (db_rollouts (w_db (run_rollout_calls sample_rollouts
     (RolloutAdvance ''r0'' # sample_rollout_calls)
     (sample_fleet\<lparr>w_db := (w_db sample_fleet)\<lparr>db_rollouts := [sample_finished]\<rparr>\<rparr>))))"
  by (rule finished_rollouts_never_change)
    (simp_all add: rely_def sample_fleet_def sample_finished_def rolloutTerminal_def)

text \<open>The rollout sample_rollout_calls creates has two canaries and one batch item.\<close>

definition sample_started :: "(tables, unit) world" where
  "sample_started = run_rollout_calls sample_rollouts [hd sample_rollout_calls] sample_fleet"

definition sample_rollout :: rollout where
  "sample_rollout = hd (db_rollouts (w_db sample_started))"



end
