(* ===== verification/VF_Hub.thy ===== *)
theory VF_Hub
  imports VF_Link "HOL-Library.AList"
begin

text \<open>
  The WebSocket hub of the master (internal/master/ws: hub.go, safeconn.go, monitor.go,
  progress_cache.go).  Pointers are indices: a \<^verbatim>\<open>*SafeConn\<close> into \<open>hub_conns\<close>, a
  \<^verbatim>\<open>*responseWaiter\<close> into \<open>hub_store\<close>; Go maps are association lists.  Every operation
  here is one critical section of \<^verbatim>\<open>Hub.mu\<close> or one write to a connection, and the theory
  VF_HubRace interleaves them.
\<close>

section \<open>Connections\<close>

text \<open>\<open>sc_script\<close> says which of the writes to come the network rejects; \<open>sc_written\<close> is what was
  written so far.\<close>

record safe_conn =
  sc_nil :: bool
  sc_closed :: bool
  sc_written :: "message list"
  sc_script :: "bool list"
  sc_close_result :: "unit outcome"

abbreviation ErrNilConn :: string where "ErrNilConn \<equiv> ''websocket connection is nil''"
abbreviation ErrAgentNotConnected :: string where "ErrAgentNotConnected \<equiv> ''agent not connected''"

definition NewSafeConn :: "bool list \<Rightarrow> unit outcome \<Rightarrow> safe_conn" where
  "NewSafeConn script cr =
     \<lparr>sc_nil = False, sc_closed = False, sc_written = [], sc_script = script, sc_close_result = cr\<rparr>"

definition WriteJSON :: "safe_conn \<Rightarrow> message \<Rightarrow> unit outcome \<times> safe_conn" where
  "WriteJSON c m =
     (if sc_nil c \<or> sc_closed c then (Inl (Err ErrNilConn), c)
      else if sc_script c \<noteq> [] \<and> hd (sc_script c) then (Inl SysFault, c\<lparr>sc_script := tl (sc_script c)\<rparr>)
      else (Inr (), c\<lparr>sc_script := tl (sc_script c), sc_written := sc_written c @ [m]\<rparr>))"

definition CloseConn :: "safe_conn \<Rightarrow> unit outcome \<times> safe_conn" where
  "CloseConn c =
     (if sc_nil c \<or> sc_closed c then (Inr (), c) else (sc_close_result c, c\<lparr>sc_closed := True\<rparr>))"

section \<open>State\<close>

record agent_status =
  as_conn :: nat
  as_online :: bool
  as_last_seen :: time

text \<open>A waiter: its buffered channel of capacity one (what was sent, what the caller took, whether
  it is closed), the channel \<open>done\<close>, the type it expects, and - as a ghost - the request it is for.\<close>

record waiter =
  wt_agent :: string
  wt_request :: message
  wt_expected :: msg_type
  wt_sent :: "message list"
  wt_closed :: bool
  wt_done :: bool

record hub =
  hub_agents :: "(string \<times> agent_status) list"
  hub_waiters :: "(string \<times> (string \<times> nat) list) list"
  hub_conns :: "safe_conn list"
  hub_store :: "waiter list"

definition NewHub :: hub where
  "NewHub = \<lparr>hub_agents = [], hub_waiters = [], hub_conns = [], hub_store = []\<rparr>"

abbreviation agent_at :: "hub \<Rightarrow> string \<Rightarrow> agent_status option" where
  "agent_at h a \<equiv> map_of (hub_agents h) a"

definition set_agent :: "string \<Rightarrow> agent_status \<Rightarrow> hub \<Rightarrow> hub" where
  "set_agent a st h = h\<lparr>hub_agents := AList.update a st (hub_agents h)\<rparr>"

definition close_at :: "nat \<Rightarrow> hub \<Rightarrow> hub" where
  "close_at n h = h\<lparr>hub_conns := (hub_conns h)[n := snd (CloseConn (hub_conns h ! n))]\<rparr>"

section \<open>Agents\<close>

text \<open>Add closes the connection it displaces; the error of Close is dropped.\<close>

definition Add :: "string \<Rightarrow> nat \<Rightarrow> time \<Rightarrow> hub \<Rightarrow> hub" where
  "Add a conn t h =
     (let h1 = set_agent a \<lparr>as_conn = conn, as_online = True, as_last_seen = t\<rparr> h
      in case agent_at h a of
           Some previous \<Rightarrow> if as_conn previous \<noteq> conn then close_at (as_conn previous) h1 else h1
         | None \<Rightarrow> h1)"

definition drop_agent :: "string \<Rightarrow> hub \<Rightarrow> hub" where
  "drop_agent a h = h\<lparr>hub_agents := AList.delete a (hub_agents h)\<rparr>"

definition Remove :: "string \<Rightarrow> hub \<Rightarrow> hub" where
  "Remove a h = (case agent_at h a of None \<Rightarrow> h | Some st \<Rightarrow> close_at (as_conn st) (drop_agent a h))"

definition RemoveIfCurrent :: "string \<Rightarrow> nat \<Rightarrow> hub \<Rightarrow> (bool \<times> bool) \<times> hub" where
  "RemoveIfCurrent a conn h =
     (case agent_at h a of
        None \<Rightarrow> ((False, False), h)
      | Some st \<Rightarrow> if as_conn st \<noteq> conn then ((False, False), h)
          else ((True, as_online st), close_at conn (drop_agent a h)))"

definition IsOnline :: "hub \<Rightarrow> string \<Rightarrow> bool" where
  "IsOnline h a = (case agent_at h a of None \<Rightarrow> False | Some st \<Rightarrow> as_online st)"

definition Send :: "hub \<Rightarrow> string \<Rightarrow> message \<Rightarrow> unit outcome \<times> hub" where
  "Send h a m =
     (case agent_at h a of
        None \<Rightarrow> (Inl (Err ErrAgentNotConnected), h)
      | Some st \<Rightarrow>
          if \<not> as_online st then (Inl (Err ErrAgentNotConnected), h)
          else (case WriteJSON (hub_conns h ! as_conn st) m of
                 (r, c) \<Rightarrow> (r, h\<lparr>hub_conns := (hub_conns h)[as_conn st := c]\<rparr>)))"

definition UpdateLastSeen :: "string \<Rightarrow> time \<Rightarrow> hub \<Rightarrow> hub" where
  "UpdateLastSeen a t h =
     (case agent_at h a of None \<Rightarrow> h | Some st \<Rightarrow> set_agent a (st\<lparr>as_last_seen := t\<rparr>) h)"

definition MarkOffline :: "string \<Rightarrow> hub \<Rightarrow> bool \<times> hub" where
  "MarkOffline a h =
     (case agent_at h a of None \<Rightarrow> (False, h)
      | Some st \<Rightarrow> if \<not> as_online st then (False, h) else (True, set_agent a (st\<lparr>as_online := False\<rparr>) h))"

definition MarkOfflineIfStale :: "string \<Rightarrow> time \<Rightarrow> duration \<Rightarrow> hub \<Rightarrow> bool \<times> hub" where
  "MarkOfflineIfStale a now threshold h =
     (case agent_at h a of None \<Rightarrow> (False, h)
      | Some st \<Rightarrow>
          if \<not> as_online st then (False, h)
          else if time_sub now (as_last_seen st) \<le> threshold then (False, h)
          else (True, set_agent a (st\<lparr>as_online := False\<rparr>) h))"

definition MarkOnline :: "string \<Rightarrow> hub \<Rightarrow> bool \<times> hub" where
  "MarkOnline a h =
     (case agent_at h a of None \<Rightarrow> (False, h)
      | Some st \<Rightarrow> if as_online st then (False, h) else (True, set_agent a (st\<lparr>as_online := True\<rparr>) h))"

definition GetAllAgents :: "hub \<Rightarrow> (string \<times> agent_status) list" where
  "GetAllAgents h = hub_agents h"

definition OnlineAgentCount :: "hub \<Rightarrow> nat" where
  "OnlineAgentCount h = length (filter (\<lambda>(a, st). as_online st) (hub_agents h))"

section \<open>Waiting for a response\<close>

fun expectedResponseType :: "msg_type \<Rightarrow> msg_type outcome" where
  "expectedResponseType TypeDirBrowseReq = Inr TypeDirBrowseResp"
| "expectedResponseType TypeDirSizeReq = Inr TypeDirSizeResp"
| "expectedResponseType TypeDockerDiscoveryReq = Inr TypeDockerDiscoveryResp"
| "expectedResponseType TypeDatabaseDiscoveryReq = Inr TypeDatabaseDiscoveryResp"
| "expectedResponseType TypeSnapshotListReq = Inr TypeSnapshotListResp"
| "expectedResponseType TypeSnapshotBrowseReq = Inr TypeSnapshotBrowseResp"
| "expectedResponseType TypeRestorePreflightReq = Inr TypeRestorePreflightResp"
| "expectedResponseType TypeCollectLogsReq = Inr TypeCollectLogsResp"
| "expectedResponseType TypeUpdateAgent = Inr TypeUpdateAgentResp"
| "expectedResponseType _ = Inl (Err ''unsupported request type for response waiter'')"

definition waiters_of :: "hub \<Rightarrow> string \<Rightarrow> (string \<times> nat) list" where
  "waiters_of h a = (case map_of (hub_waiters h) a of None \<Rightarrow> [] | Some ws \<Rightarrow> ws)"

definition HasWaiter :: "hub \<Rightarrow> string \<Rightarrow> string \<Rightarrow> bool" where
  "HasWaiter h a mid = (map_of (waiters_of h a) mid \<noteq> None)"

definition store_waiter :: "string \<Rightarrow> string \<Rightarrow> nat \<Rightarrow> hub \<Rightarrow> hub" where
  "store_waiter a mid n h = h\<lparr>hub_waiters := AList.update a (AList.update mid n (waiters_of h a)) (hub_waiters h)\<rparr>"

text \<open>The part of SendAndWait before Send: the index of the new waiter.\<close>

definition register_waiter :: "string \<Rightarrow> message \<Rightarrow> hub \<Rightarrow> nat outcome \<times> hub" where
  "register_waiter a m h =
     (if m_id m = '''' then (Inl (Err ''message id required''), h)
      else case expectedResponseType (m_type m) of
        Inl e \<Rightarrow> (Inl e, h)
      | Inr ty \<Rightarrow>
          (Inr (length (hub_store h)),
           store_waiter a (m_id m) (length (hub_store h))
             (h\<lparr>hub_store := hub_store h @ [\<lparr>wt_agent = a, wt_request = m, wt_expected = ty, wt_sent = [],
                                            wt_closed = False, wt_done = False\<rparr>]\<rparr>)))"

text \<open>\<^verbatim>\<open>delete(waitersByAgent, msgID)\<close>, and the agent's entry once it is empty.\<close>

definition delete_waiter :: "string \<Rightarrow> string \<Rightarrow> hub \<Rightarrow> hub" where
  "delete_waiter a mid h =
     (let ws = AList.delete mid (waiters_of h a)
      in h\<lparr>hub_waiters := (if ws = [] then AList.delete a (hub_waiters h) else AList.update a ws (hub_waiters h))\<rparr>)"

definition removeWaiter :: "string \<Rightarrow> string \<Rightarrow> nat \<Rightarrow> hub \<Rightarrow> bool \<times> hub" where
  "removeWaiter a mid n h =
     (if map_of (waiters_of h a) mid \<noteq> Some n then (False, h) else (True, delete_waiter a mid h))"

text \<open>The part of HandleResponse under the lock: the waiter it claims.\<close>

definition claim_waiter :: "string \<Rightarrow> message \<Rightarrow> hub \<Rightarrow> nat option \<times> hub" where
  "claim_waiter a m h =
     (case map_of (waiters_of h a) (m_id m) of
        None \<Rightarrow> (None, h)
      | Some n \<Rightarrow>
          if type_text (wt_expected (hub_store h ! n)) \<noteq> '''' \<and> m_type m \<noteq> wt_expected (hub_store h ! n)
          then (None, h) else (Some n, delete_waiter a (m_id m) h))"

definition update_waiter :: "nat \<Rightarrow> (waiter \<Rightarrow> waiter) \<Rightarrow> hub \<Rightarrow> hub" where
  "update_waiter n f h = h\<lparr>hub_store := (hub_store h)[n := f (hub_store h ! n)]\<rparr>"

text \<open>\<^verbatim>\<open>waiter.finish()\<close>: the once makes a second call do nothing.\<close>

definition finish :: "nat \<Rightarrow> hub \<Rightarrow> hub" where
  "finish n = update_waiter n (\<lambda>w. w\<lparr>wt_done := True\<rparr>)"

text \<open>\<^verbatim>\<open>waiter.ch <- msg\<close> and \<^verbatim>\<open>close(waiter.ch)\<close>; both panic on a closed channel.\<close>

definition send_channel :: "nat \<Rightarrow> message \<Rightarrow> hub \<Rightarrow> hub option" where
  "send_channel n m h = (if wt_closed (hub_store h ! n) then None
     else Some (update_waiter n (\<lambda>w. w\<lparr>wt_sent := wt_sent w @ [m]\<rparr>) h))"

definition close_channel :: "nat \<Rightarrow> hub \<Rightarrow> hub option" where
  "close_channel n h = (if wt_closed (hub_store h ! n) then None
     else Some (update_waiter n (\<lambda>w. w\<lparr>wt_closed := True\<rparr>) h))"

text \<open>The operations when nothing runs in between.\<close>

definition SendAndWait :: "hub \<Rightarrow> string \<Rightarrow> message \<Rightarrow> nat outcome \<times> hub" where
  "SendAndWait h a m =
     (case register_waiter a m h of
        (Inl e, h1) \<Rightarrow> (Inl e, h1)
      | (Inr n, h1) \<Rightarrow>
          (case Send h1 a m of
             (Inl e, h2) \<Rightarrow> (Inl e, finish n (snd (removeWaiter a (m_id m) n h2)))
           | (Inr _, h2) \<Rightarrow> (Inr n, h2)))"

definition HandleResponse :: "hub \<Rightarrow> string \<Rightarrow> message \<Rightarrow> (bool \<times> hub) option" where
  "HandleResponse h a m =
     (case claim_waiter a m h of
        (None, h1) \<Rightarrow> Some (False, h1)
      | (Some n, h1) \<Rightarrow>
          (case send_channel n m (finish n h1) of None \<Rightarrow> None
           | Some h2 \<Rightarrow> (case close_channel n h2 of None \<Rightarrow> None | Some h3 \<Rightarrow> Some (True, h3))))"

definition timeoutWaiter :: "hub \<Rightarrow> string \<Rightarrow> string \<Rightarrow> nat \<Rightarrow> hub option" where
  "timeoutWaiter h a mid n =
     (if wt_done (hub_store h ! n) then Some h
      else case removeWaiter a mid n h of
        (False, h1) \<Rightarrow> Some h1
      | (True, h1) \<Rightarrow> (case close_channel n h1 of None \<Rightarrow> None | Some h2 \<Rightarrow> Some (finish n h2)))"

section \<open>The offline monitor\<close>

text \<open>One tick of monitor.go: it reads all agents, then takes the stale ones offline one by one and
  publishes AgentOffline for each.  \<open>others k\<close> is what the connections do to the hub before the
  \<open>k\<close>-th check; a Go map is read in any order, so the list stands for any order.\<close>

fun scan_agents ::
  "time \<Rightarrow> duration \<Rightarrow> (nat \<Rightarrow> hub \<Rightarrow> hub) \<Rightarrow> nat \<Rightarrow> (string \<times> agent_status) list \<Rightarrow> hub \<Rightarrow> string list \<times> hub" where
  "scan_agents now threshold others k [] h = ([], h)"
| "scan_agents now threshold others k ((a, st) # rest) h =
     (if \<not> as_online st then scan_agents now threshold others (k + 1) rest h
      else if time_sub now (as_last_seen st) \<le> threshold then scan_agents now threshold others (k + 1) rest h
      else case MarkOfflineIfStale a now threshold (others k h) of
        (False, h1) \<Rightarrow> scan_agents now threshold others (k + 1) rest h1
      | (True, h1) \<Rightarrow> (case scan_agents now threshold others (k + 1) rest h1 of (offline, h2) \<Rightarrow> (a # offline, h2)))"

definition scan :: "time \<Rightarrow> duration \<Rightarrow> (nat \<Rightarrow> hub \<Rightarrow> hub) \<Rightarrow> hub \<Rightarrow> string list \<times> hub" where
  "scan now threshold others h = scan_agents now threshold others 0 (GetAllAgents h) h"

abbreviation MonitorInterval :: duration where "MonitorInterval \<equiv> 10 * second"
abbreviation OfflineThreshold :: duration where "OfflineThreshold \<equiv> 60 * second"

section \<open>The progress cache\<close>

type_synonym progress_cache = "((string \<times> string) \<times> backup_progress) list"

definition cache_set :: "progress_cache \<Rightarrow> string \<Rightarrow> string \<Rightarrow> backup_progress option \<Rightarrow> progress_cache" where
  "cache_set c a mid payload =
     (case payload of None \<Rightarrow> c
      | Some p \<Rightarrow> if a = '''' \<or> mid = '''' then c else AList.update (a, mid) p c)"

definition cache_get :: "progress_cache \<Rightarrow> string \<Rightarrow> string \<Rightarrow> backup_progress option" where
  "cache_get c a mid = (if a = '''' \<or> mid = '''' then None else map_of c (a, mid))"

definition cache_delete :: "progress_cache \<Rightarrow> string \<Rightarrow> string \<Rightarrow> progress_cache" where
  "cache_delete c a mid = (if a = '''' \<or> mid = '''' then c else AList.delete (a, mid) c)"

definition cache_delete_agent :: "progress_cache \<Rightarrow> string \<Rightarrow> progress_cache" where
  "cache_delete_agent c a = (if a = '''' then c else filter (\<lambda>((b, _), _). b \<noteq> a) c)"

end
