(* ===== verification/VF_HubLaws.thy ===== *)
theory VF_HubLaws
  imports VF_Hub
begin

text \<open>
  Laws of the hub: which connections are open, the contract the services rely on
  (an interpretation of \<open>agent_link\<close>), and the offline monitor.
\<close>

section \<open>Connections\<close>

text \<open>A new connection, as the WebSocket handler makes it.\<close>

definition connect :: "string \<Rightarrow> bool list \<Rightarrow> unit outcome \<Rightarrow> time \<Rightarrow> hub \<Rightarrow> hub" where
  "connect a script cr t h =
     Add a (length (hub_conns h)) t (h\<lparr>hub_conns := hub_conns h @ [NewSafeConn script cr]\<rparr>)"

definition conn_open :: "hub \<Rightarrow> nat \<Rightarrow> bool" where
  "conn_open h n \<longleftrightarrow> n < length (hub_conns h) \<and> \<not> sc_closed (hub_conns h ! n)"

definition conn_of :: "hub \<Rightarrow> string \<Rightarrow> nat option" where
  "conn_of h a = map_option as_conn (agent_at h a)"

text \<open>The invariant: the open connections are exactly the registered ones, each registered once.\<close>

definition hub_ok :: "hub \<Rightarrow> bool" where
  "hub_ok h \<longleftrightarrow> {n. conn_open h n} = ran (conn_of h) \<and> inj_on (conn_of h) (dom (conn_of h)) \<and>
     (\<forall>c \<in> set (hub_conns h). \<not> sc_nil c)"

lemma nth_update_any: "i < length xs \<Longrightarrow> xs[n := x] ! i = (if i = n then x else xs ! i)"
  by (cases "i = n") auto

lemma ran_drop:
  assumes "m a = Some n" "\<And>b. m b = Some n \<Longrightarrow> b = a"
  shows "ran (m(a := None)) = ran m - {n}"
proof (rule set_eqI)
  fix x
  have "x \<in> ran (m(a := None)) \<longleftrightarrow> (\<exists>b. b \<noteq> a \<and> m b = Some x)" by (auto simp: ran_def)
  also have "\<dots> \<longleftrightarrow> (\<exists>b. m b = Some x) \<and> x \<noteq> n"
  proof (cases "x = n")
    case True
    with assms(2) show ?thesis by blast
  next
    case False
    have "b \<noteq> a" if "m b = Some x" for b using that False assms(1) by (cases "b = a") simp_all
    with False show ?thesis by blast
  qed
  finally show "x \<in> ran (m(a := None)) \<longleftrightarrow> x \<in> ran m - {n}" by (simp add: ran_def)
qed

lemma ran_upd: "ran (m(a \<mapsto> k)) = insert k (ran (m(a := None)))"
  by (auto simp: ran_def)

lemma conn_of_Some: "agent_at h a = Some st \<Longrightarrow> conn_of h a = Some (as_conn st)"
  by (simp add: conn_of_def)

lemma conn_of_cong: "hub_agents h' = hub_agents h \<Longrightarrow> conn_of h' = conn_of h"
  by (auto simp: conn_of_def)

lemma conn_of_set: "conn_of (set_agent a st h) = (conn_of h)(a \<mapsto> as_conn st)"
  by (auto simp: conn_of_def set_agent_def update_conv')

lemma conn_of_drop: "conn_of (drop_agent a h) = (conn_of h)(a := None)"
  by (auto simp: conn_of_def drop_agent_def delete_conv')

lemma conn_of_close: "conn_of (close_at n h) = conn_of h"
  by (rule conn_of_cong) (simp add: close_at_def)

lemma open_agents_only [simp]: "conn_open (set_agent a st h) = conn_open h" "conn_open (drop_agent a h) = conn_open h"
  by (simp_all add: fun_eq_iff conn_open_def set_agent_def drop_agent_def)

lemma conns_agents_only [simp]: "hub_conns (set_agent a st h) = hub_conns h" "hub_conns (drop_agent a h) = hub_conns h"
  by (simp_all add: set_agent_def drop_agent_def)

lemma closed_at: "\<not> sc_nil (hub_conns h ! n) \<Longrightarrow> conn_open (close_at n h) k \<longleftrightarrow> conn_open h k \<and> k \<noteq> n"
  by (cases "k = n") (auto simp: conn_open_def close_at_def CloseConn_def)

lemma no_nil_close: "\<forall>c \<in> set (hub_conns h). \<not> sc_nil c \<Longrightarrow> \<forall>c \<in> set (hub_conns (close_at n h)). \<not> sc_nil c"
proof -
  assume n: "\<forall>c \<in> set (hub_conns h). \<not> sc_nil c"
  have "sc_nil (snd (CloseConn c)) = sc_nil c" for c by (simp add: CloseConn_def)
  with n show ?thesis
    unfolding close_at_def by (auto simp: all_set_conv_all_nth nth_update_any)
qed

lemma hub_okD:
  assumes "hub_ok h" "agent_at h a = Some st"
  shows "as_conn st < length (hub_conns h)" "\<not> sc_closed (hub_conns h ! as_conn st)"
    "\<not> sc_nil (hub_conns h ! as_conn st)"
proof -
  have "as_conn st \<in> ran (conn_of h)" using conn_of_Some [OF assms(2)] by (auto simp: ran_def)
  then have "conn_open h (as_conn st)" using assms(1) by (auto simp: hub_ok_def)
  then show "as_conn st < length (hub_conns h)" "\<not> sc_closed (hub_conns h ! as_conn st)"
    "\<not> sc_nil (hub_conns h ! as_conn st)"
    using assms(1) by (simp_all add: conn_open_def hub_ok_def)
qed

lemma conn_injD:
  "hub_ok h \<Longrightarrow> conn_of h a = Some n \<Longrightarrow> conn_of h b = Some n \<Longrightarrow> b = a"
  unfolding hub_ok_def inj_on_def dom_def by (metis (mono_tags) mem_Collect_eq option.distinct(1))

text \<open>Changes of one agent's flags, of the waiters, or of what was written keep the invariant.\<close>

lemma hub_ok_same:
  assumes "hub_ok h" "conn_of h' = conn_of h" "length (hub_conns h') = length (hub_conns h)"
    "\<And>n. n < length (hub_conns h) \<Longrightarrow> sc_closed (hub_conns h' ! n) = sc_closed (hub_conns h ! n) \<and>
        sc_nil (hub_conns h' ! n) = sc_nil (hub_conns h ! n)"
  shows "hub_ok h'"
proof -
  have "conn_open h' = conn_open h" using assms(3,4) by (auto simp: fun_eq_iff conn_open_def)
  moreover have "\<forall>c \<in> set (hub_conns h'). \<not> sc_nil c"
    using assms(1,3,4) by (simp add: hub_ok_def all_set_conv_all_nth)
  ultimately show ?thesis using assms(1,2) by (simp add: hub_ok_def)
qed

lemma hub_ok_flags:
  "hub_ok h \<Longrightarrow> agent_at h a = Some st \<Longrightarrow> as_conn st' = as_conn st \<Longrightarrow> hub_ok (set_agent a st' h)"
  by (rule hub_ok_same [of h]) (auto simp: conn_of_set conn_of_Some)

lemma hub_ok_drop:
  assumes "hub_ok h" "agent_at h a = Some st"
  shows "hub_ok (close_at (as_conn st) (drop_agent a h))"
proof -
  note c = conn_of_Some [OF assms(2)]
  have "ran ((conn_of h)(a := None)) = ran (conn_of h) - {as_conn st}"
    by (rule ran_drop [where m = "conn_of h", OF c]) (rule conn_injD [OF assms(1) c])
  moreover have "conn_open (close_at (as_conn st) (drop_agent a h)) k \<longleftrightarrow> conn_open h k \<and> k \<noteq> as_conn st" for k
    using hub_okD(3) [OF assms] by (simp add: closed_at)
  moreover have "inj_on ((conn_of h)(a := None)) (dom ((conn_of h)(a := None)))"
    using assms(1) by (simp add: hub_ok_def inj_on_def)
  moreover have "\<forall>c \<in> set (hub_conns (close_at (as_conn st) (drop_agent a h))). \<not> sc_nil c"
    by (rule no_nil_close) (use assms(1) in \<open>simp add: hub_ok_def\<close>)
  ultimately show ?thesis
    using assms(1) by (auto simp: hub_ok_def conn_of_drop conn_of_close)
qed

lemma hub_ok_connect:
  assumes "hub_ok h"
  shows "hub_ok (connect a script cr t h)"
proof -
  let ?n = "length (hub_conns h)"
  define st where "st = \<lparr>as_conn = ?n, as_online = True, as_last_seen = t\<rparr>"
  define h1 where "h1 = set_agent a st (h\<lparr>hub_conns := hub_conns h @ [NewSafeConn script cr]\<rparr>)"
  have c1: "conn_of h1 = (conn_of h)(a \<mapsto> ?n)" by (simp add: h1_def conn_of_set st_def conn_of_cong [of "h\<lparr>hub_conns := _\<rparr>" h])
  have o1: "conn_open h1 k \<longleftrightarrow> conn_open h k \<or> k = ?n" for k
    by (auto simp: h1_def conn_open_def nth_append NewSafeConn_def)
  have n1: "\<forall>c \<in> set (hub_conns h1). \<not> sc_nil c" using assms by (auto simp: h1_def hub_ok_def NewSafeConn_def)
  have fresh: "conn_of h b \<noteq> Some ?n" for b
    using assms by (auto simp: hub_ok_def conn_open_def ran_def set_eq_iff)
  have inj: "inj_on (conn_of h1) (dom (conn_of h1))"
    unfolding c1 using assms fresh by (auto simp: hub_ok_def inj_on_def dom_def split: if_splits)
  show ?thesis
  proof (cases "agent_at h a")
    case None
    then have "conn_of h a = None" by (simp add: conn_of_def)
    then have "ran (conn_of h1) = insert ?n (ran (conn_of h))" by (simp add: c1)
    then have "hub_ok h1" using assms o1 inj n1 by (auto simp: hub_ok_def)
    with None show ?thesis by (simp add: connect_def Add_def h1_def st_def)
  next
    case (Some p)
    then have p: "conn_of h a = Some (as_conn p)" by (rule conn_of_Some)
    have ne: "as_conn p \<noteq> ?n" using p fresh [of a] by auto
    have "ran (conn_of h1) = insert ?n (ran (conn_of h) - {as_conn p})"
      unfolding c1 ran_upd using ran_drop [where m = "conn_of h", OF p] conn_injD [OF assms p] by simp
    moreover have "conn_open (close_at (as_conn p) h1) k \<longleftrightarrow> conn_open h1 k \<and> k \<noteq> as_conn p" for k
      by (rule closed_at) (use hub_okD [OF assms Some] in \<open>simp add: h1_def nth_append\<close>)
    ultimately have "hub_ok (close_at (as_conn p) h1)"
      using assms o1 inj no_nil_close [OF n1] ne by (auto simp: hub_ok_def conn_of_close)
    with Some ne show ?thesis by (simp add: connect_def Add_def h1_def st_def)
  qed
qed

lemma hub_ok_NewHub: "hub_ok NewHub"
proof -
  have "conn_of NewHub = Map.empty" by (rule ext) (simp add: conn_of_def NewHub_def)
  then show ?thesis by (simp add: hub_ok_def conn_open_def NewHub_def)
qed

lemma Send_outcome:
  obtains "Send h a m = (Inl (Err ErrAgentNotConnected), h)" "\<not> IsOnline h a"
  | st r c where "agent_at h a = Some st" "as_online st" "WriteJSON (hub_conns h ! as_conn st) m = (r, c)"
      "Send h a m = (r, h\<lparr>hub_conns := (hub_conns h)[as_conn st := c]\<rparr>)"
proof (cases "agent_at h a")
  case None
  then show thesis by (intro that(1)) (simp_all add: Send_def IsOnline_def)
next
  case (Some st)
  obtain r c where "WriteJSON (hub_conns h ! as_conn st) m = (r, c)" by fastforce
  with Some that show thesis by (cases "as_online st") (auto simp: Send_def IsOnline_def)
qed

lemma write_same: "WriteJSON c m = (r, c') \<Longrightarrow> sc_closed c' = sc_closed c \<and> sc_nil c' = sc_nil c"
  by (auto simp: WriteJSON_def split: if_splits)

lemma hub_ok_Send: "hub_ok h \<Longrightarrow> hub_ok (snd (Send h a m))"
proof (rule Send_outcome [of h a m])
  fix st r c
  assume h: "hub_ok h" and w: "WriteJSON (hub_conns h ! as_conn st) m = (r, c)"
    and s: "Send h a m = (r, h\<lparr>hub_conns := (hub_conns h)[as_conn st := c]\<rparr>)"
  show ?thesis
  proof (rule hub_ok_same [OF h])
    show "conn_of (snd (Send h a m)) = conn_of h" by (rule conn_of_cong) (simp add: s)
  qed (use write_same [OF w] in \<open>simp_all add: s nth_update_any\<close>)
qed simp

section \<open>Every operation\<close>

datatype hub_op =
    OpConnect string "bool list" "unit outcome" time
  | OpRemove string
  | OpRemoveIfCurrent string nat
  | OpSend string message
  | OpUpdateLastSeen string time
  | OpMarkOffline string
  | OpMarkOfflineIfStale string time duration
  | OpMarkOnline string
  | OpSendAndWait string message
  | OpHandleResponse string message
  | OpTimeoutWaiter string string nat

fun run_hub_op :: "hub_op \<Rightarrow> hub \<Rightarrow> hub" where
  "run_hub_op (OpConnect a script cr t) h = connect a script cr t h"
| "run_hub_op (OpRemove a) h = Remove a h"
| "run_hub_op (OpRemoveIfCurrent a n) h = snd (RemoveIfCurrent a n h)"
| "run_hub_op (OpSend a m) h = snd (Send h a m)"
| "run_hub_op (OpUpdateLastSeen a t) h = UpdateLastSeen a t h"
| "run_hub_op (OpMarkOffline a) h = snd (MarkOffline a h)"
| "run_hub_op (OpMarkOfflineIfStale a now d) h = snd (MarkOfflineIfStale a now d h)"
| "run_hub_op (OpMarkOnline a) h = snd (MarkOnline a h)"
| "run_hub_op (OpSendAndWait a m) h = snd (SendAndWait h a m)"
| "run_hub_op (OpHandleResponse a m) h = (case HandleResponse h a m of None \<Rightarrow> h | Some (_, h') \<Rightarrow> h')"
| "run_hub_op (OpTimeoutWaiter a mid n) h = (case timeoutWaiter h a mid n of None \<Rightarrow> h | Some h' \<Rightarrow> h')"

text \<open>The waiter operations touch neither agents nor connections.\<close>

definition same_links :: "hub \<Rightarrow> hub \<Rightarrow> bool" where
  "same_links h h' \<longleftrightarrow> hub_agents h' = hub_agents h \<and> hub_conns h' = hub_conns h"

lemma same_links_ok: "same_links h h' \<Longrightarrow> hub_ok h \<Longrightarrow> hub_ok h'"
  unfolding same_links_def by (rule hub_ok_same [of h]) (auto intro: conn_of_cong)

lemma waiter_ops_links:
  "same_links h (finish n h)" "same_links h (snd (removeWaiter a mid n h))"
  "register_waiter a m h = (r, h1) \<Longrightarrow> same_links h h1" "claim_waiter a m h = (c, h1) \<Longrightarrow> same_links h h1"
  "send_channel n m h = Some h1 \<Longrightarrow> same_links h h1" "close_channel n h = Some h1 \<Longrightarrow> same_links h h1"
  by (auto simp: same_links_def finish_def update_waiter_def removeWaiter_def delete_waiter_def Let_def
      register_waiter_def store_waiter_def claim_waiter_def send_channel_def close_channel_def
      split: sum.splits option.splits if_splits)

lemma same_links_trans: "same_links h h1 \<Longrightarrow> same_links h1 h2 \<Longrightarrow> same_links h h2"
  by (simp add: same_links_def)

lemma HandleResponse_links: "HandleResponse h a m = Some (b, h') \<Longrightarrow> same_links h h'"
  by (auto simp: HandleResponse_def split: prod.splits option.splits
      dest!: waiter_ops_links(4,5,6)) (simp add: same_links_def finish_def update_waiter_def)

lemma timeoutWaiter_links: "timeoutWaiter h a mid n = Some h' \<Longrightarrow> same_links h h'"
proof -
  assume t: "timeoutWaiter h a mid n = Some h'"
  obtain b h1 where r: "removeWaiter a mid n h = (b, h1)" by fastforce
  with waiter_ops_links(2) [of h a mid n] have 1: "same_links h h1" by simp
  have "h' = h \<or> h' = h1 \<or> (\<exists>h2. close_channel n h1 = Some h2 \<and> h' = finish n h2)"
    using t r by (auto simp: timeoutWaiter_def split: if_splits option.splits bool.splits)
  then show ?thesis
    using 1 waiter_ops_links(6) by (auto simp: same_links_def finish_def update_waiter_def)
qed

lemma hub_ok_SendAndWait: "hub_ok h \<Longrightarrow> hub_ok (snd (SendAndWait h a m))"
proof -
  assume h: "hub_ok h"
  obtain r h1 where r: "register_waiter a m h = (r, h1)" by fastforce
  obtain s h2 where s: "Send h1 a m = (s, h2)" by fastforce
  have 1: "hub_ok h1" by (rule same_links_ok [OF waiter_ops_links(3) [OF r] h])
  with hub_ok_Send [OF this, of a m] s have 2: "hub_ok h2" by simp
  have "hub_ok (finish n (snd (removeWaiter a mid n h2)))" for n mid
    by (rule same_links_ok [OF waiter_ops_links(1)], rule same_links_ok [OF waiter_ops_links(2) 2])
  with 1 2 r s show ?thesis by (auto simp: SendAndWait_def split: sum.splits)
qed

lemma run_hub_op_ok: "hub_ok h \<Longrightarrow> hub_ok (run_hub_op oper h)"
proof (cases oper)
  case (OpSendAndWait a m)
  then show "hub_ok h \<Longrightarrow> ?thesis" by (simp add: hub_ok_SendAndWait)
next
  case (OpHandleResponse a m)
  then show "hub_ok h \<Longrightarrow> ?thesis"
    by (auto split: option.splits intro: same_links_ok HandleResponse_links)
next
  case (OpTimeoutWaiter a mid n)
  then show "hub_ok h \<Longrightarrow> ?thesis"
    by (auto split: option.splits intro: same_links_ok timeoutWaiter_links)
next
  case (OpRemove a)
  then show "hub_ok h \<Longrightarrow> ?thesis" by (auto simp: Remove_def hub_ok_drop split: option.splits)
next
  case (OpRemoveIfCurrent a n)
  then show "hub_ok h \<Longrightarrow> ?thesis" by (auto simp: RemoveIfCurrent_def dest: hub_ok_drop split: option.splits)
qed (auto simp: hub_ok_connect hub_ok_Send UpdateLastSeen_def MarkOffline_def MarkOfflineIfStale_def MarkOnline_def
    hub_ok_flags split: option.splits)

text \<open>C14. No connection leaks and none is shared: after every sequence of hub operations, the open
  connections are exactly those registered for an agent, and each is registered for one agent.\<close>

theorem open_connections_registered:
  "(conn_open (fold run_hub_op ops NewHub) n \<longleftrightarrow> (\<exists>a. conn_of (fold run_hub_op ops NewHub) a = Some n)) \<and>
   inj_on (conn_of (fold run_hub_op ops NewHub)) (dom (conn_of (fold run_hub_op ops NewHub)))"
proof -
  have "hub_ok (fold run_hub_op ops h)" if "hub_ok h" for h
    using that by (induction ops arbitrary: h) (simp_all add: run_hub_op_ok)
  from this [OF hub_ok_NewHub] show ?thesis by (auto simp: hub_ok_def ran_def set_eq_iff)
qed

text \<open>A reconnect wins: once an agent has connected anew, the clean-up of its previous
  connection leaves it registered and online with the new one.\<close>

lemma old_cleanup_keeps_new_connection:
  assumes "hub_ok h" and "conn_of h a = Some old"
  shows "RemoveIfCurrent a old (connect a script cr t h) = ((False, False), connect a script cr t h) \<and>
    IsOnline (connect a script cr t h) a \<and> conn_of (connect a script cr t h) a = Some (length (hub_conns h)) \<and>
    \<not> conn_open (connect a script cr t h) old"
proof -
  from assms(2) obtain st where st: "agent_at h a = Some st" "old = as_conn st" by (auto simp: conn_of_def)
  from hub_okD [OF assms(1) st(1)] have "old < length (hub_conns h)" "\<not> sc_nil (hub_conns h ! old)" using st by auto
  then show ?thesis
    using st by (auto simp: connect_def Add_def RemoveIfCurrent_def IsOnline_def conn_of_def close_at_def
        set_agent_def update_conv' conn_open_def nth_append CloseConn_def Let_def)
qed

section \<open>The contract of the services\<close>

definition hub_delivered :: "hub \<Rightarrow> string \<Rightarrow> message list" where
  "hub_delivered h a = (case conn_of h a of None \<Rightarrow> [] | Some n \<Rightarrow> sc_written (hub_conns h ! n))"

definition ws_hub :: "hub hub_ops" where
  "ws_hub = \<lparr>hub_online = IsOnline, hub_send = Send\<rparr>"

lemma WriteJSON_outcome:
  "WriteJSON c m = (Inr u, c') \<Longrightarrow> sc_written c' = sc_written c @ [m]"
  "WriteJSON c m = (Inl e, c') \<Longrightarrow> sc_written c' = sc_written c"
  by (auto simp: WriteJSON_def split: if_splits)

lemma delivered_after_send:
  assumes "hub_ok h" "agent_at h a = Some st"
  shows "hub_delivered (h\<lparr>hub_conns := (hub_conns h)[as_conn st := c]\<rparr>) b =
    (if b = a then sc_written c else hub_delivered h b)"
proof -
  have c: "conn_of (h\<lparr>hub_conns := (hub_conns h)[as_conn st := c]\<rparr>) = conn_of h" by (rule conn_of_cong) simp
  note a = conn_of_Some [OF assms(2)]
  show ?thesis
  proof (cases "b = a")
    case True
    with a hub_okD(1) [OF assms] show ?thesis by (simp add: hub_delivered_def c)
  next
    case False
    with conn_injD [OF assms(1) a] have "conn_of h b \<noteq> Some (as_conn st)" by blast
    with False show ?thesis by (auto simp: hub_delivered_def c split: option.splits)
  qed
qed

interpretation ws: agent_link ws_hub hub_delivered hub_ok
proof
  fix h a b :: _ and m e h'
  assume h: "hub_ok h"
  then show "hub_ok (snd (hub_send ws_hub h a m))" by (simp add: ws_hub_def hub_ok_Send)
  have now: "hub_delivered h a = sc_written (hub_conns h ! as_conn st)" if "agent_at h a = Some st" for st
    using that by (simp add: hub_delivered_def conn_of_Some)
  show "hub_delivered h' a = hub_delivered h a @ [m]" if "hub_send ws_hub h a m = (Inr (), h')"
    using that h unfolding ws_hub_def
    by (cases rule: Send_outcome [of h a m]) (auto simp: delivered_after_send now dest: WriteJSON_outcome)
  show "hub_delivered h' a = hub_delivered h a" if "hub_send ws_hub h a m = (Inl e, h')"
    using that h unfolding ws_hub_def
    by (cases rule: Send_outcome [of h a m]) (auto simp: delivered_after_send now dest: WriteJSON_outcome)
  show "hub_delivered (snd (hub_send ws_hub h a m)) b = hub_delivered h b" if "b \<noteq> a"
    using that h unfolding ws_hub_def
    by (cases rule: Send_outcome [of h a m]) (auto simp: delivered_after_send)
  show "hub_send ws_hub h a m = (Inl (Err ''agent not connected''), h)" if "\<not> hub_online ws_hub h a"
    using that unfolding ws_hub_def
    by (cases rule: Send_outcome [of h a m]) (auto simp: IsOnline_def)
qed

section \<open>The offline monitor\<close>

definition stale :: "time \<Rightarrow> duration \<Rightarrow> agent_status \<Rightarrow> bool" where
  "stale now threshold st \<longleftrightarrow> as_online st \<and> threshold < time_sub now (as_last_seen st)"

definition taken_offline :: "time \<Rightarrow> duration \<Rightarrow> string \<times> agent_status \<Rightarrow> string \<times> agent_status" where
  "taken_offline now threshold p = (fst p, if stale now threshold (snd p) then (snd p)\<lparr>as_online := False\<rparr> else snd p)"

lemma update_middle: "a \<notin> fst ` set pre \<Longrightarrow> AList.update a v (pre @ (a, w) # rest) = pre @ (a, v) # rest"
  by (induction pre) auto

lemma map_of_middle: "a \<notin> fst ` set pre \<Longrightarrow> map_of (pre @ (a, w) # rest) a = Some w"
  by (induction pre) auto

lemma mark_in_scan:
  "hub_agents h = pre @ (a, st) # rest \<Longrightarrow> a \<notin> fst ` set pre \<Longrightarrow>
   MarkOfflineIfStale a now threshold h =
     (if stale now threshold st then (True, h\<lparr>hub_agents := pre @ (a, st\<lparr>as_online := False\<rparr>) # rest\<rparr>) else (False, h))"
proof -
  assume h: "hub_agents h = pre @ (a, st) # rest" and a: "a \<notin> fst ` set pre"
  have "agent_at h a = Some st" unfolding h by (rule map_of_middle [OF a])
  then show ?thesis
    by (simp add: MarkOfflineIfStale_def set_agent_def update_middle [OF a] h stale_def not_le del: map_of_append)
qed

lemma scan_agents_quiet:
  "hub_agents h = pre @ rest \<Longrightarrow> distinct (map fst (pre @ rest)) \<Longrightarrow>
   scan_agents now threshold (\<lambda>_ h. h) k rest h =
     (map fst (filter (\<lambda>p. stale now threshold (snd p)) rest),
      h\<lparr>hub_agents := pre @ map (taken_offline now threshold) rest\<rparr>)"
proof (induction rest arbitrary: pre h k)
  case Nil
  then have "h\<lparr>hub_agents := pre\<rparr> = h" by (cases h) simp
  then show ?case by simp
next
  case (Cons p rest)
  obtain a st where p: "p = (a, st)" by fastforce
  have a: "a \<notin> fst ` set pre" using Cons.prems(2) p by auto
  show ?case
  proof (cases "stale now threshold st")
    case True
    let ?h = "h\<lparr>hub_agents := pre @ (a, st\<lparr>as_online := False\<rparr>) # rest\<rparr>"
    from Cons.IH [of ?h "pre @ [(a, st\<lparr>as_online := False\<rparr>)]" "k + 1"] Cons.prems(2) p
    have "scan_agents now threshold (\<lambda>_ h. h) (k + 1) rest ?h =
        (map fst (filter (\<lambda>p. stale now threshold (snd p)) rest),
         ?h\<lparr>hub_agents := (pre @ [(a, st\<lparr>as_online := False\<rparr>)]) @ map (taken_offline now threshold) rest\<rparr>)"
      by simp
    with True show ?thesis
      using mark_in_scan [OF Cons.prems(1) [unfolded p] a, of now threshold]
      by (auto simp: p taken_offline_def stale_def)
  next
    case False
    from Cons.IH [of h "pre @ [p]" "k + 1"] Cons.prems
    have "scan_agents now threshold (\<lambda>_ h. h) (k + 1) rest h =
        (map fst (filter (\<lambda>p. stale now threshold (snd p)) rest),
         h\<lparr>hub_agents := (pre @ [p]) @ map (taken_offline now threshold) rest\<rparr>)"
      by simp
    with False show ?thesis by (auto simp: p taken_offline_def stale_def)
  qed
qed

text \<open>One tick of the monitor, undisturbed, takes exactly the stale agents offline, reports each
  of them once, and leaves the others, the connections and the waiters alone.\<close>

lemma scan_takes_stale_offline:
  assumes "distinct (map fst (hub_agents h))"
  shows "scan now threshold (\<lambda>_ h. h) h =
    (map fst (filter (\<lambda>p. stale now threshold (snd p)) (hub_agents h)),
     h\<lparr>hub_agents := map (taken_offline now threshold) (hub_agents h)\<rparr>)"
  using scan_agents_quiet [of h "[]" "hub_agents h"] assms by (simp add: scan_def GetAllAgents_def)

text \<open>With the connections running in between, only an agent the hub holds as stale at that very
  moment is reported: a heartbeat that comes after the reading is not lost.\<close>

lemma scan_rechecks:
  "scan_agents now threshold others k agents h = (offline, h') \<Longrightarrow> a \<in> set offline \<Longrightarrow>
   \<exists>j h1 st. agent_at (others j h1) a = Some st \<and> stale now threshold st"
proof (induction now threshold others k agents h arbitrary: offline h' rule: scan_agents.induct)
  case (2 now threshold others k b st rest h)
  obtain m h1 where m: "MarkOfflineIfStale b now threshold (others k h) = (m, h1)" by fastforce
  show ?case
  proof (cases "as_online st \<and> \<not> time_sub now (as_last_seen st) \<le> threshold \<and> m \<and> a = b")
    case True
    with m have "\<exists>st. agent_at (others k h) a = Some st \<and> stale now threshold st"
      by (auto simp: MarkOfflineIfStale_def stale_def not_le split: option.splits if_splits)
    then show ?thesis by blast
  next
    case False
    with 2 m show ?thesis by (auto split: if_splits bool.splits prod.splits)
  qed
qed simp

section \<open>Witnesses\<close>

definition sample_hub :: hub where
  "sample_hub = connect ''a2'' [] (Inr ()) 5 (connect ''a1'' [] (Inr ()) 0 NewHub)"

lemma sample_hub_ok: "hub_ok sample_hub"
  by (simp add: sample_hub_def hub_ok_connect hub_ok_NewHub)

end
