(* ===== verification/VF_HubRace.thy ===== *)
theory VF_HubRace
  imports VF_HubLaws
begin

text \<open>
  The waiters of the hub under concurrency (internal/master/ws/hub.go): SendAndWait, the goroutine
  timeoutWaiter it starts, and HandleResponse, interleaved at every point where the code holds no
  lock.  Closing a closed channel and sending on one panic; the invariant below excludes both.
\<close>

section \<open>Goroutines\<close>

text \<open>What a goroutine that works on waiter \<open>n\<close> does next:
  in SendAndWait, Send (\<open>TSending\<close>), removeWaiter after its error (\<open>TFailed\<close>) and finish (\<open>TFinishing\<close>);
  in timeoutWaiter, the select (\<open>TWaiting\<close>), close (\<open>TExpired\<close>) and finish (\<open>TExpiredClosed\<close>);
  in HandleResponse after the unlock, finish (\<open>TClaimed\<close>), the send (\<open>TFinished\<close>) and close (\<open>TSent\<close>).\<close>

datatype thread =
    TSending string message nat
  | TFailed string string nat
  | TFinishing nat
  | TWaiting string string nat
  | TExpired nat
  | TExpiredClosed nat
  | TClaimed nat message
  | TFinished nat message
  | TSent nat
  | TDone

text \<open>The moves of a goroutine; \<open>None\<close> is a panic.\<close>

fun moves :: "hub \<Rightarrow> thread \<Rightarrow> (thread \<times> hub) option list" where
  "moves h (TSending a m n) =
     (case Send h a m of (Inr _, h') \<Rightarrow> [Some (TWaiting a (m_id m) n, h')]
      | (Inl _, h') \<Rightarrow> [Some (TFailed a (m_id m) n, h')])"
| "moves h (TFailed a mid n) = [Some (TFinishing n, snd (removeWaiter a mid n h))]"
| "moves h (TFinishing n) = [Some (TDone, finish n h)]"
| "moves h (TWaiting a mid n) =
     (case removeWaiter a mid n h of (True, h') \<Rightarrow> Some (TExpired n, h') | (False, h') \<Rightarrow> Some (TDone, h'))
     # (if wt_done (hub_store h ! n) then [Some (TDone, h)] else [])"
| "moves h (TExpired n) = [map_option (Pair (TExpiredClosed n)) (close_channel n h)]"
| "moves h (TExpiredClosed n) = [Some (TDone, finish n h)]"
| "moves h (TClaimed n m) = [Some (TFinished n m, finish n h)]"
| "moves h (TFinished n m) = [map_option (Pair (TSent n)) (send_channel n m h)]"
| "moves h (TSent n) = [map_option (Pair TDone) (close_channel n h)]"
| "moves h TDone = []"

datatype race = Running hub "thread list" | Panicked

inductive race_step :: "race \<Rightarrow> race \<Rightarrow> bool" where
  request: "register_waiter a m h = (Inr n, h') \<Longrightarrow> race_step (Running h ts) (Running h' (ts @ [TSending a m n]))"
| response: "claim_waiter a m h = (Some n, h') \<Longrightarrow> race_step (Running h ts) (Running h' (ts @ [TClaimed n m]))"
| move: "Some (t', h') \<in> set (moves h t) \<Longrightarrow> race_step (Running h (us @ t # vs)) (Running h' (us @ t' # vs))"
| panic: "None \<in> set (moves h t) \<Longrightarrow> race_step (Running h (us @ t # vs)) Panicked"
| elsewhere: "hub_waiters h' = hub_waiters h \<Longrightarrow> hub_store h' = hub_store h \<Longrightarrow>
    race_step (Running h ts) (Running h' ts)"

definition race_reachable :: "race \<Rightarrow> bool" where
  "race_reachable = race_step\<^sup>*\<^sup>* (Running NewHub [])"

section \<open>The map of waiters\<close>

definition reg :: "hub \<Rightarrow> string \<Rightarrow> string \<Rightarrow> nat option" where
  "reg h a mid = map_of (waiters_of h a) mid"

lemma waiters_of_store:
  "waiters_of (store_waiter a mid n h) b = (if b = a then AList.update mid n (waiters_of h a) else waiters_of h b)"
  unfolding waiters_of_def store_waiter_def by (simp add: update_conv')

lemma reg_store: "reg (store_waiter a mid n h) b mid' = (if b = a \<and> mid' = mid then Some n else reg h b mid')"
  unfolding reg_def waiters_of_store by (simp add: update_conv')

lemma waiters_of_delete:
  "waiters_of (delete_waiter a mid h) b = (if b = a then AList.delete mid (waiters_of h a) else waiters_of h b)"
proof (cases "AList.delete mid (waiters_of h a) = []")
  case True
  then show ?thesis by (simp add: delete_waiter_def waiters_of_def [of "h\<lparr>hub_waiters := _\<rparr>"] delete_conv')
      (simp add: waiters_of_def)
next
  case False
  then show ?thesis by (simp add: delete_waiter_def waiters_of_def [of "h\<lparr>hub_waiters := _\<rparr>"] update_conv')
      (simp add: waiters_of_def)
qed

lemma reg_delete: "reg (delete_waiter a mid h) b mid' = (if b = a \<and> mid' = mid then None else reg h b mid')"
  unfolding reg_def waiters_of_delete by (simp add: delete_conv')

lemma reg_cong: "hub_waiters h' = hub_waiters h \<Longrightarrow> reg h' = reg h"
  unfolding fun_eq_iff reg_def waiters_of_def by simp

lemma store_same [simp]:
  "hub_store (store_waiter a mid n h) = hub_store h" "hub_store (delete_waiter a mid h) = hub_store h"
  by (simp_all add: store_waiter_def delete_waiter_def Let_def)

lemma reg_update [simp]: "reg (update_waiter n f h) = reg h" "reg (h\<lparr>hub_store := st\<rparr>) = reg h"
  by (rule reg_cong, simp add: update_waiter_def)+

lemma Send_rest: "hub_waiters (snd (Send h a m)) = hub_waiters h" "hub_store (snd (Send h a m)) = hub_store h"
  by (rule Send_outcome [of h a m]; simp)+

section \<open>The invariant\<close>

text \<open>\<open>owes t n\<close>: \<open>t\<close> has taken waiter \<open>n\<close> out of the map and has yet to close its channel.\<close>

fun owes :: "nat \<Rightarrow> thread \<Rightarrow> bool" where
  "owes n (TExpired k) \<longleftrightarrow> k = n"
| "owes n (TClaimed k _) \<longleftrightarrow> k = n"
| "owes n (TFinished k _) \<longleftrightarrow> k = n"
| "owes n (TSent k) \<longleftrightarrow> k = n"
| "owes n _ \<longleftrightarrow> False"

fun past :: "nat \<Rightarrow> thread \<Rightarrow> bool" where
  "past n (TFinishing k) \<longleftrightarrow> k = n"
| "past n (TExpiredClosed k) \<longleftrightarrow> k = n"
| "past n t \<longleftrightarrow> owes n t"

fun guards :: "string \<Rightarrow> string \<Rightarrow> nat \<Rightarrow> thread \<Rightarrow> bool" where
  "guards a mid n (TSending b m k) \<longleftrightarrow> b = a \<and> m_id m = mid \<and> k = n"
| "guards a mid n (TFailed b i k) \<longleftrightarrow> b = a \<and> i = mid \<and> k = n"
| "guards a mid n (TWaiting b i k) \<longleftrightarrow> b = a \<and> i = mid \<and> k = n"
| "guards a mid n _ \<longleftrightarrow> False"

definition answers :: "waiter \<Rightarrow> message \<Rightarrow> bool" where
  "answers w m \<longleftrightarrow> m_id m = m_id (wt_request w) \<and> expectedResponseType (m_type (wt_request w)) = Inr (m_type m)"

fun holds :: "waiter \<Rightarrow> thread \<Rightarrow> bool" where
  "holds w (TClaimed _ m) \<longleftrightarrow> answers w m \<and> wt_sent w = []"
| "holds w (TFinished _ m) \<longleftrightarrow> answers w m \<and> wt_sent w = []"
| "holds w (TExpired _) \<longleftrightarrow> wt_sent w = []"
| "holds w _ \<longleftrightarrow> True"

text \<open>One waiter: \<open>r a mid\<close> says that it is registered there.\<close>

definition waiter_ok :: "(string \<Rightarrow> string \<Rightarrow> bool) \<Rightarrow> waiter \<Rightarrow> nat \<Rightarrow> thread list \<Rightarrow> bool" where
  "waiter_ok r w n ts \<longleftrightarrow>
     (\<forall>a mid. r a mid \<longrightarrow> wt_agent w = a \<and> m_id (wt_request w) = mid \<and> \<not> wt_closed w \<and> wt_sent w = [] \<and>
        \<not> wt_done w \<and> (\<forall>t \<in> set ts. \<not> past n t) \<and> (\<exists>t \<in> set ts. guards a mid n t)) \<and>
     length (filter (owes n) ts) \<le> 1 \<and>
     (\<forall>t \<in> set ts. owes n t \<longrightarrow> \<not> wt_closed w \<and> holds w t) \<and>
     (\<forall>t \<in> set ts. \<forall>a mid. guards a mid n t \<longrightarrow> wt_agent w = a \<and> m_id (wt_request w) = mid) \<and>
     expectedResponseType (m_type (wt_request w)) = Inr (wt_expected w) \<and>
     length (wt_sent w) \<le> 1 \<and> (\<forall>m \<in> set (wt_sent w). answers w m)"

fun race_ok :: "race \<Rightarrow> bool" where
  "race_ok (Running h ts) \<longleftrightarrow>
     (\<forall>n < length (hub_store h). waiter_ok (\<lambda>a mid. reg h a mid = Some n) (hub_store h ! n) n ts) \<and>
     (\<forall>a mid n. reg h a mid = Some n \<longrightarrow> n < length (hub_store h)) \<and>
     (\<forall>t \<in> set ts. \<forall>n. past n t \<or> (\<exists>a mid. guards a mid n t) \<longrightarrow> n < length (hub_store h))"
| "race_ok Panicked \<longleftrightarrow> False"

lemma store_nth [simp]:
  "length (hub_store (update_waiter n f h)) = length (hub_store h)"
  "k < length (hub_store h) \<Longrightarrow> hub_store (update_waiter n f h) ! k = (if k = n then f (hub_store h ! n) else hub_store h ! k)"
  by (simp_all add: update_waiter_def nth_update_any)

lemma removeWaiter_cases:
  obtains "removeWaiter a mid n h = (False, h)" "reg h a mid \<noteq> Some n"
  | "removeWaiter a mid n h = (True, delete_waiter a mid h)" "reg h a mid = Some n"
  by (auto simp: removeWaiter_def reg_def)

text \<open>A goroutine step changes the list of goroutines in one place.\<close>

lemma owes_past: "owes n t \<Longrightarrow> past n t"
  by (cases t) simp_all

lemma past_no_guard: "past n t \<Longrightarrow> \<not> guards a mid k t"
  by (cases t) simp_all

lemma race_okI:
  assumes "\<And>n. n < length (hub_store h) \<Longrightarrow> waiter_ok (\<lambda>a mid. reg h a mid = Some n) (hub_store h ! n) n ts"
    and "\<And>a mid n. reg h a mid = Some n \<Longrightarrow> n < length (hub_store h)"
    and "\<And>t n. t \<in> set ts \<Longrightarrow> past n t \<Longrightarrow> n < length (hub_store h)"
    and "\<And>t a mid n. t \<in> set ts \<Longrightarrow> guards a mid n t \<Longrightarrow> n < length (hub_store h)"
  shows "race_ok (Running h ts)"
  using assms by auto

text \<open>A waiter seen by a step of thread \<open>t\<close> to \<open>t'\<close>: registration may only be lost.\<close>

lemma waiter_ok_move:
  assumes ok: "waiter_ok r w n (us @ t # vs)"
    and r: "\<And>a mid. r' a mid \<Longrightarrow> r a mid"
    and reqs: "wt_agent w' = wt_agent w" "wt_request w' = wt_request w" "wt_expected w' = wt_expected w"
    and still: "\<And>a mid. r' a mid \<Longrightarrow> w' = w \<and> \<not> past n t' \<and> (guards a mid n t \<longrightarrow> guards a mid n t')"
    and taken: "owes n t' \<Longrightarrow> owes n t \<or> (\<exists>a mid. r a mid)"
    and mine: "owes n t' \<Longrightarrow> \<not> wt_closed w' \<and> holds w' t'"
    and others: "w' = w \<or> owes n t \<or> wt_sent w' = wt_sent w \<and> wt_closed w' = wt_closed w"
    and named: "\<And>a mid. guards a mid n t' \<Longrightarrow> guards a mid n t"
    and sent: "wt_sent w' = wt_sent w \<or> (\<exists>m. wt_sent w' = [m] \<and> answers w m)"
  shows "waiter_ok r' w' n (us @ t' # vs)"
proof -
  note ok' = ok [unfolded waiter_ok_def]
  have free: "\<not> owes n x" if "r a mid" "x \<in> set (us @ t # vs)" for a mid x
    using ok' that owes_past by blast
  have len: "length (filter (owes n) us) + (if owes n t then 1 else 0) + length (filter (owes n) vs) \<le> 1"
    using ok' by (auto split: if_splits)
  have 1: "length (filter (owes n) (us @ t' # vs)) \<le> 1"
  proof (cases "owes n t'")
    case True
    from taken [OF True] show ?thesis
    proof
      assume "\<exists>a mid. r a mid"
      with free have "filter (owes n) us = []" "filter (owes n) vs = []" by (auto simp: filter_empty_conv)
      then show ?thesis by simp
    qed (use len in simp)
  qed (use len in \<open>simp split: if_splits\<close>)
  have hold: "holds w' x \<longleftrightarrow> holds w x" if "wt_sent w' = wt_sent w" for x
    using that reqs by (cases x) (simp_all add: answers_def)
  have 2: "\<not> wt_closed w' \<and> holds w' x" if "x \<in> set us \<union> set vs" "owes n x" for x
  proof -
    have "\<not> owes n t"
    proof
      assume "owes n t"
      with len have "filter (owes n) us = []" "filter (owes n) vs = []" by simp_all
      with that show False by (auto simp: filter_empty_conv)
    qed
    with others have "wt_sent w' = wt_sent w \<and> wt_closed w' = wt_closed w" by auto
    with hold that ok' show ?thesis by auto
  qed
  have ans: "answers w' = answers w" using reqs by (simp add: answers_def fun_eq_iff)
  have 3: "length (wt_sent w') \<le> 1 \<and> (\<forall>m \<in> set (wt_sent w'). answers w' m)"
    using sent ok' unfolding ans by auto
  have 4: "wt_agent w' = a \<and> m_id (wt_request w') = mid \<and> \<not> wt_closed w' \<and> wt_sent w' = [] \<and> \<not> wt_done w' \<and>
      (\<forall>x \<in> set (us @ t' # vs). \<not> past n x) \<and> (\<exists>x \<in> set (us @ t' # vs). guards a mid n x)" if "r' a mid" for a mid
    using ok' r [OF that] still [OF that] by auto
  have gd: "wt_agent w = a \<and> m_id (wt_request w) = mid" if "x \<in> set (us @ t # vs)" "guards a mid n x" for x a mid
    using ok' that by blast
  have 5: "wt_agent w' = a \<and> m_id (wt_request w') = mid" if "x \<in> set (us @ t' # vs)" "guards a mid n x" for x a mid
  proof (cases "x = t'")
    case True
    with named [of a mid] that(2) have "guards a mid n t" by simp
    with gd [of t a mid] reqs show ?thesis by simp
  next
    case False
    with that gd [of x] reqs show ?thesis by simp
  qed
  have 6: "expectedResponseType (m_type (wt_request w')) = Inr (wt_expected w')" using ok' reqs by simp
  have 7: "\<forall>x \<in> set (us @ t' # vs). owes n x \<longrightarrow> \<not> wt_closed w' \<and> holds w' x" using 2 mine by auto
  show ?thesis
    unfolding waiter_ok_def using 1 3 4 5 6 7 by blast
qed

lemma waiter_okD:
  assumes "waiter_ok r w n (us @ t # vs)"
  shows "r a mid \<Longrightarrow> \<not> past n t \<and> \<not> owes n t \<and> \<not> wt_closed w \<and> wt_sent w = [] \<and> \<not> wt_done w"
    and "guards a mid n t \<Longrightarrow> r b i \<Longrightarrow> b = a \<and> i = mid"
    and "owes n t \<Longrightarrow> \<not> wt_closed w \<and> holds w t"
proof -
  note ok = assms [unfolded waiter_ok_def]
  show "r a mid \<Longrightarrow> \<not> past n t \<and> \<not> owes n t \<and> \<not> wt_closed w \<and> wt_sent w = [] \<and> \<not> wt_done w"
    using ok owes_past by auto
  show "guards a mid n t \<Longrightarrow> r b i \<Longrightarrow> b = a \<and> i = mid" using ok by auto
  show "owes n t \<Longrightarrow> \<not> wt_closed w \<and> holds w t" using ok by auto
qed

lemma race_ok_move:
  assumes ok: "race_ok (Running h (us @ t # vs))"
    and len: "length (hub_store h') = length (hub_store h)"
    and r: "\<And>a mid n. reg h' a mid = Some n \<Longrightarrow> reg h a mid = Some n"
    and each: "\<And>n. n < length (hub_store h) \<Longrightarrow>
        waiter_ok (\<lambda>a mid. reg h a mid = Some n) (hub_store h ! n) n (us @ t # vs) \<Longrightarrow>
        waiter_ok (\<lambda>a mid. reg h' a mid = Some n) (hub_store h' ! n) n (us @ t' # vs)"
    and bound: "\<And>n a mid. past n t' \<or> guards a mid n t' \<Longrightarrow> past n t \<or> (\<exists>a mid. guards a mid n t)"
  shows "race_ok (Running h' (us @ t' # vs))"
proof (rule race_okI)
  show "waiter_ok (\<lambda>a mid. reg h' a mid = Some n) (hub_store h' ! n) n (us @ t' # vs)" if "n < length (hub_store h')" for n
    using each ok that len by simp
  have "\<forall>a mid n. reg h a mid = Some n \<longrightarrow> n < length (hub_store h)" using ok by simp
  with r len show "reg h' a mid = Some n \<Longrightarrow> n < length (hub_store h')" for a mid n
    by metis
  have "\<forall>x \<in> set (us @ t # vs). \<forall>n. past n x \<or> (\<exists>a mid. guards a mid n x) \<longrightarrow> n < length (hub_store h)"
    using ok unfolding race_ok.simps by blast
  then have old: "n < length (hub_store h)" if "x \<in> set (us @ t # vs)" "past n x \<or> guards a mid n x" for x n a mid
    using that by blast
  have new: "n < length (hub_store h')" if x: "x \<in> set (us @ t' # vs)" "past n x \<or> guards a mid n x" for x n a mid
  proof (cases "x = t'")
    case True
    with bound x(2) have "past n t \<or> (\<exists>a mid. guards a mid n t)" by blast
    with old [of t n] len show ?thesis by auto
  next
    case False
    with x old [of x n a mid] len show ?thesis by simp
  qed
  show "t \<in> set (us @ t' # vs) \<Longrightarrow> past n t \<Longrightarrow> n < length (hub_store h')" for t n using new by blast
  show "t \<in> set (us @ t' # vs) \<Longrightarrow> guards a mid n t \<Longrightarrow> n < length (hub_store h')" for t a mid n using new by blast
qed

text \<open>The moves, one group of goroutine states after the other.\<close>

lemma move_send:
  assumes "race_ok (Running h (us @ TSending a m k # vs))" "Some (t', h') \<in> set (moves h (TSending a m k))"
  shows "race_ok (Running h' (us @ t' # vs))"
proof -
  obtain r h2 where send: "Send h a m = (r, h2)" by fastforce
  with assms(2) have t': "t' = TWaiting a (m_id m) k \<or> t' = TFailed a (m_id m) k" and "h' = h2"
    by (cases r; auto)+
  with send have h': "h' = snd (Send h a m)" by simp
  have s: "hub_store h' = hub_store h" "reg h' = reg h" unfolding h' by (rule Send_rest reg_cong)+
  show ?thesis
  proof (rule race_ok_move [OF assms(1)])
    fix n assume "waiter_ok (\<lambda>a mid. reg h a mid = Some n) (hub_store h ! n) n (us @ TSending a m k # vs)"
    then show "waiter_ok (\<lambda>a mid. reg h' a mid = Some n) (hub_store h' ! n) n (us @ t' # vs)"
      by (rule waiter_ok_move) (use t' s in auto)
  qed (use t' s in auto)
qed

lemma move_finish:
  assumes "race_ok (Running h (us @ t # vs))" and t: "past k t"
    "t' = TDone \<and> \<not> owes k t \<and> (\<forall>n. n \<noteq> k \<longrightarrow> \<not> past n t) \<or> (\<exists>m. t = TClaimed k m \<and> t' = TFinished k m)"
  shows "race_ok (Running (finish k h) (us @ t' # vs))"
proof (rule race_ok_move [OF assms(1)])
  fix n assume n: "n < length (hub_store h)"
    and ok: "waiter_ok (\<lambda>a mid. reg h a mid = Some n) (hub_store h ! n) n (us @ t # vs)"
  have w: "hub_store (finish k h) ! n = (if n = k then (hub_store h ! k)\<lparr>wt_done := True\<rparr> else hub_store h ! n)"
    using n by (simp add: finish_def)
  show "waiter_ok (\<lambda>a mid. reg (finish k h) a mid = Some n) (hub_store (finish k h) ! n) n (us @ t' # vs)"
    unfolding w using waiter_okD [OF ok] t past_no_guard [OF t(1)]
    by (intro waiter_ok_move [OF ok]) (auto simp: finish_def answers_def split: if_splits)
qed (use t in \<open>auto simp: finish_def\<close>)

lemma move_unregister:
  assumes "race_ok (Running h (us @ t # vs))" and t: "t = TFailed a mid k \<and> t' = TFinishing k \<or> t = TWaiting a mid k \<and>
      (t' = TExpired k \<and> b \<or> t' = TDone \<and> \<not> b)"
    and rm: "removeWaiter a mid k h = (b, h')"
  shows "race_ok (Running h' (us @ t' # vs))"
proof -
  have g: "guards a mid k t" using t by auto
  have s: "hub_store h' = hub_store h" and r: "reg h' c i = (if c = a \<and> i = mid \<and> b then None else reg h c i)"
    and b: "b \<longleftrightarrow> reg h a mid = Some k" for c i
    using rm by (cases rule: removeWaiter_cases [of a mid k h]; auto simp: reg_delete)+
  show ?thesis
  proof (rule race_ok_move [OF assms(1)])
    fix n assume ok: "waiter_ok (\<lambda>a mid. reg h a mid = Some n) (hub_store h ! n) n (us @ t # vs)"
    show "waiter_ok (\<lambda>a mid. reg h' a mid = Some n) (hub_store h' ! n) n (us @ t' # vs)"
      unfolding s
    proof (rule waiter_ok_move [OF ok])
      fix c i assume "reg h' c i = Some n"
      with r b have n: "reg h c i = Some n" "\<not> (c = a \<and> i = mid \<and> b)" by (auto split: if_splits)
      have "n \<noteq> k" using waiter_okD(2) [OF ok, of a mid c i] g n b by auto
      then show "hub_store h ! n = hub_store h ! n \<and> \<not> past n t' \<and> (guards c i n t \<longrightarrow> guards c i n t')"
        using t by auto
    qed (use t b waiter_okD(1) [OF ok] in \<open>auto simp: r split: if_splits\<close>)
  qed (use t s r in \<open>auto split: if_splits\<close>)
qed

lemma move_give_up:
  assumes "race_ok (Running h (us @ TWaiting a mid k # vs))" "wt_done (hub_store h ! k)"
  shows "race_ok (Running h (us @ TDone # vs))"
proof (rule race_ok_move [OF assms(1)])
  fix n assume ok: "waiter_ok (\<lambda>a mid. reg h a mid = Some n) (hub_store h ! n) n (us @ TWaiting a mid k # vs)"
  from waiter_okD(1) [OF ok] assms(2) show "waiter_ok (\<lambda>a mid. reg h a mid = Some n) (hub_store h ! n) n (us @ TDone # vs)"
    by (intro waiter_ok_move [OF ok]) auto
qed auto

lemma move_channel:
  assumes "race_ok (Running h (us @ t # vs))" and t: "owes k t" "owes k t' \<or> (\<forall>n. \<not> owes n t')"
    and only: "\<And>n. past n t \<Longrightarrow> n = k" "\<And>n. past n t' \<Longrightarrow> n = k" "\<And>a mid n. \<not> guards a mid n t'" "\<And>a mid n. \<not> guards a mid n t"
    and f: "\<And>w. wt_agent (f w) = wt_agent w \<and> wt_request (f w) = wt_request w \<and> wt_expected (f w) = wt_expected w"
      "\<And>w. \<not> wt_closed w \<Longrightarrow> holds w t \<Longrightarrow> owes k t' \<Longrightarrow> \<not> wt_closed (f w) \<and> holds (f w) t'"
      "\<And>w. holds w t \<Longrightarrow> wt_sent (f w) = wt_sent w \<or> (\<exists>m. wt_sent (f w) = [m] \<and> answers w m)"
  shows "race_ok (Running (update_waiter k f h) (us @ t' # vs))"
proof (rule race_ok_move [OF assms(1)])
  fix n assume n: "n < length (hub_store h)"
    and ok: "waiter_ok (\<lambda>a mid. reg h a mid = Some n) (hub_store h ! n) n (us @ t # vs)"
  have w: "hub_store (update_waiter k f h) ! n = (if n = k then f (hub_store h ! k) else hub_store h ! n)"
    using n by simp
  have other: "\<not> owes n t'" if "n \<noteq> k" using that only(2) owes_past by blast
  show "waiter_ok (\<lambda>a mid. reg (update_waiter k f h) a mid = Some n) (hub_store (update_waiter k f h) ! n) n (us @ t' # vs)"
  proof (rule waiter_ok_move [OF ok])
    fix a mid assume "reg (update_waiter k f h) a mid = Some n"
    then have "\<not> owes n t" using waiter_okD(1) [OF ok, of a mid] by simp
    with t(1) only(2) have "n \<noteq> k" "\<not> past n t'" by auto
    then show "hub_store (update_waiter k f h) ! n = hub_store h ! n \<and> \<not> past n t' \<and> (guards a mid n t \<longrightarrow> guards a mid n t')"
      using only(4) w by simp
  next
    show "owes n t' \<Longrightarrow> owes n t \<or> (\<exists>a mid. reg h a mid = Some n)" using t(1) other by blast
    show "owes n t' \<Longrightarrow> \<not> wt_closed (hub_store (update_waiter k f h) ! n) \<and> holds (hub_store (update_waiter k f h) ! n) t'"
      using other w f(2) waiter_okD(3) [OF ok] t(1) by (cases "n = k") auto
    show "wt_sent (hub_store (update_waiter k f h) ! n) = wt_sent (hub_store h ! n) \<or>
        (\<exists>m. wt_sent (hub_store (update_waiter k f h) ! n) = [m] \<and> answers (hub_store h ! n) m)"
      using w f(3) waiter_okD(3) [OF ok] t(1) by (cases "n = k") auto
  qed (use w f(1) t(1) only in auto)
qed (use t only in \<open>auto simp: owes_past\<close>)

text \<open>New goroutines.\<close>

lemma waiter_ok_grow:
  assumes ok: "waiter_ok r w k ts" and r: "\<And>a mid. r' a mid \<Longrightarrow> r a mid"
    and t: "\<not> past k t" "\<And>a mid. \<not> guards a mid k t"
  shows "waiter_ok r' w k (ts @ [t])"
proof -
  have o: "\<not> owes k t" using t(1) owes_past by blast
  have reg: "wt_agent w = a \<and> m_id (wt_request w) = mid \<and> \<not> wt_closed w \<and> wt_sent w = [] \<and> \<not> wt_done w \<and>
      (\<forall>x \<in> set (ts @ [t]). \<not> past k x) \<and> (\<exists>x \<in> set (ts @ [t]). guards a mid k x)" if "r' a mid" for a mid
    using ok r [OF that] t(1) unfolding waiter_ok_def by auto
  show ?thesis
    unfolding waiter_ok_def
  proof (intro conjI)
    show "\<forall>a mid. r' a mid \<longrightarrow> wt_agent w = a \<and> m_id (wt_request w) = mid \<and> \<not> wt_closed w \<and> wt_sent w = [] \<and>
        \<not> wt_done w \<and> (\<forall>x \<in> set (ts @ [t]). \<not> past k x) \<and> (\<exists>x \<in> set (ts @ [t]). guards a mid k x)"
      using reg by blast
  qed (use ok t o in \<open>auto simp: waiter_ok_def\<close>)
qed

lemma expected_named: "expectedResponseType q = Inr ty \<Longrightarrow> type_text ty \<noteq> ''''"
  by (cases q) auto

lemma race_ok_request:
  assumes ok: "race_ok (Running h ts)" and rq: "register_waiter a m h = (Inr n, h')"
  shows "race_ok (Running h' (ts @ [TSending a m n]))"
proof -
  from rq obtain ty where ty: "expectedResponseType (m_type m) = Inr ty" and n: "n = length (hub_store h)"
    and h': "h' = store_waiter a (m_id m) n (h\<lparr>hub_store := hub_store h @
      [\<lparr>wt_agent = a, wt_request = m, wt_expected = ty, wt_sent = [], wt_closed = False, wt_done = False\<rparr>]\<rparr>)"
    by (auto simp: register_waiter_def split: if_splits sum.splits)
  have regs: "\<forall>a mid n. reg h a mid = Some n \<longrightarrow> n < length (hub_store h)"
    and bounds: "\<forall>t \<in> set ts. \<forall>n. past n t \<or> (\<exists>a mid. guards a mid n t) \<longrightarrow> n < length (hub_store h)"
    and each: "\<forall>n < length (hub_store h). waiter_ok (\<lambda>a mid. reg h a mid = Some n) (hub_store h ! n) n ts"
    using ok unfolding race_ok.simps by blast+
  have r: "reg h' c i = (if c = a \<and> i = m_id m then Some n else reg h c i)" for c i
    by (simp add: h' reg_store)
  have none: "\<not> past n t" "\<not> guards c i n t" if "t \<in> set ts" for t c i
    using bounds that n by blast+
  show ?thesis
  proof (rule race_okI)
    fix k assume k: "k < length (hub_store h')"
    show "waiter_ok (\<lambda>a mid. reg h' a mid = Some k) (hub_store h' ! k) k (ts @ [TSending a m n])"
    proof (cases "k = n")
      case True
      have "filter (owes n) ts = []" using none(1) owes_past by (auto simp: filter_empty_conv)
      moreover have "reg h' c i = Some n \<longleftrightarrow> c = a \<and> i = m_id m" for c i using regs n r by auto
      moreover have "\<not> owes n t" if "t \<in> set ts" for t using none(1) that owes_past by blast
      moreover have "hub_store h' ! n = \<lparr>wt_agent = a, wt_request = m, wt_expected = ty, wt_sent = [],
          wt_closed = False, wt_done = False\<rparr>"
        by (simp add: h' n)
      ultimately show ?thesis
        unfolding waiter_ok_def True using none ty by auto
    next
      case False
      with k n have "k < length (hub_store h)" by (simp add: h')
      with each have "waiter_ok (\<lambda>a mid. reg h a mid = Some k) (hub_store h ! k) k ts" by blast
      then have "waiter_ok (\<lambda>a mid. reg h' a mid = Some k) (hub_store h ! k) k (ts @ [TSending a m n])"
        by (rule waiter_ok_grow) (use False r in \<open>auto split: if_splits\<close>)
      then show ?thesis using \<open>k < length (hub_store h)\<close> by (simp add: h' nth_append)
    qed
  next
    fix c i k assume "reg h' c i = Some k"
    then have "k = n \<or> reg h c i = Some k" by (simp add: r split: if_splits)
    with regs [rule_format, of c i k] n show "k < length (hub_store h')" by (auto simp: h')
  next
    fix t k assume "t \<in> set (ts @ [TSending a m n])" "past k t"
    with bounds show "k < length (hub_store h')" by (auto simp: h' less_Suc_eq)
  next
    fix t k c i assume t: "t \<in> set (ts @ [TSending a m n])" "guards c i k t"
    show "k < length (hub_store h')"
    proof (cases "t \<in> set ts")
      case True
      with bounds t(2) have "k < length (hub_store h)" by blast
      then show ?thesis by (simp add: h')
    next
      case False
      with t n show ?thesis by (simp add: h')
    qed
  qed
qed

lemma claim_waiterD:
  "claim_waiter a m h = (Some n, h') \<Longrightarrow> reg h a (m_id m) = Some n \<and> h' = delete_waiter a (m_id m) h \<and>
   (type_text (wt_expected (hub_store h ! n)) = '''' \<or> m_type m = wt_expected (hub_store h ! n))"
  by (auto simp: claim_waiter_def reg_def split: option.splits if_splits)

lemma race_ok_response:
  assumes ok: "race_ok (Running h ts)" and cl: "claim_waiter a m h = (Some n, h')"
  shows "race_ok (Running h' (ts @ [TClaimed n m]))"
proof -
  note c = claim_waiterD [OF cl]
  have regs: "\<forall>a mid n. reg h a mid = Some n \<longrightarrow> n < length (hub_store h)"
    and bounds: "\<forall>t \<in> set ts. \<forall>n. past n t \<or> (\<exists>a mid. guards a mid n t) \<longrightarrow> n < length (hub_store h)"
    and each: "\<forall>n < length (hub_store h). waiter_ok (\<lambda>a mid. reg h a mid = Some n) (hub_store h ! n) n ts"
    using ok unfolding race_ok.simps by blast+
  have n: "n < length (hub_store h)" using regs c by blast
  have r: "reg h' b i = (if b = a \<and> i = m_id m then None else reg h b i)" for b i
    using c by (simp add: reg_delete)
  have st: "hub_store h' = hub_store h" using c by simp
  from each n have w: "waiter_ok (\<lambda>a mid. reg h a mid = Some n) (hub_store h ! n) n ts" by blast
  have "wt_agent (hub_store h ! n) = a \<and> m_id (wt_request (hub_store h ! n)) = m_id m"
    "\<not> wt_closed (hub_store h ! n)" "wt_sent (hub_store h ! n) = []" "\<forall>t \<in> set ts. \<not> past n t"
    "expectedResponseType (m_type (wt_request (hub_store h ! n))) = Inr (wt_expected (hub_store h ! n))"
    using w c unfolding waiter_ok_def by blast+
  note f = this
  have "answers (hub_store h ! n) m" using f expected_named [OF f(5)] c by (auto simp: answers_def)
  moreover have "filter (owes n) ts = []" using f(4) owes_past by (auto simp: filter_empty_conv)
  moreover have "reg h' b i \<noteq> Some n" for b i
  proof
    assume b: "reg h' b i = Some n"
    with r have "reg h b i = Some n" by (simp split: if_splits)
    with w have "b = a \<and> i = m_id m" using f(1) unfolding waiter_ok_def by blast
    with b r show False by simp
  qed
  ultimately have n_ok: "waiter_ok (\<lambda>a mid. reg h' a mid = Some n) (hub_store h ! n) n (ts @ [TClaimed n m])"
    using w f unfolding waiter_ok_def by auto
  show ?thesis
  proof (rule race_okI)
    fix k assume k: "k < length (hub_store h')"
    show "waiter_ok (\<lambda>a mid. reg h' a mid = Some k) (hub_store h' ! k) k (ts @ [TClaimed n m])"
    proof (cases "k = n")
      case False
      from k each st have "waiter_ok (\<lambda>a mid. reg h a mid = Some k) (hub_store h' ! k) k ts" by simp
      then show ?thesis by (rule waiter_ok_grow) (use False r in \<open>auto split: if_splits\<close>)
    qed (use n_ok st in simp)
  next
    fix b i k assume "reg h' b i = Some k"
    with regs [rule_format, of b i k] show "k < length (hub_store h')" by (simp add: r st split: if_splits)
  next
    fix t k assume "t \<in> set (ts @ [TClaimed n m])" "past k t"
    with bounds n show "k < length (hub_store h')" by (auto simp: st)
  next
    fix t k b i assume "t \<in> set (ts @ [TClaimed n m])" "guards b i k t"
    with bounds show "k < length (hub_store h')" unfolding st by (cases "t \<in> set ts") auto
  qed
qed

section \<open>Every interleaving\<close>

declare race_ok.simps [simp del]

lemma moves_never_panic:
  assumes "race_ok (Running h (us @ t # vs))"
  shows "None \<notin> set (moves h t)"
proof -
  have "\<not> wt_closed (hub_store h ! n)" if "owes n t" for n
  proof -
    have "n < length (hub_store h)" using assms owes_past [OF that] unfolding race_ok.simps by auto
    with assms have "waiter_ok (\<lambda>a mid. reg h a mid = Some n) (hub_store h ! n) n (us @ t # vs)"
      unfolding race_ok.simps by blast
    from waiter_okD(3) [OF this that] show ?thesis by simp
  qed
  then show ?thesis
    by (cases t) (auto simp: close_channel_def send_channel_def split: prod.splits sum.splits bool.splits)
qed

lemma race_ok_moves:
  assumes ok: "race_ok (Running h (us @ t # vs))" and m: "Some (t', h') \<in> set (moves h t)"
  shows "race_ok (Running h' (us @ t' # vs))"
proof (cases t)
  case (TSending a msg k)
  show ?thesis by (rule move_send [OF ok [unfolded TSending] m [unfolded TSending]])
next
  case (TFailed a mid k)
  obtain b h1 where rm: "removeWaiter a mid k h = (b, h1)" by fastforce
  with TFailed m have "t' = TFinishing k" "h' = h1" by auto
  with move_unregister [OF ok _ rm, of t'] TFailed show ?thesis by simp
next
  case (TWaiting a mid k)
  obtain b h1 where rm: "removeWaiter a mid k h = (b, h1)" by fastforce
  from TWaiting m rm consider "(t', h') = (TExpired k, h1)" "b" | "(t', h') = (TDone, h1)" "\<not> b"
    | "(t', h') = (TDone, h)" "wt_done (hub_store h ! k)"
    by (auto split: bool.splits if_splits)
  then show ?thesis
    using move_unregister [OF ok _ rm, of t'] move_give_up ok TWaiting by cases auto
next
  case (TExpired k)
  with m have "t' = TExpiredClosed k" "h' = update_waiter k (\<lambda>w. w\<lparr>wt_closed := True\<rparr>) h"
    by (auto simp: close_channel_def split: if_splits)
  with ok TExpired show ?thesis by (auto intro!: move_channel [where k = k and t = t])
next
  case (TFinished k msg)
  with m have "t' = TSent k" "h' = update_waiter k (\<lambda>w. w\<lparr>wt_sent := wt_sent w @ [msg]\<rparr>) h"
    by (auto simp: send_channel_def split: if_splits)
  with ok TFinished show ?thesis by (auto intro!: move_channel [where k = k and t = t])
next
  case (TSent k)
  with m have "t' = TDone" "h' = update_waiter k (\<lambda>w. w\<lparr>wt_closed := True\<rparr>) h"
    by (auto simp: close_channel_def split: if_splits)
  with ok TSent show ?thesis by (auto intro!: move_channel [where k = k and t = t])
qed (use ok m in \<open>auto intro!: move_finish\<close>)

lemma race_step_ok: "race_step s s' \<Longrightarrow> race_ok s \<Longrightarrow> race_ok s'"
proof (induction rule: race_step.induct)
  case (panic h t us vs)
  then show ?case using moves_never_panic by blast
next
  case (elsewhere h' h ts)
  then show ?case using reg_cong [OF elsewhere(1)] by (simp add: race_ok.simps)
qed (simp_all only: race_ok_request race_ok_response race_ok_moves)

lemma reachable_ok: "race_reachable s \<Longrightarrow> race_ok s"
proof -
  have "race_ok (Running NewHub [])" by (simp add: race_ok.simps NewHub_def reg_def waiters_of_def)
  moreover assume "race_reachable s"
  then have "race_step\<^sup>*\<^sup>* (Running NewHub []) s" by (simp add: race_reachable_def)
  then have "race_ok (Running NewHub []) \<Longrightarrow> race_ok s"
    by (induction rule: rtranclp_induct) (auto intro: race_step_ok)
  ultimately show ?thesis by simp
qed


text \<open>C13. Only the agent a request went to can answer it: a message of agent \<open>a\<close> is taken as the
  answer of a waiter only when the waiter's request was sent to \<open>a\<close>, and its channel is still open.\<close>

theorem answers_come_from_asked_agent:
  assumes "race_reachable (Running h ts)" and "claim_waiter a m h = (Some n, h')"
  shows "wt_agent (hub_store h ! n) = a \<and> m_id (wt_request (hub_store h ! n)) = m_id m \<and>
    \<not> wt_closed (hub_store h ! n)"
proof -
  note ok = reachable_ok [OF assms(1), unfolded race_ok.simps]
  from claim_waiterD [OF assms(2)] have r: "reg h a (m_id m) = Some n" by simp
  with ok have "waiter_ok (\<lambda>a mid. reg h a mid = Some n) (hub_store h ! n) n ts" by blast
  with r show ?thesis unfolding waiter_ok_def by blast
qed

text \<open>No waiter leaks: once every goroutine has finished, the map of waiters is empty.\<close>

lemma no_waiter_left:
  assumes "race_reachable (Running h ts)" and "set ts \<subseteq> {TDone}"
  shows "\<not> HasWaiter h a mid"
proof
  assume "HasWaiter h a mid"
  then obtain n where r: "reg h a mid = Some n" by (auto simp: HasWaiter_def reg_def)
  note ok = reachable_ok [OF assms(1), unfolded race_ok.simps]
  with r have "waiter_ok (\<lambda>a mid. reg h a mid = Some n) (hub_store h ! n) n ts" by blast
  with r obtain t where "t \<in> set ts" "guards a mid n t" unfolding waiter_ok_def by blast
  with assms(2) show False by auto
qed

fun thread_rank :: "thread \<Rightarrow> nat" where
  "thread_rank (TSending _ _ _) = 4"
| "thread_rank (TFailed _ _ _) = 2"
| "thread_rank (TFinishing _) = 1"
| "thread_rank (TWaiting _ _ _) = 3"
| "thread_rank (TExpired _) = 2"
| "thread_rank (TExpiredClosed _) = 1"
| "thread_rank (TClaimed _ _) = 3"
| "thread_rank (TFinished _ _) = 2"
| "thread_rank (TSent _) = 1"
| "thread_rank TDone = 0"


section \<open>Witnesses\<close>

definition sample_request :: message where
  "sample_request = \<lparr>m_type = TypeDirBrowseReq, m_id = ''q1'', m_payload = ''''\<rparr>"

definition sample_answer :: message where
  "sample_answer = \<lparr>m_type = TypeDirBrowseResp, m_id = ''q1'', m_payload = ''''\<rparr>"

definition asked_hub :: hub where
  "asked_hub = snd (register_waiter ''a1'' sample_request NewHub)"

lemma asked_reachable: "race_reachable (Running asked_hub [TSending ''a1'' sample_request 0])"
proof -
  have "fst (register_waiter ''a1'' sample_request NewHub) = Inr 0" by code_simp
  then have "register_waiter ''a1'' sample_request NewHub = (Inr 0, asked_hub)"
    by (simp add: asked_hub_def prod_eq_iff)
  from race_step.request [OF this, of "[]"] show ?thesis by (simp add: race_reachable_def)
qed

text \<open>The agent is not connected: Send fails and the waiter is removed.\<close>

lemma failed_reachable:
  "race_reachable (Running (finish 0 (snd (removeWaiter ''a1'' ''q1'' 0 asked_hub))) [TDone])"
proof -
  have "moves asked_hub (TSending ''a1'' sample_request 0) = [Some (TFailed ''a1'' ''q1'' 0, asked_hub)]" by code_simp
  then have "Some (TFailed ''a1'' ''q1'' 0, asked_hub) \<in> set (moves asked_hub (TSending ''a1'' sample_request 0))"
    by (simp only: list.set insertI1)
  from race_step.move [OF this, of "[]" "[]"]
  have a: "race_step (Running asked_hub [TSending ''a1'' sample_request 0]) (Running asked_hub [TFailed ''a1'' ''q1'' 0])"
    by (simp only: append_Nil)
  let ?h = "snd (removeWaiter ''a1'' ''q1'' 0 asked_hub)"
  from race_step.move [of "TFinishing 0" ?h asked_hub "TFailed ''a1'' ''q1'' 0" "[]" "[]"]
  have b: "race_step (Running asked_hub [TFailed ''a1'' ''q1'' 0]) (Running ?h [TFinishing 0])" by simp
  from race_step.move [of TDone "finish 0 ?h" ?h "TFinishing 0" "[]" "[]"]
  have c: "race_step (Running ?h [TFinishing 0]) (Running (finish 0 ?h) [TDone])" by simp
  from asked_reachable a b c show ?thesis unfolding race_reachable_def by (meson rtranclp.rtrancl_into_rtrancl)
qed


theorem answers_come_from_asked_agent_witness:
  "wt_agent (hub_store asked_hub ! 0) = ''a1''"
proof -
  have "fst (claim_waiter ''a1'' sample_answer asked_hub) = Some 0" by code_simp
  then have "claim_waiter ''a1'' sample_answer asked_hub = (Some 0, snd (claim_waiter ''a1'' sample_answer asked_hub))"
    by (simp add: prod_eq_iff)
  from answers_come_from_asked_agent [OF asked_reachable this] show ?thesis by simp
qed


end
