(* ===== verification/VF_WsHandler.thy ===== *)
theory VF_WsHandler
  imports VF_HubRace
begin

text \<open>
  The WebSocket endpoint of the master (internal/master/ws/handler.go, internal/master/events):
  one connection from its handshake to its clean-up, and the dispatch of every message.  The
  functions the handler is configured with are parameters; what they answer may depend on all
  calls made so far.  \<open>wh_log\<close> lists the calls to other components in their order.
\<close>

section \<open>Events and calls\<close>

datatype event =
    PolicyChanged string
  | AgentOnline string
  | AgentOffline string
  | TaskResult string string

datatype call =
    StateUpdated string string "time option"
  | HeartbeatRecorded string time
  | PendingDispatched string
  | VersionObserved string string
  | VersionNotified string time
  | PolicyAcked string message
  | LogCompleted string string
  | LogAdded string string task_log_payload
  | ResultProcessed string message "unit outcome"
  | RestoreProgressed string message
  | SnapshotsProcessed string message
  | Published event

record heartbeat =
  hb_agent_version :: string
  hb_capabilities :: "string list"

type_synonym 'a hook = "(call list \<Rightarrow> 'a) option"

record ws_config =
  wc_policy_lookup :: "(string \<Rightarrow> message option) hook"
  wc_task_result :: "(string \<Rightarrow> message \<Rightarrow> unit outcome) hook"
  wc_restore_progress :: "(string \<Rightarrow> message \<Rightarrow> unit outcome) hook"
  wc_policy_ack :: "(string \<Rightarrow> message \<Rightarrow> unit outcome) hook"
  wc_snapshot_list :: "(string \<Rightarrow> message \<Rightarrow> unit outcome) hook"
  wc_dispatch_pending :: "(string \<Rightarrow> unit outcome) hook"
  wc_state_update :: bool
  wc_heartbeat :: "(string \<Rightarrow> time \<Rightarrow> heartbeat \<Rightarrow> unit outcome) hook"
  wc_version_observer :: "(string \<Rightarrow> string \<Rightarrow> unit outcome) hook"
  wc_update_gate :: "(string \<Rightarrow> bool outcome) hook"
  wc_progress_cache :: bool
  wc_task_logs :: bool
  wc_master_version :: string
  wc_version_message :: "message outcome"
  wc_parse_heartbeat :: "string \<Rightarrow> heartbeat option"
  wc_parse_progress :: "string \<Rightarrow> backup_progress option"
  wc_parse_task_log :: "string \<Rightarrow> task_log_payload option"

record ws_state =
  wh_hub :: hub
  wh_dispatches :: "string list"
  wh_notified :: "(string \<times> time) list"
  wh_progress :: progress_cache
  wh_log :: "call list"

definition add_call :: "call \<Rightarrow> ws_state \<Rightarrow> ws_state" where
  "add_call c s = s\<lparr>wh_log := wh_log s @ [c]\<rparr>"

definition on_hub :: "(hub \<Rightarrow> hub) \<Rightarrow> ws_state \<Rightarrow> ws_state" where
  "on_hub f s = s\<lparr>wh_hub := f (wh_hub s)\<rparr>"

section \<open>Helpers of the handler\<close>

definition updateAgentState :: "ws_config \<Rightarrow> string \<Rightarrow> string \<Rightarrow> time option \<Rightarrow> ws_state \<Rightarrow> ws_state" where
  "updateAgentState c a status t s = (if wc_state_update c then add_call (StateUpdated a status t) s else s)"

definition dispatchPendingCommands :: "ws_config \<Rightarrow> string \<Rightarrow> ws_state \<Rightarrow> ws_state" where
  "dispatchPendingCommands c a s = (case wc_dispatch_pending c of None \<Rightarrow> s | Some _ \<Rightarrow> add_call (PendingDispatched a) s)"

definition resetCapabilityDispatch :: "string \<Rightarrow> ws_state \<Rightarrow> ws_state" where
  "resetCapabilityDispatch a s = s\<lparr>wh_dispatches := filter (\<lambda>b. b \<noteq> a) (wh_dispatches s)\<rparr>"

definition markCapabilityDispatch :: "string \<Rightarrow> ws_state \<Rightarrow> bool \<times> ws_state" where
  "markCapabilityDispatch a s =
     (if a \<in> set (wh_dispatches s) then (False, s) else (True, s\<lparr>wh_dispatches := a # wh_dispatches s\<rparr>))"

definition resetVersionNotify :: "string \<Rightarrow> ws_state \<Rightarrow> ws_state" where
  "resetVersionNotify a s = s\<lparr>wh_notified := AList.delete a (wh_notified s)\<rparr>"

abbreviation versionNotifyCooldown :: duration where "versionNotifyCooldown \<equiv> hour"

definition notifyVersionIfCooldown :: "ws_config \<Rightarrow> string \<Rightarrow> time \<Rightarrow> ws_state \<Rightarrow> ws_state" where
  "notifyVersionIfCooldown c a now s =
     (if (case map_of (wh_notified s) a of None \<Rightarrow> False
          | Some sent \<Rightarrow> time_sub now sent < versionNotifyCooldown) then s
      else let s1 = add_call (VersionNotified a now) (s\<lparr>wh_notified := AList.update a now (wh_notified s)\<rparr>)
           in case wc_version_message c of Inl _ \<Rightarrow> s1 | Inr m \<Rightarrow> on_hub (\<lambda>h. snd (Send h a m)) s1)"

definition isAgentReleaseVersion :: "string \<Rightarrow> bool" where
  "isAgentReleaseVersion v = prefix ''v'' (trim_space v)"

section \<open>Dispatch\<close>

text \<open>The two blocks of the heartbeat case: recording it, and comparing versions.\<close>

definition record_heartbeat :: "ws_config \<Rightarrow> string \<Rightarrow> time \<Rightarrow> heartbeat \<Rightarrow> ws_state \<Rightarrow> ws_state" where
  "record_heartbeat c a now hb s =
     (case wc_heartbeat c of None \<Rightarrow> s
      | Some f \<Rightarrow>
          (let s1 = add_call (HeartbeatRecorded a now) s
           in case f (wh_log s) a now hb of Inl _ \<Rightarrow> s1
              | Inr _ \<Rightarrow> if hb_capabilities hb = [] then s1
                  else case markCapabilityDispatch a s1 of
                    (True, s2) \<Rightarrow> dispatchPendingCommands c a s2 | (False, s2) \<Rightarrow> s2))"

definition check_version :: "ws_config \<Rightarrow> string \<Rightarrow> time \<Rightarrow> heartbeat \<Rightarrow> ws_state \<Rightarrow> ws_state" where
  "check_version c a now hb s =
     (if hb_agent_version hb = '''' then s
      else let s1 = (case wc_version_observer c of None \<Rightarrow> s
                     | Some _ \<Rightarrow> add_call (VersionObserved a (hb_agent_version hb)) s)
           in if isAgentReleaseVersion (wc_master_version c) \<and> hb_agent_version hb \<noteq> wc_master_version c
              then let gated = (case wc_update_gate c of None \<Rightarrow> False
                       | Some g \<Rightarrow> (case g (wh_log s1) a of Inl _ \<Rightarrow> False | Inr b \<Rightarrow> b))
                   in if gated then s1 else notifyVersionIfCooldown c a now s1
              else s1)"

definition handle_heartbeat :: "ws_config \<Rightarrow> string \<Rightarrow> message \<Rightarrow> time \<Rightarrow> time \<Rightarrow> ws_state \<Rightarrow> ws_state" where
  "handle_heartbeat c a m now now2 s =
     (let s1 = updateAgentState c a ''online'' (Some now)
                 (on_hub (\<lambda>h. snd (MarkOnline a h)) (on_hub (UpdateLastSeen a now) s))
      in case wc_parse_heartbeat c (m_payload m) of None \<Rightarrow> s1
         | Some hb \<Rightarrow> if hb_agent_version hb \<noteq> '''' \<or> hb_capabilities hb \<noteq> []
             then check_version c a now2 hb (record_heartbeat c a now hb s1) else s1)"

definition handle_task_result :: "ws_config \<Rightarrow> string \<Rightarrow> message \<Rightarrow> ws_state \<Rightarrow> ws_state" where
  "handle_task_result c a m s =
     (let s1 = (if wc_progress_cache c then s\<lparr>wh_progress := cache_delete (wh_progress s) a (m_id m)\<rparr> else s);
          s2 = (if wc_task_logs c then add_call (LogCompleted a (m_id m)) s1 else s1)
      in case wc_task_result c of
           None \<Rightarrow> add_call (Published (TaskResult a (m_payload m))) s2
         | Some f \<Rightarrow>
             (let r = f (wh_log s2) a m; s3 = add_call (ResultProcessed a m r) s2
              in case r of Inl _ \<Rightarrow> s3 | Inr _ \<Rightarrow> add_call (Published (TaskResult a (m_payload m))) s3))"

definition is_response :: "msg_type \<Rightarrow> bool" where
  "is_response t \<longleftrightarrow> t \<in> {TypeDirBrowseResp, TypeDirSizeResp, TypeDockerDiscoveryResp, TypeDatabaseDiscoveryResp,
     TypeSnapshotListResp, TypeSnapshotBrowseResp, TypeRestorePreflightResp, TypeCollectLogsResp, TypeUpdateAgentResp}"

definition handle_response :: "ws_config \<Rightarrow> string \<Rightarrow> message \<Rightarrow> ws_state \<Rightarrow> ws_state option" where
  "handle_response c a m s =
     (case HandleResponse (wh_hub s) a m of None \<Rightarrow> None
      | Some (handled, h) \<Rightarrow>
          (let s1 = s\<lparr>wh_hub := h\<rparr>
           in Some (if \<not> handled \<and> m_type m = TypeSnapshotListResp \<and> wc_snapshot_list c \<noteq> None
                    then add_call (SnapshotsProcessed a m) s1 else s1)))"

definition dispatch_message :: "ws_config \<Rightarrow> string \<Rightarrow> message \<Rightarrow> time \<Rightarrow> time \<Rightarrow> ws_state \<Rightarrow> ws_state option" where
  "dispatch_message c a m now now2 s =
     (if m_type m = TypeHeartbeat then Some (handle_heartbeat c a m now now2 s)
      else if m_type m = TypePolicyAck then
        Some (add_call (Published (PolicyChanged a)) (if wc_policy_ack c = None then s else add_call (PolicyAcked a m) s))
      else if m_type m = TypeTaskResult then Some (handle_task_result c a m s)
      else if m_type m = TypeBackupProgress then
        Some (if wc_progress_cache c
              then s\<lparr>wh_progress := cache_set (wh_progress s) a (m_id m)
                       (map_option (\<lambda>p. p\<lparr>bp_agent_id := a\<rparr>) (wc_parse_progress c (m_payload m)))\<rparr>
              else s)
      else if m_type m = TypeRestoreProgress then
        Some (if wc_restore_progress c = None then s else add_call (RestoreProgressed a m) s)
      else if m_type m = TypeTaskLog then
        Some (if wc_task_logs c
              then case wc_parse_task_log c (m_payload m) of None \<Rightarrow> s
                | Some p \<Rightarrow> add_call (LogAdded a (if tl_message_id p = '''' then m_id m else tl_message_id p) p) s
              else s)
      else if is_response (m_type m) then handle_response c a m s
      else Some s)"

section \<open>One connection\<close>

text \<open>From the handshake to the reading loop: the index of the new connection, and whether the
  policy could be written to it.\<close>

definition open_connection ::
  "ws_config \<Rightarrow> string \<Rightarrow> bool list \<Rightarrow> unit outcome \<Rightarrow> time \<Rightarrow> time \<Rightarrow> ws_state \<Rightarrow> (nat \<times> bool) \<times> ws_state" where
  "open_connection c a script cr t now s =
     (let conn = length (hub_conns (wh_hub s));
          s1 = resetCapabilityDispatch a (on_hub (connect a script cr t) s);
          s2 = updateAgentState c a ''online'' (Some now) (on_hub (UpdateLastSeen a now) s1);
          s3 = add_call (Published (AgentOnline a)) s2
      in case (case wc_policy_lookup c of None \<Rightarrow> None | Some f \<Rightarrow> f (wh_log s3) a) of
           None \<Rightarrow> ((conn, True), dispatchPendingCommands c a s3)
         | Some m \<Rightarrow>
             (case WriteJSON (hub_conns (wh_hub s3) ! conn) m of
                (Inl _, sc) \<Rightarrow> ((conn, False), on_hub (\<lambda>h. h\<lparr>hub_conns := (hub_conns h)[conn := sc]\<rparr>) s3)
              | (Inr _, sc) \<Rightarrow> ((conn, True),
                  dispatchPendingCommands c a (on_hub (\<lambda>h. h\<lparr>hub_conns := (hub_conns h)[conn := sc]\<rparr>) s3))))"

definition cleanupConnection :: "ws_config \<Rightarrow> string \<Rightarrow> nat \<Rightarrow> ws_state \<Rightarrow> ws_state" where
  "cleanupConnection c a conn s =
     (case RemoveIfCurrent a conn (wh_hub s) of ((removed, wasOnline), h) \<Rightarrow>
        if \<not> removed then s
        else let s1 = resetVersionNotify a (resetCapabilityDispatch a (s\<lparr>wh_hub := h\<rparr>));
                 s2 = (if wc_progress_cache c then s1\<lparr>wh_progress := cache_delete_agent (wh_progress s1) a\<rparr> else s1)
             in if wasOnline then add_call (Published (AgentOffline a)) (updateAgentState c a ''offline'' None s2) else s2)"

text \<open>The messages of one connection until its reading fails.\<close>

fun readLoop :: "ws_config \<Rightarrow> string \<Rightarrow> (message \<times> time \<times> time) list \<Rightarrow> ws_state \<Rightarrow> ws_state option" where
  "readLoop c a [] s = Some s"
| "readLoop c a ((m, now, now2) # ms) s =
     (case dispatch_message c a m now now2 s of None \<Rightarrow> None | Some s' \<Rightarrow> readLoop c a ms s')"

section \<open>All connections together\<close>

text \<open>What the goroutines of the endpoint do, one step after the other: a message is dispatched, a
  connection opened or cleaned up, and everything else that happens to the hub.\<close>

datatype ws_step =
    WsDispatch string message time time
  | WsOpen string "bool list" "unit outcome" time time
  | WsCleanup string nat
  | WsHub "hub \<Rightarrow> hub"

fun run_ws :: "ws_config \<Rightarrow> ws_step list \<Rightarrow> ws_state \<Rightarrow> ws_state option" where
  "run_ws c [] s = Some s"
| "run_ws c (WsDispatch a m now now2 # steps) s =
     (case dispatch_message c a m now now2 s of None \<Rightarrow> None | Some s' \<Rightarrow> run_ws c steps s')"
| "run_ws c (WsOpen a script cr t now # steps) s = run_ws c steps (snd (open_connection c a script cr t now s))"
| "run_ws c (WsCleanup a conn # steps) s = run_ws c steps (cleanupConnection c a conn s)"
| "run_ws c (WsHub f # steps) s = run_ws c steps (on_hub f s)"

fun concerns :: "string \<Rightarrow> ws_step \<Rightarrow> bool" where
  "concerns a (WsOpen b _ _ _ _) \<longleftrightarrow> b = a"
| "concerns a (WsCleanup b _) \<longleftrightarrow> b = a"
| "concerns a _ \<longleftrightarrow> False"

lemma log_simps [simp]:
  "wh_log (add_call c s) = wh_log s @ [c]" "wh_dispatches (add_call c s) = wh_dispatches s"
  "wh_notified (add_call c s) = wh_notified s" "wh_hub (add_call c s) = wh_hub s"
  "wh_log (on_hub f s) = wh_log s" "wh_dispatches (on_hub f s) = wh_dispatches s"
  "wh_notified (on_hub f s) = wh_notified s"
  by (simp_all add: add_call_def on_hub_def)

section \<open>One dispatch of waiting commands per connection\<close>

text \<open>The dispatches made so far, plus one while the agent's flag is not set: no step but a new
  connection raises it.\<close>

definition pending_dispatches :: "string \<Rightarrow> ws_state \<Rightarrow> nat" where
  "pending_dispatches a s = length (filter (\<lambda>c. c = PendingDispatched a) (wh_log s))"

definition dispatch_credit :: "string \<Rightarrow> ws_state \<Rightarrow> nat" where
  "dispatch_credit a s = pending_dispatches a s + (if a \<in> set (wh_dispatches s) then 0 else 1)"

lemma credit_rest [simp]:
  "c \<noteq> PendingDispatched a \<Longrightarrow> dispatch_credit a (add_call c s) = dispatch_credit a s"
  "dispatch_credit a (on_hub f s) = dispatch_credit a s"
  "dispatch_credit a (s\<lparr>wh_progress := p\<rparr>) = dispatch_credit a s"
  "dispatch_credit a (s\<lparr>wh_notified := n\<rparr>) = dispatch_credit a s"
  "dispatch_credit a (s\<lparr>wh_hub := h\<rparr>) = dispatch_credit a s"
  by (simp_all add: dispatch_credit_def pending_dispatches_def)

lemma credit_helpers [simp]:
  "dispatch_credit a (updateAgentState c b st t s) = dispatch_credit a s"
  "dispatch_credit a (notifyVersionIfCooldown c b now s) = dispatch_credit a s"
  "dispatch_credit a (check_version c b now hb s) = dispatch_credit a s"
  "dispatch_credit a (handle_task_result c b m s) = dispatch_credit a s"
  "a \<noteq> b \<Longrightarrow> dispatch_credit a (resetCapabilityDispatch b s) = dispatch_credit a s"
  "dispatch_credit a (resetVersionNotify b s) = dispatch_credit a s"
  "a \<noteq> b \<Longrightarrow> dispatch_credit a (dispatchPendingCommands c b s) = dispatch_credit a s"
  by (simp_all add: updateAgentState_def notifyVersionIfCooldown_def check_version_def handle_task_result_def Let_def
      resetCapabilityDispatch_def resetVersionNotify_def dispatchPendingCommands_def split: option.splits sum.splits)
    (simp add: dispatch_credit_def pending_dispatches_def)

lemma credit_record: "dispatch_credit a (record_heartbeat c b now hb s) \<le> dispatch_credit a s"
proof (cases "a = b")
  case True
  then show ?thesis
    by (auto simp: record_heartbeat_def markCapabilityDispatch_def dispatchPendingCommands_def Let_def
        dispatch_credit_def pending_dispatches_def split: option.splits sum.splits bool.splits if_splits)
next
  case False
  then show ?thesis
    by (auto simp: record_heartbeat_def markCapabilityDispatch_def Let_def split: option.splits sum.splits bool.splits if_splits)
      (auto simp: dispatch_credit_def pending_dispatches_def)
qed

lemma credit_dispatch: "dispatch_message c b m now now2 s = Some s' \<Longrightarrow> dispatch_credit a s' \<le> dispatch_credit a s"
proof -
  have "dispatch_credit a (handle_heartbeat c b m now now2 s) \<le> dispatch_credit a s"
    using credit_record [of a c b now _ "updateAgentState c b ''online'' (Some now)
      (on_hub (\<lambda>h. snd (MarkOnline b h)) (on_hub (UpdateLastSeen b now) s))"]
    by (simp add: handle_heartbeat_def Let_def split: option.splits)
  moreover have "dispatch_credit a s' \<le> dispatch_credit a s" if "handle_response c b m s = Some s'" for s'
    using that by (auto simp: handle_response_def Let_def split: option.splits if_splits)
  moreover assume "dispatch_message c b m now now2 s = Some s'"
  ultimately show ?thesis
    by (auto simp: dispatch_message_def split: if_splits option.splits)
qed

lemma credit_run:
  "run_ws c steps s = Some s' \<Longrightarrow> list_all (\<lambda>st. \<not> concerns a st) steps \<Longrightarrow> dispatch_credit a s' \<le> dispatch_credit a s"
proof (induction c steps s rule: run_ws.induct)
  case (2 c b m now now2 steps s)
  from 2(2) obtain s1 where s1: "dispatch_message c b m now now2 s = Some s1" "run_ws c steps s1 = Some s'"
    by (auto split: option.splits)
  have "list_all (\<lambda>st. \<not> concerns a st) steps" using 2(3) by simp
  from 2(1) [OF s1 this] credit_dispatch [OF s1(1), of a] show ?case by simp
next
  case (3 c b script cr t now steps s)
  have "dispatch_credit a (snd (open_connection c b script cr t now s)) = dispatch_credit a s"
    using 3(3) by (auto simp: open_connection_def Let_def split: option.splits prod.splits sum.splits)
  with 3 show ?case by simp
next
  case (4 c b conn steps s)
  have "dispatch_credit a (cleanupConnection c b conn s) = dispatch_credit a s"
    using 4(3) by (auto simp: cleanupConnection_def Let_def split: prod.splits)
  with 4 show ?case by simp
qed simp_all

text \<open>C16. While a connection of an agent lasts, its heartbeats dispatch the agent's waiting commands
  at most once, whatever else the endpoint does.\<close>

theorem capability_dispatch_once:
  assumes "run_ws c steps s = Some s'" and "list_all (\<lambda>st. \<not> concerns a st) steps"
  shows "pending_dispatches a s' \<le> pending_dispatches a s + 1"
  using credit_run [OF assms] by (simp add: dispatch_credit_def split: if_splits)

section \<open>Version notices\<close>

definition notices :: "string \<Rightarrow> ws_state \<Rightarrow> time list" where
  "notices a s = concat (map (\<lambda>c. case c of VersionNotified b t \<Rightarrow> if b = a then [t] else [] | _ \<Rightarrow> []) (wh_log s))"

lemma notices_add [simp]:
  "notices a (add_call c s) = notices a s @ (case c of VersionNotified b t \<Rightarrow> if b = a then [t] else [] | _ \<Rightarrow> [])"
  by (simp add: notices_def)

definition spaced :: "time list \<Rightarrow> bool" where
  "spaced ts \<longleftrightarrow> sorted_wrt (\<lambda>t t'. t + versionNotifyCooldown \<le> t') ts"

text \<open>The notices since \<open>old\<close> are an hour apart, and the last one is on record.\<close>

definition notices_ok :: "string \<Rightarrow> time list \<Rightarrow> ws_state \<Rightarrow> bool" where
  "notices_ok a old s \<longleftrightarrow> (\<exists>ts. notices a s = old @ ts \<and> spaced ts \<and>
     map_of (wh_notified s) a = (if ts = [] then None else Some (last ts)))"

lemma notices_ok_rest:
  "notices a s' = notices a s \<Longrightarrow> map_of (wh_notified s') a = map_of (wh_notified s) a \<Longrightarrow>
   notices_ok a old s \<Longrightarrow> notices_ok a old s'"
  by (simp add: notices_ok_def)

lemma notices_frame [simp]:
  "notices a (on_hub f s) = notices a s" "notices a (s\<lparr>wh_progress := p\<rparr>) = notices a s"
  "notices a (s\<lparr>wh_notified := n\<rparr>) = notices a s" "notices a (s\<lparr>wh_hub := h\<rparr>) = notices a s"
  "notices a (s\<lparr>wh_dispatches := d\<rparr>) = notices a s"
  by (simp_all add: notices_def on_hub_def)

lemma spaced_snoc: "spaced ts \<Longrightarrow> (ts \<noteq> [] \<Longrightarrow> last ts + versionNotifyCooldown \<le> t) \<Longrightarrow> spaced (ts @ [t])"
proof (cases "ts = []")
  case False
  assume s: "spaced ts" and t: "ts \<noteq> [] \<Longrightarrow> last ts + versionNotifyCooldown \<le> t"
  have "x + versionNotifyCooldown \<le> t" if "x \<in> set ts" for x
  proof -
    from False have ts: "ts = butlast ts @ [last ts]" by simp
    then have "x \<in> set (butlast ts) \<or> x = last ts" using that by (metis Un_iff set_append empty_iff empty_set insert_iff list.simps(15))
    moreover have "\<forall>y \<in> set (butlast ts). y + versionNotifyCooldown \<le> last ts"
      using s ts unfolding spaced_def by (metis sorted_wrt_append list.set_intros(1))
    ultimately show ?thesis using t [OF False] by (auto simp: time_simps)
  qed
  with s show ?thesis by (simp add: spaced_def sorted_wrt_append)
qed (simp add: spaced_def)

lemma time_sub_ge: "0 \<le> d \<Longrightarrow> \<not> time_sub a b < d \<Longrightarrow> d \<le> a - b"
  by (auto simp: time_sub_def max_duration_def split: if_splits)

lemma notify_ok: "notices_ok a old s \<Longrightarrow> notices_ok a old (notifyVersionIfCooldown c b now s)"
proof -
  assume "notices_ok a old s"
  then obtain ts where ts: "notices a s = old @ ts" "spaced ts"
    "map_of (wh_notified s) a = (if ts = [] then None else Some (last ts))"
    by (auto simp: notices_ok_def)
  show ?thesis
  proof (cases "b = a \<and> \<not> (case map_of (wh_notified s) a of None \<Rightarrow> False
      | Some sent \<Rightarrow> time_sub now sent < versionNotifyCooldown)")
    case True
    let ?s = "notifyVersionIfCooldown c b now s"
    have "last ts + versionNotifyCooldown \<le> now" if "ts \<noteq> []"
      using time_sub_ge [of versionNotifyCooldown now "last ts"] True ts(3) that by (simp add: time_simps)
    then have "spaced (ts @ [now])" by (rule spaced_snoc [OF ts(2)])
    moreover have "notices a ?s = old @ ts @ [now]" "map_of (wh_notified ?s) a = Some now"
      using True ts(1) by (simp_all add: notifyVersionIfCooldown_def Let_def update_conv' split: sum.splits)
    ultimately show ?thesis unfolding notices_ok_def by (intro exI [of _ "ts @ [now]"]) simp
  next
    case False
    then have "notices a (notifyVersionIfCooldown c b now s) = notices a s"
      "map_of (wh_notified (notifyVersionIfCooldown c b now s)) a = map_of (wh_notified s) a"
      by (auto simp: notifyVersionIfCooldown_def Let_def update_conv' split: sum.splits)
    with ts show ?thesis by (auto simp: notices_ok_def)
  qed
qed

lemma notices_helpers:
  "notices_ok a old s \<Longrightarrow> notices_ok a old (updateAgentState c b st t s)"
  "notices_ok a old s \<Longrightarrow> notices_ok a old (dispatchPendingCommands c b s)"
  "notices_ok a old s \<Longrightarrow> notices_ok a old (record_heartbeat c b now hb s)"
  "notices_ok a old s \<Longrightarrow> notices_ok a old (handle_task_result c b m s)"
  "notices_ok a old s \<Longrightarrow> notices_ok a old (resetCapabilityDispatch b s)"
  "a \<noteq> b \<Longrightarrow> notices_ok a old s \<Longrightarrow> notices_ok a old (resetVersionNotify b s)"
  by (erule notices_ok_rest [rotated 2],
      simp add: updateAgentState_def dispatchPendingCommands_def record_heartbeat_def handle_task_result_def
        resetCapabilityDispatch_def resetVersionNotify_def markCapabilityDispatch_def Let_def split: option.splits sum.splits,
      simp add: updateAgentState_def dispatchPendingCommands_def record_heartbeat_def handle_task_result_def
        resetCapabilityDispatch_def resetVersionNotify_def markCapabilityDispatch_def Let_def delete_conv'
        split: option.splits sum.splits)+

lemma notices_version: "notices_ok a old s \<Longrightarrow> notices_ok a old (check_version c b now hb s)"
proof -
  assume ok: "notices_ok a old s"
  have "notices_ok a old (add_call (VersionObserved b v) s)" for v
    by (rule notices_ok_rest [OF _ _ ok]) simp_all
  with ok show ?thesis
    by (auto simp: check_version_def Let_def notify_ok split: option.splits sum.splits)
qed

lemma notices_dispatch:
  assumes "dispatch_message c b m now now2 s = Some s'" "notices_ok a old s"
  shows "notices_ok a old s'"
proof -
  have add: "notices_ok a old (add_call x t)" if "notices_ok a old t" "\<And>b t. x \<noteq> VersionNotified b t" for x t
    by (rule notices_ok_rest [OF _ _ that(1)]) (use that(2) in \<open>cases x; simp\<close>)+
  have frame: "notices_ok a old (on_hub f t)" "notices_ok a old (t\<lparr>wh_progress := p\<rparr>)" "notices_ok a old (t\<lparr>wh_hub := h\<rparr>)"
    if "notices_ok a old t" for f t p h
    by (rule notices_ok_rest [OF _ _ that]; simp)+
  have hb: "notices_ok a old (handle_heartbeat c b m now now2 s)"
    using assms(2) by (auto simp: handle_heartbeat_def Let_def intro!: notices_version notices_helpers frame split: option.splits)
  have "notices_ok a old t" if "handle_response c b m s = Some t" for t
    using that assms(2) by (auto simp: handle_response_def Let_def intro!: add frame split: option.splits if_splits)
  with assms hb show ?thesis
    by (auto simp: dispatch_message_def intro!: add frame notices_helpers split: if_splits option.splits)
qed

lemma notices_run:
  "run_ws c steps s = Some s' \<Longrightarrow> list_all (\<lambda>st. \<not> concerns a st) steps \<Longrightarrow> notices_ok a old s \<Longrightarrow> notices_ok a old s'"
proof (induction c steps s rule: run_ws.induct)
  case (2 c b m now now2 steps s)
  from 2(2) obtain s1 where s1: "dispatch_message c b m now now2 s = Some s1" "run_ws c steps s1 = Some s'"
    by (auto split: option.splits)
  have "list_all (\<lambda>st. \<not> concerns a st) steps" using 2(3) by simp
  from 2(1) [OF s1 this notices_dispatch [OF s1(1) 2(4)]] show ?case .
next
  case (3 c b script cr t now steps s)
  have "notices a (snd (open_connection c b script cr t now s)) = notices a s \<and>
      map_of (wh_notified (snd (open_connection c b script cr t now s))) a = map_of (wh_notified s) a"
    by (simp add: open_connection_def Let_def updateAgentState_def resetCapabilityDispatch_def dispatchPendingCommands_def
        split: option.splits prod.splits sum.splits)
  then have "notices_ok a old (snd (open_connection c b script cr t now s))"
    using 3(4) by (auto intro: notices_ok_rest)
  with 3 show ?case by simp
next
  case (4 c b conn steps s)
  have "a \<noteq> b" using 4(3) by auto
  then have "notices a (cleanupConnection c b conn s) = notices a s \<and>
      map_of (wh_notified (cleanupConnection c b conn s)) a = map_of (wh_notified s) a"
    by (simp add: cleanupConnection_def Let_def resetVersionNotify_def resetCapabilityDispatch_def updateAgentState_def
        delete_conv' split: prod.splits)
  then have "notices_ok a old (cleanupConnection c b conn s)"
    using 4(4) by (auto intro: notices_ok_rest)
  with 4 show ?case by simp
next
  case (5 c f steps s)
  then have "notices_ok a old (on_hub f s)" by (auto intro: notices_ok_rest [of _ "on_hub f s" s])
  with 5 show ?case by simp
qed simp

text \<open>While a connection of an agent lasts, the notices of a new version it is sent are at least
  an hour apart.\<close>

lemma version_notices_spaced:
  assumes "run_ws c steps s = Some s'" and "list_all (\<lambda>st. \<not> concerns a st) steps"
    and "map_of (wh_notified s) a = None"
  shows "\<exists>ts. notices a s' = notices a s @ ts \<and> spaced ts"
proof -
  have "notices_ok a (notices a s) s" using assms(3) by (simp add: notices_ok_def spaced_def)
  from notices_run [OF assms(1,2) this] show ?thesis by (auto simp: notices_ok_def)
qed

section \<open>Witnesses\<close>

text \<open>Every heartbeat of the sample agent reports version v1 and one capability; the master runs v2.\<close>

definition sample_config :: ws_config where
  "sample_config =
     \<lparr>wc_policy_lookup = None, wc_task_result = Some (\<lambda>_ a m. Inr ()), wc_restore_progress = None,
      wc_policy_ack = None, wc_snapshot_list = None, wc_dispatch_pending = Some (\<lambda>_ a. Inr ()),
      wc_state_update = True, wc_heartbeat = Some (\<lambda>_ a t hb. Inr ()), wc_version_observer = None,
      wc_update_gate = None, wc_progress_cache = True, wc_task_logs = True, wc_master_version = ''v2'',
      wc_version_message = Inr \<lparr>m_type = TypeVersionInfo, m_id = ''n'', m_payload = ''v2''\<rparr>,
      wc_parse_heartbeat = (\<lambda>_. Some \<lparr>hb_agent_version = ''v1'', hb_capabilities = [''archive_backup'']\<rparr>),
      wc_parse_progress = (\<lambda>_. None), wc_parse_task_log = (\<lambda>_. None)\<rparr>"

definition sample_ws :: ws_state where
  "sample_ws = snd (open_connection sample_config ''a1'' [] (Inr ()) 0 0
     \<lparr>wh_hub = NewHub, wh_dispatches = [], wh_notified = [], wh_progress = [], wh_log = []\<rparr>)"

definition sample_beats :: "ws_step list" where
  "sample_beats = map (\<lambda>t. WsDispatch ''a1'' \<lparr>m_type = TypeHeartbeat, m_id = '''', m_payload = ''''\<rparr> t t)
     [second, minute, 2 * hour]"

definition after_beats :: ws_state where
  "after_beats = the (run_ws sample_config sample_beats sample_ws)"

lemma sample_beats_run: "run_ws sample_config sample_beats sample_ws = Some after_beats"
proof -
  have "run_ws sample_config sample_beats sample_ws \<noteq> None" by code_simp
  then show ?thesis by (simp add: after_beats_def)
qed

theorem capability_dispatch_once_witness:
  "pending_dispatches ''a1'' after_beats \<le> pending_dispatches ''a1'' sample_ws + 1"
  by (rule capability_dispatch_once [OF sample_beats_run]) (simp add: sample_beats_def)

end
