(* ===== verification/VF_Crypto.thy ===== *)
theory VF_Crypto
  imports VF_World "HOL-Library.Code_Target_Nat"
begin

text \<open>
  The encryption of secrets at rest (internal/master/db/crypto.go): the base64 text form of a
  sealed value, \<open>Encrypt\<close> and \<open>Decrypt\<close> around the AES-GCM cipher, and the installation of the
  master key file.  The cipher itself is a parameter (\<open>aead\<close>): the code relies only on opening
  what was sealed under the same key and nonce.
\<close>

section \<open>Standard base64\<close>

definition b64_alphabet :: string where
  "b64_alphabet = ''ABCDEFGHIJKLMNOPQRSTUVWXYZabcdefghijklmnopqrstuvwxyz0123456789+/''"

definition b64_char :: "nat \<Rightarrow> char" where
  "b64_char n = b64_alphabet ! n"

definition b64_val :: "char \<Rightarrow> nat option" where
  "b64_val c = map_of (zip b64_alphabet [0..<64]) c"

abbreviation ord :: "char \<Rightarrow> nat" where "ord \<equiv> of_char"
abbreviation chr :: "nat \<Rightarrow> char" where "chr \<equiv> char_of"

fun EncodeToString :: "string \<Rightarrow> string" where
  "EncodeToString [] = []"
| "EncodeToString [a] =
     [b64_char (ord a div 4), b64_char (ord a mod 4 * 16), CHR ''='', CHR ''='']"
| "EncodeToString [a, b] =
     [b64_char (ord a div 4), b64_char (ord a mod 4 * 16 + ord b div 16),
      b64_char (ord b mod 16 * 4), CHR ''='']"
| "EncodeToString (a # b # c # s) =
     b64_char (ord a div 4) # b64_char (ord a mod 4 * 16 + ord b div 16) #
     b64_char (ord b mod 16 * 4 + ord c div 64) # b64_char (ord c mod 64) # EncodeToString s"

text \<open>The decoder skips carriage returns and line feeds and accepts padding at the end only.\<close>

fun b64_quanta :: "string \<Rightarrow> string option" where
  "b64_quanta [] = Some []"
| "b64_quanta (w # x # y # z # s) =
     (case (b64_val w, b64_val x) of
        (Some i, Some j) \<Rightarrow>
          if y = CHR ''='' then
            (if z = CHR ''='' \<and> s = [] then Some [chr (i * 4 + j div 16)] else None)
          else (case b64_val y of None \<Rightarrow> None | Some k \<Rightarrow>
            if z = CHR ''='' then
              (if s = [] then Some [chr (i * 4 + j div 16), chr (j mod 16 * 16 + k div 4)] else None)
            else (case (b64_val z, b64_quanta s) of
                (Some l, Some r) \<Rightarrow>
                  Some (chr (i * 4 + j div 16) # chr (j mod 16 * 16 + k div 4) # chr (k mod 4 * 64 + l) # r)
              | _ \<Rightarrow> None))
      | _ \<Rightarrow> None)"
| "b64_quanta _ = None"

definition DecodeString :: "string \<Rightarrow> string option" where
  "DecodeString s = b64_quanta (filter (\<lambda>c. c \<noteq> CHR 0x0A \<and> c \<noteq> CHR 0x0D) s)"

lemma b64_alphabet:
  "length b64_alphabet = 64" "distinct b64_alphabet" "set b64_alphabet \<inter> {CHR ''='', CHR 0x0A, CHR 0x0D} = {}"
  by (simp_all add: b64_alphabet_def)

lemma b64_val_char: "n < 64 \<Longrightarrow> b64_val (b64_char n) = Some n"
  using map_of_zip_nth [of b64_alphabet "[0..<64]" n] by (simp add: b64_val_def b64_char_def b64_alphabet)

lemma b64_char_plain:
  "n < 64 \<Longrightarrow> b64_char n \<noteq> CHR ''='' \<and> b64_char n \<noteq> CHR 0x0A \<and> b64_char n \<noteq> CHR 0x0D"
  using b64_alphabet(3) nth_mem [of n b64_alphabet, unfolded b64_alphabet(1)] by (auto simp: b64_char_def)

lemma sextets:
  fixes a b c :: nat
  assumes "a < 256" "b < 256" "c < 256"
  shows "a div 4 < 64" "a mod 4 * 16 < 64" "a mod 4 * 16 + b div 16 < 64" "b mod 16 * 4 < 64"
    "b mod 16 * 4 + c div 64 < 64" "c mod 64 < 64"
  using assms by linarith+

lemma ord_lt: "ord (c :: char) < 256"
  using nat_of_char_less_256 [of c] by simp

lemma octets:
  fixes a b c :: nat
  assumes "b < 256" "c < 256"
  shows "b div 16 div 16 = 0" "b div 16 mod 16 = b div 16"
    "c div 64 div 4 = 0" "c div 64 mod 4 = c div 64"
  using assms by simp_all

lemmas b64_simps = b64_val_char b64_char_plain sextets [OF ord_lt ord_lt ord_lt]
  octets [OF ord_lt ord_lt]

lemma b64_quanta_encode: "b64_quanta (EncodeToString s) = Some s"
  by (induction s rule: EncodeToString.induct) (simp_all add: b64_simps)

lemma encode_no_newline:
  "c \<in> set (EncodeToString s) \<Longrightarrow> c \<noteq> CHR 0x0A \<and> c \<noteq> CHR 0x0D"
  by (induction s rule: EncodeToString.induct) (auto simp: b64_simps)

lemma DecodeString_EncodeToString: "DecodeString (EncodeToString s) = Some s"
proof -
  have "filter (\<lambda>c. c \<noteq> CHR 0x0A \<and> c \<noteq> CHR 0x0D) (EncodeToString s) = EncodeToString s"
    using encode_no_newline by (simp add: filter_id_conv)
  then show ?thesis by (simp add: DecodeString_def b64_quanta_encode)
qed

section \<open>Encrypt and Decrypt\<close>

abbreviation masterKeySize :: nat where "masterKeySize \<equiv> 32"
abbreviation nonceSize :: nat where "nonceSize \<equiv> 12"

text \<open>\<^verbatim>\<open>cipher.AEAD\<close>: sealing and opening under a key and a nonce.\<close>

record aead =
  aead_seal :: "string \<Rightarrow> string \<Rightarrow> string \<Rightarrow> string"
  aead_open :: "string \<Rightarrow> string \<Rightarrow> string \<Rightarrow> string option"

definition newGCM :: "string \<Rightarrow> unit outcome" where
  "newGCM key =
     (if length key \<noteq> masterKeySize then
        Inl (Err (''invalid AES-256 key size: expected 32 bytes, got '' @ dec_digits (length key)))
      else Inr ())"

text \<open>The nonce is what \<^verbatim>\<open>io.ReadFull(rand.Reader, nonce)\<close> yields; reading may fail.\<close>

definition Encrypt :: "aead \<Rightarrow> string option \<Rightarrow> string \<Rightarrow> string \<Rightarrow> string outcome" where
  "Encrypt gcm random plaintext key =
     (case newGCM key of Inl e \<Rightarrow> Inl e | Inr _ \<Rightarrow>
      case random of None \<Rightarrow> Inl SysFault | Some nonce \<Rightarrow>
        Inr (EncodeToString (nonce @ aead_seal gcm key nonce plaintext)))"

definition Decrypt :: "aead \<Rightarrow> string \<Rightarrow> string \<Rightarrow> string outcome" where
  "Decrypt gcm ciphertext key =
     (case DecodeString ciphertext of None \<Rightarrow> Inl (Err ''illegal base64 data'') | Some bytes \<Rightarrow>
      case newGCM key of Inl e \<Rightarrow> Inl e | Inr _ \<Rightarrow>
      if length bytes < nonceSize then Inl (Err ''ciphertext too short'')
      else case aead_open gcm key (take nonceSize bytes) (drop nonceSize bytes) of
        None \<Rightarrow> Inl (Err ''cipher: message authentication failed'')
      | Some plaintext \<Rightarrow> Inr plaintext)"

text \<open>C7. A secret that was stored can be read back: decrypting under the same master key what
  encryption produced gives the plaintext, whatever nonce was drawn.\<close>

theorem Decrypt_Encrypt:
  assumes "\<And>nonce p. aead_open gcm key nonce (aead_seal gcm key nonce p) = Some p"
    and "length nonce = nonceSize" and "Encrypt gcm (Some nonce) plaintext key = Inr text"
  shows "Decrypt gcm text key = Inr plaintext"
  using assms by (auto simp: Encrypt_def Decrypt_def DecodeString_EncodeToString split: sum.splits)

definition reversing_gcm :: aead where
  "reversing_gcm = \<lparr>aead_seal = (\<lambda>k n p. rev p), aead_open = (\<lambda>k n c. Some (rev c))\<rparr>"

theorem Decrypt_Encrypt_witness:
  "Decrypt reversing_gcm
     (EncodeToString (''0123456789ab'' @ ''terces'')) (replicate 32 (CHR ''k'')) = Inr ''secret''"
  by (rule Decrypt_Encrypt [where nonce = "''0123456789ab''"])
     (simp_all add: reversing_gcm_def Encrypt_def newGCM_def)

section \<open>The master key file\<close>

text \<open>The data directory: what a path names.  Another master process may work on it at the same
  time; \<open>key_stable\<close> is what such a process keeps to (and what the code below itself keeps to):
  the bytes of an installed key file never change.\<close>

datatype fs_node = Dir | File string nat

type_synonym key_dir = "string \<Rightarrow> fs_node option"

definition key_stable :: "string \<Rightarrow> key_dir \<Rightarrow> key_dir \<Rightarrow> bool" where
  "key_stable p d d' \<longleftrightarrow> (\<forall>c m. d p = Some (File c m) \<longrightarrow> (\<exists>m'. d' p = Some (File c m')))"

interpretation key_rel: table_relation "key_stable p" for p
  by unfold_locales (fastforce simp: key_stable_def)+

definition os_stat :: "string \<Rightarrow> key_dir \<Rightarrow> fs_node outcome \<times> key_dir" where
  "os_stat p d = (case d p of None \<Rightarrow> Inl NotFound | Some n \<Rightarrow> Inr n, d)"

definition os_chmod :: "string \<Rightarrow> nat \<Rightarrow> key_dir \<Rightarrow> unit outcome \<times> key_dir" where
  "os_chmod p mode d = (case d p of
     Some (File c _) \<Rightarrow> (Inr (), d(p \<mapsto> File c mode))
   | Some Dir \<Rightarrow> (Inr (), d)
   | None \<Rightarrow> (Inl NotFound, d))"

definition os_read_file :: "string \<Rightarrow> key_dir \<Rightarrow> string outcome \<times> key_dir" where
  "os_read_file p d = (case d p of
     Some (File c _) \<Rightarrow> Inr c | Some Dir \<Rightarrow> Inl SysFault | None \<Rightarrow> Inl NotFound, d)"

definition os_create_temp :: "string \<Rightarrow> key_dir \<Rightarrow> unit outcome \<times> key_dir" where
  "os_create_temp p d =
     (if d p = None then (Inr (), d(p \<mapsto> File '''' 384)) else (Inl Exists, d))"

definition os_write :: "string \<Rightarrow> string \<Rightarrow> key_dir \<Rightarrow> unit outcome \<times> key_dir" where
  "os_write p bytes d = (case d p of
     Some (File c m) \<Rightarrow> (Inr (), d(p \<mapsto> File bytes m)) | _ \<Rightarrow> (Inl SysFault, d))"

definition os_link :: "string \<Rightarrow> string \<Rightarrow> key_dir \<Rightarrow> unit outcome \<times> key_dir" where
  "os_link old new d = (case d old of
     None \<Rightarrow> (Inl NotFound, d)
   | Some n \<Rightarrow> if d new \<noteq> None then (Inl Exists, d) else (Inr (), d(new \<mapsto> n)))"

definition os_remove :: "string \<Rightarrow> key_dir \<Rightarrow> unit outcome \<times> key_dir" where
  "os_remove p d = (if d p = None then (Inl NotFound, d) else (Inr (), d(p := None)))"

type_synonym 'a key_prog = "(key_dir, unit, 'a) prog"

text \<open>An operating system error is wrapped with a text; only \<^verbatim>\<open>os.ErrNotExist\<close> of Stat and
  ReadFile goes out as it is.  384 is the mode 0600.\<close>

definition wrapped :: "string \<Rightarrow> 'a key_prog \<Rightarrow> 'a key_prog" where
  "wrapped what m = attempt m (\<lambda>r. case r of Inl e \<Rightarrow> raise (Err what) | Inr a \<Rightarrow> ret a)"

definition wrapped_missing :: "string \<Rightarrow> 'a key_prog \<Rightarrow> 'a key_prog" where
  "wrapped_missing what m = attempt m (\<lambda>r. case r of
     Inl e \<Rightarrow> raise (if e = NotFound then NotFound else Err what) | Inr a \<Rightarrow> ret a)"

definition loadMasterKey :: "string \<Rightarrow> string key_prog" where
  "loadMasterKey keyPath =
     bnd (wrapped_missing ''stat master.key'' (stmt (os_stat keyPath))) (\<lambda>info.
      case info of
        Dir \<Rightarrow> raise (Err (''read master.key: '' @ keyPath @ '' is a directory''))
      | File _ mode \<Rightarrow>
         bnd (if mode \<noteq> 384 then wrapped ''repair master.key permissions'' (stmt (os_chmod keyPath 384))
              else ret ()) (\<lambda>_.
         bnd (wrapped_missing ''read master.key'' (stmt (os_read_file keyPath))) (\<lambda>bytes.
         if length bytes \<noteq> masterKeySize then
           raise (Err (''invalid master.key: expected 32 bytes, got '' @ dec_digits (length bytes)))
         else ret bytes)))"

text \<open>The part of InitMasterKey that creates the file, from \<^verbatim>\<open>os.CreateTemp\<close> on; \<open>temp\<close> is the
  name it picks.  The deferred \<^verbatim>\<open>os.Remove(tempPath)\<close> runs on every exit after it.\<close>

definition installKey :: "string \<Rightarrow> string \<Rightarrow> string \<Rightarrow> string key_prog" where
  "installKey keyPath key temp =
     bnd (wrapped ''create temporary master.key'' (stmt (os_create_temp temp))) (\<lambda>_.
     attempt
       (bnd (wrapped ''write temporary master.key'' (stmt (os_write temp key))) (\<lambda>_.
        bnd (wrapped ''chmod temporary master.key'' (stmt (os_chmod temp 384))) (\<lambda>_.
        bnd (wrapped ''close temporary master.key'' (stmt (\<lambda>d. (Inr (), d)))) (\<lambda>_.
        attempt (stmt (os_link temp keyPath)) (\<lambda>l. case l of
          Inl e \<Rightarrow> if e = Exists then loadMasterKey keyPath else raise (Err ''install master.key'')
        | Inr _ \<Rightarrow> attempt (stmt (os_remove temp)) (\<lambda>_. ret key))))))
       (\<lambda>res. attempt (stmt (os_remove temp)) (\<lambda>_. case res of Inl e \<Rightarrow> raise e | Inr k \<Rightarrow> ret k)))"

text \<open>\<open>random\<close> is what \<^verbatim>\<open>io.ReadFull(rand.Reader, key)\<close> yields.\<close>

definition InitMasterKey :: "string \<Rightarrow> string option \<Rightarrow> string \<Rightarrow> string key_prog" where
  "InitMasterKey keyPath random temp =
     bnd (wrapped ''create data dir'' (stmt (\<lambda>d. (Inr (), d)))) (\<lambda>_.
     attempt (loadMasterKey keyPath) (\<lambda>r. case r of
       Inr bytes \<Rightarrow> ret bytes
     | Inl e \<Rightarrow>
        if e \<noteq> NotFound then raise e else
        case random of None \<Rightarrow> raise (Err ''generate master key'')
        | Some key \<Rightarrow> installKey keyPath key temp))"

text \<open>What another process may do while this one installs the key: install or chmod the key file,
  but not change its bytes, and not touch this process's own temporary file.\<close>

definition key_env :: "string \<Rightarrow> string \<Rightarrow> key_dir \<Rightarrow> key_dir \<Rightarrow> bool" where
  "key_env p temp d d' \<longleftrightarrow> key_stable p d d' \<and> d' temp = d temp"

definition holds_bytes :: "string \<Rightarrow> string \<Rightarrow> key_dir \<Rightarrow> bool" where
  "holds_bytes p c d \<longleftrightarrow> (\<exists>m. d p = Some (File c m))"

lemma holds_bytes_upd [simp]:
  "holds_bytes p c (d(q \<mapsto> File b m)) = (if p = q then b = c else holds_bytes p c d)"
  "holds_bytes p c (d(q := None)) = (p \<noteq> q \<and> holds_bytes p c d)"
  by (auto simp: holds_bytes_def)

lemma stable_key [intro]: "stable (key_env p temp) (holds_bytes p c)"
  and stable_temp [intro]: "stable (key_env p temp) (holds_bytes temp c)"
  and stable_both [intro]: "stable (key_env p temp) (\<lambda>d. \<exists>c. holds_bytes temp c d)"
  and stable_true [intro]: "stable R (\<lambda>_. True)"
  by (auto simp: stable_def key_env_def key_stable_def holds_bytes_def)

definition key_result :: "string \<Rightarrow> string outcome \<Rightarrow> key_dir \<Rightarrow> bool" where
  "key_result p r d \<longleftrightarrow> (\<forall>k. r = Inr k \<longrightarrow> length k = masterKeySize \<and> holds_bytes p k d)"

lemma key_result_simps [simp]:
  "key_result p (Inl e) d" "key_result p (Inr k) d \<longleftrightarrow> length k = masterKeySize \<and> holds_bytes p k d"
  by (auto simp: key_result_def)

lemma triple_wrapped:
  assumes "triple R P m M" "\<And>a d. M (Inr a) d \<Longrightarrow> Q (Inr a) d" "\<And>e d. Q (Inl e) d"
  shows "triple R P (wrapped what m) Q" "triple R P (wrapped_missing what m) Q"
  unfolding wrapped_def wrapped_missing_def
  by (rule triple_attempt [OF assms(1)], rename_tac r, case_tac r,
      auto intro: triple_raise triple_ret assms(2,3))+

lemma triple_any:
  assumes "\<And>r d. Q r d"
  shows "triple R (\<lambda>_. True) (stmt f) Q"
  by (rule triple_stmt) (auto intro: assms)

text \<open>One rule per step; a failed step claims nothing.\<close>

abbreviation after :: "('d \<Rightarrow> bool) \<Rightarrow> unit outcome \<Rightarrow> 'd \<Rightarrow> bool" where
  "after P \<equiv> \<lambda>r d. r = Inr () \<longrightarrow> P d"

lemma wrapped_step:
  assumes "stable R P" "\<And>d r d'. P d \<Longrightarrow> f d = (r, d') \<Longrightarrow> after Q r d'"
  shows "triple R P (wrapped what (stmt f)) (after Q)"
  by (rule triple_wrapped(1), rule triple_stmt [where Q = "after Q"]) (use assms in auto)

lemma step_bnd:
  assumes "triple R P m (after M)" and "triple R M k Q" and "\<And>e d. Q (Inl e) d"
  shows "triple R P (bnd m (\<lambda>_. k)) Q"
proof (rule triple_bnd [OF assms(1)])
  fix a :: unit
  have "(\<lambda>d. after M (Inr a) d) = M" by auto
  with assms(2) show "triple R (after M (Inr a)) k Q" by simp
qed (simp add: assms(3))

lemma read_step:
  "triple (key_env p temp) (\<lambda>_. True) (wrapped_missing what (stmt (os_read_file p)))
     (\<lambda>r d. \<forall>b. r = Inr b \<longrightarrow> holds_bytes p b d)"
  by (rule triple_wrapped(2), rule triple_stmt [where Q = "\<lambda>r d. \<forall>b. r = Inr b \<longrightarrow> holds_bytes p b d"])
    (auto simp: os_read_file_def holds_bytes_def split: option.splits fs_node.splits)

lemma create_step:
  "triple (key_env p temp) (\<lambda>_. True) (wrapped what (stmt (os_create_temp temp)))
     (after (\<lambda>d. \<exists>c. holds_bytes temp c d))"
  by (rule wrapped_step) (auto simp: os_create_temp_def split: if_splits)

lemma write_step:
  "triple (key_env p temp) (\<lambda>d. \<exists>c. holds_bytes temp c d) (wrapped what (stmt (os_write temp k)))
     (after (holds_bytes temp k))"
  by (rule wrapped_step [OF stable_both])
    (auto simp: os_write_def holds_bytes_def split: option.splits fs_node.splits)

lemma chmod_step:
  "triple (key_env p temp) (holds_bytes temp k) (wrapped what (stmt (os_chmod temp m)))
     (after (holds_bytes temp k))"
  by (rule wrapped_step) (auto simp: os_chmod_def holds_bytes_def split: option.splits fs_node.splits)

lemma close_step:
  "triple (key_env p temp) (holds_bytes temp k) (wrapped what (stmt (\<lambda>d. (Inr (), d))))
     (after (holds_bytes temp k))"
  by (rule wrapped_step) auto

lemma link_step:
  "triple (key_env p temp) (holds_bytes temp k) (stmt (os_link temp p)) (after (holds_bytes p k))"
  by (rule triple_stmt) (auto simp: os_link_def holds_bytes_def split: option.splits if_splits)

lemma remove_step:
  assumes "temp \<noteq> p"
  shows "triple (key_env p temp) (key_result p r) (stmt (os_remove temp)) (\<lambda>_ d. key_result p r d)"
proof (rule triple_stmt)
  show "stable (key_env p temp) (key_result p r)"
    using stable_key by (cases r) (auto simp: stable_def)
qed (use assms in \<open>cases r; auto simp: os_remove_def split: if_splits\<close>)+

lemma any_step:
  "triple R (\<lambda>_. True) (wrapped what (stmt f)) (\<lambda>_ _. True)"
  "triple R (\<lambda>_. True) (wrapped_missing what (stmt f)) (\<lambda>_ _. True)"
  by (rule triple_wrapped [OF triple_any [where Q = "\<lambda>_ _. True"]]; simp)+

lemma loadMasterKey_result:
  "triple (key_env p temp) (\<lambda>_. True) (loadMasterKey p) (key_result p)"
proof -
  have tail: "triple (key_env p temp) (\<lambda>_. True) (bnd (wrapped_missing what (stmt (os_read_file p))) (\<lambda>bytes.
         if length bytes \<noteq> masterKeySize then raise (e bytes) else ret bytes)) (key_result p)" for what e
    by (rule triple_bnd [OF read_step]) (auto intro: triple_raise triple_ret)
  have perm: "triple (key_env p temp) (\<lambda>_. True) (if b then wrapped what (stmt f) else ret ()) (\<lambda>_ _. True)" for b what f
    by (auto intro: any_step triple_ret)
  have "triple (key_env p temp) (\<lambda>_. True) (case info of
        Dir \<Rightarrow> raise e0
      | File c mode \<Rightarrow>
         bnd (if mode \<noteq> 384 then wrapped w1 (stmt f) else ret ()) (\<lambda>_.
         bnd (wrapped_missing w2 (stmt (os_read_file p))) (\<lambda>bytes.
         if length bytes \<noteq> masterKeySize then raise (e bytes) else ret bytes))) (key_result p)"
    for info e0 w1 w2 e and f :: "key_dir \<Rightarrow> unit outcome \<times> key_dir"
  proof (cases info)
    case (File c mode)
    show ?thesis unfolding File fs_node.case
      by (rule triple_bnd [OF perm tail]) simp
  qed (simp add: triple_raise)
  then show ?thesis
    unfolding loadMasterKey_def by (rule triple_bnd [OF any_step(2)]) simp
qed

lemma installKey_result:
  assumes "temp \<noteq> p" and k: "length k = masterKeySize"
  shows "triple (key_env p temp) (\<lambda>_. True) (installKey p k temp) (key_result p)"
proof -
  note rm = remove_step [OF assms(1)]
  have cleanup: "triple (key_env p temp) (key_result p r)
      (attempt (stmt (os_remove temp)) (\<lambda>_. case r of Inl e \<Rightarrow> raise e | Inr k \<Rightarrow> ret k)) (key_result p)" for r
    by (rule triple_attempt [OF rm]) (cases r; auto intro: triple_raise triple_ret)
  have linked: "triple (key_env p temp) (after (holds_bytes p k) l) (case l of
             Inl e \<Rightarrow> if e = Exists then loadMasterKey p else raise e'
           | Inr _ \<Rightarrow> attempt (stmt (os_remove temp)) (\<lambda>_. ret k)) (key_result p)" for l e'
  proof (cases l)
    case (Inl e)
    then show ?thesis by (auto intro: triple_raise loadMasterKey_result)
  next
    case (Inr u)
    have "triple (key_env p temp) (key_result p (Inr k)) (attempt (stmt (os_remove temp)) (\<lambda>_. ret k)) (key_result p)"
      by (rule triple_attempt [OF rm]) (auto intro: triple_ret)
    then have "triple (key_env p temp) (holds_bytes p k) (attempt (stmt (os_remove temp)) (\<lambda>_. ret k)) (key_result p)"
      by (rule triple_weaken) (simp_all add: k)
    then show ?thesis by (simp add: Inr)
  qed
  note link = triple_attempt [OF link_step linked]
  show ?thesis
    unfolding installKey_def
    by (intro step_bnd [OF create_step] triple_attempt [OF _ cleanup] step_bnd [OF write_step]
        step_bnd [OF chmod_step] step_bnd [OF close_step] link) auto
qed

lemma InitMasterKey_result:
  assumes "temp \<noteq> p" and "\<And>k. random = Some k \<Longrightarrow> length k = masterKeySize"
  shows "triple (key_env p temp) (\<lambda>_. True) (InitMasterKey p random temp) (key_result p)"
proof -
  have "triple (key_env p temp) (key_result p r) (case r of
       Inr bytes \<Rightarrow> ret bytes
     | Inl e \<Rightarrow> if e \<noteq> NotFound then raise e else
        case random of None \<Rightarrow> raise e' | Some key \<Rightarrow> installKey p key temp) (key_result p)" for r e'
    using triple_weaken [OF installKey_result [OF assms(1) assms(2)]]
    by (cases r; cases random) (auto intro: triple_ret triple_raise)
  then show ?thesis
    unfolding InitMasterKey_def
    by (intro triple_bnd [OF any_step(1)] triple_attempt [OF loadMasterKey_result]) auto
qed

lemma obeys_wrapped [intro]:
  "obeys (key_stable p) m \<Longrightarrow> obeys (key_stable p) (wrapped what m)"
  "obeys (key_stable p) m \<Longrightarrow> obeys (key_stable p) (wrapped_missing what m)"
  unfolding wrapped_def wrapped_missing_def
  by (intro key_rel.obeys_rules; assumption?)+

lemma files_obey:
  "key_stable p d (snd (os_stat q d))" "key_stable p d (snd (os_chmod q m d))"
  "key_stable p d (snd (os_read_file q d))" "key_stable p d (snd (os_create_temp q d))"
  "key_stable p d (snd (os_link q r d))"
  "q \<noteq> p \<Longrightarrow> key_stable p d (snd (os_write q b d))"
  "q \<noteq> p \<Longrightarrow> key_stable p d (snd (os_remove q d))"
  by (auto simp: key_stable_def os_stat_def os_chmod_def os_read_file_def os_create_temp_def
      os_link_def os_write_def os_remove_def split: option.splits fs_node.splits)

lemma obeys_node:
  fixes m :: "string key_prog"
  shows "obeys R m \<Longrightarrow> (\<And>c mode. obeys R (n c mode)) \<Longrightarrow>
    obeys R (case info of Dir \<Rightarrow> m | File c mode \<Rightarrow> n c mode)"
  by (cases info) simp_all

lemma loadMasterKey_obeys: "obeys (key_stable p) (loadMasterKey q)"
  unfolding loadMasterKey_def by (intro key_rel.obeys_rules obeys_wrapped obeys_node files_obey)

lemma InitMasterKey_obeys:
  assumes "temp \<noteq> p"
  shows "obeys (key_stable p) (InitMasterKey p random temp)"
  unfolding InitMasterKey_def installKey_def
  by (intro key_rel.obeys_rules obeys_wrapped files_obey loadMasterKey_obeys assms; simp add: key_rel.R_refl)

text \<open>C4. Masters that start on the same data directory agree on the master key: whatever faults
  occur and whenever another process installs the key file, a successful InitMasterKey returns 32
  bytes, they are the bytes of the key file, and a key file that was there is kept.\<close>

theorem InitMasterKey_agreed:
  assumes temp: "temp \<noteq> p" and random: "\<And>k. random = Some k \<Longrightarrow> length k = masterKeySize"
    and env: "rely (key_env p temp) w" and run: "InitMasterKey p random temp w = (Inr key, w')"
  shows "length key = masterKeySize \<and> (\<exists>m. w_db w' p = Some (File key m)) \<and>
    (\<forall>c m. w_db w p = Some (File c m) \<longrightarrow> c = key)"
proof -
  have 1: "length key = masterKeySize" "holds_bytes p key (w_db w')"
    using tripleD [OF InitMasterKey_result [OF temp random] env _ run] by simp_all
  have "rely (key_stable p) w" using env by (auto simp: rely_def key_env_def)
  from obeysD [OF InitMasterKey_obeys [OF temp] this] run
  have "key_stable p (w_db w) (w_db w')" by (metis snd_conv)
  with 1 show ?thesis by (fastforce simp: key_stable_def holds_bytes_def)
qed

definition rival_key :: string where "rival_key = replicate 32 (CHR ''r'')"

definition racing_world :: "(key_dir, unit) world" where
  "racing_world = \<lparr>w_db = (\<lambda>_. None), w_hub = (), w_faults = [],
     w_others = [id, id, id, (\<lambda>d. if d ''mk'' = None then d(''mk'' \<mapsto> File rival_key 384) else d)],
     w_clock = [], w_now = 0\<rparr>"

theorem InitMasterKey_agreed_witness:
  "length rival_key = masterKeySize \<and>
   (\<exists>m. w_db (snd (InitMasterKey ''mk'' (Some (replicate 32 (CHR ''k''))) ''tmp'' racing_world)) ''mk''
      = Some (File rival_key m))"
proof -
  let ?run = "InitMasterKey ''mk'' (Some (replicate 32 (CHR ''k''))) ''tmp'' racing_world"
  have "fst ?run = Inr rival_key" by code_simp
  then have run: "?run = (Inr rival_key, snd ?run)" by (metis prod.collapse)
  have "rely (key_env ''mk'' ''tmp'') racing_world"
    by (auto simp: rely_def racing_world_def key_env_def key_stable_def)
  from InitMasterKey_agreed [OF _ _ this run] show ?thesis by simp
qed

end
