(* ===== verification/VF_Commands.thy ===== *)
theory VF_Commands
  imports VF_Models VF_Crypto VF_Link
begin

text \<open>
  The command service (internal/master/commands/service.go): the life of a command from its
  creation to its completion, cancellation or timeout, together with the task history row that
  mirrors it.  Every method is a program over the tables; the JSON codec, the AES-GCM cipher and
  the random source are fields of \<open>service\<close>, the hub is the interface of \<open>VF_Link\<close>.
\<close>

abbreviation CommandStatusPending :: string where "CommandStatusPending \<equiv> ''pending''"
abbreviation CommandStatusDispatched :: string where "CommandStatusDispatched \<equiv> ''dispatched''"
abbreviation CommandStatusRunning :: string where "CommandStatusRunning \<equiv> ''running''"
abbreviation CommandStatusSucceeded :: string where "CommandStatusSucceeded \<equiv> ''succeeded''"
abbreviation CommandStatusFailed :: string where "CommandStatusFailed \<equiv> ''failed''"
abbreviation CommandStatusTimeout :: string where "CommandStatusTimeout \<equiv> ''timeout''"
abbreviation CommandStatusCancelled :: string where "CommandStatusCancelled \<equiv> ''cancelled''"

abbreviation TaskStatusPending :: string where "TaskStatusPending \<equiv> ''pending''"
abbreviation TaskStatusRunning :: string where "TaskStatusRunning \<equiv> ''running''"
abbreviation TaskStatusSuccess :: string where "TaskStatusSuccess \<equiv> ''success''"
abbreviation TaskStatusPartialSuccess :: string where "TaskStatusPartialSuccess \<equiv> ''partial_success''"
abbreviation TaskStatusFailed :: string where "TaskStatusFailed \<equiv> ''failed''"
abbreviation TaskStatusTimeout :: string where "TaskStatusTimeout \<equiv> ''timeout''"
abbreviation TaskStatusCancelled :: string where "TaskStatusCancelled \<equiv> ''cancelled''"

definition isTerminal :: "string \<Rightarrow> bool" where
  "isTerminal status \<longleftrightarrow> status = CommandStatusSucceeded \<or> status = CommandStatusFailed \<or>
     status = CommandStatusTimeout \<or> status = CommandStatusCancelled"

definition terminalStatuses :: "string list" where
  "terminalStatuses =
     [CommandStatusSucceeded, CommandStatusFailed, CommandStatusTimeout, CommandStatusCancelled]"

definition isTaskTerminal :: "string \<Rightarrow> bool" where
  "isTaskTerminal status \<longleftrightarrow> status = TaskStatusSuccess \<or> status = TaskStatusPartialSuccess \<or>
     status = TaskStatusFailed \<or> status = TaskStatusTimeout \<or> status = TaskStatusCancelled"

lemma set_terminalStatuses [simp]: "s \<in> set terminalStatuses \<longleftrightarrow> isTerminal s"
  by (simp add: terminalStatuses_def isTerminal_def)

lemma terminal_statuses [simp]:
  "isTerminal CommandStatusSucceeded" "isTerminal CommandStatusFailed"
  "isTerminal CommandStatusTimeout" "isTerminal CommandStatusCancelled"
  "\<not> isTerminal CommandStatusPending" "\<not> isTerminal CommandStatusDispatched"
  "\<not> isTerminal CommandStatusRunning"
  by (simp_all add: isTerminal_def)

definition isLongRunning :: "string \<Rightarrow> bool" where
  "isLongRunning t \<longleftrightarrow> t = type_text TypeBackupNow \<or> t = type_text TypeBackupVerifyReq \<or>
     t = type_text TypeRestoreReq \<or> t = type_text TypeSelectiveRestoreReq"

definition isCancelableOnTimeout :: "string \<Rightarrow> bool" where
  "isCancelableOnTimeout t \<longleftrightarrow> t \<in> type_text ` {TypeBackupNow, TypeBackupVerifyReq, TypeRestoreReq,
     TypeSelectiveRestoreReq, TypeSnapshotListReq, TypeSnapshotBrowseReq}"

definition taskTypeForCommand :: "string \<Rightarrow> string option" where
  "taskTypeForCommand t =
     (if t = type_text TypeBackupNow then Some ''backup''
      else if t = type_text TypeBackupVerifyReq then Some ''verify''
      else if t = type_text TypeRestoreReq \<or> t = type_text TypeSelectiveRestoreReq then Some ''restore''
      else None)"

lemma taskTypeForCommand_long: "taskTypeForCommand t \<noteq> None \<longleftrightarrow> isLongRunning t"
  by (auto simp: taskTypeForCommand_def isLongRunning_def)

definition nullableTime :: "time \<Rightarrow> time option" where
  "nullableTime t = (if t = 0 then None else Some t)"

definition DeadlineForType :: "string \<Rightarrow> time \<Rightarrow> time" where
  "DeadlineForType t now =
     (if t = type_text TypePolicyPush then now + 5 * minute
      else if t = type_text TypeSnapshotListReq then now + 2 * minute
      else if isLongRunning t then now + 6 * hour
      else now + 30 * minute)"

section \<open>What the service is built from\<close>

record json =
  js_message :: "message \<Rightarrow> string outcome"
  js_parse_message :: "string \<Rightarrow> message outcome"
  js_result :: "task_result \<Rightarrow> string outcome"
  js_snapshot_list :: "snapshot_list \<Rightarrow> string outcome"
  js_restore_items :: "restore_item list \<Rightarrow> string outcome"
  js_cancel :: "string \<Rightarrow> string \<Rightarrow> string outcome"
  js_include_paths :: "string \<Rightarrow> string list outcome"
  js_capabilities :: "string \<Rightarrow> string list option"

text \<open>\<open>sv_nonce\<close> and \<open>sv_message_id\<close> are what the random source yields when the payload of a
  command is encrypted again and when the cancel message for a command is built.\<close>

record 'h service =
  sv_hub :: "'h hub_ops"
  sv_json :: json
  sv_gcm :: aead
  sv_master_key :: string
  sv_nonce :: "agent_command \<Rightarrow> string option"
  sv_message_id :: "agent_command \<Rightarrow> string outcome"

record create_command_input =
  ci_agent_id :: string
  ci_type :: string
  ci_message :: message
  ci_task_type :: string
  ci_task_state :: string
  ci_snapshot_id :: string
  ci_policy_id :: string
  ci_policy_name :: string
  ci_policy_updated_at :: "time option"
  ci_storage_id :: string
  ci_timeout_hours :: int

abbreviation errCommandNotActive :: string where "errCommandNotActive \<equiv> ''command is not active''"
abbreviation errInvalidCommandPayload :: string where
  "errInvalidCommandPayload \<equiv> ''invalid command payload''"
abbreviation errSelectiveRestoreUnsupported :: string where
  "errSelectiveRestoreUnsupported \<equiv> ''agent does not support selective restore''"
abbreviation errAgentCapabilitiesUnknown :: string where
  "errAgentCapabilitiesUnknown \<equiv> ''agent capabilities unknown''"

type_synonym ('h, 'a) service_prog = "(tables, 'h, 'a) prog"

section \<open>Statements on the two tables\<close>

definition update_commands ::
  "(agent_command \<Rightarrow> bool) \<Rightarrow> (agent_command \<Rightarrow> agent_command) \<Rightarrow> tables \<Rightarrow> nat outcome \<times> tables" where
  "update_commands p f d =
     (Inr (affected p (db_commands d)), d\<lparr>db_commands := update_rows p f (db_commands d)\<rparr>)"

definition update_tasks ::
  "(task_history \<Rightarrow> bool) \<Rightarrow> (task_history \<Rightarrow> task_history) \<Rightarrow> tables \<Rightarrow> unit outcome \<times> tables" where
  "update_tasks p f d = (Inr (), d\<lparr>db_tasks := update_rows p f (db_tasks d)\<rparr>)"

definition first_command :: "(agent_command \<Rightarrow> bool) \<Rightarrow> tables \<Rightarrow> agent_command outcome \<times> tables" where
  "first_command p d = (first_row ac_id p (db_commands d), d)"

definition insert_command :: "agent_command \<Rightarrow> tables \<Rightarrow> unit outcome \<times> tables" where
  "insert_command c d =
     (if ac_message_id c \<in> ac_message_id ` set (db_commands d) then (Inl SysFault, d)
      else case insert_row ac_id c (db_commands d) of
        Inl e \<Rightarrow> (Inl e, d) | Inr rows \<Rightarrow> (Inr (), d\<lparr>db_commands := rows\<rparr>))"

definition insert_task :: "task_history \<Rightarrow> tables \<Rightarrow> unit outcome \<times> tables" where
  "insert_task t d =
     (case insert_row th_id t (db_tasks d) of
        Inl e \<Rightarrow> (Inl e, d) | Inr rows \<Rightarrow> (Inr (), d\<lparr>db_tasks := rows\<rparr>))"

definition active_id :: "string \<Rightarrow> agent_command \<Rightarrow> bool" where
  "active_id cid c \<longleftrightarrow> ac_id c = cid \<and> ac_status c \<notin> set terminalStatuses"

definition open_task_of :: "string \<Rightarrow> task_history \<Rightarrow> bool" where
  "open_task_of cid t \<longleftrightarrow> th_command_id t = cid \<and> th_status t \<in> {TaskStatusPending, TaskStatusRunning}"

section \<open>Creation\<close>

text \<open>\<open>nonce\<close> is drawn by Encrypt, the two identifiers by the BeforeCreate hooks.  The rows' own
  timestamps are set by gorm from the clock.\<close>

definition new_task :: "create_command_input \<Rightarrow> string \<Rightarrow> string \<Rightarrow> time \<Rightarrow> task_history" where
  "new_task i cid tid t =
     \<lparr>th_id = tid, th_agent_id = ci_agent_id i, th_type = ci_task_type i,
      th_status = (if ci_task_state i = '''' then TaskStatusPending else ci_task_state i),
      th_snapshot_id = ci_snapshot_id i, th_artifact_path = '''', th_artifact_name = '''',
      th_artifact_size = 0, th_artifact_content_type = '''', th_backup_mode = '''',
      th_archive_format = '''', th_message_id = m_id (ci_message i), th_command_id = cid,
      th_policy_id = ci_policy_id i, th_policy_name = ci_policy_name i,
      th_storage_id = ci_storage_id i, th_docker = '''', th_database = '''', th_verification = '''',
      th_manifest = '''', th_artifact_naming = '''', th_restore_items = '''', th_restore_progress = '''',
      th_started_at = None, th_finished_at = None, th_duration_ms = 0, th_repo_size = 0,
      th_error_log = '''', th_created_at = t, th_updated_at = t\<rparr>"

definition new_command :: "create_command_input \<Rightarrow> string \<Rightarrow> string \<Rightarrow> time \<Rightarrow> agent_command" where
  "new_command i cid payload deadline =
     \<lparr>ac_id = cid, ac_agent_id = ci_agent_id i, ac_type = ci_type i, ac_status = CommandStatusPending,
      ac_message_id = m_id (ci_message i), ac_payload = payload, ac_result = '''',
      ac_error_message = '''', ac_attempts = 0, ac_policy_id = ci_policy_id i,
      ac_policy_updated_at = ci_policy_updated_at i, ac_storage_id = ci_storage_id i,
      ac_deadline_at = Some deadline, ac_dispatched_at = None, ac_completed_at = None,
      ac_created_at = 0, ac_updated_at = 0\<rparr>"

definition create_rows :: "create_command_input \<Rightarrow> string \<Rightarrow> string \<Rightarrow> string \<Rightarrow> time \<Rightarrow> ('h, agent_command) service_prog" where
  "create_rows i cid tid encrypted deadline =
     bnd clock (\<lambda>t.
       let row = (new_command i cid encrypted deadline)\<lparr>ac_created_at := t, ac_updated_at := t\<rparr>
       in bnd (in_tx (insert_command row)) (\<lambda>_.
          if ci_task_type i = '''' then ret row
          else bnd clock (\<lambda>t'. bnd (in_tx (insert_task (new_task i cid tid t'))) (\<lambda>_. ret row))))"

definition CreateCommand ::
  "'h service \<Rightarrow> string \<Rightarrow> string \<Rightarrow> string option \<Rightarrow> create_command_input \<Rightarrow> ('h, agent_command) service_prog" where
  "CreateCommand s cid tid nonce i =
     (if ci_agent_id i = '''' \<or> ci_type i = '''' \<or> m_id (ci_message i) = '''' then
        raise (Err ''agent id, command type, and message id are required'')
      else case js_message (sv_json s) (ci_message i) of
        Inl e \<Rightarrow> raise (Err (''marshal command payload: '' @ error_text e))
      | Inr raw \<Rightarrow>
      case Encrypt (sv_gcm s) nonce raw (sv_master_key s) of
        Inl e \<Rightarrow> raise (Err (''encrypt command payload: '' @ error_text e))
      | Inr encrypted \<Rightarrow>
      bnd clock (\<lambda>now.
        let deadline = (if ci_timeout_hours i > 0 then now + int64 (ci_timeout_hours i * hour)
                        else DeadlineForType (ci_type i) now)
        in transaction (create_rows i cid tid encrypted deadline)))"

section \<open>Completion\<close>

definition CompletePolicyAck :: "string \<Rightarrow> string \<Rightarrow> bool \<Rightarrow> string \<Rightarrow> ('h, unit) service_prog" where
  "CompletePolicyAck agentID messageID success errorText =
     (if agentID = '''' \<or> messageID = '''' then ret ()
      else bnd clock (\<lambda>now.
        let status = (if success then CommandStatusSucceeded else CommandStatusFailed)
        in transaction
          (bnd (in_tx (update_commands
              (\<lambda>c. ac_agent_id c = agentID \<and> ac_message_id c = messageID \<and>
                   ac_type c = type_text TypePolicyPush \<and>
                   ac_status c \<in> {CommandStatusPending, CommandStatusDispatched, CommandStatusRunning})
              (\<lambda>c. c\<lparr>ac_status := status, ac_completed_at := Some now, ac_updated_at := now,
                     ac_error_message := (if success then '''' else errorText)\<rparr>))) (\<lambda>rows.
           if rows > 0 then ret ()
           else attempt (in_tx (first_command
                 (\<lambda>c. ac_agent_id c = agentID \<and> ac_message_id c = messageID \<and>
                      ac_type c = type_text TypePolicyPush))) (\<lambda>r. case r of
               Inl e \<Rightarrow> if e = NotFound then raise (Err (''policy command not found: '' @ messageID))
                        else raise e
             | Inr c \<Rightarrow> if isTerminal (ac_status c) then ret ()
                        else raise (Err (''policy command '' @ messageID @ '' is not active: '' @ ac_status c)))))))"

definition command_status_for :: "string \<Rightarrow> string" where
  "command_status_for taskStatus =
     (if taskStatus = TaskStatusSuccess then CommandStatusSucceeded
      else if taskStatus = TaskStatusCancelled then CommandStatusCancelled
      else CommandStatusFailed)"

text \<open>The update of the task history by a result: a metadata column is set when the result has it.\<close>

definition set_opt :: "'v option \<Rightarrow> ('v \<Rightarrow> 'r \<Rightarrow> 'r) \<Rightarrow> 'r \<Rightarrow> 'r" where
  "set_opt v upd r = (case v of None \<Rightarrow> r | Some x \<Rightarrow> upd x r)"

definition task_result_update ::
  "task_result \<Rightarrow> time \<Rightarrow> time option \<Rightarrow> time option \<Rightarrow> string option \<Rightarrow> task_history \<Rightarrow> task_history" where
  "task_result_update r now startedAt finishedAt items t =
     set_opt startedAt (\<lambda>v. th_started_at_update (\<lambda>_. Some v))
     (set_opt items (\<lambda>v. th_restore_items_update (\<lambda>_. v))
     (set_opt (tr_artifact_naming r) (\<lambda>v. th_artifact_naming_update (\<lambda>_. v))
     (set_opt (tr_verification r) (\<lambda>v. th_verification_update (\<lambda>_. v))
     (set_opt (tr_database r) (\<lambda>v. th_database_update (\<lambda>_. v))
     (set_opt (tr_docker r) (\<lambda>v. th_docker_update (\<lambda>_. v))
     (t\<lparr>th_status := tr_status r, th_snapshot_id := tr_snapshot_id r,
        th_artifact_path := tr_artifact_path r, th_artifact_name := tr_artifact_name r,
        th_artifact_size := tr_artifact_size r, th_artifact_content_type := tr_artifact_content_type r,
        th_backup_mode := tr_backup_mode r, th_archive_format := tr_archive_format r,
        th_duration_ms := tr_duration_ms r, th_repo_size := tr_repo_size r,
        th_error_log := tr_error_log r, th_finished_at := finishedAt, th_updated_at := now,
        th_policy_name := (if tr_policy_name r \<noteq> '''' then tr_policy_name r else th_policy_name t)\<rparr>))))))"

definition CompleteTaskResultWith ::
  "'h service \<Rightarrow> string \<Rightarrow> string \<Rightarrow> task_result \<Rightarrow> ('h, unit) service_prog \<Rightarrow> ('h, bool) service_prog" where
  "CompleteTaskResultWith s agentID0 messageID r apply_fn =
     (if messageID = '''' then ret False
      else case js_result (sv_json s) r of
        Inl e \<Rightarrow> raise (Err (''marshal command result: '' @ error_text e))
      | Inr rawResult \<Rightarrow>
      bnd clock (\<lambda>now.
        let agentID = (if agentID0 = '''' then tr_agent_id r else agentID0);
            commandStatus = command_status_for (tr_status r);
            errorMessage = (if commandStatus = CommandStatusSucceeded then '''' else tr_error_log r);
            startedAt = nullableTime (tr_started_at r);
            finishedAt = (if nullableTime (tr_finished_at r) = None \<and> isTaskTerminal (tr_status r)
                          then Some now else nullableTime (tr_finished_at r))
        in attempt (transaction
            (attempt (in_tx (first_command
                (\<lambda>c. ac_agent_id c = agentID \<and> ac_message_id c = messageID \<and> isLongRunning (ac_type c) \<and>
                     ac_status c \<notin> set terminalStatuses))) (\<lambda>f. case f of
               Inl e \<Rightarrow> if e = NotFound then ret False else raise e
             | Inr command \<Rightarrow>
                if taskTypeForCommand (ac_type command) \<noteq> Some (tr_task_type r) then ret False
                else bnd apply_fn (\<lambda>_.
                  bnd (in_tx (update_commands (active_id (ac_id command))
                       (\<lambda>c. c\<lparr>ac_status := commandStatus, ac_result := rawResult,
                              ac_error_message := errorMessage, ac_completed_at := Some now,
                              ac_updated_at := now\<rparr>))) (\<lambda>rows.
                  if rows = 0 then raise (Err errCommandNotActive)
                  else bnd (case tr_restore_items r of
                        None \<Rightarrow> ret None
                      | Some items \<Rightarrow> (case js_restore_items (sv_json s) items of
                            Inl e \<Rightarrow> raise (Err (''marshal restore item results: '' @ error_text e))
                          | Inr raw \<Rightarrow> ret (Some raw))) (\<lambda>items.
                    bnd (in_tx (update_tasks (\<lambda>t. th_command_id t = ac_id command)
                         (task_result_update r now startedAt finishedAt items))) (\<lambda>_. ret True))))))) (\<lambda>res.
          case res of Inl e \<Rightarrow> if errors_is e errCommandNotActive then ret False else raise e
            | Inr completed \<Rightarrow> ret completed)))"

definition CompleteTaskResult ::
  "'h service \<Rightarrow> string \<Rightarrow> string \<Rightarrow> task_result \<Rightarrow> ('h, unit) service_prog" where
  "CompleteTaskResult s agentID messageID r =
     bnd (CompleteTaskResultWith s agentID messageID r (ret ())) (\<lambda>_. ret ())"

definition CompleteSnapshotListWith ::
  "'h service \<Rightarrow> string \<Rightarrow> string \<Rightarrow> snapshot_list \<Rightarrow> ('h, unit) service_prog \<Rightarrow> ('h, bool) service_prog" where
  "CompleteSnapshotListWith s agentID0 messageID r apply_fn =
     (if messageID = '''' then ret False
      else case js_snapshot_list (sv_json s) r of
        Inl e \<Rightarrow> raise (Err (''marshal command result: '' @ error_text e))
      | Inr rawResult \<Rightarrow>
      bnd clock (\<lambda>now.
        let agentID = (if agentID0 = '''' then sl_agent_id r else agentID0)
        in attempt (transaction
            (attempt (in_tx (first_command
                (\<lambda>c. ac_agent_id c = agentID \<and> ac_message_id c = messageID \<and>
                     ac_type c = type_text TypeSnapshotListReq \<and> ac_status c \<notin> set terminalStatuses))) (\<lambda>f.
             case f of
               Inl e \<Rightarrow> if e = NotFound then ret False else raise e
             | Inr command \<Rightarrow> bnd apply_fn (\<lambda>_.
                 bnd (in_tx (update_commands (active_id (ac_id command))
                       (\<lambda>c. c\<lparr>ac_status := CommandStatusSucceeded, ac_result := rawResult,
                              ac_error_message := '''', ac_completed_at := Some now,
                              ac_updated_at := now\<rparr>))) (\<lambda>rows.
                 if rows = 0 then raise (Err errCommandNotActive) else ret True))))) (\<lambda>res.
          case res of Inl e \<Rightarrow> if errors_is e errCommandNotActive then ret False else raise e
            | Inr completed \<Rightarrow> ret completed)))"

definition CompleteSnapshotList ::
  "'h service \<Rightarrow> string \<Rightarrow> string \<Rightarrow> snapshot_list \<Rightarrow> ('h, unit) service_prog" where
  "CompleteSnapshotList s agentID messageID r =
     bnd (CompleteSnapshotListWith s agentID messageID r (ret ())) (\<lambda>_. ret ())"

text \<open>All callers of completeCommand pass no result; an empty agent or type does not filter.\<close>

definition completeCommand ::
  "string \<Rightarrow> string \<Rightarrow> string \<Rightarrow> string \<Rightarrow> string \<Rightarrow> ('h, unit) service_prog" where
  "completeCommand agentID messageID commandType status errorText =
     (if messageID = '''' then ret ()
      else bnd clock (\<lambda>now.
        bnd (stmt (update_commands
          (\<lambda>c. ac_message_id c = messageID \<and> ac_status c \<notin> set terminalStatuses \<and>
               (agentID \<noteq> '''' \<longrightarrow> ac_agent_id c = agentID) \<and>
               (commandType \<noteq> '''' \<longrightarrow> ac_type c = commandType))
          (\<lambda>c. c\<lparr>ac_status := status, ac_error_message := errorText,
                 ac_completed_at := Some now, ac_updated_at := now\<rparr>))) (\<lambda>_. ret ())))"

definition FailCommand :: "string \<Rightarrow> string \<Rightarrow> string \<Rightarrow> ('h, unit) service_prog" where
  "FailCommand agentID messageID errorText =
     completeCommand agentID messageID '''' CommandStatusFailed errorText"

definition FailCommandOfType :: "string \<Rightarrow> string \<Rightarrow> string \<Rightarrow> string \<Rightarrow> ('h, unit) service_prog" where
  "FailCommandOfType agentID messageID commandType errorText =
     completeCommand agentID messageID commandType CommandStatusFailed errorText"

definition TimeoutCommand :: "string \<Rightarrow> string \<Rightarrow> ('h, unit) service_prog" where
  "TimeoutCommand agentID messageID =
     completeCommand agentID messageID '''' CommandStatusTimeout ''command timeout''"

section \<open>Cancellation and timeouts\<close>

record cancel_result =
  cr_needs_ws :: bool
  cr_agent_id :: string
  cr_message_id :: string

definition CancelCommand :: "string \<Rightarrow> ('h, cancel_result) service_prog" where
  "CancelCommand commandID =
     bnd (stmt (first_command (\<lambda>c. ac_id c = commandID))) (\<lambda>command.
     if isTerminal (ac_status command) then raise (Err ''command already in terminal state'')
     else if ac_status command \<noteq> CommandStatusPending then
       ret \<lparr>cr_needs_ws = True, cr_agent_id = ac_agent_id command, cr_message_id = ac_message_id command\<rparr>
     else bnd clock (\<lambda>now.
       attempt (transaction
         (bnd (in_tx (update_commands
              (\<lambda>c. ac_id c = ac_id command \<and> ac_status c = CommandStatusPending)
              (\<lambda>c. c\<lparr>ac_status := CommandStatusCancelled, ac_error_message := ''cancelled by user'',
                     ac_completed_at := Some now, ac_updated_at := now\<rparr>))) (\<lambda>rows.
          if rows = 0 then raise (Err errCommandNotActive)
          else in_tx (update_tasks (open_task_of (ac_id command))
              (\<lambda>t. t\<lparr>th_status := TaskStatusCancelled, th_error_log := ''cancelled by user'',
                     th_finished_at := Some now, th_updated_at := now\<rparr>))))) (\<lambda>res.
       case res of
         Inl e \<Rightarrow> if errors_is e errCommandNotActive then raise (Err ''command is not active'') else raise e
       | Inr _ \<Rightarrow> ret \<lparr>cr_needs_ws = False, cr_agent_id = '''', cr_message_id = ''''\<rparr>)))"

definition timeoutCommandAndTask :: "agent_command \<Rightarrow> time \<Rightarrow> ('h, nat) service_prog" where
  "timeoutCommandAndTask command now =
     transaction
       (bnd (in_tx (update_commands
            (\<lambda>c. ac_id c = ac_id command \<and>
                 ac_status c \<in> {CommandStatusPending, CommandStatusDispatched, CommandStatusRunning})
            (\<lambda>c. c\<lparr>ac_status := CommandStatusTimeout, ac_error_message := ''command timeout'',
                   ac_completed_at := Some now, ac_updated_at := now\<rparr>))) (\<lambda>rows.
        if rows = 0 then ret rows
        else bnd (in_tx (update_tasks (open_task_of (ac_id command))
            (\<lambda>t. t\<lparr>th_status := TaskStatusTimeout, th_error_log := ''command timeout'',
                   th_finished_at := Some now, th_updated_at := now\<rparr>))) (\<lambda>_. ret rows)))"

definition sendTimeoutCancel :: "'h service \<Rightarrow> agent_command \<Rightarrow> ('h, unit) service_prog" where
  "sendTimeoutCancel s command =
     (if ac_agent_id command = '''' \<or> ac_message_id command = '''' then ret ()
      else if ac_status command \<noteq> CommandStatusDispatched \<and> ac_status command \<noteq> CommandStatusRunning then ret ()
      else bnd (is_online (sv_hub s) (ac_agent_id command)) (\<lambda>online.
        if \<not> isCancelableOnTimeout (ac_type command) \<or> \<not> online then ret ()
        else case (js_cancel (sv_json s) (ac_agent_id command) (ac_message_id command),
                   sv_message_id s command) of
          (Inr payload, Inr mid) \<Rightarrow>
            attempt (send_to (sv_hub s) (ac_agent_id command)
              \<lparr>m_type = TypeCancelTask, m_id = mid, m_payload = payload\<rparr>) (\<lambda>_. ret ())
        | _ \<Rightarrow> ret ()))"

text \<open>The loop of TimeoutExpired; the count is returned beside an error, so it is the state.\<close>

fun timeout_each ::
  "'h service \<Rightarrow> time \<Rightarrow> nat \<Rightarrow> agent_command list \<Rightarrow> ('h, nat \<times> go_error option) service_prog" where
  "timeout_each s now count [] = ret (count, None)"
| "timeout_each s now count (c # cs) =
     attempt (timeoutCommandAndTask c now) (\<lambda>r. case r of
       Inl e \<Rightarrow> ret (count, Some e)
     | Inr updated \<Rightarrow>
        bnd (if updated > 0 then sendTimeoutCancel s c else ret ()) (\<lambda>_.
        timeout_each s now (count + updated) cs))"

definition TimeoutExpired :: "'h service \<Rightarrow> ('h, nat \<times> go_error option) service_prog" where
  "TimeoutExpired s =
     bnd clock (\<lambda>now.
     attempt (stmt (\<lambda>d. (Inr (filter
         (\<lambda>c. ac_status c \<in> {CommandStatusPending, CommandStatusDispatched, CommandStatusRunning} \<and>
              (case ac_deadline_at c of None \<Rightarrow> False | Some t \<Rightarrow> t \<le> now)) (db_commands d)), d))) (\<lambda>r.
     case r of Inl e \<Rightarrow> ret (0, Some e) | Inr expired \<Rightarrow> timeout_each s now 0 expired))"

section \<open>Dispatch\<close>

definition messageFromCommand :: "'h service \<Rightarrow> agent_command \<Rightarrow> message outcome" where
  "messageFromCommand s command =
     (case Decrypt (sv_gcm s) (ac_payload command) (sv_master_key s) of
        Inl e \<Rightarrow> Inl (Wrap errInvalidCommandPayload (''decrypt command payload: '' @ error_text e))
      | Inr plaintext \<Rightarrow>
      case js_parse_message (sv_json s) plaintext of
        Inl e \<Rightarrow> Inl (Wrap errInvalidCommandPayload (''unmarshal command payload: '' @ error_text e))
      | Inr message \<Rightarrow> Inr message)"

definition first_agent :: "string \<Rightarrow> tables \<Rightarrow> agent outcome \<times> tables" where
  "first_agent aid d = (first_row ag_id (\<lambda>a. ag_id a = aid) (db_agents d), d)"

definition agentHasCapability :: "'h service \<Rightarrow> string \<Rightarrow> string \<Rightarrow> ('h, bool) service_prog" where
  "agentHasCapability s agentID capability =
     (if agentID = '''' \<or> capability = '''' then raise (Err errAgentCapabilitiesUnknown)
      else attempt (stmt (first_agent agentID)) (\<lambda>r. case r of
        Inl e \<Rightarrow> if e = NotFound then raise (Err errAgentCapabilitiesUnknown) else raise e
      | Inr agent \<Rightarrow>
         (case js_capabilities (sv_json s) (ag_system_info agent) of
            None \<Rightarrow> raise (Err errAgentCapabilitiesUnknown)
          | Some capabilities \<Rightarrow> ret (capability \<in> set capabilities))))"

definition persistPreparedMessage ::
  "'h service \<Rightarrow> agent_command \<Rightarrow> message \<Rightarrow> string \<Rightarrow> ('h, unit) service_prog" where
  "persistPreparedMessage s command message commandType =
     (case js_message (sv_json s) message of
        Inl e \<Rightarrow> raise (Err (''marshal prepared command payload: '' @ error_text e))
      | Inr raw \<Rightarrow>
      case Encrypt (sv_gcm s) (sv_nonce s command) raw (sv_master_key s) of
        Inl e \<Rightarrow> raise (Err (''encrypt prepared command payload: '' @ error_text e))
      | Inr encrypted \<Rightarrow>
      bnd clock (\<lambda>now.
      bnd (stmt (update_commands (active_id (ac_id command))
            (\<lambda>c. c\<lparr>ac_type := commandType, ac_payload := encrypted, ac_updated_at := now\<rparr>))) (\<lambda>_. ret ())))"

definition prepareMessageForDispatch :: "'h service \<Rightarrow> agent_command \<Rightarrow> ('h, message) service_prog" where
  "prepareMessageForDispatch s command =
     (case messageFromCommand s command of
        Inl e \<Rightarrow> raise e
      | Inr message \<Rightarrow>
        if ac_type command \<noteq> type_text TypeRestoreReq \<or> m_type message \<noteq> TypeRestoreReq then ret message
        else case js_include_paths (sv_json s) (m_payload message) of
          Inl e \<Rightarrow> raise (Wrap errInvalidCommandPayload (''parse restore command payload: '' @ error_text e))
        | Inr paths \<Rightarrow>
          if paths = [] then ret message
          else bnd (agentHasCapability s (ac_agent_id command) CapabilityRestoreIncludePaths) (\<lambda>supported.
            if \<not> supported then raise (Err errSelectiveRestoreUnsupported)
            else let prepared = message\<lparr>m_type := TypeSelectiveRestoreReq\<rparr>
                 in bnd (persistPreparedMessage s command prepared (type_text TypeSelectiveRestoreReq))
                      (\<lambda>_. ret prepared)))"

definition failCommandAndTask :: "agent_command \<Rightarrow> string \<Rightarrow> ('h, unit) service_prog" where
  "failCommandAndTask command errorText =
     bnd clock (\<lambda>now. transaction
       (bnd (in_tx (update_commands (active_id (ac_id command))
            (\<lambda>c. c\<lparr>ac_status := CommandStatusFailed, ac_error_message := errorText,
                   ac_completed_at := Some now, ac_updated_at := now\<rparr>))) (\<lambda>rows.
        if rows = 0 then ret ()
        else if \<not> isLongRunning (ac_type command) then ret ()
        else in_tx (update_tasks (open_task_of (ac_id command))
            (\<lambda>t. t\<lparr>th_status := TaskStatusFailed, th_error_log := errorText,
                   th_finished_at := Some now, th_updated_at := now\<rparr>)))))"

definition recordDispatchSuccessForCommand :: "agent_command \<Rightarrow> ('h, bool) service_prog" where
  "recordDispatchSuccessForCommand command =
     bnd clock (\<lambda>now.
       let status = (if isLongRunning (ac_type command) then CommandStatusRunning else CommandStatusDispatched)
       in transaction
       (bnd (in_tx (update_commands (active_id (ac_id command))
            (\<lambda>c. c\<lparr>ac_attempts := ac_attempts c + 1, ac_dispatched_at := Some now,
                   ac_error_message := '''', ac_status := status, ac_updated_at := now\<rparr>))) (\<lambda>rows.
        if rows = 0 then ret False
        else if \<not> isLongRunning (ac_type command) then ret True
        else bnd (in_tx (update_tasks
              (\<lambda>t. th_command_id t = ac_id command \<and> th_status t = TaskStatusPending)
              (\<lambda>t. t\<lparr>th_status := TaskStatusRunning, th_started_at := Some now, th_updated_at := now\<rparr>)))
            (\<lambda>_. ret True))))"

definition recordDispatchFailure :: "agent_command \<Rightarrow> go_error \<Rightarrow> bool \<Rightarrow> ('h, unit) service_prog" where
  "recordDispatchFailure command dispatchErr incrementAttempt =
     bnd clock (\<lambda>now. transaction
       (bnd (in_tx (update_commands (active_id (ac_id command))
            (\<lambda>c. c\<lparr>ac_dispatched_at := None, ac_error_message := error_text dispatchErr,
                   ac_status := CommandStatusPending, ac_updated_at := now,
                   ac_attempts := (if incrementAttempt then ac_attempts c + 1 else ac_attempts c)\<rparr>))) (\<lambda>rows.
        if rows = 0 then ret ()
        else if \<not> isLongRunning (ac_type command) then ret ()
        else in_tx (update_tasks
              (\<lambda>t. th_command_id t = ac_id command \<and> th_status t = TaskStatusRunning)
              (\<lambda>t. t\<lparr>th_status := TaskStatusPending, th_started_at := None, th_updated_at := now\<rparr>)))))"

definition rollbackDispatchFailure :: "agent_command \<Rightarrow> go_error \<Rightarrow> ('h, unit) service_prog" where
  "rollbackDispatchFailure command dispatchErr = recordDispatchFailure command dispatchErr False"

definition dispatch :: "'h service \<Rightarrow> agent_command \<Rightarrow> ('h, unit) service_prog" where
  "dispatch s command =
     attempt (prepareMessageForDispatch s command) (\<lambda>r. case r of
       Inl e \<Rightarrow>
         if errors_is e errAgentCapabilitiesUnknown then ret ()
         else if errors_is e errSelectiveRestoreUnsupported \<or> errors_is e errInvalidCommandPayload then
           failCommandAndTask command (error_text e)
         else raise e
     | Inr message \<Rightarrow>
         bnd (recordDispatchSuccessForCommand command) (\<lambda>dispatched.
         if \<not> dispatched then ret ()
         else attempt (send_to (sv_hub s) (ac_agent_id command) message) (\<lambda>sent. case sent of
           Inl e \<Rightarrow> rollbackDispatchFailure command e
         | Inr _ \<Rightarrow> ret ())))"

definition pending_for :: "string \<Rightarrow> string list \<Rightarrow> time \<Rightarrow> agent_command \<Rightarrow> bool" where
  "pending_for agentID statuses now c \<longleftrightarrow> ac_agent_id c = agentID \<and> ac_status c \<in> set statuses \<and>
     (case ac_deadline_at c of None \<Rightarrow> True | Some t \<Rightarrow> now < t)"

definition dispatchForAgent :: "'h service \<Rightarrow> string \<Rightarrow> int \<Rightarrow> string list \<Rightarrow> ('h, unit) service_prog" where
  "dispatchForAgent s agentID limit0 statuses =
     (if agentID = '''' then ret ()
      else bnd (is_online (sv_hub s) agentID) (\<lambda>online.
        if \<not> online then ret ()
        else let limit = (if limit0 \<le> 0 then 100 else limit0)
        in bnd clock (\<lambda>now.
           bnd (stmt (\<lambda>d. (Inr (take (nat limit)
                 (sort_key ac_created_at (filter (pending_for agentID statuses now) (db_commands d)))), d))) (\<lambda>cmds.
           for_each (dispatch s) cmds))))"

definition DispatchPendingForAgent :: "'h service \<Rightarrow> string \<Rightarrow> int \<Rightarrow> ('h, unit) service_prog" where
  "DispatchPendingForAgent s agentID limit =
     dispatchForAgent s agentID limit [CommandStatusPending, CommandStatusDispatched]"

definition DispatchNewPendingForAgent :: "'h service \<Rightarrow> string \<Rightarrow> int \<Rightarrow> ('h, unit) service_prog" where
  "DispatchNewPendingForAgent s agentID limit = dispatchForAgent s agentID limit [CommandStatusPending]"

definition findCommandByID :: "string \<Rightarrow> ('h, agent_command option) service_prog" where
  "findCommandByID commandID =
     (if commandID = '''' then ret None
      else attempt (stmt (first_command (\<lambda>c. ac_id c = commandID))) (\<lambda>r. case r of
        Inl e \<Rightarrow> if e = NotFound then ret None else raise e
      | Inr c \<Rightarrow> ret (Some c)))"

definition RecordDispatchSuccess :: "string \<Rightarrow> ('h, unit) service_prog" where
  "RecordDispatchSuccess commandID =
     bnd (findCommandByID commandID) (\<lambda>r. case r of None \<Rightarrow> ret ()
       | Some c \<Rightarrow> bnd (recordDispatchSuccessForCommand c) (\<lambda>_. ret ()))"

definition RecordDispatchFailure :: "string \<Rightarrow> go_error \<Rightarrow> ('h, unit) service_prog" where
  "RecordDispatchFailure commandID dispatchErr =
     bnd (findCommandByID commandID) (\<lambda>r. case r of None \<Rightarrow> ret ()
       | Some c \<Rightarrow> recordDispatchFailure c dispatchErr True)"

section \<open>The service as a whole\<close>

text \<open>One call of a method of the service by some goroutine of the master; errors are returned to
  the caller and play no role for the tables.  The callbacks of the two completion methods are
  those of internal/master/api and come as arguments.\<close>

datatype 'h service_call =
    CallCreate string string "string option" create_command_input
  | CallDispatchPending string int
  | CallDispatchNew string int
  | CallPolicyAck string string bool string
  | CallTaskResult string string task_result "(tables, 'h) world \<Rightarrow> unit outcome \<times> (tables, 'h) world"
  | CallSnapshotList string string snapshot_list "(tables, 'h) world \<Rightarrow> unit outcome \<times> (tables, 'h) world"
  | CallFail string string string
  | CallFailOfType string string string string
  | CallTimeout string string
  | CallCancel string
  | CallTimeoutExpired
  | CallDispatchSuccess string
  | CallDispatchFailure string go_error

fun serve :: "'h service \<Rightarrow> 'h service_call \<Rightarrow> ('h, unit) service_prog" where
  "serve s (CallCreate cid tid nonce i) = bnd (CreateCommand s cid tid nonce i) (\<lambda>_. ret ())"
| "serve s (CallDispatchPending a n) = DispatchPendingForAgent s a n"
| "serve s (CallDispatchNew a n) = DispatchNewPendingForAgent s a n"
| "serve s (CallPolicyAck a m ok e) = CompletePolicyAck a m ok e"
| "serve s (CallTaskResult a m r f) = bnd (CompleteTaskResultWith s a m r f) (\<lambda>_. ret ())"
| "serve s (CallSnapshotList a m r f) = bnd (CompleteSnapshotListWith s a m r f) (\<lambda>_. ret ())"
| "serve s (CallFail a m e) = FailCommand a m e"
| "serve s (CallFailOfType a m t e) = FailCommandOfType a m t e"
| "serve s (CallTimeout a m) = TimeoutCommand a m"
| "serve s (CallCancel c) = bnd (CancelCommand c) (\<lambda>_. ret ())"
| "serve s CallTimeoutExpired = bnd (TimeoutExpired s) (\<lambda>_. ret ())"
| "serve s (CallDispatchSuccess c) = RecordDispatchSuccess c"
| "serve s (CallDispatchFailure c e) = RecordDispatchFailure c e"

definition run_calls :: "'h service \<Rightarrow> 'h service_call list \<Rightarrow> (tables, 'h) world \<Rightarrow> (tables, 'h) world" where
  "run_calls s calls w = fold (\<lambda>c w. snd (serve s c w)) calls w"

end
