(* ===== verification/VF_CommandLaws.thy ===== *)
theory VF_CommandLaws
  imports VF_Commands
begin

text \<open>
  What the command service guarantees: terminal commands are frozen, no task outlives its
  command, creation is atomic, a stored payload can be read back.  The first two hold for every
  sequence of calls under all faults and interleavings.
\<close>

section \<open>Terminal commands never change\<close>

definition frozen :: "tables \<Rightarrow> tables \<Rightarrow> bool" where
  "frozen d d' \<longleftrightarrow>
     (\<forall>c \<in> set (db_commands d). isTerminal (ac_status c) \<longrightarrow> c \<in> set (db_commands d'))"

interpretation fr: table_relation frozen
  by unfold_locales (auto simp: frozen_def)

lemma frozen_update:
  "(\<And>c. p c \<Longrightarrow> \<not> isTerminal (ac_status c)) \<Longrightarrow> frozen d (snd (update_commands p f d))"
  by (force simp: frozen_def update_commands_def set_update_rows)

lemma frozen_others:
  "frozen d (snd (update_tasks p' f' d))" "frozen d (snd (first_command p d))"
  "frozen d (snd (insert_command c d))" "frozen d (snd (insert_task t d))" "frozen d (snd (first_agent a d))"
  "frozen d d"
  by (auto simp: frozen_def update_tasks_def first_command_def insert_command_def insert_row_def
      insert_task_def first_agent_def split: sum.splits)

lemmas frozen_stmt = frozen_others frozen_update

lemma active_id_not_terminal: "active_id cid c \<Longrightarrow> \<not> isTerminal (ac_status c)"
  by (simp add: active_id_def)

lemmas obeys_frozen = fr.obeys_rules fr.obeys_is_online fr.obeys_send_to frozen_stmt

lemma obeys_case_pair:
  "(\<And>x y. a = Inr x \<Longrightarrow> b = Inr y \<Longrightarrow> obeys R (m x y)) \<Longrightarrow> obeys R n \<Longrightarrow>
   obeys R (case (a, b) of (Inr x, Inr y) \<Rightarrow> m x y | _ \<Rightarrow> n)"
  by (cases a; cases b) simp_all

lemma frozen_completion:
  "obeys frozen (CompletePolicyAck a m success e)"
  "obeys frozen (completeCommand a m t st e)"
  "obeys frozen (CancelCommand cid)"
  "obeys frozen (timeoutCommandAndTask c now)"
  "obeys frozen (failCommandAndTask c e)"
  "obeys frozen (recordDispatchSuccessForCommand c)"
  "obeys frozen (recordDispatchFailure c err inc)"
  unfolding CompletePolicyAck_def completeCommand_def CancelCommand_def timeoutCommandAndTask_def
    failCommandAndTask_def recordDispatchSuccessForCommand_def recordDispatchFailure_def Let_def
  by (intro obeys_frozen; fastforce simp: isTerminal_def active_id_def)+

lemma frozen_create: "obeys frozen (CreateCommand s cid tid nonce i)"
  unfolding CreateCommand_def create_rows_def Let_def by (intro obeys_frozen)

lemma frozen_results:
  assumes "obeys frozen f"
  shows "obeys frozen (CompleteTaskResultWith s a m r f)" "obeys frozen (CompleteSnapshotListWith s a m l f)"
  unfolding CompleteTaskResultWith_def CompleteSnapshotListWith_def Let_def
  by (intro obeys_frozen assms; simp add: active_id_def)+

lemma frozen_timeouts: "obeys frozen (TimeoutExpired s)"
proof -
  have cancel: "obeys frozen (sendTimeoutCancel s c)" for c
    unfolding sendTimeoutCancel_def by (intro obeys_frozen obeys_case_pair)
  have "obeys frozen (timeout_each s now n cs)" for now n cs
    by (induction cs arbitrary: n) (auto intro!: obeys_frozen frozen_completion cancel)
  then show ?thesis unfolding TimeoutExpired_def by (intro obeys_frozen) (simp_all add: frozen_def)
qed

lemma frozen_dispatch: "obeys frozen (dispatch s c)"
proof -
  have "obeys frozen (prepareMessageForDispatch s c)"
    unfolding prepareMessageForDispatch_def agentHasCapability_def persistPreparedMessage_def Let_def
    by (intro obeys_frozen; simp add: active_id_def)
  then show ?thesis
    unfolding dispatch_def rollbackDispatchFailure_def
    by (intro obeys_frozen frozen_completion)
qed

lemma frozen_dispatch_all: "obeys frozen (dispatchForAgent s a n sts)"
  unfolding dispatchForAgent_def Let_def by (intro obeys_frozen frozen_dispatch) (simp_all add: frozen_def)

lemma frozen_record: "obeys frozen (RecordDispatchSuccess cid)" "obeys frozen (RecordDispatchFailure cid e)"
  unfolding RecordDispatchSuccess_def RecordDispatchFailure_def findCommandByID_def
  by (intro obeys_frozen frozen_completion)+

fun callback_obeys :: "(tables \<Rightarrow> tables \<Rightarrow> bool) \<Rightarrow> 'h service_call \<Rightarrow> bool" where
  "callback_obeys R (CallTaskResult a m r f) = obeys R f"
| "callback_obeys R (CallSnapshotList a m r f) = obeys R f"
| "callback_obeys R _ = True"

lemma serve_frozen:
  assumes "callback_obeys frozen call"
  shows "obeys frozen (serve s call)"
  using assms
  by (cases call)
    (auto simp: DispatchPendingForAgent_def DispatchNewPendingForAgent_def FailCommand_def
      FailCommandOfType_def TimeoutCommand_def
      intro!: fr.obeys_bnd fr.obeys_ret frozen_create frozen_dispatch_all frozen_completion frozen_results
        frozen_timeouts frozen_record)

lemma run_calls_obey:
  assumes "table_relation R" and "\<And>c. c \<in> set calls \<Longrightarrow> obeys R (serve s c)" and "rely R w"
  shows "R (w_db w) (w_db (run_calls s calls w)) \<and> rely R (run_calls s calls w)"
  using assms(2,3)
proof (induction calls arbitrary: w)
  case Nil
  then show ?case using assms(1) by (simp add: run_calls_def table_relation_def)
next
  case (Cons c calls)
  then have "R (w_db w) (w_db (snd (serve s c w))) \<and> rely R (snd (serve s c w))"
    by (intro obeysD) auto
  with Cons show ?case
    using assms(1) by (fastforce simp: run_calls_def table_relation_def)
qed

text \<open>C2. A command that has succeeded, failed, timed out or been cancelled stays exactly as it is:
  no sequence of service calls changes its row again, whatever database errors occur, whichever
  goroutines interleave and however often agents repeat or delay their answers.\<close>

theorem terminal_commands_never_change:
  assumes "\<And>call. call \<in> set calls \<Longrightarrow> callback_obeys frozen call" and "rely frozen w"
    and "c \<in> set (db_commands (w_db w))" and "isTerminal (ac_status c)"
  shows "c \<in> set (db_commands (w_db (run_calls s calls w)))"
proof -
  have "frozen (w_db w) (w_db (run_calls s calls w))"
    using run_calls_obey [OF fr.table_relation_axioms serve_frozen [OF assms(1)] assms(2)] by blast
  with assms(3,4) show ?thesis by (simp add: frozen_def)
qed

section \<open>No task outlives its command\<close>

text \<open>\<open>settled\<close>: the history of a backup, verification or restore whose command is over is
  neither pending nor running.  Together with the unique keys this is the invariant of the two
  tables; \<open>lifecycle\<close> also keeps every command's identity.\<close>

definition open_task :: "task_history \<Rightarrow> bool" where
  "open_task t \<longleftrightarrow> th_status t \<in> {TaskStatusPending, TaskStatusRunning}"

definition settled :: "tables \<Rightarrow> bool" where
  "settled d \<longleftrightarrow> (\<forall>t \<in> set (db_tasks d). \<forall>c \<in> set (db_commands d).
     th_command_id t = ac_id c \<longrightarrow> isTerminal (ac_status c) \<longrightarrow> isLongRunning (ac_type c) \<longrightarrow> \<not> open_task t)"

definition consistent :: "tables \<Rightarrow> bool" where
  "consistent d \<longleftrightarrow> distinct (map ac_id (db_commands d)) \<and> distinct (map ac_message_id (db_commands d)) \<and>
     distinct (map th_id (db_tasks d)) \<and> settled d"

definition same_command :: "agent_command \<Rightarrow> agent_command \<Rightarrow> bool" where
  "same_command c c' \<longleftrightarrow> ac_id c' = ac_id c \<and> ac_message_id c' = ac_message_id c \<and>
     ac_agent_id c' = ac_agent_id c \<and> (isLongRunning (ac_type c') \<longleftrightarrow> isLongRunning (ac_type c))"

definition lifecycle :: "tables \<Rightarrow> tables \<Rightarrow> bool" where
  "lifecycle d d' \<longleftrightarrow> (consistent d \<longrightarrow> consistent d' \<and>
     (\<forall>c \<in> set (db_commands d). \<exists>c' \<in> set (db_commands d'). same_command c c'))"

lemma same_command_refl [simp]: "same_command c c"
  by (simp add: same_command_def)

lemma same_command_trans: "same_command a b \<Longrightarrow> same_command b c \<Longrightarrow> same_command a c"
  by (simp add: same_command_def)

interpretation lc: table_relation lifecycle
proof
  show "lifecycle d d" for d unfolding lifecycle_def by (metis same_command_refl)
  show "lifecycle d f" if de: "lifecycle d e" and ef: "lifecycle e f" for d e f
    unfolding lifecycle_def
  proof (intro impI conjI ballI)
    assume "consistent d"
    with de have e: "consistent e" "\<forall>c \<in> set (db_commands d). \<exists>c' \<in> set (db_commands e). same_command c c'"
      by (simp_all add: lifecycle_def)
    with ef have f: "consistent f" "\<forall>c \<in> set (db_commands e). \<exists>c' \<in> set (db_commands f). same_command c c'"
      by (simp_all add: lifecycle_def)
    then show "consistent f" by simp
    fix c assume "c \<in> set (db_commands d)"
    with e f same_command_trans show "\<exists>c' \<in> set (db_commands f). same_command c c'" by blast
  qed
qed

text \<open>What a program has read: a command of the table, up to the columns that may change.\<close>

definition known :: "agent_command \<Rightarrow> tables \<Rightarrow> bool" where
  "known c d \<longleftrightarrow> consistent d \<and> (\<exists>c' \<in> set (db_commands d). same_command c c')"

lemma stable_consistent [intro]: "stable lifecycle consistent"
  by (auto simp: stable_def lifecycle_def)

lemma stable_known [intro]: "stable lifecycle (known c)"
  unfolding stable_def known_def lifecycle_def by (meson same_command_trans)

lemma known_long:
  "known c d \<Longrightarrow> c' \<in> set (db_commands d) \<Longrightarrow> ac_id c' = ac_id c \<Longrightarrow>
   isLongRunning (ac_type c') = isLongRunning (ac_type c)"
  unfolding known_def consistent_def same_command_def by (metis distinct_map_eq)

lemma known_member: "consistent d \<Longrightarrow> c \<in> set (db_commands d) \<Longrightarrow> known c d"
  unfolding known_def by (metis same_command_refl)

text \<open>Updating commands by a guard on active ones, and tasks beside them.  Each task that belongs
  to a command the update ends has to be closed; an open task may stay open.\<close>

lemma lifecycle_update:
  assumes p: "\<And>c. c \<in> set (db_commands d) \<Longrightarrow> p c \<Longrightarrow> \<not> isTerminal (ac_status c) \<and> same_command c (f c)"
    and q: "\<And>t. q t \<Longrightarrow> th_id (g t) = th_id t \<and> th_command_id (g t) = th_command_id t"
    and closes: "\<And>t c. consistent d \<Longrightarrow> t \<in> set (db_tasks d) \<Longrightarrow> c \<in> set (db_commands d) \<Longrightarrow> p c \<Longrightarrow>
      th_command_id t = ac_id c \<Longrightarrow> isTerminal (ac_status (f c)) \<Longrightarrow> isLongRunning (ac_type c) \<Longrightarrow>
      \<not> open_task (if q t then g t else t)"
    and opens: "\<And>t. q t \<Longrightarrow> open_task (g t) \<Longrightarrow> open_task t"
  shows "lifecycle d (d\<lparr>db_commands := update_rows p f (db_commands d), db_tasks := update_rows q g (db_tasks d)\<rparr>)"
  unfolding lifecycle_def
proof (intro impI conjI ballI)
  assume con: "consistent d"
  let ?d = "d\<lparr>db_commands := update_rows p f (db_commands d), db_tasks := update_rows q g (db_tasks d)\<rparr>"
  have keys: "map ac_id (update_rows p f (db_commands d)) = map ac_id (db_commands d)"
    "map ac_message_id (update_rows p f (db_commands d)) = map ac_message_id (db_commands d)"
    "map th_id (update_rows q g (db_tasks d)) = map th_id (db_tasks d)"
    using p q by (auto simp: update_rows_def same_command_def)
  have "settled ?d"
    unfolding settled_def
  proof (intro ballI impI)
    fix t' c'
    assume "t' \<in> set (db_tasks ?d)" "c' \<in> set (db_commands ?d)" and
      l: "th_command_id t' = ac_id c'" "isTerminal (ac_status c')" "isLongRunning (ac_type c')"
    then obtain t c where t: "t \<in> set (db_tasks d)" "t' = (if q t then g t else t)"
      and c: "c \<in> set (db_commands d)" "c' = (if p c then f c else c)"
      by (auto simp: set_update_rows)
    have id: "th_command_id t = ac_id c"
      using l(1) t(2) c p [OF c(1)] q by (auto simp: same_command_def split: if_splits)
    show "\<not> open_task t'"
    proof (cases "p c")
      case True
      with l c p [OF c(1)] have "isTerminal (ac_status (f c))" "isLongRunning (ac_type c)"
        by (auto simp: same_command_def)
      from closes [OF con t(1) c(1) True id this] t(2) show ?thesis by simp
    next
      case False
      with con t(1) c l id have "\<not> open_task t" by (auto simp: consistent_def settled_def)
      with t(2) opens show ?thesis by auto
    qed
  qed
  with con keys show "consistent ?d" by (simp add: consistent_def)
next
  fix c assume c: "c \<in> set (db_commands d)"
  show "\<exists>c' \<in> set (db_commands (d\<lparr>db_commands := update_rows p f (db_commands d),
      db_tasks := update_rows q g (db_tasks d)\<rparr>)). same_command c c'"
  proof (rule bexI)
    show "same_command c (if p c then f c else c)" using p [OF c] by simp
    show "(if p c then f c else c) \<in> set (db_commands (d\<lparr>db_commands := update_rows p f (db_commands d),
      db_tasks := update_rows q g (db_tasks d)\<rparr>))"
      using c unfolding update_rows_def by simp
  qed
qed

lemma update_rows_never [simp]: "update_rows (\<lambda>_. False) g rows = rows"
  by (simp add: update_rows_def)

lemma lifecycle_commands:
  assumes "\<And>c. c \<in> set (db_commands d) \<Longrightarrow> p c \<Longrightarrow> \<not> isTerminal (ac_status c) \<and> same_command c (f c)"
    and "\<And>c. consistent d \<Longrightarrow> c \<in> set (db_commands d) \<Longrightarrow> p c \<Longrightarrow> isTerminal (ac_status (f c)) \<Longrightarrow> \<not> isLongRunning (ac_type c)"
  shows "lifecycle d (d\<lparr>db_commands := update_rows p f (db_commands d)\<rparr>)"
  using lifecycle_update [of d p f "\<lambda>_. False" id] assms by auto

lemma lifecycle_grow:
  "set (db_commands d) \<subseteq> set (db_commands d') \<Longrightarrow> (consistent d \<Longrightarrow> consistent d') \<Longrightarrow> lifecycle d d'"
  unfolding lifecycle_def by (meson same_command_refl subsetD)

lemma lifecycle_insert:
  assumes new: "insert_command c d = (Inr (), d')" "\<not> isTerminal (ac_status c)"
  shows "lifecycle d d'"
  using assms
  by (intro lifecycle_grow)
    (auto simp: consistent_def settled_def insert_command_def insert_row_def split: if_splits)

lemma lifecycle_insert_task:
  assumes "insert_command c d = (Inr (), d1)" "insert_task t d1 = (Inr (), d2)"
    and "\<not> isTerminal (ac_status c)" and "th_command_id t = ac_id c"
  shows "lifecycle d d2"
  using assms
  by (intro lifecycle_grow)
    (auto simp: consistent_def settled_def insert_command_def insert_task_def insert_row_def
      split: if_splits, metis image_eqI)

text \<open>Symbolic execution of the transactions: what the two updates leave.\<close>

abbreviation with_commands :: "(agent_command \<Rightarrow> bool) \<Rightarrow> (agent_command \<Rightarrow> agent_command) \<Rightarrow> tables \<Rightarrow> tables" where
  "with_commands p f d \<equiv> d\<lparr>db_commands := update_rows p f (db_commands d)\<rparr>"

abbreviation with_tasks :: "(task_history \<Rightarrow> bool) \<Rightarrow> (task_history \<Rightarrow> task_history) \<Rightarrow> tables \<Rightarrow> tables" where
  "with_tasks q g d \<equiv> d\<lparr>db_tasks := update_rows q g (db_tasks d)\<rparr>"

lemma tx_commands:
  assumes "triple R ((=) d) (m 0) (okay S)" and "\<And>rows. triple R ((=) (with_commands p f d)) (n rows) (okay S)"
  shows "triple R ((=) d) (bnd (in_tx (update_commands p f)) (\<lambda>rows. if rows = 0 then m rows else n rows)) (okay S)"
proof (rule tx_bnd)
  fix a d' assume u: "update_commands p f d = (Inr a, d')"
  show "triple R ((=) d') (if a = 0 then m a else n a) (okay S)"
  proof (cases "a = 0")
    case True
    with u have "affected p (db_commands d) = 0" by (simp add: update_commands_def)
    then have "update_rows p f (db_commands d) = db_commands d"
      by (intro update_rows_none) (simp add: affected_0)
    with u True assms(1) show ?thesis by (simp add: update_commands_def)
  next
    case False
    with u assms(2) show ?thesis by (simp add: update_commands_def)
  qed
qed

lemma tx_tasks:
  "triple R ((=) (with_tasks q g d)) (k ()) (okay S) \<Longrightarrow>
   triple R ((=) d) (bnd (in_tx (update_tasks q g)) k) (okay S)"
  by (rule tx_bnd) (simp add: update_tasks_def)

lemma tx_tasks_last: "S (with_tasks q g d) \<Longrightarrow> triple R ((=) d) (in_tx (update_tasks q g)) (okay S)"
  by (rule tx_last) (simp add: update_tasks_def)

lemma tx_first:
  assumes "triple R ((=) d) (k (Inl NotFound)) (okay S)" "triple R ((=) d) (k (Inl SysFault)) (okay S)"
    and "\<And>c. c \<in> set (db_commands d) \<Longrightarrow> p c \<Longrightarrow> triple R ((=) d) (k (Inr c)) (okay S)"
  shows "triple R ((=) d) (attempt (in_tx (first_command p)) k) (okay S)"
proof (rule tx_attempt)
  fix r d' assume "first_command p d = (r, d')"
  then have "d' = d" "r = first_row ac_id p (db_commands d)" by (auto simp: first_command_def)
  then show "triple R ((=) d') (k r) (okay S)"
    using assms by (cases "first_row ac_id p (db_commands d)") (auto simp: first_row_Inl dest: first_row_Inr)
qed (rule assms(2))

lemma active_statuses:
  "st \<in> {CommandStatusPending, CommandStatusDispatched, CommandStatusRunning} \<Longrightarrow> \<not> isTerminal st"
  by (auto simp: isTerminal_def)

lemma active_id_ac: "active_id cid c \<Longrightarrow> \<not> isTerminal (ac_status c) \<and> ac_id c = cid"
  by (simp add: active_id_def)

lemma lc_clock: "(\<And>t. obeys_in lifecycle K (k t)) \<Longrightarrow> stable lifecycle K \<Longrightarrow> obeys_in lifecycle K (bnd clock k)"
  by (rule lc.in_bnd) (auto intro: lc.in_obeys lc.obeys_clock)

lemma lc_ret: "obeys_in lifecycle K (ret a)" and lc_raise: "obeys_in lifecycle K (raise e)"
  by (auto intro: lc.in_obeys lc.obeys_ret lc.obeys_raise)

lemma lc_if: "(b \<Longrightarrow> obeys_in lifecycle K m) \<Longrightarrow> (\<not> b \<Longrightarrow> obeys_in lifecycle K n) \<Longrightarrow>
   obeys_in lifecycle K (if b then m else n)"
  by simp

lemma lc_sum: "(\<And>e. obeys_in lifecycle K (m e)) \<Longrightarrow> (\<And>a. obeys_in lifecycle K (n a)) \<Longrightarrow>
   obeys_in lifecycle K (case s of Inl e \<Rightarrow> m e | Inr a \<Rightarrow> n a)"
  by (cases s) simp_all

lemmas lc_rules = lc_clock lc_ret lc_raise lc_if lc_sum lc.in_attempt lc.in_transaction

lemma lc_then_ret: "obeys_in lifecycle K m \<Longrightarrow> stable lifecycle K \<Longrightarrow> obeys_in lifecycle K (bnd m (\<lambda>x. ret (g x)))"
  by (rule lc.in_bnd) (auto intro: lc_ret)

lemma life_policy_ack: "obeys_in lifecycle consistent (CompletePolicyAck a m success e)"
proof -
  have short: "\<not> isLongRunning (type_text TypePolicyPush)" by (simp add: isLongRunning_def)
  have upd: "lifecycle d (with_commands p f d)"
    if "\<And>c. p c \<Longrightarrow> ac_type c = type_text TypePolicyPush \<and> \<not> isTerminal (ac_status c)" "\<And>c. same_command c (f c)" for d p f
    by (rule lifecycle_commands) (use short that in auto)
  have look: "triple lifecycle ((=) d') (attempt (in_tx (first_command p)) (\<lambda>r. case r of
      Inl e \<Rightarrow> if e = NotFound then raise e1 else raise e | Inr c \<Rightarrow> if b c then ret () else raise (e2 c))) (okay S)"
    if "S d'" for d' p e1 e2 b S
    by (rule tx_first) (use that in \<open>auto intro: tx_ret tx_raise\<close>)
  have body: "triple lifecycle ((=) d) (bnd (in_tx (update_commands p f)) (\<lambda>rows. if rows > 0 then ret () else n)) (okay S)"
    if "S (with_commands p f d)" "\<And>d'. S d' \<Longrightarrow> triple lifecycle ((=) d') n (okay S)" for d p f n S
    by (rule tx_bnd) (use that in \<open>auto simp: update_commands_def intro: tx_ret\<close>)
  show ?thesis
    unfolding CompletePolicyAck_def Let_def
    by (intro lc_rules stable_consistent body upd look;
        (assumption | auto simp: same_command_def isTerminal_def))
qed

lemma life_complete:
  assumes "t \<noteq> ''''" "\<not> isLongRunning t"
  shows "obeys_in lifecycle consistent (completeCommand a m t st e)"
  unfolding completeCommand_def
proof (intro lc_rules lc_then_ret lc.in_stmt stable_consistent)
  show "lifecycle d (snd (update_commands (\<lambda>c. ac_message_id c = m \<and> ac_status c \<notin> set terminalStatuses \<and>
      (a \<noteq> '''' \<longrightarrow> ac_agent_id c = a) \<and> (t \<noteq> '''' \<longrightarrow> ac_type c = t))
      (\<lambda>c. c\<lparr>ac_status := st, ac_error_message := e, ac_completed_at := Some now, ac_updated_at := now\<rparr>) d))" for d now
    unfolding update_commands_def snd_conv
    by (rule lifecycle_commands) (use assms in \<open>auto simp: same_command_def\<close>)
qed

text \<open>The ways a transaction ends a command together with its task.\<close>

lemma open_statuses [simp]:
  "open_task (t\<lparr>th_status := s\<rparr>) \<longleftrightarrow> s = TaskStatusPending \<or> s = TaskStatusRunning"
  by (simp add: open_task_def)

lemma lifecycle_end:
  assumes "\<And>c. c \<in> set (db_commands d) \<Longrightarrow> p c \<Longrightarrow> \<not> isTerminal (ac_status c) \<and> ac_id c = cid"
    and "\<And>c. same_command c (f c)"
    and "\<And>t. th_id (g t) = th_id t \<and> th_command_id (g t) = th_command_id t \<and> \<not> open_task (g t)"
  shows "lifecycle d (with_tasks (open_task_of cid) g (with_commands p f d))"
  using lifecycle_update [of d p f "open_task_of cid" g] assms
  by (auto simp: open_task_of_def open_task_def split: if_splits)

lemma life_cancel: "obeys_in lifecycle consistent (CancelCommand cid)"
proof -
  have body: "triple lifecycle ((=) d)
     (bnd (in_tx (update_commands p f)) (\<lambda>rows. if rows = 0 then raise e else in_tx (update_tasks (open_task_of i) g)))
     (okay (lifecycle d))"
    if "\<And>c. p c \<Longrightarrow> \<not> isTerminal (ac_status c) \<and> ac_id c = i" "\<And>c. same_command c (f c)"
      "\<And>t. th_id (g t) = th_id t \<and> th_command_id (g t) = th_command_id t \<and> \<not> open_task (g t)" for d p f e i g
    by (intro tx_commands tx_raise tx_tasks_last lifecycle_end) (use that in auto)
  show ?thesis
    unfolding CancelCommand_def bnd_attempt [of "stmt _"]
  proof (rule lc.in_read [where K' = "\<lambda>_. consistent"])
    show "obeys_in lifecycle consistent (case r of Inl e \<Rightarrow> raise e
      | Inr command \<Rightarrow> if isTerminal (ac_status command) then raise (Err ''command already in terminal state'')
     else if ac_status command \<noteq> CommandStatusPending then
       ret \<lparr>cr_needs_ws = True, cr_agent_id = ac_agent_id command, cr_message_id = ac_message_id command\<rparr>
     else bnd clock (\<lambda>now.
       attempt (transaction
         (bnd (in_tx (update_commands
              (\<lambda>c. ac_id c = ac_id command \<and> ac_status c = CommandStatusPending)
              (\<lambda>c. c\<lparr>ac_status := CommandStatusCancelled, ac_error_message := ''cancelled by user'',
                     ac_completed_at := Some now, ac_updated_at := now\<rparr>))) (\<lambda>rows.
          if rows = 0 then raise (Err errCommandNotActive)
          else in_tx (update_tasks (open_task_of (ac_id command))
              (\<lambda>t. t\<lparr>th_status := TaskStatusCancelled, th_error_log := ''cancelled by user'',
                     th_finished_at := Some now, th_updated_at := now\<rparr>))))) (\<lambda>res.
       case res of
         Inl e \<Rightarrow> if errors_is e errCommandNotActive then raise (Err ''command is not active'') else raise e
       | Inr _ \<Rightarrow> ret \<lparr>cr_needs_ws = False, cr_agent_id = '''', cr_message_id = ''''\<rparr>)))" for r
      by (intro lc_rules stable_consistent body) (simp_all add: same_command_def open_task_def)
  qed (simp_all add: first_command_def stable_consistent)
qed

lemma life_timeout_one: "obeys_in lifecycle consistent (timeoutCommandAndTask c now)"
  unfolding timeoutCommandAndTask_def
  by (intro lc_rules stable_consistent tx_commands tx_ret tx_tasks lifecycle_end lc.R_refl)
    (use active_statuses in \<open>auto simp: same_command_def open_task_def\<close>)

lemma life_fail: "obeys_in lifecycle (known c) (failCommandAndTask c e)"
  unfolding failCommandAndTask_def
proof (intro lc_rules stable_known tx_commands tx_ret lc.R_refl triple_if tx_tasks_last)
  fix now d
  assume k: "known c d"
  let ?f = "\<lambda>c. c\<lparr>ac_status := CommandStatusFailed, ac_error_message := e, ac_completed_at := Some now, ac_updated_at := now\<rparr>"
  show "lifecycle d (with_commands (active_id (ac_id c)) ?f d)" if "\<not> isLongRunning (ac_type c)"
    by (rule lifecycle_commands) (use that known_long [OF k] in \<open>auto simp: active_id_def same_command_def\<close>)
  show "lifecycle d (with_tasks (open_task_of (ac_id c)) (\<lambda>t. t\<lparr>th_status := TaskStatusFailed, th_error_log := e,
      th_finished_at := Some now, th_updated_at := now\<rparr>) (with_commands (active_id (ac_id c)) ?f d))"
    by (rule lifecycle_end) (auto simp: active_id_def same_command_def open_task_def)
qed

text \<open>Moving a command between pending and running moves its open task along.\<close>

lemma lifecycle_move:
  assumes "\<And>c. same_command c (f c) \<and> \<not> isTerminal (ac_status (f c))"
    and "\<And>t. q t \<Longrightarrow> open_task t" "\<And>t. th_id (g t) = th_id t \<and> th_command_id (g t) = th_command_id t"
  shows "lifecycle d (with_tasks q g (with_commands (active_id cid) f d))"
    and "lifecycle d (with_commands (active_id cid) f d)"
  using lifecycle_update [of d "active_id cid" f q g] lifecycle_commands [of d "active_id cid" f] assms
  by (auto simp: active_id_def)

lemma life_dispatched: "obeys_in lifecycle consistent (recordDispatchSuccessForCommand c)"
  unfolding recordDispatchSuccessForCommand_def Let_def
  by (intro lc_rules stable_consistent tx_commands tx_ret lc.R_refl triple_if tx_tasks lifecycle_move)
    (auto simp: same_command_def open_task_def isTerminal_def)

lemma life_undispatched: "obeys_in lifecycle consistent (recordDispatchFailure c e inc)"
  unfolding recordDispatchFailure_def
  by (intro lc_rules stable_consistent tx_commands tx_ret lc.R_refl triple_if tx_tasks_last lifecycle_move)
    (auto simp: same_command_def open_task_def isTerminal_def)

lemma in_weaken: "obeys_in R K m \<Longrightarrow> (\<And>d. K' d \<Longrightarrow> K d) \<Longrightarrow> obeys_in R K' m"
  by (auto simp: obeys_in_def)

lemma known_consistent: "known c d \<Longrightarrow> consistent d"
  by (simp add: known_def)

lemma life_persist:
  assumes "isLongRunning (ac_type c)" "isLongRunning t"
  shows "obeys_in lifecycle (known c) (persistPreparedMessage s c m t)"
  unfolding persistPreparedMessage_def
proof (intro lc_rules lc_then_ret lc.in_stmt stable_known)
  fix now p d
  assume k: "known c d"
  show "lifecycle d (snd (update_commands (active_id (ac_id c))
      (\<lambda>x. x\<lparr>ac_type := t, ac_payload := p, ac_updated_at := now\<rparr>) d))"
    unfolding update_commands_def snd_conv
    by (rule lifecycle_commands) (use assms known_long [OF k] in \<open>auto simp: active_id_def same_command_def\<close>)
qed

lemma life_capability: "obeys_in lifecycle K (agentHasCapability s a cap)"
proof (rule lc.in_obeys)
  show "obeys lifecycle (agentHasCapability s a cap)"
    unfolding agentHasCapability_def
    by (intro lc.obeys_rules) (simp add: first_agent_def lc.R_refl)
qed

lemma long_restores [simp]:
  "isLongRunning (type_text TypeRestoreReq)" "isLongRunning (type_text TypeSelectiveRestoreReq)"
  by (simp_all add: isLongRunning_def)

lemma life_prepare: "obeys_in lifecycle (known c) (prepareMessageForDispatch s c)"
  unfolding prepareMessageForDispatch_def Let_def
  by (intro lc_rules lc_then_ret lc.in_bnd [OF life_capability] life_persist stable_known)
    (auto simp del: type_text.simps)

lemma life_dispatch: "obeys_in lifecycle (known c) (dispatch s c)"
proof -
  have send: "obeys_in lifecycle K (send_to h a m :: ('b, unit) service_prog)" for K h a m
    by (rule lc.in_obeys [OF lc.obeys_send_to])
  note undo = in_weaken [OF life_undispatched known_consistent]
  note done' = in_weaken [OF life_dispatched known_consistent]
  show ?thesis
    unfolding dispatch_def rollbackDispatchFailure_def
    by (intro lc.in_attempt [OF life_prepare] lc.in_attempt [OF send] lc.in_bnd [OF done'] lc_ret lc_raise lc_if
        lc_sum stable_known life_fail undo)
qed

lemma life_dispatch_all: "obeys_in lifecycle consistent (dispatchForAgent s a n sts)"
proof -
  have all: "obeys_in lifecycle (\<lambda>d. consistent d \<and> (\<forall>c \<in> set cs. known c d)) (for_each (dispatch s) cs)" for cs
  proof (rule lc.in_for_each)
    show "stable lifecycle (\<lambda>d. consistent d \<and> (\<forall>c \<in> set cs. known c d))"
      using stable_consistent stable_known unfolding stable_def by blast
    show "obeys_in lifecycle (\<lambda>d. consistent d \<and> (\<forall>c \<in> set cs. known c d)) (dispatch s c)" if "c \<in> set cs" for c
      by (rule in_weaken [OF life_dispatch]) (use that in blast)
  qed
  have read: "obeys_in lifecycle consistent (bnd (stmt (\<lambda>d. (Inr (take k (sort_key ac_created_at
      (filter p (db_commands d)))), d))) (for_each (dispatch s)))" for k p
    unfolding bnd_attempt
  proof (rule lc.in_read [where K' = "\<lambda>r d. consistent d \<and> (\<forall>cs. r = Inr cs \<longrightarrow> (\<forall>c \<in> set cs. known c d))"])
    show "stable lifecycle (\<lambda>d. consistent d \<and> (\<forall>cs. r = Inr cs \<longrightarrow> (\<forall>c \<in> set cs. known c d)))"
      for r :: "agent_command list outcome"
      using stable_consistent stable_known unfolding stable_def by blast
    show "obeys_in lifecycle (\<lambda>d. consistent d \<and> (\<forall>cs. r = Inr cs \<longrightarrow> (\<forall>c \<in> set cs. known c d)))
        (case r of Inl e \<Rightarrow> raise e | Inr cs \<Rightarrow> for_each (dispatch s) cs)" for r
      using all by (cases r) (auto intro: lc_raise)
  qed (auto dest!: in_set_takeD intro: known_member)
  show ?thesis
    unfolding dispatchForAgent_def Let_def
    by (intro lc_rules stable_consistent lc.in_bnd [OF lc.in_obeys [OF lc.obeys_is_online]] read)
qed

lemma life_timeouts: "obeys_in lifecycle consistent (TimeoutExpired s)"
proof -
  have cancel: "obeys_in lifecycle consistent (sendTimeoutCancel s c)" for c
    unfolding sendTimeoutCancel_def
    by (intro lc.in_obeys lc.obeys_rules lc.obeys_is_online obeys_case_pair lc.obeys_send_to)
  have each: "obeys_in lifecycle consistent (timeout_each s now n cs)" for now n cs
  proof (induction cs arbitrary: n)
    case (Cons c cs)
    show ?case unfolding timeout_each.simps
      by (intro lc.in_attempt [OF life_timeout_one] lc_sum lc_ret stable_consistent lc.in_bnd lc_if cancel Cons.IH)
  qed (simp add: lc_ret)
  show ?thesis
    unfolding TimeoutExpired_def
    by (intro lc_rules stable_consistent lc.in_stmt each) (simp add: lc.R_refl)
qed

lemma life_create: "obeys_in lifecycle consistent (CreateCommand s cid tid nonce i)"
proof -
  have new: "\<not> isTerminal (ac_status (new_command i cid p t))" "ac_id (new_command i cid p t) = cid" for p t
    by (simp_all add: new_command_def)
  have body: "triple lifecycle ((=) d) (create_rows i cid tid enc dl) (okay (lifecycle d))" for d enc dl
    unfolding create_rows_def Let_def
    by (intro tx_clock tx_bnd triple_if tx_ret)
      (use new in \<open>auto intro: lifecycle_insert lifecycle_insert_task simp: new_task_def\<close>)
  show ?thesis
    unfolding CreateCommand_def Let_def by (intro lc_rules stable_consistent body)
qed

text \<open>The callbacks of the completion methods run inside the transaction.\<close>

definition tx_obeys :: "(tables, 'h, unit) prog \<Rightarrow> bool" where
  "tx_obeys f \<longleftrightarrow> (\<forall>d. triple lifecycle ((=) d) f (okay (lifecycle d)))"

lemma triple_from: "(\<And>d. P d \<Longrightarrow> triple R ((=) d) m Q) \<Longrightarrow> triple R P m Q"
  by (simp add: triple_def)

lemma task_result_update_ids [simp]:
  "th_id (task_result_update r now s f items t) = th_id t"
  "th_command_id (task_result_update r now s f items t) = th_command_id t"
  "th_status (task_result_update r now s f items t) = tr_status r"
  by (simp_all add: task_result_update_def set_opt_def split: option.splits)

lemma lifecycle_after:
  "lifecycle d d1 \<Longrightarrow> consistent d \<Longrightarrow> c \<in> set (db_commands d) \<Longrightarrow> known c d1"
  by (auto simp: lifecycle_def known_def)

lemma tx_callback:
  assumes "tx_obeys f" and "\<And>d1. lifecycle d d1 \<Longrightarrow> triple lifecycle ((=) d1) k (okay (lifecycle d))"
  shows "triple lifecycle ((=) d) (bnd f (\<lambda>_. k)) (okay (lifecycle d))"
  by (rule triple_bnd [where M = "okay (lifecycle d)"]) (use assms in \<open>auto simp: tx_obeys_def intro: triple_from\<close>)

lemma life_snapshot_list:
  assumes "tx_obeys f"
  shows "obeys_in lifecycle consistent (CompleteSnapshotListWith s a m l f)"
  unfolding CompleteSnapshotListWith_def Let_def
proof (intro lc_rules stable_consistent tx_first tx_ret lc.R_refl triple_if tx_raise)
  fix raw now d c
  assume con: "consistent d" and c: "c \<in> set (db_commands d)"
    and p: "ac_agent_id c = (if a = '''' then sl_agent_id l else a) \<and> ac_message_id c = m \<and>
      ac_type c = type_text TypeSnapshotListReq \<and> ac_status c \<notin> set terminalStatuses"
  have short: "\<not> isLongRunning (ac_type c)" using p by (simp add: isLongRunning_def)
  show "triple lifecycle ((=) d) (case Inr c of Inl e \<Rightarrow> if e = NotFound then ret False else raise e
      | Inr command \<Rightarrow> bnd f (\<lambda>_. bnd (in_tx (update_commands (active_id (ac_id command))
          (\<lambda>c. c\<lparr>ac_status := CommandStatusSucceeded, ac_result := raw, ac_error_message := '''',
                 ac_completed_at := Some now, ac_updated_at := now\<rparr>))) (\<lambda>rows.
          if rows = 0 then raise (Err errCommandNotActive) else ret True))) (okay (lifecycle d))"
    unfolding sum.case
  proof (intro tx_callback [OF assms] tx_commands tx_raise tx_ret)
    fix d1 assume d1: "lifecycle d d1"
    from known_long [OF lifecycle_after [OF d1 con c]] short
    have "lifecycle d1 (with_commands (active_id (ac_id c)) (\<lambda>c. c\<lparr>ac_status := CommandStatusSucceeded,
        ac_result := raw, ac_error_message := '''', ac_completed_at := Some now, ac_updated_at := now\<rparr>) d1)"
      by (intro lifecycle_commands) (auto simp: active_id_def same_command_def)
    with d1 show "lifecycle d (with_commands (active_id (ac_id c)) (\<lambda>c. c\<lparr>ac_status := CommandStatusSucceeded,
        ac_result := raw, ac_error_message := '''', ac_completed_at := Some now, ac_updated_at := now\<rparr>) d1)"
      by (rule lc.R_trans)
  qed
qed (auto intro: tx_ret tx_raise lc.R_refl)

lemma tx_pure:
  "triple R P (case x of None \<Rightarrow> ret None | Some y \<Rightarrow> (case g y of Inl e \<Rightarrow> raise (h e) | Inr z \<Rightarrow> ret (Some z)))
     (\<lambda>r d. P d)"
  by (cases x) (auto intro: triple_ret triple_raise split: sum.split)

lemma tx_pure_bnd:
  assumes "\<And>d v. P d \<Longrightarrow> triple R ((=) d) (k v) (okay S)"
  shows "triple R P (bnd (case x of None \<Rightarrow> ret None
      | Some y \<Rightarrow> (case g y of Inl e \<Rightarrow> raise (h e) | Inr z \<Rightarrow> ret (Some z))) k) (okay S)"
  by (rule triple_bnd [OF tx_pure]) (auto intro: triple_from assms)

lemma tx_finish:
  assumes d1: "lifecycle d d1" "consistent d" "c \<in> set (db_commands d)"
    and f: "\<And>c. same_command c (f c)"
    and g: "\<And>items t. th_id (g items t) = th_id t \<and> th_command_id (g items t) = th_command_id t \<and> \<not> open_task (g items t)"
  shows "triple lifecycle ((=) d1) (bnd (in_tx (update_commands (active_id (ac_id c)) f)) (\<lambda>rows.
      if rows = 0 then raise e0
      else bnd (case x of None \<Rightarrow> ret None
          | Some y \<Rightarrow> (case j y of Inl e \<Rightarrow> raise (h e) | Inr z \<Rightarrow> ret (Some z))) (\<lambda>items.
        bnd (in_tx (update_tasks (\<lambda>t. th_command_id t = ac_id c) (g items))) (\<lambda>_. ret True)))) (okay (lifecycle d))"
proof (intro tx_commands tx_raise tx_pure_bnd; (elim subst)?; intro tx_tasks tx_ret)
  fix items
  have "lifecycle d1 (with_tasks (\<lambda>t. th_command_id t = ac_id c) (g items) (with_commands (active_id (ac_id c)) f d1))"
    using lifecycle_update [of d1 "active_id (ac_id c)" f "\<lambda>t. th_command_id t = ac_id c" "g items"] f g
    by (auto simp: active_id_def)
  then show "lifecycle d (with_tasks (\<lambda>t. th_command_id t = ac_id c) (g items) (with_commands (active_id (ac_id c)) f d1))"
    by (rule lc.R_trans [OF d1(1)])
qed

text \<open>A result's status is not checked by the master: the task ends if the agent says it has.\<close>

lemma life_task_result:
  assumes f: "tx_obeys f" and fin: "tr_status r \<notin> {TaskStatusPending, TaskStatusRunning}"
  shows "obeys_in lifecycle consistent (CompleteTaskResultWith s a m r f)"
proof -
  have upd: "th_id (task_result_update r now sa fa items t) = th_id t \<and>
      th_command_id (task_result_update r now sa fa items t) = th_command_id t \<and>
      \<not> open_task (task_result_update r now sa fa items t)" for now sa fa items t
    using fin by (simp add: open_task_def)
  show ?thesis
    unfolding CompleteTaskResultWith_def Let_def
    by (intro lc_rules stable_consistent tx_first; (unfold sum.case)?;
        (intro triple_if tx_ret tx_raise lc.R_refl tx_callback [OF f] tx_finish upd)?;
        (assumption | simp add: same_command_def))
qed

text \<open>The calls the master makes: results carry a final status, the untyped FailCommand and
  TimeoutCommand are for commands without a task.\<close>

fun proper_call :: "'h service_call \<Rightarrow> bool" where
  "proper_call (CallTaskResult a m r f) \<longleftrightarrow> tx_obeys f \<and> tr_status r \<notin> {TaskStatusPending, TaskStatusRunning}"
| "proper_call (CallSnapshotList a m r f) \<longleftrightarrow> tx_obeys f"
| "proper_call (CallFailOfType a m t e) \<longleftrightarrow> t \<noteq> '''' \<and> \<not> isLongRunning t"
| "proper_call (CallFail a m e) \<longleftrightarrow> False"
| "proper_call (CallTimeout a m) \<longleftrightarrow> False"
| "proper_call _ \<longleftrightarrow> True"

lemma life_find: "(\<And>c. obeys_in lifecycle consistent (k c)) \<Longrightarrow>
  obeys_in lifecycle consistent (bnd (findCommandByID cid) (\<lambda>r. case r of None \<Rightarrow> ret () | Some c \<Rightarrow> k c))"
proof (rule lc.in_bnd [OF lc.in_obeys stable_consistent])
  show "obeys lifecycle (findCommandByID cid)"
    unfolding findCommandByID_def by (intro lc.obeys_rules) (simp add: first_command_def lc.R_refl)
  show "obeys_in lifecycle consistent (case r of None \<Rightarrow> ret () | Some c \<Rightarrow> k c)"
    if "\<And>c. obeys_in lifecycle consistent (k c)" for r
    using that by (cases r) (auto intro: lc_ret)
qed

lemma serve_lifecycle:
  assumes "proper_call call"
  shows "obeys_in lifecycle consistent (serve s call)"
  using assms
  by (cases call)
    (auto simp: DispatchPendingForAgent_def DispatchNewPendingForAgent_def FailCommandOfType_def
      RecordDispatchSuccess_def RecordDispatchFailure_def
      intro!: lc_then_ret stable_consistent life_create life_dispatch_all life_policy_ack life_task_result
        life_snapshot_list life_complete life_cancel life_timeouts life_find life_dispatched life_undispatched)


section \<open>Creation is atomic\<close>

lemma create_run:
  fixes w w' :: "(tables, 'h) world"
  assumes "CreateCommand s cid tid nonce i w = (r, w')" and "w_others w = []"
  obtains (failed) e where "r = Inl e" "w_db w' = w_db w"
  | (created) raw enc dl c and w1 w2 :: "(tables, 'h) world" where "r = Inr c" "js_message (sv_json s) (ci_message i) = Inr raw"
      "Encrypt (sv_gcm s) nonce raw (sv_master_key s) = Inr enc" "w_db w1 = w_db w"
      "create_rows i cid tid enc dl w1 = (Inr c, w2)" "w_db w' = w_db w2"
proof -
  have tx: "(\<exists>e. r = Inl e \<and> w_db w' = w_db w) \<or>
      (\<exists>c dl (w1 :: (tables, 'h) world) w2. r = Inr c \<and> w_db w1 = w_db w \<and> create_rows i cid tid enc dl w1 = (Inr c, w2) \<and> w_db w' = w_db w2)"
    if "bnd clock (\<lambda>now. transaction (create_rows i cid tid enc (dl now))) w = (r, w')" for enc dl
  proof -
    from that obtain now w1 where "clock w = (Inr now, w1)" "transaction (create_rows i cid tid enc (dl now)) w1 = (r, w')"
      by (auto simp: bnd_def dest: clock_run split: prod.splits sum.splits)
    with assms(2) show ?thesis
      using transaction_outcome [of "create_rows i cid tid enc (dl now)" w1 r w'] clock_run [of w "Inr now" w1]
      by (metis drop_fault_fields(1))
  qed
  from assms(1) that tx show ?thesis
    unfolding CreateCommand_def Let_def by (fastforce simp: raise_def split: if_splits sum.splits)
qed

lemma insert_command_Inr: "insert_command c d = (Inr (), d') \<Longrightarrow>
  ac_message_id c \<notin> ac_message_id ` set (db_commands d) \<and> d' = d\<lparr>db_commands := db_commands d @ [c]\<rparr>"
  by (auto simp: insert_command_def insert_row_def split: if_splits)

lemma insert_task_Inr: "insert_task t d = (Inr (), d') \<Longrightarrow> d' = d\<lparr>db_tasks := db_tasks d @ [t]\<rparr>"
  by (auto simp: insert_task_def insert_row_def split: if_splits)

lemma create_rows_ok:
  assumes "create_rows i cid tid enc dl w1 = (Inr c, w2)"
  shows "ac_id c = cid \<and> ac_status c = CommandStatusPending \<and> ac_message_id c = m_id (ci_message i) \<and>
    ac_message_id c \<notin> ac_message_id ` set (db_commands (w_db w1)) \<and>
    (\<exists>t t'. t = new_task i cid tid t' \<and>
      w_db w2 = (w_db w1)\<lparr>db_commands := db_commands (w_db w1) @ [c],
        db_tasks := db_tasks (w_db w1) @ (if ci_task_type i = '''' then [] else [t])\<rparr>)"
proof -
  from assms obtain t wa wb where t: "clock w1 = (Inr t, wa)"
    and ins: "in_tx (insert_command ((new_command i cid enc dl)\<lparr>ac_created_at := t, ac_updated_at := t\<rparr>)) wa = (Inr (), wb)"
    and rest: "(if ci_task_type i = '''' then ret ((new_command i cid enc dl)\<lparr>ac_created_at := t, ac_updated_at := t\<rparr>)
          else bnd clock (\<lambda>t'. bnd (in_tx (insert_task (new_task i cid tid t'))) (\<lambda>_.
            ret ((new_command i cid enc dl)\<lparr>ac_created_at := t, ac_updated_at := t\<rparr>)))) wb = (Inr c, w2)"
    by (auto simp: create_rows_def bnd_Inr Let_def)
  from rest have c: "c = (new_command i cid enc dl)\<lparr>ac_created_at := t, ac_updated_at := t\<rparr>"
    by (auto simp: bnd_Inr split: if_splits)
  note ok = insert_command_Inr [OF in_tx_Inr [OF ins]] clock_run [OF t]
  have "\<exists>t'. w_db w2 = (w_db wb)\<lparr>db_tasks := db_tasks (w_db wb) @ (if ci_task_type i = '''' then [] else [new_task i cid tid t'])\<rparr>"
    using rest by (auto simp: bnd_Inr split: if_splits dest!: clock_run in_tx_Inr insert_task_Inr)
  with ok c show ?thesis by (auto simp: new_command_def)
qed

text \<open>C5. CreateCommand stores the command and its history row together or not at all: an error,
  at whatever statement it occurs, leaves every table as it was; success appends one pending
  command with a fresh message id and, for a task, one history row that names it.\<close>

theorem create_all_or_nothing:
  assumes "w_others w = []"
  shows "case CreateCommand s cid tid nonce i w of
      (Inl e, w') \<Rightarrow> w_db w' = w_db w
    | (Inr c, w') \<Rightarrow> ac_id c = cid \<and> ac_status c = CommandStatusPending \<and>
        ac_message_id c \<notin> ac_message_id ` set (db_commands (w_db w)) \<and>
        (\<exists>t. th_command_id t = cid \<and> th_message_id t = ac_message_id c \<and>
          w_db w' = (w_db w)\<lparr>db_commands := db_commands (w_db w) @ [c],
            db_tasks := db_tasks (w_db w) @ (if ci_task_type i = '''' then [] else [t])\<rparr>)"
proof (cases "CreateCommand s cid tid nonce i w")
  case (Pair r w')
  from this assms show ?thesis
  proof (cases rule: create_run)
    case (created raw enc dl c w1 w2)
    have "th_command_id (new_task i cid tid t') = cid \<and> th_message_id (new_task i cid tid t') = m_id (ci_message i)" for t'
      by (simp add: new_task_def)
    with create_rows_ok [OF created(5)] show ?thesis
      unfolding Pair created(1,4,6) prod.case sum.case by metis
  qed (simp add: Pair)
qed

text \<open>C6. What is stored is what will be sent: under the laws of the codec and the cipher, the
  payload column of a created command decrypts and parses to the message it was created with.\<close>

theorem created_payload_readable:
  assumes "\<And>raw. js_message (sv_json s) (ci_message i) = Inr raw \<Longrightarrow>
      js_parse_message (sv_json s) raw = Inr (ci_message i)"
    and "\<And>n p. aead_open (sv_gcm s) (sv_master_key s) n (aead_seal (sv_gcm s) (sv_master_key s) n p) = Some p"
    and "\<And>n. nonce = Some n \<Longrightarrow> length n = nonceSize"
    and "CreateCommand s cid tid nonce i w = (Inr c, w')" and "w_others w = []"
  shows "messageFromCommand s c = Inr (ci_message i)"
  using assms(4,5)
proof (cases rule: create_run)
  case (created raw enc dl c' w1 w2)
  then have c: "ac_payload c = enc"
    by (auto simp: create_rows_def bnd_Inr Let_def new_command_def split: if_splits)
  from created(3) obtain n where n: "nonce = Some n" by (auto simp: Encrypt_def split: sum.splits option.splits)
  have "Decrypt (sv_gcm s) enc (sv_master_key s) = Inr raw"
    using assms(2,3) created(3) n
    by (auto simp: Encrypt_def Decrypt_def DecodeString_EncodeToString split: sum.splits)
  with created(2) c assms(1) show ?thesis by (simp add: messageFromCommand_def)
qed simp

section \<open>Witnesses\<close>

text \<open>A service whose codec keeps only the payload, and one backup command with its task.\<close>

definition sample_json :: json where
  "sample_json =
     \<lparr>js_message = (\<lambda>m. Inr (m_payload m)),
      js_parse_message = (\<lambda>raw. Inr \<lparr>m_type = TypeBackupNow, m_id = ''m1'', m_payload = raw\<rparr>),
      js_result = (\<lambda>r. Inr (tr_status r)), js_snapshot_list = (\<lambda>l. Inr (sl_error l)),
      js_restore_items = (\<lambda>_. Inr ''[]''), js_cancel = (\<lambda>a m. Inr m),
      js_include_paths = (\<lambda>p. Inr (if p = '''' then [] else [p])), js_capabilities = (\<lambda>t. Some [t])\<rparr>"

definition sample_service :: "unit service" where
  "sample_service =
     \<lparr>sv_hub = \<lparr>hub_online = (\<lambda>_ _. True), hub_send = (\<lambda>h a m. (Inr (), h))\<rparr>, sv_json = sample_json,
      sv_gcm = reversing_gcm, sv_master_key = replicate 32 (CHR ''k''),
      sv_nonce = (\<lambda>_. Some (replicate 12 (CHR ''n''))), sv_message_id = (\<lambda>c. Inr (ac_id c))\<rparr>"

definition sample_create :: create_command_input where
  "sample_create =
     \<lparr>ci_agent_id = ''a1'', ci_type = type_text TypeBackupNow,
      ci_message = \<lparr>m_type = TypeBackupNow, m_id = ''m1'', m_payload = ''{}''\<rparr>, ci_task_type = ''backup'',
      ci_task_state = '''', ci_snapshot_id = '''', ci_policy_id = ''p1'', ci_policy_name = ''nightly'',
      ci_policy_updated_at = None, ci_storage_id = '''', ci_timeout_hours = 1\<rparr>"

definition sample_nonce :: "string option" where
  "sample_nonce = Some (replicate 12 (CHR ''n''))"

definition empty_tables :: tables where
  "empty_tables = \<lparr>db_agents = [], db_commands = [], db_tasks = [], db_rollouts = [], db_items = [], db_snapshots = [], db_audit = []\<rparr>"

definition sample_world :: "(tables, unit) world" where
  "sample_world = \<lparr>w_db = empty_tables, w_hub = (), w_faults = [], w_others = [], w_clock = [], w_now = 1000\<rparr>"

definition sample_calls :: "unit service_call list" where
  "sample_calls = [CallCreate ''c1'' ''t1'' sample_nonce sample_create, CallDispatchPending ''a1'' 0,
     CallCancel ''c1'', CallTimeoutExpired]"

lemma sample_rely: "rely R sample_world"
  by (simp add: rely_def sample_world_def)

definition sample_done :: agent_command where
  "sample_done = (new_command sample_create ''c0'' '''' 7)\<lparr>ac_status := CommandStatusTimeout\<rparr>"

theorem terminal_commands_never_change_witness:
  "sample_done \<in> set (db_commands (w_db (run_calls sample_service sample_calls
     (sample_world\<lparr>w_db := empty_tables\<lparr>db_commands := [sample_done]\<rparr>\<rparr>))))"
  by (rule terminal_commands_never_change)
    (auto simp: sample_calls_def rely_def sample_world_def sample_done_def)


theorem create_all_or_nothing_witness:
  "case CreateCommand sample_service ''c1'' ''t1'' sample_nonce sample_create sample_world of
      (Inl e, w') \<Rightarrow> w_db w' = w_db sample_world
    | (Inr c, w') \<Rightarrow> ac_id c = ''c1'' \<and> ac_status c = CommandStatusPending \<and>
        ac_message_id c \<notin> ac_message_id ` set (db_commands (w_db sample_world)) \<and>
        (\<exists>t. th_command_id t = ''c1'' \<and> th_message_id t = ac_message_id c \<and>
          w_db w' = (w_db sample_world)\<lparr>db_commands := db_commands (w_db sample_world) @ [c],
            db_tasks := db_tasks (w_db sample_world) @ (if ci_task_type sample_create = '''' then [] else [t])\<rparr>)"
  by (rule create_all_or_nothing) (simp add: sample_world_def)

definition sample_command :: agent_command where
  "sample_command = projr (fst (CreateCommand sample_service ''c1'' ''t1'' sample_nonce sample_create sample_world))"

lemma sample_created:
  "\<exists>w'. CreateCommand sample_service ''c1'' ''t1'' sample_nonce sample_create sample_world = (Inr sample_command, w')"
proof -
  have "isl (fst (CreateCommand sample_service ''c1'' ''t1'' sample_nonce sample_create sample_world)) = False"
    by code_simp
  then show ?thesis
    unfolding sample_command_def by (metis prod.collapse sum.collapse(2))
qed

theorem created_payload_readable_witness:
  "messageFromCommand sample_service sample_command = Inr (ci_message sample_create)"
proof -
  from sample_created obtain w' where
    "CreateCommand sample_service ''c1'' ''t1'' sample_nonce sample_create sample_world = (Inr sample_command, w')" ..
  then show ?thesis
    by (rule created_payload_readable [rotated 3])
      (auto simp: sample_service_def sample_json_def sample_create_def reversing_gcm_def sample_nonce_def sample_world_def)
qed

end
