(* ===== verification/VF_Delivery.thy ===== *)
theory VF_Delivery
  imports VF_CommandLaws VF_HubLaws
begin

text \<open>
  What the command service puts on the wire: dispatch (internal/master/commands/service.go) over
  any hub that keeps the contract \<open>agent_link\<close>, and over the WebSocket hub in particular.
\<close>

section \<open>Programs that leave the hub alone\<close>

definition hub_still :: "('d, 'h, 'a) prog \<Rightarrow> bool" where
  "hub_still m \<longleftrightarrow> (\<forall>w. w_hub (snd (m w)) = w_hub w)"

lemma still_ret: "hub_still (ret a)" and still_raise: "hub_still (raise e)"
  by (simp_all add: hub_still_def)

lemma still_clock: "hub_still clock"
  by (auto simp: hub_still_def clock_def split: list.splits)

lemma still_attempt:
  assumes "hub_still m" "\<And>r. hub_still (k r)"
  shows "hub_still (attempt m k)"
  unfolding hub_still_def
proof
  fix w
  obtain r w1 where m: "m w = (r, w1)" by fastforce
  with assms(1) have "w_hub w1 = w_hub w" unfolding hub_still_def by (metis snd_conv)
  with assms(2) show "w_hub (snd (attempt m k w)) = w_hub w" by (simp add: attempt_def m hub_still_def)
qed

lemma still_bnd: "hub_still m \<Longrightarrow> (\<And>a. hub_still (k a)) \<Longrightarrow> hub_still (bnd m k)"
  unfolding bnd_attempt by (rule still_attempt) (auto simp: still_raise split: sum.splits)

lemma still_in_tx: "hub_still (in_tx f)"
  by (auto simp: hub_still_def in_tx_def Let_def split: prod.splits)

lemma still_stmt: "hub_still (stmt f)"
  using still_in_tx by (auto simp: hub_still_def stmt_def interfere_def split: list.splits)

lemma still_transaction:
  fixes m :: "('d, 'h, 'a) prog"
  assumes "hub_still m"
  shows "hub_still (transaction m)"
  unfolding hub_still_def
proof
  fix w :: "('d, 'h) world"
  obtain r w2 where m: "m (drop_fault (interfere w)) = (r, w2)" by fastforce
  with assms have "w_hub w2 = w_hub (interfere w)" unfolding hub_still_def by (metis drop_fault_fields(3) snd_conv)
  moreover have "w_hub (interfere w) = w_hub w" by (simp add: interfere_def split: list.splits)
  ultimately show "w_hub (snd (transaction m w)) = w_hub w"
    using m by (cases r) (auto simp: transaction_def tx_mark Let_def)
qed

lemma still_if: "hub_still m \<Longrightarrow> hub_still n \<Longrightarrow> hub_still (if b then m else n)"
  by simp

lemma still_sum:
  "(\<And>e. hub_still (m e)) \<Longrightarrow> (\<And>a. hub_still (n a)) \<Longrightarrow> hub_still (case s of Inl e \<Rightarrow> m e | Inr a \<Rightarrow> n a)"
  by (cases s) simp_all

lemma still_option:
  "hub_still m \<Longrightarrow> (\<And>a. hub_still (n a)) \<Longrightarrow> hub_still (case s of None \<Rightarrow> m | Some a \<Rightarrow> n a)"
  by (cases s) simp_all

lemmas still_rules = still_ret still_raise still_clock still_attempt still_bnd still_in_tx still_stmt
  still_transaction still_if still_sum still_option

lemma stillD: "hub_still m \<Longrightarrow> m w = (r, w') \<Longrightarrow> w_hub w' = w_hub w"
  unfolding hub_still_def by (metis snd_conv)

lemma still_dispatch_parts:
  "hub_still (prepareMessageForDispatch s c)" "hub_still (failCommandAndTask c t)"
  "hub_still (recordDispatchSuccessForCommand c)" "hub_still (rollbackDispatchFailure c e)"
  unfolding prepareMessageForDispatch_def agentHasCapability_def persistPreparedMessage_def failCommandAndTask_def
    recordDispatchSuccessForCommand_def rollbackDispatchFailure_def recordDispatchFailure_def Let_def
  by (intro still_rules)+

section \<open>What one dispatch sends\<close>

text \<open>The message a command may go out as: the stored one, or, for a restore of chosen paths, the
  stored one as a selective restore; a restore of chosen paths never goes out as a full one.\<close>

definition prepared_from :: "'h service \<Rightarrow> agent_command \<Rightarrow> message \<Rightarrow> bool" where
  "prepared_from s c m \<longleftrightarrow> (\<exists>p. messageFromCommand s c = Inr p \<and>
     (m = p \<and> (ac_type c = type_text TypeRestoreReq \<and> m_type p = TypeRestoreReq \<longrightarrow>
                js_include_paths (sv_json s) (m_payload p) = Inr []) \<or>
      m = p\<lparr>m_type := TypeSelectiveRestoreReq\<rparr> \<and> ac_type c = type_text TypeRestoreReq \<and> m_type p = TypeRestoreReq))"

lemma prepared: "prepareMessageForDispatch s c w = (Inr m, w') \<Longrightarrow> prepared_from s c m"
  by (auto simp: prepareMessageForDispatch_def prepared_from_def bnd_Inr Let_def split: sum.splits if_splits)

context agent_link
begin

lemma dispatch_sends:
  assumes ops: "sv_hub s = ops" and h: "ok (w_hub w)" and d: "dispatch s c w = (r, w')"
  shows "\<exists>ms. length ms \<le> 1 \<and> (\<forall>m \<in> set ms. prepared_from s c m) \<and> ok (w_hub w') \<and>
    (\<forall>b. delivered (w_hub w') b = delivered (w_hub w) b @ (if b = ac_agent_id c then ms else []))"
    (is "\<exists>ms. ?ok w' ms")
proof -
  have nothing: "?ok v []" if "w_hub v = w_hub w" for v using that h by simp
  obtain p w1 where p: "prepareMessageForDispatch s c w = (p, w1)" by fastforce
  have w1: "w_hub w1 = w_hub w" by (rule stillD [OF still_dispatch_parts(1) p])
  show ?thesis
  proof (cases p)
    case (Inl e)
    define k :: "('h, unit) service_prog" where "k = (if errors_is e errAgentCapabilitiesUnknown then ret ()
        else if errors_is e errSelectiveRestoreUnsupported \<or> errors_is e errInvalidCommandPayload
        then failCommandAndTask c (error_text e) else raise e)"
    have "hub_still k" unfolding k_def by (intro still_rules still_dispatch_parts)
    moreover have "k w1 = (r, w')" using d Inl p by (simp add: dispatch_def attempt_def k_def)
    ultimately have "w_hub w' = w_hub w" using stillD w1 by metis
    then show ?thesis using h by (intro exI [of _ "[]"]) simp
  next
    case (Inr m)
    obtain q w2 where q: "recordDispatchSuccessForCommand c w1 = (q, w2)" by fastforce
    have w2: "w_hub w2 = w_hub w" using stillD [OF still_dispatch_parts(3) q] w1 by simp
    show ?thesis
    proof (cases "q = Inr True")
      case False
      then have "w' = w2" using d Inr p q by (cases q) (auto simp: dispatch_def attempt_def bnd_def)
      with w2 h show ?thesis by (intro exI [of _ "[]"]) simp
    next
      case True
      obtain t h' where t: "hub_send ops (w_hub w2) (ac_agent_id c) m = (t, h')" by fastforce
      have ok': "ok h'" using ok_send [of "w_hub w2" "ac_agent_id c" m] t h w2 by simp
      have grown: "delivered h' b = delivered (w_hub w) b @ (if b = ac_agent_id c \<and> t = Inr () then [m] else [])" for b
        using send_grows [OF _ t, of b] h w2 by simp
      have "w_hub w' = h'"
      proof (cases t)
        case (Inl e)
        then have "rollbackDispatchFailure c e (w2\<lparr>w_hub := h'\<rparr>) = (r, w')"
          using d \<open>p = Inr m\<close> p q True t ops by (simp add: dispatch_def attempt_def bnd_def send_to_def)
        from stillD [OF still_dispatch_parts(4) this] show ?thesis by simp
      next
        case (Inr u)
        then show ?thesis using d \<open>p = Inr m\<close> p q True t ops by (auto simp: dispatch_def attempt_def bnd_def send_to_def)
      qed
      with ok' grown prepared [OF p [unfolded Inr]] show ?thesis
        by (intro exI [of _ "if t = Inr () then [m] else []"]) simp
    qed
  qed
qed

end

text \<open>C15. Dispatching a command over the WebSocket hub writes at most one message, to the agent the
  command is for and to no other; it is the stored message, or the stored restore turned into a
  selective one, and a restore of chosen paths never goes out as a full restore.\<close>

theorem dispatch_delivers:
  assumes "sv_hub s = ws_hub" and "hub_ok (w_hub w)"
  shows "\<exists>ms. length ms \<le> 1 \<and> set ms \<subseteq> Collect (prepared_from s c) \<and>
    (\<forall>b. hub_delivered (w_hub (snd (dispatch s c w))) b =
       hub_delivered (w_hub w) b @ (if b = ac_agent_id c then ms else []))"
proof -
  obtain r w' where "dispatch s c w = (r, w')" by fastforce
  from ws.dispatch_sends [OF assms this] this show ?thesis by auto
qed

section \<open>Witness\<close>

definition ws_service :: "hub service" where
  "ws_service =
     \<lparr>sv_hub = ws_hub, sv_json = sample_json, sv_gcm = reversing_gcm, sv_master_key = replicate 32 (CHR ''k''),
      sv_nonce = (\<lambda>_. Some (replicate 12 (CHR ''n''))), sv_message_id = (\<lambda>c. Inr (ac_id c))\<rparr>"

definition ws_world :: "(tables, hub) world" where
  "ws_world = \<lparr>w_db = empty_tables\<lparr>db_commands := [sample_command]\<rparr>, w_hub = sample_hub, w_faults = [], w_others = [],
     w_clock = [], w_now = 1000\<rparr>"

theorem dispatch_delivers_witness:
  "(\<exists>ms. length ms \<le> 1 \<and> set ms \<subseteq> Collect (prepared_from ws_service sample_command) \<and>
    (\<forall>b. hub_delivered (w_hub (snd (dispatch ws_service sample_command ws_world))) b =
       hub_delivered (w_hub ws_world) b @ (if b = ac_agent_id sample_command then ms else []))) \<and>
   length (hub_delivered (w_hub (snd (dispatch ws_service sample_command ws_world))) ''a1'') = 1"
proof
  show "length (hub_delivered (w_hub (snd (dispatch ws_service sample_command ws_world))) ''a1'') = 1"
    by code_simp
qed (rule dispatch_delivers; simp add: ws_service_def ws_world_def sample_hub_ok)

end
