(* ===== verification/VF_TaskLogs.thy ===== *)
theory VF_TaskLogs
  imports VF_World VF_Protocol "HOL-Library.AList"
begin

text \<open>
  Live task logs of the master (internal/master/tasklogs/buffer.go): a bounded in-memory buffer per
  task with a copy in the table task_logs.  The memory of the buffer is the hub component of the
  world, the table its database; \<open>lc_redact\<close> is pkg/redact.Text.  The code holds the buffer's mutex
  over every access to the memory; the statements of persistLine run after it is released.
\<close>

section \<open>State\<close>

abbreviation DefaultMaxLines :: int where "DefaultMaxLines \<equiv> 2000"
abbreviation DefaultMaxBytes :: int where "DefaultMaxBytes \<equiv> 512 * 1024"
abbreviation DefaultTTL :: duration where "DefaultTTL \<equiv> 24 * hour"

record task_log_row =
  lr_agent_id :: string
  lr_message_id :: string
  lr_sequence :: int
  lr_task_type :: string
  lr_timestamp :: time
  lr_level :: string
  lr_phase :: string
  lr_stream :: string
  lr_line :: string
  lr_truncated :: bool
  lr_latest_sequence :: int
  lr_dropped_lines :: int
  lr_log_updated_at :: time
  lr_completed_at :: "time option"
  lr_created_at :: time

record log_entry =
  le_lines :: "task_log_payload list"
  le_bytes :: int
  le_latest_sequence :: int
  le_dropped_lines :: int
  le_updated_at :: time
  le_completed_at :: "time option"

type_synonym log_key = "string \<times> string"
type_synonym log_memory = "(log_key \<times> log_entry) list"
type_synonym 'a log_prog = "(task_log_row list, log_memory, 'a) prog"

record log_config =
  lc_max_lines :: int
  lc_max_bytes :: int
  lc_ttl :: duration
  lc_persistent :: bool
  lc_redact :: "string \<Rightarrow> string"

record log_snapshot =
  ls_lines :: "task_log_payload list"
  ls_latest_sequence :: int
  ls_truncated :: bool
  ls_dropped_lines :: int
  ls_exists :: bool
  ls_expired :: bool

definition no_snapshot :: log_snapshot where
  "no_snapshot = \<lparr>ls_lines = [], ls_latest_sequence = 0, ls_truncated = False, ls_dropped_lines = 0,
     ls_exists = False, ls_expired = False\<rparr>"

definition NewBufferWithLimits :: "int \<Rightarrow> int \<Rightarrow> duration \<Rightarrow> bool \<Rightarrow> (string \<Rightarrow> string) \<Rightarrow> log_config" where
  "NewBufferWithLimits maxLines maxBytes ttl persistent redact =
     \<lparr>lc_max_lines = (if maxLines \<le> 0 then DefaultMaxLines else maxLines),
      lc_max_bytes = (if maxBytes \<le> 0 then DefaultMaxBytes else maxBytes),
      lc_ttl = (if ttl \<le> 0 then DefaultTTL else ttl), lc_persistent = persistent, lc_redact = redact\<rparr>"

definition empty_entry :: log_entry where
  "empty_entry = \<lparr>le_lines = [], le_bytes = 0, le_latest_sequence = 0, le_dropped_lines = 0,
     le_updated_at = 0, le_completed_at = None\<rparr>"

definition line_bytes :: "task_log_payload \<Rightarrow> int" where
  "line_bytes p = int (length (tl_line p))"

section \<open>Memory\<close>

definition entryLocked :: "log_key \<Rightarrow> log_entry option log_prog" where
  "entryLocked k w = (Inr (map_of (w_hub w) k), w)"

definition put_entry :: "log_key \<Rightarrow> log_entry \<Rightarrow> unit log_prog" where
  "put_entry k e w = (Inr (), w\<lparr>w_hub := AList.update k e (w_hub w)\<rparr>)"

definition delete_entries :: "(log_key \<Rightarrow> bool) \<Rightarrow> unit log_prog" where
  "delete_entries p w = (Inr (), w\<lparr>w_hub := filter (\<lambda>x. \<not> p (fst x)) (w_hub w)\<rparr>)"

text \<open>The loop of enforceLimits, on lines, bytes and dropped lines.\<close>

fun enforce :: "int \<Rightarrow> int \<Rightarrow> task_log_payload list \<Rightarrow> int \<Rightarrow> int \<Rightarrow> task_log_payload list \<times> int \<times> int" where
  "enforce maxLines maxBytes [] b d = (if 0 > maxLines \<or> b > maxBytes then ([], 0, d) else ([], b, d))"
| "enforce maxLines maxBytes (l # ls) b d =
     (if int (length (l # ls)) > maxLines \<or> b > maxBytes
      then enforce maxLines maxBytes ls (b - line_bytes l) (d + 1)
      else (l # ls, b, d))"

definition enforceLimits :: "int \<Rightarrow> int \<Rightarrow> log_entry \<Rightarrow> log_entry" where
  "enforceLimits maxLines maxBytes e =
     (case enforce maxLines maxBytes (le_lines e) (le_bytes e) (le_dropped_lines e) of
        (ls, b, d) \<Rightarrow> e\<lparr>le_lines := ls, le_bytes := b, le_dropped_lines := d\<rparr>)"

definition isExpired :: "log_config \<Rightarrow> log_entry \<Rightarrow> time \<Rightarrow> bool" where
  "isExpired c e now =
     (if lc_ttl c \<le> 0 then False
      else case le_completed_at e of
        Some t \<Rightarrow> time_sub now t > lc_ttl c
      | None \<Rightarrow> le_updated_at e \<noteq> 0 \<and> time_sub now (le_updated_at e) > lc_ttl c)"

section \<open>The table\<close>

definition row_key :: "task_log_row \<Rightarrow> log_key" where
  "row_key r = (lr_agent_id r, lr_message_id r)"

definition record_of :: "task_log_payload \<Rightarrow> int \<Rightarrow> int \<Rightarrow> time \<Rightarrow> task_log_row" where
  "record_of p latest dropped now =
     \<lparr>lr_agent_id = tl_agent_id p, lr_message_id = tl_message_id p, lr_sequence = tl_sequence p,
      lr_task_type = tl_task_type p, lr_timestamp = tl_timestamp p, lr_level = tl_level p,
      lr_phase = tl_phase p, lr_stream = tl_stream p, lr_line = tl_line p, lr_truncated = tl_truncated p,
      lr_latest_sequence = latest, lr_dropped_lines = dropped, lr_log_updated_at = now,
      lr_completed_at = None, lr_created_at = now\<rparr>"

definition payload_of :: "task_log_row \<Rightarrow> task_log_payload" where
  "payload_of r =
     \<lparr>tl_agent_id = lr_agent_id r, tl_message_id = lr_message_id r, tl_task_type = lr_task_type r,
      tl_sequence = lr_sequence r, tl_timestamp = lr_timestamp r, tl_level = lr_level r,
      tl_phase = lr_phase r, tl_stream = lr_stream r, tl_line = lr_line r, tl_truncated = lr_truncated r\<rparr>"

text \<open>INSERT with ON CONFLICT (agent_id, message_id, sequence) DO UPDATE; created_at stays.\<close>

definition same_line :: "task_log_row \<Rightarrow> task_log_row \<Rightarrow> bool" where
  "same_line r r' \<longleftrightarrow> row_key r' = row_key r \<and> lr_sequence r' = lr_sequence r"

definition upsert_row :: "task_log_row \<Rightarrow> task_log_row list \<Rightarrow> task_log_row list" where
  "upsert_row r rows =
     (if \<exists>r' \<in> set rows. same_line r r'
      then update_rows (same_line r) (\<lambda>r'. r\<lparr>lr_created_at := lr_created_at r'\<rparr>) rows
      else rows @ [r])"

definition persistLine ::
  "log_config \<Rightarrow> task_log_payload \<Rightarrow> int \<Rightarrow> int \<Rightarrow> int \<Rightarrow> time \<Rightarrow> unit log_prog" where
  "persistLine c p latest dropped oldest now =
     (if \<not> lc_persistent c then ret ()
      else attempt (transaction
        (bnd (in_tx (\<lambda>d. (Inr (), upsert_row (record_of p latest dropped now) d))) (\<lambda>_.
         if oldest > 0
         then in_tx (\<lambda>d. (Inr (), filter (\<lambda>r. \<not> (row_key r = (tl_agent_id p, tl_message_id p) \<and> lr_sequence r < oldest)) d))
         else ret ()))) (\<lambda>_. ret ()))"

definition entry_of_rows :: "task_log_row list \<Rightarrow> log_entry" where
  "entry_of_rows rs =
     \<lparr>le_lines = map payload_of rs, le_bytes = sum_list (map (line_bytes \<circ> payload_of) rs),
      le_latest_sequence = lr_latest_sequence (last rs), le_dropped_lines = lr_dropped_lines (last rs),
      le_updated_at = lr_log_updated_at (last rs), le_completed_at = lr_completed_at (last rs)\<rparr>"

definition loadPersistentEntry :: "log_config \<Rightarrow> log_key \<Rightarrow> log_entry option log_prog" where
  "loadPersistentEntry c k =
     (if \<not> lc_persistent c then ret None
      else attempt (stmt (\<lambda>d. (Inr (sort_key lr_sequence (filter (\<lambda>r. row_key r = k) d)), d))) (\<lambda>r. case r of
        Inl _ \<Rightarrow> ret None
      | Inr [] \<Rightarrow> ret None
      | Inr rs \<Rightarrow> ret (Some (entry_of_rows rs))))"

definition markPersistentComplete :: "log_config \<Rightarrow> log_key \<Rightarrow> time \<Rightarrow> unit log_prog" where
  "markPersistentComplete c k now =
     (if \<not> lc_persistent c then ret ()
      else attempt (stmt (\<lambda>d. (Inr (), update_rows (\<lambda>r. row_key r = k)
             (\<lambda>r. r\<lparr>lr_completed_at := Some now, lr_log_updated_at := now\<rparr>) d))) (\<lambda>_. ret ()))"

definition delete_logs :: "log_config \<Rightarrow> (task_log_row \<Rightarrow> bool) \<Rightarrow> unit log_prog" where
  "delete_logs c p =
     (if \<not> lc_persistent c then ret ()
      else attempt (stmt (\<lambda>d. (Inr (), filter (\<lambda>r. \<not> p r) d))) (\<lambda>_. ret ()))"

definition deletePersistentLogs :: "log_config \<Rightarrow> log_key \<Rightarrow> unit log_prog" where
  "deletePersistentLogs c k = delete_logs c (\<lambda>r. row_key r = k)"

definition pruneExpiredPersistentLogs :: "log_config \<Rightarrow> unit log_prog" where
  "pruneExpiredPersistentLogs c =
     (if lc_ttl c \<le> 0 then ret ()
      else bnd clock (\<lambda>now. let cutoff = now - lc_ttl c in
        delete_logs c (\<lambda>r. case lr_completed_at r of Some t \<Rightarrow> t < cutoff | None \<Rightarrow> lr_log_updated_at r < cutoff)))"

section \<open>Operations\<close>

text \<open>What Add stores: the payload under its task's key, redacted and dated.\<close>

definition stored_payload :: "log_config \<Rightarrow> log_key \<Rightarrow> time \<Rightarrow> task_log_payload \<Rightarrow> task_log_payload" where
  "stored_payload c k now p =
     p\<lparr>tl_agent_id := fst k, tl_message_id := snd k, tl_line := lc_redact c (tl_line p),
       tl_timestamp := (if tl_timestamp p = 0 then now else tl_timestamp p)\<rparr>"

definition append_line :: "log_config \<Rightarrow> time \<Rightarrow> task_log_payload \<Rightarrow> log_entry \<Rightarrow> log_entry" where
  "append_line c now p e =
     enforceLimits (lc_max_lines c) (lc_max_bytes c)
       (e\<lparr>le_lines := le_lines e @ [p], le_bytes := le_bytes e + line_bytes p,
          le_latest_sequence := max (le_latest_sequence e) (tl_sequence p),
          le_updated_at := now, le_completed_at := None\<rparr>)"

definition AddLine :: "log_config \<Rightarrow> string \<Rightarrow> string \<Rightarrow> task_log_payload \<Rightarrow> unit log_prog" where
  "AddLine c agentID messageID payload =
     (if agentID = '''' \<or> messageID = '''' then ret ()
      else bnd clock (\<lambda>now.
        let k = (agentID, messageID); p = stored_payload c k now payload
        in if tl_line p = '''' then ret ()
        else bnd (entryLocked k) (\<lambda>found.
          bnd (case found of Some e \<Rightarrow> ret e
               | None \<Rightarrow> bnd (loadPersistentEntry c k) (\<lambda>l. ret (case l of None \<Rightarrow> empty_entry | Some e \<Rightarrow> e))) (\<lambda>item0.
          let item = append_line c now p item0;
              oldest = (case le_lines item of [] \<Rightarrow> 0 | l # _ \<Rightarrow> tl_sequence l)
          in bnd (put_entry k item) (\<lambda>_.
             persistLine c p (le_latest_sequence item) (le_dropped_lines item) oldest now)))))"

definition MarkComplete :: "log_config \<Rightarrow> string \<Rightarrow> string \<Rightarrow> unit log_prog" where
  "MarkComplete c agentID messageID =
     (if agentID = '''' \<or> messageID = '''' then ret ()
      else bnd clock (\<lambda>now. bnd (entryLocked (agentID, messageID)) (\<lambda>found.
        bnd (case found of None \<Rightarrow> ret ()
             | Some e \<Rightarrow> put_entry (agentID, messageID) (e\<lparr>le_completed_at := Some now, le_updated_at := now\<rparr>)) (\<lambda>_.
        markPersistentComplete c (agentID, messageID) now))))"

definition page :: "int \<Rightarrow> nat \<Rightarrow> task_log_payload list \<Rightarrow> task_log_payload list" where
  "page after limit ls = take limit (filter (\<lambda>l. after < tl_sequence l) ls)"

definition page_limit :: "int \<Rightarrow> nat" where
  "page_limit limit = (if limit \<le> 0 then 200 else if limit > 1000 then 1000 else nat limit)"

definition GetLines :: "log_config \<Rightarrow> string \<Rightarrow> string \<Rightarrow> int \<Rightarrow> int \<Rightarrow> log_snapshot log_prog" where
  "GetLines c agentID messageID after limit =
     (if agentID = '''' \<or> messageID = '''' then ret no_snapshot
      else bnd clock (\<lambda>now. let k = (agentID, messageID) in bnd (entryLocked k) (\<lambda>found.
        bnd (case found of Some e \<Rightarrow> ret (Some e)
             | None \<Rightarrow> bnd (loadPersistentEntry c k) (\<lambda>l. case l of None \<Rightarrow> ret None
                 | Some e \<Rightarrow> bnd (put_entry k e) (\<lambda>_. ret (Some e)))) (\<lambda>item. case item of
          None \<Rightarrow> ret no_snapshot
        | Some e \<Rightarrow>
            let s = \<lparr>ls_lines = [], ls_latest_sequence = le_latest_sequence e, ls_truncated = le_dropped_lines e > 0,
                     ls_dropped_lines = le_dropped_lines e, ls_exists = True, ls_expired = False\<rparr>
            in if isExpired c e now
               then bnd (delete_entries (\<lambda>j. j = k)) (\<lambda>_. bnd (deletePersistentLogs c k) (\<lambda>_. ret (s\<lparr>ls_expired := True\<rparr>)))
               else ret (s\<lparr>ls_lines := page after (page_limit limit) (le_lines e)\<rparr>)))))"

definition DeleteLogsOfAgent :: "log_config \<Rightarrow> string \<Rightarrow> unit log_prog" where
  "DeleteLogsOfAgent c agentID =
     (if agentID = '''' then ret ()
      else bnd (delete_entries (\<lambda>k. fst k = agentID)) (\<lambda>_. delete_logs c (\<lambda>r. lr_agent_id r = agentID)))"

section \<open>The limits\<close>

definition fits :: "log_config \<Rightarrow> task_log_payload list \<Rightarrow> bool" where
  "fits c ls \<longleftrightarrow> int (length ls) \<le> lc_max_lines c \<and> sum_list (map line_bytes ls) \<le> lc_max_bytes c"

text \<open>The loop keeps the longest suffix that fits: it drops \<open>k\<close> lines, and no fewer would do.\<close>

lemma enforce_spec:
  assumes "0 \<le> lc_max_lines c" "0 \<le> lc_max_bytes c" "b = sum_list (map line_bytes ls)"
  shows "\<exists>k \<le> length ls. enforce (lc_max_lines c) (lc_max_bytes c) ls b d =
      (drop k ls, sum_list (map line_bytes (drop k ls)), d + int k) \<and> fits c (drop k ls) \<and> (\<forall>j < k. \<not> fits c (drop j ls))"
  using assms
proof (induction "lc_max_lines c" "lc_max_bytes c" ls b d rule: enforce.induct)
  case (1 b d)
  then show ?case by (simp add: fits_def)
next
  case (2 l ls b d)
  show ?case
  proof (cases "int (length (l # ls)) > lc_max_lines c \<or> b > lc_max_bytes c")
    case True
    then have no: "\<not> fits c (l # ls)" using 2(4) by (auto simp: fits_def)
    from 2(1) [OF True 2(2,3)] 2(4) obtain k where k: "k \<le> length ls"
      "enforce (lc_max_lines c) (lc_max_bytes c) ls (b - line_bytes l) (d + 1) =
        (drop k ls, sum_list (map line_bytes (drop k ls)), d + 1 + int k)"
      "fits c (drop k ls)" "\<forall>j < k. \<not> fits c (drop j ls)"
      by auto
    have "\<not> fits c (drop j (l # ls))" if "j < Suc k" for j
      using that no k(4) by (cases j) auto
    with True k show ?thesis by (intro exI [of _ "Suc k"]) simp
  next
    case False
    with 2(4) show ?thesis by (intro exI [of _ 0]) (auto simp: fits_def)
  qed
qed

definition entry_ok :: "log_entry \<Rightarrow> bool" where
  "entry_ok e \<longleftrightarrow> le_bytes e = sum_list (map line_bytes (le_lines e))"

lemma append_line_facts:
  assumes "entry_ok e" and "0 \<le> lc_max_lines c" and "0 \<le> lc_max_bytes c"
  shows "\<exists>k. le_lines (append_line c now p e) = drop k (le_lines e @ [p]) \<and> fits c (drop k (le_lines e @ [p])) \<and>
    (\<forall>j. fits c (drop j (le_lines e @ [p])) \<longrightarrow> k \<le> j) \<and> entry_ok (append_line c now p e) \<and>
    le_dropped_lines (append_line c now p e) = le_dropped_lines e + int k"
proof -
  from enforce_spec [OF assms(2,3) refl, of "le_lines e @ [p]" "le_dropped_lines e"] obtain k where k:
    "enforce (lc_max_lines c) (lc_max_bytes c) (le_lines e @ [p]) (sum_list (map line_bytes (le_lines e @ [p]))) (le_dropped_lines e) =
      (drop k (le_lines e @ [p]), sum_list (map line_bytes (drop k (le_lines e @ [p]))), le_dropped_lines e + int k)"
    "fits c (drop k (le_lines e @ [p]))" "\<forall>j < k. \<not> fits c (drop j (le_lines e @ [p]))"
    by blast
  have "k \<le> j" if "fits c (drop j (le_lines e @ [p]))" for j
    using that k(3) not_le by blast
  with k show ?thesis
    using assms(1) by (intro exI [of _ k]) (simp add: append_line_def enforceLimits_def entry_ok_def)
qed

text \<open>Appending a line keeps as much of the log as the limits allow: the new entry holds the
  longest suffix of the old lines with the new one that stays within the limits on lines and
  bytes, its byte count is exact, and every line that is gone is counted as dropped.\<close>

lemma append_line_keeps_longest_suffix:
  assumes "entry_ok e" and "0 \<le> lc_max_lines c" and "0 \<le> lc_max_bytes c"
  shows "\<exists>k. le_lines (append_line c now p e) = drop k (le_lines e @ [p]) \<and> fits c (drop k (le_lines e @ [p])) \<and>
    (\<forall>j. fits c (drop j (le_lines e @ [p])) \<longrightarrow> k \<le> j) \<and> entry_ok (append_line c now p e) \<and>
    le_dropped_lines (append_line c now p e) = le_dropped_lines e + int k"
  by (rule append_line_facts [OF assms])

section \<open>Reading page by page\<close>

text \<open>A client that polls with the sequence of the last line it has seen.\<close>

fun poll :: "nat \<Rightarrow> nat \<Rightarrow> int \<Rightarrow> task_log_payload list \<Rightarrow> task_log_payload list" where
  "poll 0 limit after ls = []"
| "poll (Suc n) limit after ls =
     (case page after limit ls of [] \<Rightarrow> [] | p \<Rightarrow> p @ poll n limit (tl_sequence (last p)) ls)"

lemma sorted_filter_take:
  assumes "sorted_wrt (<) (map tl_sequence ls)" "take n ls \<noteq> []"
  shows "filter (\<lambda>l. tl_sequence (last (take n ls)) < tl_sequence l) ls = drop n ls"
  using assms
proof (induction n arbitrary: ls)
  case (Suc n)
  then obtain l rest where ls: "ls = l # rest" by (cases ls) auto
  show ?case
  proof (cases "take n rest = []")
    case True
    with Suc.prems ls have "filter (\<lambda>x. tl_sequence l < tl_sequence x) rest = rest" by (auto intro: filter_True)
    with True ls show ?thesis by (auto simp: take_eq_Nil)
  next
    case False
    have m: "last (take n rest) \<in> set rest" using last_in_set [OF False] in_set_takeD by fast
    with Suc ls False show ?thesis by (auto simp: sorted_wrt_append)
  qed
qed simp


section \<open>The table follows the memory\<close>

definition rows_at :: "log_key \<Rightarrow> task_log_row list \<Rightarrow> task_log_row list" where
  "rows_at k d = filter (\<lambda>r. row_key r = k) d"

text \<open>The rows of a task say what its entry in memory says.\<close>

definition synced :: "log_key \<Rightarrow> task_log_row list \<Rightarrow> log_entry \<Rightarrow> bool" where
  "synced k d e \<longleftrightarrow> rows_at k d \<noteq> [] \<and> e = entry_of_rows (rows_at k d) \<and>
     sorted_wrt (<) (map lr_sequence (rows_at k d)) \<and> (\<forall>r \<in> set (rows_at k d). 0 < lr_sequence r)"

lemma payload_record: "payload_of (record_of p latest dropped now) = p"
  by (simp add: payload_of_def record_of_def)

lemma tl_payload: "tl_sequence (payload_of r) = lr_sequence r"
  by (simp add: payload_of_def)

lemma filter_drop_sorted:
  assumes "sorted_wrt (<) (map lr_sequence rs)" "j < length rs"
  shows "filter (\<lambda>r. \<not> lr_sequence r < lr_sequence (rs ! j)) rs = drop j rs"
  using assms
proof (induction j arbitrary: rs)
  case 0
  then obtain r rest where "rs = r # rest" by (cases rs) auto
  with 0 show ?case by (auto intro!: filter_True)
next
  case (Suc j)
  then obtain r rest where rs: "rs = r # rest" by (cases rs) auto
  with Suc show ?case by (auto simp: nth_mem)
qed

text \<open>One undisturbed persistLine after an append, on the tables.\<close>

definition persisted :: "task_log_payload \<Rightarrow> int \<Rightarrow> int \<Rightarrow> int \<Rightarrow> time \<Rightarrow> task_log_row list \<Rightarrow> task_log_row list" where
  "persisted p latest dropped oldest now d =
     (let d1 = upsert_row (record_of p latest dropped now) d
      in if oldest > 0
         then filter (\<lambda>r. \<not> (row_key r = (tl_agent_id p, tl_message_id p) \<and> lr_sequence r < oldest)) d1 else d1)"

lemma persisted_synced:
  assumes e0: "rows_at k d = [] \<and> e0 = empty_entry \<or> synced k d e0"
    and new: "0 < tl_sequence p" "\<forall>r \<in> set (rows_at k d). lr_sequence r < tl_sequence p"
    and key: "(tl_agent_id p, tl_message_id p) = k"
    and small: "line_bytes p \<le> lc_max_bytes c" "1 \<le> lc_max_lines c"
  shows "synced k (persisted p (le_latest_sequence (append_line c now p e0)) (le_dropped_lines (append_line c now p e0))
     (case le_lines (append_line c now p e0) of [] \<Rightarrow> 0 | l # _ \<Rightarrow> tl_sequence l) now d) (append_line c now p e0)"
proof -
  let ?e = "append_line c now p e0"
  define rs where "rs = rows_at k d"
  define r where "r = record_of p (le_latest_sequence ?e) (le_dropped_lines ?e) now"
  have old: "le_lines e0 = map payload_of rs" "entry_ok e0" "rs = [] \<or> le_latest_sequence e0 = lr_latest_sequence (last rs)"
    using e0 by (auto simp: rs_def synced_def entry_of_rows_def empty_entry_def entry_ok_def comp_def)
  have sorted: "sorted_wrt (<) (map lr_sequence (rs @ [r]))"
    using e0 new(2) by (auto simp: rs_def synced_def r_def record_of_def sorted_wrt_append)
  have pos: "\<forall>x \<in> set (rs @ [r]). 0 < lr_sequence x"
    using e0 new(1) by (auto simp: rs_def synced_def r_def record_of_def)
  have lines: "le_lines e0 @ [p] = map payload_of (rs @ [r])" using old by (simp add: r_def payload_record)
  have "0 \<le> lc_max_bytes c" using small(1) by (simp add: line_bytes_def)
  with append_line_facts [OF old(2), of c now p] small(2) obtain j where
    j: "le_lines ?e = drop j (map payload_of (rs @ [r]))" "\<And>i. fits c (drop i (map payload_of (rs @ [r]))) \<Longrightarrow> j \<le> i"
      "entry_ok ?e" "le_dropped_lines ?e = le_dropped_lines e0 + int j"
    unfolding lines by auto
  have "fits c (drop (length rs) (map payload_of (rs @ [r])))"
    using small by (simp add: fits_def r_def payload_record)
  then have jlt: "j < length (rs @ [r])" using j(2) by (simp add: less_Suc_eq_le)
  have none: "\<not> (\<exists>r' \<in> set d. same_line r r')"
    using new(2) key by (force simp: same_line_def r_def record_of_def row_key_def rs_def rows_at_def)
  have rk: "row_key r = k" using key by (simp add: r_def record_of_def row_key_def)
  have first: "(case le_lines ?e of [] \<Rightarrow> 0 | l # _ \<Rightarrow> tl_sequence l) = lr_sequence ((rs @ [r]) ! j)"
  proof -
    have "drop j (map payload_of (rs @ [r])) = payload_of ((rs @ [r]) ! j) # map payload_of (drop (Suc j) (rs @ [r]))"
      using Cons_nth_drop_Suc [OF jlt] by (metis drop_map list.map(2))
    then show ?thesis unfolding j(1) by (simp only: list.case tl_payload)
  qed
  have opos: "0 < lr_sequence ((rs @ [r]) ! j)" using pos jlt nth_mem by blast
  have rows: "rows_at k (persisted p (le_latest_sequence ?e) (le_dropped_lines ?e) (lr_sequence ((rs @ [r]) ! j)) now d) =
      drop j (rs @ [r])"
  proof -
    have "rows_at k (persisted p (le_latest_sequence ?e) (le_dropped_lines ?e) (lr_sequence ((rs @ [r]) ! j)) now d) =
        filter (\<lambda>x. \<not> lr_sequence x < lr_sequence ((rs @ [r]) ! j)) (rows_at k (d @ [r]))"
      using opos none key
      by (auto simp: persisted_def upsert_row_def rows_at_def r_def [symmetric] Let_def filter_filter intro!: filter_cong)
    also have "rows_at k (d @ [r]) = rs @ [r]" by (simp add: rows_at_def rs_def rk)
    also have "filter (\<lambda>x. \<not> lr_sequence x < lr_sequence ((rs @ [r]) ! j)) (rs @ [r]) = drop j (rs @ [r])"
      by (rule filter_drop_sorted [OF sorted jlt])
    finally show ?thesis .
  qed
  have lastr: "last (drop j (rs @ [r])) = r" using jlt by (simp add: last_drop)
  have fields: "le_updated_at ?e = now" "le_completed_at ?e = None"
    by (simp_all add: append_line_def enforceLimits_def split: prod.splits)
  have "?e = entry_of_rows (drop j (rs @ [r]))"
  proof (rule log_entry.equality)
    show "le_lines ?e = le_lines (entry_of_rows (drop j (rs @ [r])))"
      by (simp only: j(1) entry_of_rows_def log_entry.select_convs drop_map)
    show "le_bytes ?e = le_bytes (entry_of_rows (drop j (rs @ [r])))"
      using j(3) by (simp only: entry_ok_def j(1) entry_of_rows_def log_entry.select_convs drop_map map_map)
    have rf: "lr_latest_sequence r = le_latest_sequence ?e" "lr_dropped_lines r = le_dropped_lines ?e"
      "lr_log_updated_at r = now" "lr_completed_at r = None"
      by (simp_all add: r_def record_of_def)
    show "le_latest_sequence ?e = le_latest_sequence (entry_of_rows (drop j (rs @ [r])))"
      "le_dropped_lines ?e = le_dropped_lines (entry_of_rows (drop j (rs @ [r])))"
      "le_updated_at ?e = le_updated_at (entry_of_rows (drop j (rs @ [r])))"
      "le_completed_at ?e = le_completed_at (entry_of_rows (drop j (rs @ [r])))"
      by (simp_all only: entry_of_rows_def log_entry.select_convs lastr rf fields)
  qed simp
  moreover have "sorted_wrt (<) (map lr_sequence (drop j (rs @ [r])))"
    using sorted by (metis drop_map sorted_wrt_drop)
  moreover have "\<forall>x \<in> set (drop j (rs @ [r])). 0 < lr_sequence x" using pos by (meson in_set_dropD)
  ultimately show ?thesis
    unfolding synced_def first rows using jlt by simp
qed

text \<open>Adding a line when nothing fails and nothing interferes; the clock runs as it likes.\<close>

definition calm :: "('d, 'h) world \<Rightarrow> bool" where
  "calm w \<longleftrightarrow> w_faults w = [] \<and> w_others w = []"

lemma calm_clock: "calm w \<Longrightarrow> \<exists>t w1. clock w = (Inr t, w1) \<and> calm w1 \<and> w_db w1 = w_db w \<and> w_hub w1 = w_hub w"
  by (cases "w_clock w") (auto simp: clock_def calm_def)

lemma calm_stmt: "calm w \<Longrightarrow> stmt f w = (case f (w_db w) of (r, d) \<Rightarrow> (r, w\<lparr>w_db := d\<rparr>))"
  by (simp add: stmt_def interfere_def in_tx_def calm_def Let_def no_fault_left)

lemma calm_persist:
  assumes "calm w" "lc_persistent c"
  shows "persistLine c p latest dropped oldest now w = (Inr (), w\<lparr>w_db := persisted p latest dropped oldest now (w_db w)\<rparr>)"
  using assms by (simp add: persistLine_def transaction_def attempt_def bnd_def in_tx_def interfere_def calm_def Let_def
      no_fault_left persisted_def)

lemma calm_load:
  "calm w \<Longrightarrow> lc_persistent c \<Longrightarrow> loadPersistentEntry c k w =
    (Inr (case sort_key lr_sequence (rows_at k (w_db w)) of [] \<Rightarrow> None | rs \<Rightarrow> Some (entry_of_rows rs)), w)"
  by (auto simp: loadPersistentEntry_def attempt_def calm_stmt rows_at_def split: list.splits)

lemma synced_load:
  "synced k d e \<Longrightarrow> (case sort_key lr_sequence (rows_at k d) of [] \<Rightarrow> None | rs \<Rightarrow> Some (entry_of_rows rs)) = Some e"
proof -
  assume s: "synced k d e"
  then have "sorted (map lr_sequence (rows_at k d))"
    by (auto simp: synced_def intro: sorted_wrt_mono_rel [of _ "(<)"])
  with s show ?thesis by (auto simp: synced_def sort_key_id_if_sorted split: list.splits)
qed

text \<open>What holds of a task between two calls.\<close>

definition log_inv :: "log_key \<Rightarrow> int \<Rightarrow> (task_log_row list, log_memory) world \<Rightarrow> bool" where
  "log_inv k hi w \<longleftrightarrow> calm w \<and> (\<forall>r \<in> set (rows_at k (w_db w)). lr_sequence r \<le> hi) \<and>
     (case map_of (w_hub w) k of Some e \<Rightarrow> synced k (w_db w) e
      | None \<Rightarrow> rows_at k (w_db w) = [] \<or> (\<exists>e. synced k (w_db w) e))"

lemma persisted_bound:
  "r \<in> set (rows_at k (persisted p latest dropped oldest now d)) \<Longrightarrow>
   \<forall>r \<in> set (rows_at k d). lr_sequence r \<le> tl_sequence p \<Longrightarrow> lr_sequence r \<le> tl_sequence p"
  by (auto simp: persisted_def upsert_row_def rows_at_def record_of_def set_update_rows Let_def row_key_def
      split: if_splits)

definition valid_line :: "log_config \<Rightarrow> task_log_payload \<Rightarrow> bool" where
  "valid_line c p \<longleftrightarrow> lc_redact c (tl_line p) \<noteq> '''' \<and> int (length (lc_redact c (tl_line p))) \<le> lc_max_bytes c"

lemma AddLine_inv:
  assumes "log_inv (a, m) hi w" and c: "lc_persistent c" "1 \<le> lc_max_lines c"
    and p: "valid_line c p" "hi < tl_sequence p" "0 < tl_sequence p" and am: "a \<noteq> ''''" "m \<noteq> ''''"
  shows "log_inv (a, m) (tl_sequence p) (snd (AddLine c a m p w)) \<and>
    map_of (w_hub (snd (AddLine c a m p w))) (a, m) \<noteq> None"
proof -
  let ?k = "(a, m)"
  from assms(1) have calm: "calm w" and hi: "\<forall>r \<in> set (rows_at ?k (w_db w)). lr_sequence r < tl_sequence p"
    using p(2) by (auto simp: log_inv_def)
  from calm_clock [OF calm] obtain t w1 where w1: "clock w = (Inr t, w1)" "calm w1" "w_db w1 = w_db w" "w_hub w1 = w_hub w"
    by blast
  define q where "q = stored_payload c ?k t p"
  define e0 where "e0 = (case map_of (w_hub w) ?k of Some e \<Rightarrow> e
    | None \<Rightarrow> (case sort_key lr_sequence (rows_at ?k (w_db w)) of [] \<Rightarrow> empty_entry | rs \<Rightarrow> entry_of_rows rs))"
  define e where "e = append_line c t q e0"
  define oldest where "oldest = (case le_lines e of [] \<Rightarrow> 0 | l # _ \<Rightarrow> tl_sequence l)"
  define d where "d = persisted q (le_latest_sequence e) (le_dropped_lines e) oldest t (w_db w)"
  have q: "tl_line q \<noteq> ''''" "line_bytes q \<le> lc_max_bytes c" "tl_sequence q = tl_sequence p"
    "(tl_agent_id q, tl_message_id q) = ?k"
    using p(1) by (simp_all add: q_def stored_payload_def valid_line_def line_bytes_def)
  have run: "AddLine c a m p w = (Inr (), w1\<lparr>w_hub := AList.update ?k e (w_hub w), w_db := d\<rparr>)"
  proof -
    have calm': "calm (w1\<lparr>w_hub := h\<rparr>)" for h using w1(2) by (simp add: calm_def)
    have get: "bnd (entryLocked ?k) (\<lambda>found. bnd (case found of Some e \<Rightarrow> ret e
        | None \<Rightarrow> bnd (loadPersistentEntry c ?k) (\<lambda>l. ret (case l of None \<Rightarrow> empty_entry | Some e \<Rightarrow> e))) K) w1 = K e0 w1" for K
      using w1 c(1) by (auto simp: bnd_def entryLocked_def calm_load e0_def split: option.splits list.splits)
    show ?thesis
      using am q(1) unfolding AddLine_def
      by (simp add: bnd_def [of clock] w1(1) q_def [symmetric] Let_def get del: quiet_ret)
        (simp add: bnd_def put_entry_def calm_persist [OF calm' c(1)] e_def [symmetric] oldest_def [symmetric] w1 d_def)
  qed
  have e0: "rows_at ?k (w_db w) = [] \<and> e0 = empty_entry \<or> synced ?k (w_db w) e0"
  proof (cases "map_of (w_hub w) ?k")
    case None
    with assms(1) consider "rows_at ?k (w_db w) = []" | x where "synced ?k (w_db w) x"
      by (auto simp: log_inv_def)
    then show ?thesis
    proof cases
      case (2 x)
      from synced_load [OF 2] None have "e0 = x" by (auto simp: e0_def split: list.splits)
      with 2 show ?thesis by simp
    qed (simp add: e0_def None)
  next
    case (Some x)
    with assms(1) show ?thesis by (simp add: log_inv_def e0_def)
  qed
  have s: "synced ?k d e"
    unfolding d_def e_def oldest_def using persisted_synced [OF e0 _ _ q(4,2) c(2)] p(3) hi q(3) by simp
  have "\<forall>r \<in> set (rows_at ?k d). lr_sequence r \<le> tl_sequence p"
    using persisted_bound hi q(3) unfolding d_def by (metis less_imp_le)
  with s w1(2) run show ?thesis by (simp add: log_inv_def update_conv' calm_def)
qed

definition add_lines ::
  "log_config \<Rightarrow> string \<Rightarrow> string \<Rightarrow> task_log_payload list \<Rightarrow> (task_log_row list, log_memory) world \<Rightarrow> (task_log_row list, log_memory) world" where
  "add_lines c a m ps w = fold (\<lambda>p w. snd (AddLine c a m p w)) ps w"

lemma add_lines_inv:
  "log_inv (a, m) hi w \<Longrightarrow> 0 \<le> hi \<Longrightarrow> lc_persistent c \<Longrightarrow> 1 \<le> lc_max_lines c \<Longrightarrow> list_all (valid_line c) ps \<Longrightarrow>
   sorted_wrt (<) (hi # map tl_sequence ps) \<Longrightarrow> a \<noteq> '''' \<Longrightarrow> m \<noteq> '''' \<Longrightarrow>
   \<exists>hi'. log_inv (a, m) hi' (add_lines c a m ps w) \<and>
     (ps \<noteq> [] \<longrightarrow> map_of (w_hub (add_lines c a m ps w)) (a, m) \<noteq> None)"
proof (induction ps arbitrary: hi w)
  case (Cons p ps)
  from Cons.prems have p: "valid_line c p" "hi < tl_sequence p" "0 < tl_sequence p" "list_all (valid_line c) ps"
    "sorted_wrt (<) (tl_sequence p # map tl_sequence ps)"
    by auto
  note one = AddLine_inv [OF Cons.prems(1,3,4) p(1-3) Cons.prems(7,8)]
  have "0 \<le> tl_sequence p" using p(3) by simp
  from Cons.IH [OF conjunct1 [OF one] this Cons.prems(3,4) p(4,5) Cons.prems(7,8)] obtain hi' where
    "log_inv (a, m) hi' (add_lines c a m ps (snd (AddLine c a m p w)))"
    "ps \<noteq> [] \<longrightarrow> map_of (w_hub (add_lines c a m ps (snd (AddLine c a m p w)))) (a, m) \<noteq> None"
    by blast
  with one show ?case by (cases ps) (auto simp: add_lines_def)
qed (auto simp: add_lines_def)


section \<open>Witnesses\<close>

definition sample_line :: "int \<Rightarrow> task_log_payload" where
  "sample_line n =
     \<lparr>tl_agent_id = '''', tl_message_id = '''', tl_task_type = ''backup'', tl_sequence = n, tl_timestamp = 0,
      tl_level = ''info'', tl_phase = '''', tl_stream = ''stdout'', tl_line = ''line'', tl_truncated = False\<rparr>"

definition sample_logs :: log_config where
  "sample_logs = NewBufferWithLimits 2 0 0 True (\<lambda>s. s)"

definition sample_log_world :: "(task_log_row list, log_memory) world" where
  "sample_log_world = \<lparr>w_db = [], w_hub = [], w_faults = [], w_others = [], w_clock = [5, 6, 7], w_now = 0\<rparr>"



end
