(* ===== verification/VF_AgentLogs.thy ===== *)
theory VF_AgentLogs
  imports VF_TaskLogs
begin

text \<open>
  Task logs on the agent (internal/agent/task_log.go): output is cut into lines, each line is
  redacted, trimmed and cut to 4096 bytes at a character boundary, numbered and sent.  The
  redactor (pkg/redact.Text) is an argument.
\<close>

section \<open>utf8.ValidString\<close>

definition byte_in :: "nat \<Rightarrow> nat \<Rightarrow> char \<Rightarrow> bool" where
  "byte_in lo hi c \<longleftrightarrow> lo \<le> byte c \<and> byte c \<le> hi"

abbreviation cont_byte :: "char \<Rightarrow> bool" where "cont_byte \<equiv> byte_in 0x80 0xBF"

text \<open>The length of the character a string starts with; 0 for an invalid encoding.\<close>

fun rune_len :: "string \<Rightarrow> nat" where
  "rune_len [] = 0"
| "rune_len [a] = (if byte a < 0x80 then 1 else 0)"
| "rune_len [a, b] =
     (if byte a < 0x80 then 1 else if byte_in 0xC2 0xDF a \<and> cont_byte b then 2 else 0)"
| "rune_len [a, b, c] =
     (if byte a < 0x80 then 1
      else if byte_in 0xC2 0xDF a \<and> cont_byte b then 2
      else if (byte a = 0xE0 \<and> byte_in 0xA0 0xBF b \<or> byte_in 0xE1 0xEC a \<and> cont_byte b \<or>
               byte a = 0xED \<and> byte_in 0x80 0x9F b \<or> byte_in 0xEE 0xEF a \<and> cont_byte b) \<and> cont_byte c then 3
      else 0)"
| "rune_len (a # b # c # d # s) =
     (if byte a < 0x80 then 1
      else if byte_in 0xC2 0xDF a \<and> cont_byte b then 2
      else if (byte a = 0xE0 \<and> byte_in 0xA0 0xBF b \<or> byte_in 0xE1 0xEC a \<and> cont_byte b \<or>
               byte a = 0xED \<and> byte_in 0x80 0x9F b \<or> byte_in 0xEE 0xEF a \<and> cont_byte b) \<and> cont_byte c then 3
      else if (byte a = 0xF0 \<and> byte_in 0x90 0xBF b \<or> byte_in 0xF1 0xF3 a \<and> cont_byte b \<or>
               byte a = 0xF4 \<and> byte_in 0x80 0x8F b) \<and> cont_byte c \<and> cont_byte d then 4
      else 0)"

function valid_utf8 :: "string \<Rightarrow> bool" where
  "valid_utf8 s = (if s = [] then True else if rune_len s = 0 then False else valid_utf8 (drop (rune_len s) s))"
  by auto
termination by (relation "measure length") auto

declare valid_utf8.simps [simp del]

lemma valid_Nil [simp]: "valid_utf8 []"
  by (subst valid_utf8.simps) simp

section \<open>Lines\<close>

abbreviation maxTaskLogLineBytes :: nat where "maxTaskLogLineBytes \<equiv> 4096"

abbreviation nl :: char where "nl \<equiv> CHR 0x0A"
abbreviation cr :: char where "cr \<equiv> CHR 0x0D"

text \<open>The two calls of strings.ReplaceAll.\<close>

fun unix_lines :: "string \<Rightarrow> string" where
  "unix_lines [] = []"
| "unix_lines (c # s) = (if c = cr \<and> s \<noteq> [] \<and> hd s = nl then unix_lines s else (if c = cr then nl else c) # unix_lines s)"

definition splitTaskLogLines :: "string \<Rightarrow> string list" where
  "splitTaskLogLines text = filter (\<lambda>part. trim_space part \<noteq> '''') (split_on nl (unix_lines text))"

text \<open>The loop that shortens the cut line until it is valid UTF-8.\<close>

function shorten :: "string \<Rightarrow> string" where
  "shorten s = (if \<not> valid_utf8 s \<and> s \<noteq> [] then shorten (butlast s) else s)"
  by auto
termination by (relation "measure length") auto

declare shorten.simps [simp del]

definition sanitizeTaskLogLine :: "(string \<Rightarrow> string) \<Rightarrow> string \<Rightarrow> string \<times> bool" where
  "sanitizeTaskLogLine redact line0 =
     (let line = trim_space (redact line0)
      in if line = '''' then ('''', False)
         else if length line \<le> maxTaskLogLineBytes then (line, False)
         else (shorten (take maxTaskLogLineBytes line), True))"

section \<open>The emitter\<close>

text \<open>\<open>em_sent\<close> lists the payloads handed to the send function, whose errors are only logged;
  \<open>em_json\<close> says whether protocol.NewMessage can encode the payload.\<close>

record emitter =
  em_agent_id :: string
  em_message_id :: string
  em_task_type :: string
  em_has_send :: bool
  em_redact :: "string \<Rightarrow> string"
  em_json :: "task_log_payload \<Rightarrow> bool"
  em_sequence :: int
  em_sent :: "task_log_payload list"

definition emitLine :: "time \<Rightarrow> string \<Rightarrow> string \<Rightarrow> string \<Rightarrow> string \<Rightarrow> emitter \<Rightarrow> emitter" where
  "emitLine now level0 phase stream0 line0 e =
     (case sanitizeTaskLogLine (em_redact e) line0 of (line, truncated) \<Rightarrow>
      if line = '''' then e
      else let level = (if trim_space level0 = '''' then ''info'' else trim_space level0);
               stream = (if trim_space stream0 = '''' then ''system'' else trim_space stream0);
               n = em_sequence e + 1;
               p = \<lparr>tl_agent_id = em_agent_id e, tl_message_id = em_message_id e, tl_task_type = em_task_type e,
                    tl_sequence = n, tl_timestamp = now, tl_level = level, tl_phase = trim_space phase,
                    tl_stream = stream, tl_line = line, tl_truncated = truncated\<rparr>
           in e\<lparr>em_sequence := n, em_sent := (if em_json e p then em_sent e @ [p] else em_sent e)\<rparr>)"

definition Emit :: "time \<Rightarrow> string \<Rightarrow> string \<Rightarrow> string \<Rightarrow> string \<Rightarrow> emitter \<Rightarrow> emitter" where
  "Emit now level phase stream text e =
     (if \<not> em_has_send e \<or> em_agent_id e = '''' \<or> em_message_id e = '''' then e
      else fold (emitLine now level phase stream) (splitTaskLogLines text) e)"

definition emit_info :: "time \<Rightarrow> string \<Rightarrow> string \<Rightarrow> emitter \<Rightarrow> emitter" where
  "emit_info now phase line = Emit now ''info'' phase ''system'' line"

definition emit_error :: "time \<Rightarrow> string \<Rightarrow> string \<Rightarrow> emitter \<Rightarrow> emitter" where
  "emit_error now phase line = Emit now ''error'' phase ''system'' line"

definition emit_stdout :: "time \<Rightarrow> string \<Rightarrow> string \<Rightarrow> emitter \<Rightarrow> emitter" where
  "emit_stdout now phase line = Emit now ''info'' phase ''stdout'' line"

definition emit_stderr :: "time \<Rightarrow> string \<Rightarrow> string \<Rightarrow> emitter \<Rightarrow> emitter" where
  "emit_stderr now phase line = Emit now ''error'' phase ''stderr'' line"

section \<open>What is emitted\<close>

lemma shorten_prefix: "prefix (shorten s) s"
proof (induction s rule: shorten.induct)
  case (1 s)
  then show ?case
    by (subst shorten.simps) (auto intro: prefix_order.trans prefixeq_butlast)
qed

lemma shorten_valid: "valid_utf8 (shorten s)"
proof (induction s rule: shorten.induct)
  case (1 s)
  then show ?case by (subst shorten.simps) auto
qed

text \<open>A cut never takes away more than it must: no longer valid prefix of the cut exists.\<close>

lemma shorten_longest: "prefix t s \<Longrightarrow> valid_utf8 t \<Longrightarrow> prefix t (shorten s)"
proof (induction s rule: shorten.induct)
  case (1 s)
  show ?case
  proof (cases "\<not> valid_utf8 s \<and> s \<noteq> []")
    case True
    with 1(3) have "t \<noteq> s" by auto
    with 1(2) have "prefix t (butlast s)" using True
      by (metis append_butlast_last_id prefix_snoc)
    with 1 True show ?thesis by (subst shorten.simps) simp
  next
    case False
    with 1(2) show ?thesis by (subst shorten.simps) auto
  qed
qed

definition good_payload :: "emitter \<Rightarrow> task_log_payload \<Rightarrow> bool" where
  "good_payload e p \<longleftrightarrow> tl_agent_id p = em_agent_id e \<and> tl_message_id p = em_message_id e \<and>
     tl_line p \<noteq> '''' \<and> length (tl_line p) \<le> maxTaskLogLineBytes \<and> tl_level p \<noteq> '''' \<and> tl_stream p \<noteq> '''' \<and>
     (tl_truncated p \<longrightarrow> valid_utf8 (tl_line p))"

lemma sanitize_ok:
  "sanitizeTaskLogLine redact line = (l, tr) \<Longrightarrow> length l \<le> maxTaskLogLineBytes \<and> (tr \<longrightarrow> valid_utf8 l) \<and>
   prefix l (trim_space (redact line))"
  using shorten_prefix [of "take maxTaskLogLineBytes (trim_space (redact line))"] shorten_valid
    prefix_length_le [OF shorten_prefix [of "take maxTaskLogLineBytes (trim_space (redact line))"]]
  by (auto simp: sanitizeTaskLogLine_def Let_def take_is_prefix split: if_splits intro: prefix_order.trans)

definition emitter_ok :: "emitter \<Rightarrow> bool" where
  "emitter_ok e \<longleftrightarrow> (\<forall>p \<in> set (em_sent e). good_payload e p \<and> tl_sequence p \<le> em_sequence e) \<and>
     sorted_wrt (<) (0 # map tl_sequence (em_sent e)) \<and> 0 \<le> em_sequence e"

lemma emitLine_ok: "emitter_ok e \<Longrightarrow> emitter_ok (emitLine now level phase stream line e)"
proof -
  assume e: "emitter_ok e"
  obtain l tr where s: "sanitizeTaskLogLine (em_redact e) line = (l, tr)" by fastforce
  have same: "good_payload (e\<lparr>em_sequence := n, em_sent := ps\<rparr>) = good_payload e" for n ps
    by (simp add: good_payload_def fun_eq_iff)
  from e sanitize_ok [OF s] show ?thesis
    by (cases "l = ''''")
      (auto simp: emitLine_def s Let_def emitter_ok_def same sorted_wrt_append good_payload_def
        intro: order.trans [OF _ zle_add1_eq_le [THEN iffD1]] dest: bspec)
qed

lemma Emit_ok: "emitter_ok e \<Longrightarrow> emitter_ok (Emit now level phase stream text e)"
proof -
  have "emitter_ok (fold (emitLine now level phase stream) ls e)" if "emitter_ok e" for ls e
    using that by (induction ls arbitrary: e) (simp_all add: emitLine_ok)
  then show "emitter_ok e \<Longrightarrow> ?thesis" by (simp add: Emit_def)
qed

definition newTaskLogEmitter :: "string \<Rightarrow> string \<Rightarrow> string \<Rightarrow> bool \<Rightarrow> (string \<Rightarrow> string) \<Rightarrow> (task_log_payload \<Rightarrow> bool) \<Rightarrow> emitter" where
  "newTaskLogEmitter a m ty has_send redact json =
     \<lparr>em_agent_id = a, em_message_id = m, em_task_type = ty, em_has_send = has_send, em_redact = redact,
      em_json = json, em_sequence = 0, em_sent = []\<rparr>"

fun emit_all :: "(time \<times> string \<times> string \<times> string \<times> string) list \<Rightarrow> emitter \<Rightarrow> emitter" where
  "emit_all [] e = e"
| "emit_all ((now, level, phase, stream, text) # calls) e = emit_all calls (Emit now level phase stream text e)"


end
