(* ===== verification/VF_LogBuf.thy ===== *)
theory VF_LogBuf
  imports VF_GoLib
begin

text \<open>
  The ring buffer that keeps the last bytes of the master's log (internal/master/logbuf/logbuf.go),
  and its specification: the last \<open>capacity\<close> bytes of everything written.
\<close>

record ring =
  rb_buf :: string
  rb_pos :: nat
  rb_full :: bool

definition new_ring :: "nat \<Rightarrow> ring" where
  "new_ring capacity = \<lparr>rb_buf = replicate capacity (CHR 0x00), rb_pos = 0, rb_full = False\<rparr>"

abbreviation capacity :: "ring \<Rightarrow> nat" where "capacity r \<equiv> length (rb_buf r)"

text \<open>\<^verbatim>\<open>copy(buf[at:], p)\<close>\<close>

definition copy_at :: "nat \<Rightarrow> string \<Rightarrow> string \<Rightarrow> string" where
  "copy_at i p buf = take i buf @ take (length buf - i) p @ drop (i + length p) buf"

definition ring_write :: "string \<Rightarrow> ring \<Rightarrow> ring" where
  "ring_write p r =
     (let n = length p in
      if n \<ge> capacity r
      then r\<lparr>rb_buf := copy_at 0 (drop (n - capacity r) p) (rb_buf r), rb_pos := 0, rb_full := True\<rparr>
      else let spaceToEnd = capacity r - rb_pos r;
               buf = (if n \<le> spaceToEnd then copy_at (rb_pos r) p (rb_buf r)
                      else copy_at 0 (drop spaceToEnd p) (copy_at (rb_pos r) (take spaceToEnd p) (rb_buf r)))
           in r\<lparr>rb_buf := buf, rb_full := rb_full r \<or> rb_pos r + n \<ge> capacity r,
                rb_pos := (rb_pos r + n) mod capacity r\<rparr>)"

definition ring_bytes :: "ring \<Rightarrow> string" where
  "ring_bytes r =
     (if \<not> rb_full r then take (rb_pos r) (rb_buf r)
      else drop (rb_pos r) (rb_buf r) @ take (rb_pos r) (rb_buf r))"

definition ring_ok :: "ring \<Rightarrow> bool" where
  "ring_ok r \<longleftrightarrow> 0 < capacity r \<and> rb_pos r < capacity r"

lemma length_copy_at: "i + length p \<le> length buf \<Longrightarrow> length (copy_at i p buf) = length buf"
  by (simp add: copy_at_def)

lemma write_ok:
  assumes "ring_ok r"
  shows "ring_ok (ring_write p r)" and "capacity (ring_write p r) = capacity r"
proof -
  have "capacity (ring_write p r) = capacity r"
    using assms by (auto simp: ring_write_def Let_def ring_ok_def copy_at_def)
  then show "capacity (ring_write p r) = capacity r" "ring_ok (ring_write p r)"
    using assms by (auto simp: ring_write_def Let_def ring_ok_def)
qed

text \<open>What the buffer holds, whether or not it has filled up, is the last bytes written.\<close>

lemma write_bytes:
  assumes "ring_ok r"
  shows "ring_bytes (ring_write p r) = take_last (capacity r) (ring_bytes r @ p)"
proof -
  let ?c = "capacity r" and ?n = "length p" and ?i = "rb_pos r"
  from assms have c: "0 < ?c" "?i < ?c" by (simp_all add: ring_ok_def)
  have len: "length (ring_bytes r) = (if rb_full r then ?c else ?i)"
    using c by (simp add: ring_bytes_def)
  consider (big) "?c \<le> ?n" | (fit) "?n < ?c" "?n < ?c - ?i" | (edge) "?n < ?c" "?n = ?c - ?i"
    | (wrap) "?n < ?c" "?c - ?i < ?n" by linarith
  then show ?thesis
  proof cases
    case big
    then show ?thesis
      by (simp add: ring_write_def ring_bytes_def copy_at_def take_last_append_right) (simp add: take_last_def)
  next
    case fit
    then have m: "(?i + ?n) mod ?c = ?i + ?n" using c by simp
    show ?thesis
    proof (cases "rb_full r")
      case True
      have "take_last ?c (ring_bytes r @ p) = drop ?n (ring_bytes r @ p)"
        using True len by (simp add: take_last_def)
      also have "\<dots> = drop ?n (ring_bytes r) @ p" using True len fit by simp
      also have "drop ?n (ring_bytes r) = drop (?i + ?n) (rb_buf r) @ take ?i (rb_buf r)"
        using True fit c by (simp add: ring_bytes_def add.commute)
      finally show ?thesis
        using fit True m c by (simp add: ring_write_def Let_def ring_bytes_def copy_at_def)
    next
      case False
      moreover have "\<not> ?c \<le> ?i + ?n" using fit by simp
      ultimately show ?thesis
        using fit c m len by (simp add: ring_write_def Let_def ring_bytes_def copy_at_def)
    qed
  next
    case edge
    then have m: "(?i + ?n) mod ?c = 0" "?i + ?n = ?c" using c by simp_all
    have buf: "rb_buf (ring_write p r) = take ?i (rb_buf r) @ p"
      using edge c by (simp add: ring_write_def Let_def copy_at_def)
    have "ring_bytes (ring_write p r) = take ?i (rb_buf r) @ p"
      using m edge buf by (simp add: ring_bytes_def ring_write_def Let_def)
    moreover have "take_last ?c (ring_bytes r @ p) = take ?i (rb_buf r) @ p"
      using c edge by (auto simp: take_last_def ring_bytes_def)
    ultimately show ?thesis by simp
  next
    case wrap
    let ?s = "?c - ?i"
    have "?i + ?n = (?n - ?s) + ?c" "?n - ?s < ?c" using wrap c by linarith+
    then have m: "(?i + ?n) mod ?c = ?n - ?s" by (metis mod_add_self2 mod_less)
    have buf: "rb_buf (ring_write p r) = drop ?s p @ drop (?n - ?s) (take ?i (rb_buf r)) @ take ?s p"
      using wrap c by (simp add: ring_write_def Let_def copy_at_def)
    have "ring_bytes (ring_write p r) = drop (?n - ?s) (take ?i (rb_buf r)) @ take ?s p @ drop ?s p"
    proof -
      have "rb_full (ring_write p r)" "rb_pos (ring_write p r) = ?n - ?s"
        using wrap m c by (simp_all add: ring_write_def Let_def) linarith?
      then show ?thesis using wrap c by (simp add: ring_bytes_def buf)
    qed
    moreover have "take_last ?c (ring_bytes r @ p) = drop (?n - ?s) (take ?i (rb_buf r)) @ p"
      using c wrap by (auto simp: take_last_def ring_bytes_def add.commute)
    ultimately show ?thesis by simp
  qed
qed

text \<open>The log buffer refines its specification: after any writes it holds the last \<open>capacity\<close>
  bytes of all that was written.\<close>

lemma ring_holds_last_bytes:
  assumes "0 < n"
  shows "ring_bytes (fold ring_write ps (new_ring n)) = take_last n (concat ps)"
proof -
  have "ring_ok (fold ring_write ps (new_ring n)) \<and> capacity (fold ring_write ps (new_ring n)) = n \<and>
      ring_bytes (fold ring_write ps (new_ring n)) = take_last n (concat ps)"
  proof (induction ps rule: rev_induct)
    case Nil
    with assms show ?case by (simp add: new_ring_def ring_ok_def ring_bytes_def)
  next
    case (snoc p ps)
    then show ?case using write_ok write_bytes by (simp add: take_last_take_last_append)
  qed
  then show ?thesis by simp
qed

end
