(* ===== verification/VF_Authz.thy ===== *)
theory VF_Authz
  imports VF_GoLib
begin

text \<open>
  Roles, permissions and the table of protected routes (internal/master/api/authz.go, audit.go,
  router.go).  A permission set is a Go map; it is a list here, in the order of the source, since
  the order in which Go walks a map is unspecified.
\<close>

section \<open>Roles and permissions\<close>

abbreviation RoleAdmin :: string where "RoleAdmin \<equiv> ''admin''"
abbreviation RoleOperator :: string where "RoleOperator \<equiv> ''operator''"
abbreviation RoleViewer :: string where "RoleViewer \<equiv> ''viewer''"

abbreviation ActorTypeUser :: string where "ActorTypeUser \<equiv> ''user''"
abbreviation ActorTypeAPIToken :: string where "ActorTypeAPIToken \<equiv> ''api_token''"

abbreviation PermissionReadOperational :: string where "PermissionReadOperational \<equiv> ''read:operational''"
abbreviation PermissionWriteNodes :: string where "PermissionWriteNodes \<equiv> ''write:nodes''"
abbreviation PermissionWriteStorage :: string where "PermissionWriteStorage \<equiv> ''write:storage''"
abbreviation PermissionWritePolicies :: string where "PermissionWritePolicies \<equiv> ''write:policies''"
abbreviation PermissionRunBackup :: string where "PermissionRunBackup \<equiv> ''run:backup''"
abbreviation PermissionRunRestore :: string where "PermissionRunRestore \<equiv> ''run:restore''"
abbreviation PermissionWriteNotifications :: string where "PermissionWriteNotifications \<equiv> ''write:notifications''"
abbreviation PermissionReadSystem :: string where "PermissionReadSystem \<equiv> ''read:system''"
abbreviation PermissionAdminSystem :: string where "PermissionAdminSystem \<equiv> ''admin:system''"
abbreviation PermissionAdminUsers :: string where "PermissionAdminUsers \<equiv> ''admin:users''"
abbreviation PermissionAdminTokens :: string where "PermissionAdminTokens \<equiv> ''admin:tokens''"
abbreviation PermissionReadAudit :: string where "PermissionReadAudit \<equiv> ''read:audit''"

definition normalizeRole :: "string \<Rightarrow> string" where
  "normalizeRole role =
     (let r = to_lower (trim_space role) in if r \<in> {RoleAdmin, RoleOperator, RoleViewer} then r else '''')"

definition validRole :: "string \<Rightarrow> bool" where
  "validRole role \<longleftrightarrow> normalizeRole role \<noteq> ''''"

definition permissionsSet :: "string list \<Rightarrow> string list" where
  "permissionsSet values = filter (\<lambda>v. v \<noteq> '''') (map trim_space values)"

definition rolePermissions :: "string \<Rightarrow> string list" where
  "rolePermissions role =
     (let r = normalizeRole role in
      if r = RoleAdmin then permissionsSet
        [PermissionReadOperational, PermissionWriteNodes, PermissionWriteStorage, PermissionWritePolicies,
         PermissionRunBackup, PermissionRunRestore, PermissionWriteNotifications, PermissionReadSystem,
         PermissionAdminSystem, PermissionAdminUsers, PermissionAdminTokens, PermissionReadAudit]
      else if r = RoleOperator then permissionsSet
        [PermissionReadOperational, PermissionWriteNodes, PermissionWriteStorage, PermissionWritePolicies,
         PermissionRunBackup, PermissionRunRestore, PermissionWriteNotifications, PermissionReadSystem,
         PermissionReadAudit]
      else if r = RoleViewer then permissionsSet
        [PermissionReadOperational, PermissionReadSystem, PermissionReadAudit]
      else [])"

definition effectivePermissions :: "string \<Rightarrow> string list \<Rightarrow> bool \<Rightarrow> string list" where
  "effectivePermissions role scopes tokenActor =
     (if tokenActor then filter (\<lambda>p. p \<in> set (permissionsSet scopes)) (rolePermissions role)
      else rolePermissions role)"

record api_actor =
  ap_type :: string
  ap_user_id :: string
  ap_username :: string
  ap_role :: string
  ap_token_id :: string
  ap_token_name :: string
  ap_scopes :: "string list"
  ap_permissions :: "string list"

definition actorHasPermission :: "api_actor option \<Rightarrow> string \<Rightarrow> bool" where
  "actorHasPermission actor permission =
     (case actor of None \<Rightarrow> False | Some a \<Rightarrow> permission \<noteq> '''' \<and> permission \<in> set (ap_permissions a))"

section \<open>Routes\<close>

abbreviation MethodGet :: string where "MethodGet \<equiv> ''GET''"
abbreviation MethodPost :: string where "MethodPost \<equiv> ''POST''"
abbreviation MethodPut :: string where "MethodPut \<equiv> ''PUT''"
abbreviation MethodPatch :: string where "MethodPatch \<equiv> ''PATCH''"
abbreviation MethodDelete :: string where "MethodDelete \<equiv> ''DELETE''"

definition permissionForRoute :: "string \<Rightarrow> string \<Rightarrow> string" where
  "permissionForRoute meth path =
     (let read_or = (\<lambda>p. if meth = MethodGet then PermissionReadOperational else p) in
      if has_prefix path ''/api/users'' then PermissionAdminUsers
      else if has_prefix path ''/api/api-tokens'' then PermissionAdminTokens
      else if has_prefix path ''/api/audit-events'' then PermissionReadAudit
      else if has_prefix path ''/api/agent-upgrade-rollouts'' then read_or PermissionWriteNodes
      else if has_prefix path ''/api/system/import'' \<or> path = ''/api/system/export'' then PermissionAdminSystem
      else if has_prefix path ''/api/system/diagnostics'' then PermissionRunBackup
      else if path = ''/api/system/password'' then PermissionReadSystem
      else if has_prefix path ''/api/system'' then PermissionReadSystem
      else if contains path ''/restore'' \<or> contains path ''restore'' then read_or PermissionRunRestore
      else if contains path ''backup-now'' \<or> contains path ''verify-now'' \<or> contains path ''snapshots/refresh'' \<or>
        contains path ''cancel'' then PermissionRunBackup
      else if has_prefix path ''/api/storage'' then read_or PermissionWriteStorage
      else if has_prefix path ''/api/policies'' then read_or PermissionWritePolicies
      else if has_prefix path ''/api/notifications'' then read_or PermissionWriteNotifications
      else if has_prefix path ''/api/agents'' then
        (if meth = MethodGet then
           (if contains path ''install-token'' \<or> contains path ''commands'' then PermissionWriteNodes
            else PermissionReadOperational)
         else if contains path ''commands'' then PermissionReadOperational
         else PermissionWriteNodes)
      else if has_prefix path ''/api/tasks'' then
        (if contains path ''download'' then PermissionRunRestore
         else if meth = MethodDelete then PermissionRunBackup
         else PermissionReadOperational)
      else if has_prefix path ''/api/commands'' \<or> has_prefix path ''/api/snapshots'' then PermissionReadOperational
      else if meth = MethodGet then PermissionReadOperational
      else '''')"

text \<open>AuthorizeByRoute with RequirePermission: whether the request reaches its handler; a refused one is
  answered 403.\<close>

definition AuthorizeByRoute :: "api_actor option \<Rightarrow> string \<Rightarrow> string \<Rightarrow> bool" where
  "AuthorizeByRoute actor meth path =
     (let permission = permissionForRoute meth path
      in permission = '''' \<or> actorHasPermission actor permission)"

text \<open>The routes of the group that RequireAuth and AuthorizeByRoute guard, as router.go and the
  Register functions it calls declare them.\<close>

definition protected_routes :: "(string \<times> string) list" where
  "protected_routes =
    [(MethodPost, ''/api/auth/logout''),
     (MethodPost, ''/api/agents''), (MethodGet, ''/api/agents''), (MethodGet, ''/api/agents/tags''),
     (MethodGet, ''/api/agents/:id''), (MethodPut, ''/api/agents/:id/tags''), (MethodDelete, ''/api/agents/:id''),
     (MethodPost, ''/api/agents/:id/regenerate-token''), (MethodPost, ''/api/agents/:id/update-agent''),
     (MethodGet, ''/api/agents/:id/install-token''),
     (MethodPost, ''/api/agent-upgrade-rollouts''), (MethodGet, ''/api/agent-upgrade-rollouts''),
     (MethodGet, ''/api/agent-upgrade-rollouts/:id''), (MethodPost, ''/api/agent-upgrade-rollouts/:id/cancel''),
     (MethodGet, ''/api/storage/providers''), (MethodPost, ''/api/storage''), (MethodPost, ''/api/storage/test''),
     (MethodGet, ''/api/storage''), (MethodGet, ''/api/storage/:id''), (MethodPut, ''/api/storage/:id''),
     (MethodDelete, ''/api/storage/:id''), (MethodPost, ''/api/storage/:id/test''),
     (MethodPost, ''/api/policies''), (MethodGet, ''/api/policies''), (MethodPost, ''/api/policies/bulk-assign''),
     (MethodPost, ''/api/policies/artifact-naming/preview''), (MethodGet, ''/api/policies/:id''),
     (MethodPut, ''/api/policies/:id''), (MethodDelete, ''/api/policies/:id''), (MethodPost, ''/api/policies/:id/copy''),
     (MethodPost, ''/api/agents/:id/browse''), (MethodPost, ''/api/agents/:id/dir-size''),
     (MethodPost, ''/api/agents/:id/docker/discover''), (MethodPost, ''/api/agents/:id/database/discover''),
     (MethodGet, ''/api/agents/:id/snapshots''), (MethodPost, ''/api/agents/:id/snapshots/refresh''),
     (MethodPost, ''/api/agents/:id/snapshot-browse''),
     (MethodPost, ''/api/agents/:id/restore''), (MethodPost, ''/api/agents/:id/restore/preflight''),
     (MethodGet, ''/api/tasks''), (MethodGet, ''/api/tasks/:id/logs''), (MethodGet, ''/api/tasks/:id/download''),
     (MethodPost, ''/api/tasks/:id/cancel''), (MethodPost, ''/api/tasks/:id/retry-failed''),
     (MethodDelete, ''/api/tasks/:id''), (MethodPost, ''/api/agents/:id/backup-now''),
     (MethodPost, ''/api/policies/:id/verify-now''),
     (MethodGet, ''/api/commands/:id''), (MethodGet, ''/api/commands/:id/logs''), (MethodGet, ''/api/agents/:id/commands''),
     (MethodPost, ''/api/notifications''), (MethodPost, ''/api/notifications/test''), (MethodGet, ''/api/notifications''),
     (MethodGet, ''/api/notifications/:id''), (MethodPut, ''/api/notifications/:id''),
     (MethodDelete, ''/api/notifications/:id''), (MethodPost, ''/api/notifications/:id/test''),
     (MethodPost, ''/api/notifications/:id/test-config''),
     (MethodGet, ''/api/system/version''), (MethodGet, ''/api/system/export''), (MethodPost, ''/api/system/import''),
     (MethodPost, ''/api/system/import/confirm''), (MethodPut, ''/api/system/password''),
     (MethodGet, ''/api/system/diagnostic''),
     (MethodGet, ''/api/users''), (MethodPost, ''/api/users''), (MethodPut, ''/api/users/:id''),
     (MethodPost, ''/api/users/:id/disable''), (MethodPost, ''/api/users/:id/enable''),
     (MethodPost, ''/api/users/:id/reset-password''), (MethodDelete, ''/api/users/:id''), (MethodGet, ''/api/me''),
     (MethodGet, ''/api/api-tokens''), (MethodPost, ''/api/api-tokens''), (MethodPost, ''/api/api-tokens/:id/revoke''),
     (MethodDelete, ''/api/api-tokens/:id''), (MethodGet, ''/api/audit-events'')]"

section \<open>Audit actions\<close>

definition routeVerb :: "string \<Rightarrow> string \<Rightarrow> string" where
  "routeVerb meth path =
     (if meth = MethodPost then
        (if contains path ''cancel'' then ''cancel''
         else if contains path ''revoke'' then ''revoke''
         else if contains path ''disable'' then ''disable''
         else if contains path ''enable'' then ''enable''
         else if contains path ''reset-password'' then ''reset_password''
         else ''create'')
      else if meth = MethodPut \<or> meth = MethodPatch then ''update''
      else if meth = MethodDelete then ''delete''
      else to_lower meth)"

definition auditActionForRoute :: "string \<Rightarrow> string \<Rightarrow> string \<times> string" where
  "auditActionForRoute meth path =
     (if meth = MethodGet then ('''', '''')
      else if has_prefix path ''/api/users'' then (''user.'' @ routeVerb meth path, ''user'')
      else if has_prefix path ''/api/api-tokens'' then (''api_token.'' @ routeVerb meth path, ''api_token'')
      else if has_prefix path ''/api/agent-upgrade-rollouts'' then (''agent_rollout.'' @ routeVerb meth path, ''agent_rollout'')
      else if has_prefix path ''/api/storage'' then (''storage.'' @ routeVerb meth path, ''storage'')
      else if has_prefix path ''/api/policies'' then (''policy.'' @ routeVerb meth path, ''policy'')
      else if has_prefix path ''/api/notifications'' then (''notification.'' @ routeVerb meth path, ''notification'')
      else if contains path ''backup-now'' then (''backup.run'', ''agent'')
      else if contains path ''verify-now'' then (''backup.verify'', ''policy'')
      else if contains path ''snapshots/refresh'' then (''snapshot.refresh'', ''agent'')
      else if contains path ''restore'' then (''restore.'' @ routeVerb meth path, ''snapshot'')
      else if contains path ''cancel'' then (''task.cancel'', ''task'')
      else if has_prefix path ''/api/system/import'' then (''system.import'', ''system'')
      else if path = ''/api/system/export'' then (''system.export'', ''system'')
      else if path = ''/api/system/password'' then (''user.password_change'', ''user'')
      else if has_prefix path ''/api/system/diagnostics'' then (''diagnostic.collect'', ''system'')
      else if has_prefix path ''/api/agents'' then (''agent.'' @ routeVerb meth path, ''agent'')
      else ('''', ''''))"

definition redactAuditMessage :: "string \<Rightarrow> string" where
  "redactAuditMessage message =
     (let m = take 500 (trim_space message); lower = to_lower m
      in if contains lower ''password'' \<or> contains lower ''secret'' \<or> contains lower ''token''
         then ''[redacted]'' else m)"

section \<open>Who may do what\<close>

lemma permissionsSet_values: "list_all (\<lambda>v. trim_space v = v \<and> v \<noteq> '''') vs \<Longrightarrow> permissionsSet vs = vs"
  by (induction vs) (auto simp: permissionsSet_def)

text \<open>A token never exceeds its role: the permissions of a token are exactly those of its role that
  its scopes name, and a role that is not known has none.\<close>

lemma token_permissions:
  "set (effectivePermissions role scopes True) = set (rolePermissions role) \<inter> set (permissionsSet scopes) \<and>
   set (effectivePermissions role scopes True) \<subseteq> set (effectivePermissions role [] False) \<and>
   (normalizeRole role = '''' \<longrightarrow> effectivePermissions role scopes b = [])"
  by (auto simp: effectivePermissions_def rolePermissions_def Let_def)

text \<open>A session of a role.\<close>

definition session_actor :: "string \<Rightarrow> api_actor" where
  "session_actor role =
     \<lparr>ap_type = ActorTypeUser, ap_user_id = ''u'', ap_username = ''u'', ap_role = role, ap_token_id = '''',
      ap_token_name = '''', ap_scopes = [], ap_permissions = effectivePermissions role [] False\<rparr>"

text \<open>A viewer may repeat the failed items of a restore, which leaves no entry in the audit log either; and a
  verification run is recorded as the creation of a policy.\<close>

lemma viewer_retries:
  "AuthorizeByRoute (Some (session_actor RoleViewer)) MethodPost ''/api/tasks/:id/retry-failed''"
  "fst (auditActionForRoute MethodPost ''/api/tasks/:id/retry-failed'') = ''''"
  "auditActionForRoute MethodPost ''/api/policies/:id/verify-now'' = (''policy.create'', ''policy'')"
  by code_simp+

end
