(* ===== verification/VF_Auth.thy ===== *)
theory VF_Auth
  imports VF_World VF_Authz "HOL-Library.AList"
begin

text \<open>
  Who a request comes from (internal/master/api: auth.go, middleware.go, api_token_auth.go,
  api_tokens.go, users.go): sessions, API tokens, accounts.  The tables are the database of the
  world, the session store its hub component.  bcrypt, encoding/json for scopes and the random
  source are parameters.
\<close>

section \<open>State\<close>

record user =
  us_id :: string
  us_username :: string
  us_password_hash :: string
  us_role :: string
  us_disabled_at :: "time option"
  us_last_login_at :: "time option"
  us_created_at :: time
  us_updated_at :: time

record api_token =
  at_id :: string
  at_name :: string
  at_token_prefix :: string
  at_secret_hash :: string
  at_owner_user_id :: string
  at_role :: string
  at_scopes :: string
  at_expires_at :: "time option"
  at_revoked_at :: "time option"
  at_last_used_at :: "time option"
  at_created_at :: time
  at_updated_at :: time

record auth_tables =
  db_users :: "user list"
  db_tokens :: "api_token list"

record session =
  se_user_id :: string
  se_username :: string
  se_role :: string
  se_create_at :: time

type_synonym session_store = "(string \<times> session) list"
type_synonym 'a auth_prog = "(auth_tables, session_store, 'a) prog"

record auth_env =
  ae_hash :: "string \<Rightarrow> string outcome"
  ae_hash_ok :: "string \<Rightarrow> string \<Rightarrow> bool"
  ae_scopes_json :: "string list \<Rightarrow> string outcome"
  ae_parse_scopes :: "string \<Rightarrow> string list option"

text \<open>An HTTP answer: the status and, for an error, its text.\<close>

datatype reply = Reply nat string

definition failing :: "nat \<Rightarrow> string \<Rightarrow> reply auth_prog" where
  "failing code msg = ret (Reply code msg)"

definition first_user :: "(user \<Rightarrow> bool) \<Rightarrow> auth_tables \<Rightarrow> user outcome \<times> auth_tables" where
  "first_user p d = (first_row us_id p (db_users d), d)"

definition first_token :: "(api_token \<Rightarrow> bool) \<Rightarrow> auth_tables \<Rightarrow> api_token outcome \<times> auth_tables" where
  "first_token p d = (first_row at_id p (db_tokens d), d)"

definition set_users :: "(user list \<Rightarrow> user list) \<Rightarrow> auth_tables \<Rightarrow> unit outcome \<times> auth_tables" where
  "set_users f d = (Inr (), d\<lparr>db_users := f (db_users d)\<rparr>)"

definition set_tokens :: "(api_token list \<Rightarrow> api_token list) \<Rightarrow> auth_tables \<Rightarrow> unit outcome \<times> auth_tables" where
  "set_tokens f d = (Inr (), d\<lparr>db_tokens := f (db_tokens d)\<rparr>)"

text \<open>INSERT with the unique columns: id and username, id and token prefix.\<close>

definition insert_user :: "user \<Rightarrow> auth_tables \<Rightarrow> unit outcome \<times> auth_tables" where
  "insert_user u d =
     (if us_id u \<in> us_id ` set (db_users d) \<or> us_username u \<in> us_username ` set (db_users d) then (Inl SysFault, d)
      else (Inr (), d\<lparr>db_users := db_users d @ [u]\<rparr>))"

definition insert_token :: "api_token \<Rightarrow> auth_tables \<Rightarrow> unit outcome \<times> auth_tables" where
  "insert_token t d =
     (if at_id t \<in> at_id ` set (db_tokens d) \<or> at_token_prefix t \<in> at_token_prefix ` set (db_tokens d) then (Inl SysFault, d)
      else (Inr (), d\<lparr>db_tokens := db_tokens d @ [t]\<rparr>))"

section \<open>Sessions\<close>

definition sessionTTL :: duration where
  "sessionTTL = 7 * 24 * 60 * 60 * second"

definition sessionExpired :: "session \<Rightarrow> time \<Rightarrow> bool" where
  "sessionExpired s now = (if se_create_at s = 0 then False else time_sub now (se_create_at s) \<ge> sessionTTL)"

definition store_session :: "string \<Rightarrow> session \<Rightarrow> unit auth_prog" where
  "store_session token s =
     bnd (if se_create_at s = 0 then bnd clock (\<lambda>now. ret (s\<lparr>se_create_at := now\<rparr>)) else ret s) (\<lambda>stored w.
     (Inr (), w\<lparr>w_hub := AList.update token stored (w_hub w)\<rparr>))"

definition get_session :: "string \<Rightarrow> session option auth_prog" where
  "get_session token w =
     (case map_of (w_hub w) token of None \<Rightarrow> (Inr None, w)
      | Some s \<Rightarrow> (case clock w of (r, w1) \<Rightarrow>
          if sessionExpired s (projr r) then (Inr None, w1\<lparr>w_hub := AList.delete token (w_hub w1)\<rparr>)
          else (Inr (Some s), w1)))"

definition delete_session :: "string \<Rightarrow> unit auth_prog" where
  "delete_session token w = (Inr (), w\<lparr>w_hub := AList.delete token (w_hub w)\<rparr>)"

text \<open>\<open>token\<close> is what generateTokenWithError draws; None is a failing random source.\<close>

definition createSessionCookie :: "string option \<Rightarrow> user \<Rightarrow> bool auth_prog" where
  "createSessionCookie token u =
     (case token of None \<Rightarrow> ret False
      | Some t \<Rightarrow> bnd (store_session t \<lparr>se_user_id = us_id u, se_username = us_username u,
                         se_role = normalizeRole (us_role u), se_create_at = 0\<rparr>) (\<lambda>_. ret True))"

section \<open>Accounts\<close>

text \<open>The characters of a decoded JSON string, which is valid UTF-8: the validator's \<^verbatim>\<open>min=6\<close> counts
  these.\<close>

definition rune_count :: "string \<Rightarrow> nat" where
  "rune_count s = length (filter (\<lambda>c. \<not> (0x80 \<le> byte c \<and> byte c \<le> 0xBF)) s)"

definition new_user :: "string \<Rightarrow> string \<Rightarrow> string \<Rightarrow> string \<Rightarrow> time \<Rightarrow> user" where
  "new_user uid name hash role now =
     \<lparr>us_id = uid, us_username = name, us_password_hash = hash, us_role = role, us_disabled_at = None,
      us_last_login_at = None, us_created_at = now, us_updated_at = now\<rparr>"

text \<open>The handler holds initMu, so that two set-ups do not interleave.  The request is bound with its
  constraints: a user name, and a password of at least six characters.\<close>

definition InitSetup :: "auth_env \<Rightarrow> string \<Rightarrow> string option \<Rightarrow> string \<Rightarrow> string \<Rightarrow> reply auth_prog" where
  "InitSetup e uid token username password =
     attempt (stmt (\<lambda>d. (Inr (length (db_users d)), d))) (\<lambda>count. case count of
       Inl _ \<Rightarrow> failing 500 ''database error''
     | Inr n \<Rightarrow>
        if n > 0 then failing 400 ''system already initialized''
        else if username = '''' \<or> rune_count password < 6 then failing 400 ''invalid request''
        else case ae_hash e password of Inl _ \<Rightarrow> failing 500 ''password hashing failed''
        | Inr hash \<Rightarrow> bnd clock (\<lambda>now. attempt (stmt (insert_user (new_user uid username hash RoleAdmin now))) (\<lambda>r. case r of
            Inl _ \<Rightarrow> failing 500 ''database error''
          | Inr _ \<Rightarrow> bnd (createSessionCookie token (new_user uid username hash RoleAdmin now)) (\<lambda>ok.
              if ok then ret (Reply 200 '''') else failing 500 ''session creation failed''))))"

definition Login :: "auth_env \<Rightarrow> string option \<Rightarrow> string \<Rightarrow> string \<Rightarrow> reply auth_prog" where
  "Login e token username password =
     (if username = '''' \<or> password = '''' then failing 400 ''invalid request''
      else attempt (stmt (first_user (\<lambda>u. us_username u = username))) (\<lambda>r. case r of
        Inl err \<Rightarrow> if err = NotFound then failing 401 ''invalid credentials'' else failing 500 ''database error''
      | Inr u \<Rightarrow>
         if \<not> ae_hash_ok e (us_password_hash u) password then failing 401 ''invalid credentials''
         else if us_disabled_at u \<noteq> None then failing 401 ''user disabled''
         else bnd clock (\<lambda>loginAt. attempt (stmt (set_users (update_rows (\<lambda>x. us_id x = us_id u)
                 (\<lambda>x. x\<lparr>us_last_login_at := Some loginAt, us_updated_at := loginAt\<rparr>)))) (\<lambda>r. case r of
           Inl _ \<Rightarrow> failing 500 ''database error''
         | Inr _ \<Rightarrow> bnd (createSessionCookie token u) (\<lambda>ok.
             if ok then ret (Reply 200 '''') else failing 500 ''session creation failed'')))))"

definition Logout :: "string option \<Rightarrow> reply auth_prog" where
  "Logout cookie = bnd (case cookie of None \<Rightarrow> ret () | Some t \<Rightarrow> delete_session t) (\<lambda>_. ret (Reply 200 ''''))"

text \<open>The administration of accounts.  Save writes the whole row back.\<close>

definition find_user :: "string \<Rightarrow> (user \<Rightarrow> reply auth_prog) \<Rightarrow> reply auth_prog" where
  "find_user uid k = attempt (stmt (first_user (\<lambda>u. us_id u = uid))) (\<lambda>r. case r of
       Inl err \<Rightarrow> if err = NotFound then failing 404 ''user not found'' else failing 500 ''database error''
     | Inr u \<Rightarrow> k u)"

definition save_user :: "user \<Rightarrow> reply auth_prog" where
  "save_user u = bnd clock (\<lambda>now. attempt (stmt (set_users (update_rows (\<lambda>x. us_id x = us_id u)
       (\<lambda>_. u\<lparr>us_updated_at := now\<rparr>)))) (\<lambda>r. case r of
     Inl _ \<Rightarrow> failing 500 ''database error'' | Inr _ \<Rightarrow> ret (Reply 200 '''')))"

definition user_create :: "auth_env \<Rightarrow> string \<Rightarrow> string \<Rightarrow> string \<Rightarrow> string \<Rightarrow> reply auth_prog" where
  "user_create e uid username password role0 =
     (if username = '''' \<or> rune_count password < 6 \<or> role0 = '''' then failing 400 ''invalid request''
      else if normalizeRole role0 = '''' then failing 400 ''invalid role''
      else case ae_hash e password of Inl _ \<Rightarrow> failing 500 ''password hashing failed''
      | Inr hash \<Rightarrow>
         if trim_space username = '''' then failing 400 ''username is required''
         else bnd clock (\<lambda>now. attempt (stmt (insert_user (new_user uid (trim_space username) hash (normalizeRole role0) now)))
           (\<lambda>r. case r of Inl _ \<Rightarrow> failing 500 ''database error'' | Inr _ \<Rightarrow> ret (Reply 201 ''''))))"

definition user_update :: "string \<Rightarrow> string \<Rightarrow> string \<Rightarrow> reply auth_prog" where
  "user_update uid username role0 =
     find_user uid (\<lambda>u.
       let u1 = (if trim_space username \<noteq> '''' then u\<lparr>us_username := trim_space username\<rparr> else u)
       in if trim_space role0 = '''' then save_user u1
          else if normalizeRole role0 = '''' then failing 400 ''invalid role''
          else save_user (u1\<lparr>us_role := normalizeRole role0\<rparr>))"

definition user_set_disabled :: "string \<Rightarrow> bool \<Rightarrow> reply auth_prog" where
  "user_set_disabled uid disabled =
     find_user uid (\<lambda>u. if disabled then bnd clock (\<lambda>now. save_user (u\<lparr>us_disabled_at := Some now\<rparr>))
                        else save_user (u\<lparr>us_disabled_at := None\<rparr>))"

definition user_reset_password :: "auth_env \<Rightarrow> string \<Rightarrow> string \<Rightarrow> reply auth_prog" where
  "user_reset_password e uid password =
     find_user uid (\<lambda>u. if rune_count password < 6 then failing 400 ''invalid request''
       else case ae_hash e password of Inl _ \<Rightarrow> failing 500 ''password hashing failed''
       | Inr hash \<Rightarrow> save_user (u\<lparr>us_password_hash := hash\<rparr>))"

definition user_delete :: "string \<Rightarrow> reply auth_prog" where
  "user_delete uid =
     attempt (stmt (\<lambda>d. (Inr (affected (\<lambda>u. us_id u = uid) (db_users d)),
                          d\<lparr>db_users := filter (\<lambda>u. us_id u \<noteq> uid) (db_users d)\<rparr>))) (\<lambda>r. case r of
       Inl _ \<Rightarrow> failing 500 ''database error''
     | Inr n \<Rightarrow> if n = 0 then failing 404 ''user not found'' else ret (Reply 200 ''''))"

section \<open>API tokens\<close>

abbreviation apiTokenPrefix :: string where "apiTokenPrefix \<equiv> ''vf''"
abbreviation underscore :: char where "underscore \<equiv> CHR ''_''"

definition plain_token :: "string \<Rightarrow> string \<Rightarrow> string" where
  "plain_token pre secret = apiTokenPrefix @ [underscore] @ pre @ [underscore] @ secret"

definition parseAPITokenPrefix :: "string \<Rightarrow> string option" where
  "parseAPITokenPrefix plain =
     (case split_on underscore (trim_space plain) of
        [a, b, c] \<Rightarrow> if a \<noteq> apiTokenPrefix \<or> b = '''' \<or> c = '''' then None else Some b
      | _ \<Rightarrow> None)"

record create_token_input =
  ct_name :: string
  ct_owner_user_id :: string
  ct_role :: string
  ct_scopes :: "string list"
  ct_expires_at :: "time option"

text \<open>\<open>parts\<close> is what generateAPITokenParts draws: prefix and secret in hexadecimal.\<close>

definition CreateAPIToken ::
  "auth_env \<Rightarrow> string \<Rightarrow> (string \<times> string) option \<Rightarrow> create_token_input \<Rightarrow> (api_token \<times> string) auth_prog" where
  "CreateAPIToken e tid parts i =
     (let role = normalizeRole (ct_role i) in
      if role = '''' then raise (Err ''invalid role'')
      else case ae_scopes_json e (effectivePermissions role (ct_scopes i) True) of Inl err \<Rightarrow> raise err
      | Inr scopes \<Rightarrow> (case parts of None \<Rightarrow> raise SysFault
      | Some (pre, secret) \<Rightarrow> (case ae_hash e (plain_token pre secret) of Inl err \<Rightarrow> raise err
      | Inr hash \<Rightarrow>
         if trim_space (ct_name i) = '''' then raise (Err ''token name is required'')
         else if ct_owner_user_id i = '''' then raise (Err ''owner user id is required'')
         else bnd clock (\<lambda>now.
           let t = \<lparr>at_id = tid, at_name = trim_space (ct_name i), at_token_prefix = pre, at_secret_hash = hash,
                    at_owner_user_id = ct_owner_user_id i, at_role = role, at_scopes = scopes,
                    at_expires_at = ct_expires_at i, at_revoked_at = None, at_last_used_at = None,
                    at_created_at = now, at_updated_at = now\<rparr>
           in bnd (stmt (insert_token t)) (\<lambda>_. ret (t, plain_token pre secret))))))"

definition decodeScopes :: "auth_env \<Rightarrow> string \<Rightarrow> string list" where
  "decodeScopes e raw =
     (if trim_space raw = '''' then [] else case ae_parse_scopes e raw of None \<Rightarrow> [] | Some ss \<Rightarrow> ss)"

definition AuthenticateAPIToken :: "auth_env \<Rightarrow> string \<Rightarrow> api_actor auth_prog" where
  "AuthenticateAPIToken e plain =
     (case parseAPITokenPrefix plain of None \<Rightarrow> raise NotFound
      | Some pre \<Rightarrow>
        bnd (stmt (first_token (\<lambda>t. at_token_prefix t = pre))) (\<lambda>t.
        bnd clock (\<lambda>now.
        if at_revoked_at t \<noteq> None \<or> (case at_expires_at t of None \<Rightarrow> False | Some x \<Rightarrow> \<not> now < x) then raise NotFound
        else if \<not> ae_hash_ok e (at_secret_hash t) plain then raise NotFound
        else bnd (stmt (first_user (\<lambda>u. us_id u = at_owner_user_id t))) (\<lambda>u.
        if us_disabled_at u \<noteq> None then raise NotFound
        else bnd (stmt (set_tokens (update_rows (\<lambda>x. at_id x = at_id t)
               (\<lambda>x. x\<lparr>at_last_used_at := Some now, at_updated_at := now\<rparr>)))) (\<lambda>_.
        let scopes = decodeScopes e (at_scopes t)
        in ret \<lparr>ap_type = ActorTypeAPIToken, ap_user_id = us_id u, ap_username = us_username u,
                ap_role = normalizeRole (at_role t), ap_token_id = at_id t, ap_token_name = at_name t,
                ap_scopes = scopes, ap_permissions = effectivePermissions (at_role t) scopes True\<rparr>)))))"

definition token_revoke :: "string \<Rightarrow> reply auth_prog" where
  "token_revoke tid =
     attempt (stmt (first_token (\<lambda>t. at_id t = tid))) (\<lambda>r. case r of
       Inl err \<Rightarrow> if err = NotFound then failing 404 ''api token not found'' else failing 500 ''database error''
     | Inr t \<Rightarrow> bnd clock (\<lambda>now. attempt (stmt (set_tokens (update_rows (\<lambda>x. at_id x = tid)
           (\<lambda>_. t\<lparr>at_revoked_at := Some now, at_updated_at := now\<rparr>)))) (\<lambda>r. case r of
         Inl _ \<Rightarrow> failing 500 ''database error'' | Inr _ \<Rightarrow> ret (Reply 200 ''''))))"

definition token_delete :: "string \<Rightarrow> reply auth_prog" where
  "token_delete tid =
     attempt (stmt (\<lambda>d. (Inr (affected (\<lambda>t. at_id t = tid) (db_tokens d)),
                          d\<lparr>db_tokens := filter (\<lambda>t. at_id t \<noteq> tid) (db_tokens d)\<rparr>))) (\<lambda>r. case r of
       Inl _ \<Rightarrow> failing 500 ''database error''
     | Inr n \<Rightarrow> if n = 0 then failing 404 ''api token not found'' else ret (Reply 200 ''''))"

section \<open>Requests\<close>

text \<open>A request carries an Authorization header, already split into its fields, and a session cookie.\<close>

record request =
  rq_authorization :: "string list"
  rq_cookie :: "string option"

definition RequireInit :: "(reply + unit) auth_prog" where
  "RequireInit =
     attempt (stmt (\<lambda>d. (Inr (length (db_users d)), d))) (\<lambda>r. case r of
       Inl _ \<Rightarrow> ret (Inl (Reply 500 ''database error''))
     | Inr n \<Rightarrow> if n = 0 then ret (Inl (Reply 409 ''init_required'')) else ret (Inr ()))"

text \<open>The actor of a bearer token; None when the request has no Authorization header.\<close>

definition authenticateBearerActor :: "auth_env \<Rightarrow> string list \<Rightarrow> (reply + api_actor) option auth_prog" where
  "authenticateBearerActor e parts =
     (case parts of [] \<Rightarrow> ret None
      | [scheme, token] \<Rightarrow>
          if \<not> equal_fold scheme ''Bearer'' then ret (Some (Inl (Reply 401 ''unauthorized'')))
          else attempt (AuthenticateAPIToken e token) (\<lambda>r. case r of
            Inl err \<Rightarrow> ret (Some (Inl (Reply (if err = NotFound then 401 else 500) ''unauthorized'')))
          | Inr a \<Rightarrow> ret (Some (Inr a)))
      | _ \<Rightarrow> ret (Some (Inl (Reply 401 ''unauthorized''))))"

definition RequireAuth :: "auth_env \<Rightarrow> request \<Rightarrow> (reply + api_actor) auth_prog" where
  "RequireAuth e rq =
     bnd (authenticateBearerActor e (rq_authorization rq)) (\<lambda>bearer. case bearer of
       Some r \<Rightarrow> ret r
     | None \<Rightarrow> (case rq_cookie rq of None \<Rightarrow> ret (Inl (Reply 401 ''unauthorized''))
     | Some token \<Rightarrow> bnd (get_session token) (\<lambda>s. case s of
         None \<Rightarrow> ret (Inl (Reply 401 ''unauthorized''))
       | Some se \<Rightarrow> attempt (stmt (first_user (\<lambda>u. us_id u = se_user_id se))) (\<lambda>r. case r of
           Inl _ \<Rightarrow> ret (Inl (Reply 401 ''unauthorized''))
         | Inr u \<Rightarrow>
             if us_disabled_at u \<noteq> None then ret (Inl (Reply 401 ''unauthorized''))
             else let role = (if normalizeRole (us_role u) = '''' then RoleAdmin else normalizeRole (us_role u))
                  in ret (Inr \<lparr>ap_type = ActorTypeUser, ap_user_id = us_id u, ap_username = us_username u, ap_role = role,
                               ap_token_id = '''', ap_token_name = '''', ap_scopes = [],
                               ap_permissions = effectivePermissions role [] False\<rparr>)))))"

text \<open>The middleware of a protected route: who may pass to the handler.\<close>

definition admit :: "auth_env \<Rightarrow> request \<Rightarrow> string \<Rightarrow> string \<Rightarrow> (reply + api_actor) auth_prog" where
  "admit e rq meth path =
     bnd RequireInit (\<lambda>i. case i of Inl r \<Rightarrow> ret (Inl r)
     | Inr _ \<Rightarrow> bnd (RequireAuth e rq) (\<lambda>a. case a of Inl r \<Rightarrow> ret (Inl r)
     | Inr actor \<Rightarrow> if AuthorizeByRoute (Some actor) meth path then ret (Inr actor) else ret (Inl (Reply 403 ''forbidden''))))"

end
