(* ===== verification/VF_AuthLaws.thy ===== *)
theory VF_AuthLaws
  imports VF_Auth
begin

text \<open>
  Laws of authentication: who is admitted to a protected route, that set-up runs once, and that a
  created token authenticates its owner.
\<close>

section \<open>Who is admitted\<close>

definition enabled_user :: "auth_tables \<Rightarrow> string \<Rightarrow> bool" where
  "enabled_user d uid \<longleftrightarrow> (\<exists>u \<in> set (db_users d). us_id u = uid \<and> us_disabled_at u = None)"

lemma first_user_run:
  assumes "stmt (first_user p) w = (Inr u, w')" "w_others w = []"
  shows "u \<in> set (db_users (w_db w))" "p u" "w_db w' = w_db w" "w_others w' = []" "w_hub w' = w_hub w"
  using stmt_run [OF assms] first_row_Inr [of us_id p "db_users (w_db w)" u] by (auto simp: first_user_def)

lemma first_token_run:
  assumes "stmt (first_token p) w = (Inr t, w')" "w_others w = []"
  shows "t \<in> set (db_tokens (w_db w))" "p t" "w_db w' = w_db w" "w_others w' = []" "w_hub w' = w_hub w"
  using stmt_run [OF assms] first_row_Inr [of at_id p "db_tokens (w_db w)" t] by (auto simp: first_token_def)

text \<open>What stands behind an actor: an enabled account, and either the account's own role or a valid token.\<close>

definition vouched :: "auth_env \<Rightarrow> auth_tables \<Rightarrow> api_actor \<Rightarrow> bool" where
  "vouched e d a \<longleftrightarrow> enabled_user d (ap_user_id a) \<and>
     (ap_type a = ActorTypeUser \<and> (\<exists>u \<in> set (db_users d). us_id u = ap_user_id a \<and>
        ap_role a = (if normalizeRole (us_role u) = '''' then RoleAdmin else normalizeRole (us_role u))) \<and>
        ap_permissions a = effectivePermissions (ap_role a) [] False \<or>
      ap_type a = ActorTypeAPIToken \<and> (\<exists>t \<in> set (db_tokens d). at_id t = ap_token_id a \<and> at_revoked_at t = None \<and>
        at_owner_user_id t = ap_user_id a \<and> set (ap_permissions a) \<subseteq> set (rolePermissions (at_role t)) \<and>
        set (ap_permissions a) \<subseteq> set (permissionsSet (decodeScopes e (at_scopes t)))))"

lemma token_vouched:
  assumes "AuthenticateAPIToken e plain w = (Inr a, w')" "w_others w = []"
  shows "vouched e (w_db w) a"
proof -
  from assms(1) obtain pre t w1 now w2 u w3 r w4 where
    p: "parseAPITokenPrefix plain = Some pre" and
    t: "stmt (first_token (\<lambda>t. at_token_prefix t = pre)) w = (Inr t, w1)" and
    c: "clock w1 = (Inr now, w2)" and
    ok: "at_revoked_at t = None" "ae_hash_ok e (at_secret_hash t) plain" and
    u: "stmt (first_user (\<lambda>u. us_id u = at_owner_user_id t)) w2 = (Inr u, w3)" "us_disabled_at u = None" and
    a: "a = \<lparr>ap_type = ActorTypeAPIToken, ap_user_id = us_id u, ap_username = us_username u,
        ap_role = normalizeRole (at_role t), ap_token_id = at_id t, ap_token_name = at_name t,
        ap_scopes = decodeScopes e (at_scopes t),
        ap_permissions = effectivePermissions (at_role t) (decodeScopes e (at_scopes t)) True\<rparr>"
    by (auto simp: AuthenticateAPIToken_def bnd_Inr Let_def split: option.splits if_splits)
  note t' = first_token_run [OF t assms(2)]
  note c' = clock_run [OF c]
  have w2: "w_others w2 = []" "w_db w2 = w_db w" using c' t' by simp_all
  note u' = first_user_run [OF u(1) w2(1)]
  show ?thesis
    unfolding vouched_def enabled_user_def using t' u' u(2) w2(2) ok(1)
    by (auto simp: a effectivePermissions_def)
qed

lemma bearer_run:
  assumes "authenticateBearerActor e parts w = (Inr r, w')" "w_others w = []"
  shows "r = None \<and> w' = w \<or> (\<exists>rep. r = Some (Inl rep)) \<or> (\<exists>a. r = Some (Inr a) \<and> vouched e (w_db w) a)"
proof -
  have "vouched e (w_db w) a" if "AuthenticateAPIToken e token w = (Inr a, w1)" for token a w1
    by (rule token_vouched [OF that assms(2)])
  with assms(1) show ?thesis
    by (auto simp: authenticateBearerActor_def attempt_def split: list.splits if_splits prod.splits sum.splits)
qed

lemma get_session_run:
  "get_session token w = (r, w') \<Longrightarrow> w_db w' = w_db w \<and> w_others w' = w_others w"
  using clock_run [of w "fst (clock w)" "snd (clock w)"]
  by (auto simp: get_session_def split: option.splits prod.splits if_splits)

lemma RequireAuth_vouched:
  assumes "RequireAuth e rq w = (Inr (Inr a), w')" "w_others w = []"
  shows "vouched e (w_db w) a"
proof -
  from assms(1) obtain r w1 where b: "authenticateBearerActor e (rq_authorization rq) w = (Inr r, w1)"
    by (auto simp: RequireAuth_def bnd_Inr)
  show ?thesis
  proof (cases r)
    case (Some x)
    with assms(1) b have "x = Inr a" by (auto simp: RequireAuth_def bnd_def)
    with bearer_run [OF b assms(2)] Some show ?thesis by auto
  next
    case None
    with bearer_run [OF b assms(2)] have w1: "w1 = w" by auto
    from assms(1) b None w1 obtain token se w2 q w3 u where
      s: "get_session token w = (Inr (Some se), w2)" and
      u: "stmt (first_user (\<lambda>u. us_id u = se_user_id se)) w2 = (Inr u, w3)" "us_disabled_at u = None" and
      a: "a = \<lparr>ap_type = ActorTypeUser, ap_user_id = us_id u, ap_username = us_username u,
          ap_role = (if normalizeRole (us_role u) = '''' then RoleAdmin else normalizeRole (us_role u)),
          ap_token_id = '''', ap_token_name = '''', ap_scopes = [],
          ap_permissions = effectivePermissions
            (if normalizeRole (us_role u) = '''' then RoleAdmin else normalizeRole (us_role u)) [] False\<rparr>"
      by (auto simp: RequireAuth_def run_cases Let_def)
    from get_session_run [OF s] assms(2) have w2: "w_others w2 = []" "w_db w2 = w_db w" by simp_all
    note u' = first_user_run [OF u(1) w2(1)]
    show ?thesis
      unfolding vouched_def enabled_user_def using u' u(2) w2(2) by (auto simp: a)
  qed
qed


section \<open>Set-up\<close>

text \<open>C18. Set-up works only on a master without accounts: once there is one, InitSetup changes neither
  accounts nor tokens nor sessions; and when it succeeds, the one account is an administrator.\<close>

theorem setup_only_once:
  assumes "InitSetup e uid token username password w = (Inr r, w')" and "w_others w = []"
  shows "(db_users (w_db w) \<noteq> [] \<longrightarrow> w_db w' = w_db w \<and> w_hub w' = w_hub w) \<and>
    (r = Reply 200 '''' \<longrightarrow> (\<exists>u. db_users (w_db w') = [u] \<and> us_role u = RoleAdmin \<and> us_username u = username \<and>
       us_disabled_at u = None))"
proof -
  obtain n w1 where s: "stmt (\<lambda>d. (Inr (length (db_users d)), d)) w = (n, w1)" by fastforce
  from stmt_run [OF s assms(2)] have w1: "w_others w1 = []" "w_db w1 = w_db w" "w_hub w1 = w_hub w"
    and n: "n = Inl SysFault \<or> n = Inr (length (db_users (w_db w)))" by auto
  show ?thesis
  proof (cases "n = Inr 0")
    case False
    with assms(1) s n have "w' = w1 \<and> r \<noteq> Reply 200 ''''"
      by (auto simp: InitSetup_def attempt_def failing_def split: sum.splits if_splits)
    with w1 show ?thesis by simp
  next
    case True
    with n have none: "db_users (w_db w) = []" by auto
    have "\<exists>u. db_users (w_db w') = [u] \<and> us_role u = RoleAdmin \<and> us_username u = username \<and> us_disabled_at u = None"
      if "r = Reply 200 ''''"
    proof -
      from assms(1) s True that obtain hash now w2 u w3 ok where
        c: "clock w1 = (Inr now, w2)" and
        ins: "stmt (insert_user (new_user uid username hash RoleAdmin now)) w2 = (Inr u, w3)" and
        k: "createSessionCookie token (new_user uid username hash RoleAdmin now) w3 = (Inr ok, w')"
        by (auto simp: InitSetup_def failing_def run_cases split: if_splits)
      from clock_run [OF c] w1 have w2: "w_others w2 = []" "w_db w2 = w_db w" by simp_all
      from stmt_run [OF ins w2(1)] w2(2) none have
        "w_db w3 = (w_db w)\<lparr>db_users := [new_user uid username hash RoleAdmin now]\<rparr>"
        by (auto simp: insert_user_def)
      then have "db_users (w_db w3) = [new_user uid username hash RoleAdmin now]" by simp
      moreover have "w_db w' = w_db w3"
        using k by (auto simp: createSessionCookie_def store_session_def bnd_Inr split: option.splits dest!: clock_run)
      ultimately show ?thesis by (simp add: new_user_def)
    qed
    with none show ?thesis by simp
  qed
qed

text \<open>A small environment, and a master after set-up.\<close>

definition sample_env :: auth_env where
  "sample_env =
     \<lparr>ae_hash = (\<lambda>p. Inr (CHR ''#'' # p)), ae_hash_ok = (\<lambda>h p. h = CHR ''#'' # p), ae_scopes_json = (\<lambda>ss. Inr (join_with '','' ss)),
      ae_parse_scopes = (\<lambda>s. Some (split_on (CHR '','') s))\<rparr>"

definition sample_auth :: "(auth_tables, session_store) world" where
  "sample_auth = \<lparr>w_db = \<lparr>db_users = [], db_tokens = []\<rparr>, w_hub = [], w_faults = [], w_others = [], w_clock = [], w_now = 1000\<rparr>"

definition set_up_world :: "(auth_tables, session_store) world" where
  "set_up_world = snd (InitSetup sample_env ''u1'' (Some ''s1'') ''admin'' ''password'' sample_auth)"

text \<open>Deleting the last account opens set-up again: nothing keeps an administrator from deleting its
  own, last account, and from then on anybody can make itself administrator.\<close>

lemma deleting_last_user_reopens_setup:
  "fst (InitSetup sample_env ''u2'' (Some ''s2'') ''mallory'' ''password'' set_up_world) =
     Inr (Reply 400 ''system already initialized'') \<and>
   fst (InitSetup sample_env ''u2'' (Some ''s2'') ''mallory'' ''password'' (snd (user_delete ''u1'' set_up_world))) =
     Inr (Reply 200 '''')"
  by code_simp

section \<open>Tokens\<close>

definition hex_text :: "string \<Rightarrow> bool" where
  "hex_text s \<longleftrightarrow> s \<noteq> '''' \<and> set s \<subseteq> set ''0123456789abcdef''"

lemma parse_plain_token:
  assumes "hex_text pre" "hex_text secret"
  shows "parseAPITokenPrefix (plain_token pre secret) = Some pre"
proof -
  have no: "underscore \<notin> set pre" "underscore \<notin> set secret" "secret \<noteq> []" "pre \<noteq> []"
    using assms by (auto simp: hex_text_def)
  have "last secret \<in> set ''0123456789abcdef''"
    using assms(2) last_in_set [OF no(3)] unfolding hex_text_def by blast
  then have "last (plain_token pre secret) \<in> set ''0123456789abcdef''"
    using no(3) by (simp add: plain_token_def)
  then have "byte (last (plain_token pre secret)) < 0x80 \<and> \<not> ascii_space (last (plain_token pre secret))"
    by (auto simp: ascii_space_def)
  then have "tight (plain_token pre secret)"
    unfolding tight_def by (simp add: plain_token_def ascii_space_def)
  then have "trim_space (plain_token pre secret) = plain_token pre secret" by simp
  moreover have "split_on underscore (plain_token pre secret) = [apiTokenPrefix, pre, secret]"
    using no by (simp add: plain_token_def split_on_append [of _ "apiTokenPrefix", simplified]
        split_on_append split_on_no_sep)
  ultimately show ?thesis using no by (simp add: parseAPITokenPrefix_def)
qed
lemma normalizeRole_idem [simp]: "normalizeRole (normalizeRole role) = normalizeRole role"
proof -
  have "normalizeRole '''' = ''''" "normalizeRole RoleAdmin = RoleAdmin"
    "normalizeRole RoleOperator = RoleOperator" "normalizeRole RoleViewer = RoleViewer" by code_simp+
  moreover have "normalizeRole role \<in> {'''', RoleAdmin, RoleOperator, RoleViewer}"
    unfolding normalizeRole_def Let_def by simp
  ultimately show ?thesis by auto
qed

lemma rolePermissions_normal [simp]: "rolePermissions (normalizeRole role) = rolePermissions role"
  by (simp add: rolePermissions_def)

lemma permissionsSet_idem: "permissionsSet (permissionsSet vs) = permissionsSet vs"
  by (simp add: permissionsSet_def filter_map comp_def)

lemma permissionsSet_role:
  "set vs \<subseteq> set (rolePermissions role) \<Longrightarrow> permissionsSet vs = vs"
proof -
  have "\<exists>xs. rolePermissions role = permissionsSet xs" unfolding rolePermissions_def Let_def
    by (metis (no_types) permissionsSet_def filter.simps(1) list.simps(8))
  then have "list_all (\<lambda>v. trim_space v = v \<and> v \<noteq> '''') (rolePermissions role)"
    by (auto simp: permissionsSet_def list_all_iff)
  moreover assume "set vs \<subseteq> set (rolePermissions role)"
  ultimately show ?thesis by (intro permissionsSet_values) (auto simp: list_all_iff)
qed

text \<open>A scoped token's permissions, stored as its scopes and read back, are the same.\<close>

lemma effectivePermissions_stored:
  "set (effectivePermissions role (effectivePermissions (normalizeRole role) scopes True) True) =
   set (effectivePermissions role scopes True)"
proof -
  have "permissionsSet (effectivePermissions role scopes True) = effectivePermissions role scopes True"
    by (rule permissionsSet_role [of _ role]) (auto simp: effectivePermissions_def)
  then show ?thesis by (auto simp: effectivePermissions_def)
qed

text \<open>What bcrypt and encoding/json promise, at the values at hand.\<close>

definition hash_law :: "auth_env \<Rightarrow> string \<Rightarrow> bool" where
  "hash_law e p \<longleftrightarrow> (case ae_hash e p of Inl _ \<Rightarrow> True | Inr h \<Rightarrow> ae_hash_ok e h p)"

definition scopes_law :: "auth_env \<Rightarrow> string list \<Rightarrow> bool" where
  "scopes_law e ss \<longleftrightarrow> (case ae_scopes_json e ss of Inl _ \<Rightarrow> True
     | Inr j \<Rightarrow> trim_space j \<noteq> '''' \<and> ae_parse_scopes e j = Some ss)"

text \<open>C19. The secret a new token is handed out with is its only way in, and it works: it authenticates
  the token's owner, with exactly the permissions of the token's role that were asked for.\<close>

theorem created_token_authenticates:
  assumes q: "quiet w"
    and c: "CreateAPIToken e tid (Some (pre, secret)) i w = (Inr (t, plain), w1)"
    and hex: "hex_text pre" "hex_text secret"
    and laws: "hash_law e plain" "scopes_law e (effectivePermissions (normalizeRole (ct_role i)) (ct_scopes i) True)"
    and owner: "u \<in> set (db_users (w_db w))" "us_id u = ct_owner_user_id i" "us_disabled_at u = None"
      "distinct (map us_id (db_users (w_db w)))"
    and live: "ct_expires_at i = None"
  shows "\<exists>a w2. AuthenticateAPIToken e plain w1 = (Inr a, w2) \<and> ap_user_id a = us_id u \<and>
    ap_role a = normalizeRole (ct_role i) \<and> ap_token_id a = tid \<and>
    set (ap_permissions a) = set (effectivePermissions (ct_role i) (ct_scopes i) True)"
proof -
  let ?perms = "effectivePermissions (normalizeRole (ct_role i)) (ct_scopes i) True"
  from c q obtain j hash where
    j: "ae_scopes_json e ?perms = Inr j" and hash: "ae_hash e plain = Inr hash" and
    plain: "plain = plain_token pre secret" and
    t: "t = \<lparr>at_id = tid, at_name = trim_space (ct_name i), at_token_prefix = pre, at_secret_hash = hash,
       at_owner_user_id = ct_owner_user_id i, at_role = normalizeRole (ct_role i), at_scopes = j,
       at_expires_at = ct_expires_at i, at_revoked_at = None, at_last_used_at = None,
       at_created_at = w_now w, at_updated_at = w_now w\<rparr>" and
    fresh: "pre \<notin> at_token_prefix ` set (db_tokens (w_db w))" and
    w1: "w1 = w\<lparr>w_db := (w_db w)\<lparr>db_tokens := db_tokens (w_db w) @ [t]\<rparr>\<rparr>"
    by (auto simp: CreateAPIToken_def quiet_run insert_token_def Let_def
        split: sum.splits if_splits option.splits)
  have ok: "ae_hash_ok e hash plain" "decodeScopes e j = ?perms"
    using laws j hash by (simp_all add: hash_law_def scopes_law_def decodeScopes_def)
  have q1: "quiet w1" using q w1 by simp
  have tok: "first_row at_id (\<lambda>x. at_token_prefix x = pre) (db_tokens (w_db w1)) = Inr t"
    by (rule first_row_unique) (use fresh in \<open>auto simp: w1 t\<close>)
  have own: "first_row us_id (\<lambda>x. us_id x = ct_owner_user_id i) (db_users (w_db w1)) = Inr u"
    by (rule first_row_unique) (use owner in \<open>auto simp: w1 distinct_map inj_on_def\<close>)
  have "parseAPITokenPrefix plain = Some pre" unfolding plain by (rule parse_plain_token [OF hex])
  then show ?thesis
    using effectivePermissions_stored [of "ct_role i" "ct_scopes i"] tok own ok owner(2,3) live q1
    by (simp add: AuthenticateAPIToken_def quiet_run first_token_def first_user_def set_tokens_def t Let_def
        effectivePermissions_def)
qed
section \<open>Witnesses\<close>

definition cookie_request :: request where
  "cookie_request = \<lparr>rq_authorization = [], rq_cookie = Some ''s1''\<rparr>"

lemma sample_admitted:
  "(case admit sample_env cookie_request MethodGet ''/api/agents'' set_up_world of
      (Inr (Inr a), w') \<Rightarrow> ap_user_id a = ''u1'' | _ \<Rightarrow> False) \<and> w_others set_up_world = []"
  by code_simp


lemma sample_setup: "fst (InitSetup sample_env ''u1'' (Some ''s1'') ''admin'' ''password'' sample_auth) = Inr (Reply 200 '''')"
  by code_simp

theorem setup_only_once_witness:
  "\<exists>u. db_users (w_db set_up_world) = [u] \<and> us_role u = RoleAdmin \<and> us_disabled_at u = None"
proof -
  have "InitSetup sample_env ''u1'' (Some ''s1'') ''admin'' ''password'' sample_auth = (Inr (Reply 200 ''''), set_up_world)"
    using sample_setup by (simp add: set_up_world_def prod_eq_iff)
  from setup_only_once [OF this] show ?thesis by (auto simp: sample_auth_def)
qed

definition sample_token :: create_token_input where
  "sample_token = \<lparr>ct_name = ''ci'', ct_owner_user_id = ''u1'', ct_role = ''operator'',
     ct_scopes = [PermissionRunBackup, PermissionAdminUsers], ct_expires_at = None\<rparr>"

definition token_world :: "(auth_tables, session_store) world" where
  "token_world = snd (CreateAPIToken sample_env ''t1'' (Some (''ab12'', ''cd34'')) sample_token set_up_world)"

lemma token_created:
  "case CreateAPIToken sample_env ''t1'' (Some (''ab12'', ''cd34'')) sample_token set_up_world of
     (Inr (t, plain), w) \<Rightarrow> plain = ''vf_ab12_cd34'' | _ \<Rightarrow> False"
  by code_simp

lemma token_setup:
  "quiet set_up_world" "hex_text ''ab12''" "hex_text ''cd34''" "hash_law sample_env ''vf_ab12_cd34''"
  "effectivePermissions (normalizeRole (ct_role sample_token)) (ct_scopes sample_token) True = [PermissionRunBackup]"
  "scopes_law sample_env [PermissionRunBackup]"
  by code_simp+

theorem created_token_authenticates_witness:
  "\<exists>a w2. AuthenticateAPIToken sample_env ''vf_ab12_cd34'' token_world = (Inr a, w2) \<and> ap_user_id a = ''u1'' \<and>
     ap_role a = RoleOperator \<and> set (ap_permissions a) = {PermissionRunBackup}"
proof -
  obtain t where t: "CreateAPIToken sample_env ''t1'' (Some (''ab12'', ''cd34'')) sample_token set_up_world =
      (Inr (t, ''vf_ab12_cd34''), token_world)"
    using token_created by (auto simp: token_world_def split: prod.splits sum.splits)
  obtain u where u: "db_users (w_db set_up_world) = [u]" "us_id u = ''u1''" "us_disabled_at u = None"
  proof
    show "db_users (w_db set_up_world) = [hd (db_users (w_db set_up_world))]"
      "us_id (hd (db_users (w_db set_up_world))) = ''u1''"
      "us_disabled_at (hd (db_users (w_db set_up_world))) = None" by code_simp+
  qed
  have r: "normalizeRole (ct_role sample_token) = RoleOperator" by code_simp
  have p: "effectivePermissions (ct_role sample_token) (ct_scopes sample_token) True = [PermissionRunBackup]" by code_simp
  show ?thesis
    using created_token_authenticates [OF token_setup(1) t token_setup(2,3,4), of u] token_setup(5,6) u r p
    by (auto simp: sample_token_def)
qed

end
