(* ===== verification/VF_AgentFiles.thy ===== *)
theory VF_AgentFiles
  imports VF_World VF_Protocol "HOL-Library.AList"
begin

text \<open>
  The agent's files: the calls of package os that the agent makes, its policy store
  (internal/agent/policy/store.go) and its snapshot cache (internal/agent/snapshot_cache.go).

  The file system takes the place of the tables in a \<open>world\<close>: a list of paths with what is there.
  Every call may fail, by the script of faults, and other goroutines may act between two calls.
  Permission bits are not modelled, so a Chmod is a call that changes nothing.
\<close>

section \<open>The file system\<close>

datatype node = Dir | File string

type_synonym fs = "(string \<times> node) list"
type_synonym ('h, 'a) agent_prog = "(fs, 'h, 'a) prog"

definition children :: "string \<Rightarrow> fs \<Rightarrow> string list" where
  "children dir d = sort (map (\<lambda>(p, _). drop (length dir + 1) p)
     (filter (\<lambda>(p, _). has_prefix p (dir @ [slash]) \<and> slash \<notin> set (drop (length dir + 1) p)) d))"

definition stat :: "string \<Rightarrow> ('h, node) agent_prog" where
  "stat p = stmt (\<lambda>d. (case map_of d p of None \<Rightarrow> Inl NotFound | Some n \<Rightarrow> Inr n, d))"

definition read_file :: "string \<Rightarrow> ('h, string) agent_prog" where
  "read_file p = stmt (\<lambda>d. (case map_of d p of Some (File c) \<Rightarrow> Inr c | None \<Rightarrow> Inl NotFound | Some Dir \<Rightarrow> Inl SysFault, d))"

definition put_file :: "string \<Rightarrow> string \<Rightarrow> ('h, unit) agent_prog" where
  "put_file p c = stmt (\<lambda>d. if map_of d p = Some Dir then (Inl SysFault, d) else (Inr (), AList.update p (File c) d))"

text \<open>os.WriteFile opens with O_TRUNC before it writes: a failed write leaves an empty file.\<close>

definition write_file :: "string \<Rightarrow> string \<Rightarrow> ('h, unit) agent_prog" where
  "write_file p c = bnd (put_file p '''') (\<lambda>_. put_file p c)"

definition remove_file :: "string \<Rightarrow> ('h, unit) agent_prog" where
  "remove_file p = stmt (\<lambda>d. case map_of d p of None \<Rightarrow> (Inl NotFound, d)
     | Some n \<Rightarrow> if n = Dir \<and> children p d \<noteq> [] then (Inl SysFault, d) else (Inr (), AList.delete p d))"

definition rename :: "string \<Rightarrow> string \<Rightarrow> ('h, unit) agent_prog" where
  "rename a b = stmt (\<lambda>d. case map_of d a of None \<Rightarrow> (Inl NotFound, d)
     | Some n \<Rightarrow> if n = Dir \<or> map_of d b = Some Dir then (Inl SysFault, d)
                else (Inr (), AList.update b n (AList.delete a d)))"

definition mkdir_all :: "string \<Rightarrow> ('h, unit) agent_prog" where
  "mkdir_all p = stmt (\<lambda>d. case map_of d p of None \<Rightarrow> (Inr (), AList.update p Dir d)
     | Some Dir \<Rightarrow> (Inr (), d) | Some (File _) \<Rightarrow> (Inl SysFault, d))"

definition read_dir :: "string \<Rightarrow> ('h, (string \<times> bool) list) agent_prog" where
  "read_dir p = stmt (\<lambda>d. (case map_of d p of None \<Rightarrow> Inl NotFound | Some (File _) \<Rightarrow> Inl SysFault
     | Some Dir \<Rightarrow> Inr (map (\<lambda>n. (n, map_of d (p @ [slash] @ n) = Some Dir)) (children p d)), d))"

definition chmod :: "string \<Rightarrow> ('h, unit) agent_prog" where
  "chmod p = stmt (\<lambda>d. (if map_of d p = None then Inl NotFound else Inr (), d))"

text \<open>os.CreateTemp with the name it drew: an empty new file.\<close>

definition create_temp :: "string \<Rightarrow> ('h, unit) agent_prog" where
  "create_temp p = stmt (\<lambda>d. if map_of d p \<noteq> None then (Inl Exists, d) else (Inr (), AList.update p (File '''') d))"

text \<open>Errors the code ignores, and removal of what may be gone.\<close>

definition ignoring :: "('h, unit) agent_prog \<Rightarrow> ('h, unit) agent_prog" where
  "ignoring m = attempt m (\<lambda>_. ret ())"

definition missing_ok :: "('h, unit) agent_prog \<Rightarrow> ('h, unit) agent_prog" where
  "missing_ok m = attempt m (\<lambda>r. case r of Inl e \<Rightarrow> if e = NotFound then ret () else raise e | Inr _ \<Rightarrow> ret ())"

section \<open>Policies\<close>

abbreviation DefaultDir :: string where "DefaultDir \<equiv> ''/etc/vaultfleet''"
abbreviation PolicyFileName :: string where "PolicyFileName \<equiv> ''policy.json''"
abbreviation PoliciesDirName :: string where "PoliciesDirName \<equiv> ''policies''"
abbreviation PendingResultsFile :: string where "PendingResultsFile \<equiv> ''pending_results.json''"

record pending_result =
  pr_message_id :: string
  pr_payload :: task_result

text \<open>encoding/json on what the store writes and reads.\<close>

record json_io =
  js_policy :: "policy_push \<Rightarrow> string outcome"
  js_parse_policy :: "string \<Rightarrow> policy_push outcome"
  js_pending :: "pending_result list \<Rightarrow> string outcome"
  js_raw_array :: "string \<Rightarrow> string list outcome"
  js_has_payload :: "string \<Rightarrow> bool outcome"
  js_parse_pending :: "string \<Rightarrow> pending_result outcome"
  js_parse_result :: "string \<Rightarrow> task_result outcome"

definition from_sum :: "'a outcome \<Rightarrow> ('h, 'a) agent_prog" where
  "from_sum r = (case r of Inl e \<Rightarrow> raise e | Inr a \<Rightarrow> ret a)"

definition NewStore :: "string \<Rightarrow> string" where
  "NewStore dir = (if dir = '''' then DefaultDir else dir)"

definition store_path :: "string \<Rightarrow> string \<Rightarrow> string" where
  "store_path dir name = path_join [dir, name]"

definition policyPath :: "string \<Rightarrow> string \<Rightarrow> string" where
  "policyPath dir policyID =
     (if trim_space policyID = '''' then store_path dir PolicyFileName
      else path_join [store_path dir PoliciesDirName, path_base (trim_space policyID) @ ''.json''])"

definition policyKey :: "policy_push \<Rightarrow> string" where
  "policyKey p = (if trim_space (pp_policy_id p) = '''' then ''legacy'' else pp_policy_id p)"

definition parent_dir :: "string \<Rightarrow> string" where
  "parent_dir p = (case rev (split_on slash p) of [] \<Rightarrow> '''' | _ # rest \<Rightarrow> join_with [slash] (rev rest))"

definition writeFile0600 :: "string \<Rightarrow> string \<Rightarrow> ('h, unit) agent_prog" where
  "writeFile0600 p data = bnd (mkdir_all (parent_dir p)) (\<lambda>_. bnd (write_file p data) (\<lambda>_. chmod p))"

definition SavePolicy :: "json_io \<Rightarrow> string \<Rightarrow> policy_push \<Rightarrow> ('h, unit) agent_prog" where
  "SavePolicy js dir p =
     bnd (mkdir_all dir) (\<lambda>_. bnd (from_sum (js_policy js p)) (\<lambda>data. writeFile0600 (policyPath dir (pp_policy_id p)) data))"

definition loadPolicyFile :: "json_io \<Rightarrow> string \<Rightarrow> ('h, policy_push) agent_prog" where
  "loadPolicyFile js p = bnd (read_file p) (\<lambda>data. from_sum (js_parse_policy js data))"

definition LoadPolicyByID :: "json_io \<Rightarrow> string \<Rightarrow> string \<Rightarrow> ('h, policy_push) agent_prog" where
  "LoadPolicyByID js dir policyID = loadPolicyFile js (policyPath dir policyID)"

definition is_json :: "string \<Rightarrow> bool" where
  "is_json name = has_suffix name ''.json''"

text \<open>The loop over the directory; byID is a Go map, read out in the order of its keys.\<close>

fun load_entries :: "json_io \<Rightarrow> string \<Rightarrow> (string \<times> bool) list \<Rightarrow> (string \<times> policy_push) list \<Rightarrow>
    ('h, (string \<times> policy_push) list) agent_prog" where
  "load_entries js dir [] byID = ret byID"
| "load_entries js dir ((name, is_dir) # es) byID =
     (if is_dir \<or> \<not> is_json name then load_entries js dir es byID
      else bnd (loadPolicyFile js (path_join [store_path dir PoliciesDirName, name])) (\<lambda>stored.
        load_entries js dir es (AList.update (policyKey stored) stored byID)))"

definition sorted_policies :: "(string \<times> policy_push) list \<Rightarrow> policy_push list" where
  "sorted_policies byID = map (\<lambda>k. the (map_of byID k)) (sort (map fst byID))"

definition LoadPolicies :: "json_io \<Rightarrow> string \<Rightarrow> ('h, policy_push list) agent_prog" where
  "LoadPolicies js dir =
     attempt (loadPolicyFile js (store_path dir PolicyFileName)) (\<lambda>legacy.
     case (case legacy of Inr p \<Rightarrow> Inr [(policyKey p, p)] | Inl e \<Rightarrow> if e = NotFound then Inr [] else Inl e) of
       Inl e \<Rightarrow> raise e
     | Inr byID0 \<Rightarrow> attempt (read_dir (store_path dir PoliciesDirName)) (\<lambda>entries.
         case (case entries of Inr es \<Rightarrow> Inr es | Inl e \<Rightarrow> if e = NotFound then Inr [] else Inl e) of
           Inl e \<Rightarrow> raise e
         | Inr es \<Rightarrow> bnd (load_entries js dir es byID0) (\<lambda>byID. ret (sorted_policies byID))))"

definition LoadPolicy :: "json_io \<Rightarrow> string \<Rightarrow> ('h, policy_push) agent_prog" where
  "LoadPolicy js dir =
     bnd (LoadPolicies js dir) (\<lambda>policies. if policies = [] then raise NotFound else ret (List.last policies))"

definition DeletePolicy :: "string \<Rightarrow> string \<Rightarrow> ('h, unit) agent_prog" where
  "DeletePolicy dir policyID = missing_ok (remove_file (policyPath dir policyID))"

section \<open>Results that could not be sent\<close>

definition SavePendingResults :: "json_io \<Rightarrow> string \<Rightarrow> pending_result list \<Rightarrow> ('h, unit) agent_prog" where
  "SavePendingResults js dir results =
     bnd (mkdir_all dir) (\<lambda>_. bnd (from_sum (js_pending js results)) (\<lambda>data. writeFile0600 (store_path dir PendingResultsFile) data))"

fun decode_pending :: "json_io \<Rightarrow> string list \<Rightarrow> pending_result list outcome" where
  "decode_pending js [] = Inr []"
| "decode_pending js (raw # raws) =
     (case js_has_payload js raw of Inl e \<Rightarrow> Inl e
      | Inr has \<Rightarrow>
        (case (if has then js_parse_pending js raw
               else case js_parse_result js raw of Inl e \<Rightarrow> Inl e
                    | Inr p \<Rightarrow> Inr \<lparr>pr_message_id = '''', pr_payload = p\<rparr>) of
           Inl e \<Rightarrow> Inl e
         | Inr r \<Rightarrow> (case decode_pending js raws of Inl e \<Rightarrow> Inl e | Inr rs \<Rightarrow> Inr (r # rs))))"

definition LoadPendingResults :: "json_io \<Rightarrow> string \<Rightarrow> ('h, pending_result list) agent_prog" where
  "LoadPendingResults js dir =
     attempt (read_file (store_path dir PendingResultsFile)) (\<lambda>r. case r of
       Inl e \<Rightarrow> if e = NotFound then ret [] else raise e
     | Inr data \<Rightarrow> (case js_raw_array js data of Inl e \<Rightarrow> raise e | Inr raws \<Rightarrow> from_sum (decode_pending js raws)))"

definition ClearPendingResults :: "string \<Rightarrow> ('h, unit) agent_prog" where
  "ClearPendingResults dir = missing_ok (remove_file (store_path dir PendingResultsFile))"

section \<open>The snapshot cache\<close>

record file_entry =
  fe_path :: string
  fe_type :: string
  fe_size :: int
  fe_mtime :: time

record cache_io =
  ci_encode :: "file_entry list \<Rightarrow> string outcome"
  ci_decode :: "string \<Rightarrow> file_entry list outcome"

definition newSnapshotCache :: "string \<Rightarrow> string" where
  "newSnapshotCache configDir = path_join [configDir, ''snapshot-cache'']"

definition cache_file_name :: "string \<Rightarrow> string outcome" where
  "cache_file_name snapshotID =
     (if snapshotID = '''' then Inl (Err ''snapshot id is empty'')
      else if snapshotID = ''.'' \<or> snapshotID = ''..'' \<or> contains snapshotID [slash] \<or> contains snapshotID [backslash]
        then Inl (Err (''invalid snapshot id '' @ quoted snapshotID))
      else Inr (snapshotID @ ''.json''))"

definition cache_path :: "string \<Rightarrow> string \<Rightarrow> string outcome" where
  "cache_path dir snapshotID = (case cache_file_name snapshotID of Inl e \<Rightarrow> Inl e | Inr n \<Rightarrow> Inr (path_join [dir, n]))"

definition cache_has :: "string \<Rightarrow> string \<Rightarrow> ('h, bool) agent_prog" where
  "cache_has dir snapshotID = (case cache_path dir snapshotID of Inl _ \<Rightarrow> ret False
     | Inr p \<Rightarrow> attempt (stat p) (\<lambda>r. ret (\<not> isl r)))"

text \<open>The Boolean of Get tells a hit; a hit that does not decode is an error.\<close>

definition cached_entries :: "cache_io \<Rightarrow> string \<Rightarrow> string \<Rightarrow> ('h, file_entry list option) agent_prog" where
  "cached_entries io dir snapshotID =
     bnd (from_sum (cache_path dir snapshotID)) (\<lambda>p.
     attempt (read_file p) (\<lambda>r. case r of
       Inl e \<Rightarrow> if e = NotFound then ret None else raise e
     | Inr data \<Rightarrow> (case ci_decode io data of
         Inl e \<Rightarrow> raise (Err (''decode snapshot cache '' @ snapshotID @ '': '' @ error_text e))
       | Inr entries \<Rightarrow> ret (Some entries))))"

text \<open>\<open>tmp\<close> is the path CreateTemp draws.\<close>

definition cache_put :: "cache_io \<Rightarrow> string \<Rightarrow> string \<Rightarrow> string \<Rightarrow> file_entry list \<Rightarrow> ('h, unit) agent_prog" where
  "cache_put io dir tmp snapshotID entries =
     bnd (from_sum (cache_path dir snapshotID)) (\<lambda>p.
     bnd (mkdir_all dir) (\<lambda>_.
     bnd (create_temp tmp) (\<lambda>_.
     attempt (bnd (chmod tmp) (\<lambda>_. bnd (from_sum (ci_encode io entries)) (\<lambda>data.
                bnd (put_file tmp data) (\<lambda>_. rename tmp p)))) (\<lambda>r.
     bnd (ignoring (remove_file tmp)) (\<lambda>_. from_sum r)))))"

fun live_files :: "string list \<Rightarrow> string list outcome" where
  "live_files [] = Inr []"
| "live_files (i # is) = (case cache_file_name i of Inl e \<Rightarrow> Inl e
     | Inr n \<Rightarrow> (case live_files is of Inl e \<Rightarrow> Inl e | Inr ns \<Rightarrow> Inr (n # ns)))"

definition cache_sync :: "string \<Rightarrow> string list \<Rightarrow> ('h, unit) agent_prog" where
  "cache_sync dir liveSnapshotIDs =
     bnd (from_sum (live_files liveSnapshotIDs)) (\<lambda>live.
     attempt (read_dir dir) (\<lambda>r. case r of
       Inl e \<Rightarrow> if e = NotFound then ret () else raise e
     | Inr entries \<Rightarrow> for_each (\<lambda>(name, is_dir).
         if is_dir \<or> \<not> has_suffix name ''.json'' \<or> name \<in> set live then ret ()
         else missing_ok (remove_file (path_join [dir, name]))) entries))"

end
