(* ===== verification/VF_AgentTasks.thy ===== *)
theory VF_AgentTasks
  imports VF_Prelude VF_GoLib VF_Protocol
begin

text \<open>
  The tasks of the agent (internal/agent/task_manager.go) and its queue of scheduled backups
  (internal/agent/handler.go, startScheduledBackup and runScheduledBackupQueue).  Each critical
  section is one step; the steps of the goroutines interleave freely.
\<close>

section \<open>The task manager\<close>

definition taskTypeBackup :: string where "taskTypeBackup = ''backup''"
definition taskTypeRestore :: string where "taskTypeRestore = ''restore''"
definition taskTypeVerify :: string where "taskTypeVerify = ''verify''"
definition taskTypeQuery :: string where "taskTypeQuery = ''query''"

lemma task_types_distinct [simp]:
  "distinct [taskTypeBackup, taskTypeRestore, taskTypeVerify, taskTypeQuery]"
  by (simp add: taskTypeBackup_def taskTypeRestore_def taskTypeVerify_def taskTypeQuery_def)

lemma task_type_eqs [simp]:
  "taskTypeBackup \<noteq> taskTypeRestore" "taskTypeRestore \<noteq> taskTypeBackup" "taskTypeBackup \<noteq> taskTypeVerify"
  "taskTypeVerify \<noteq> taskTypeBackup" "taskTypeRestore \<noteq> taskTypeVerify" "taskTypeVerify \<noteq> taskTypeRestore"
  using task_types_distinct by auto

definition errBackupAlreadyRunning :: go_error where "errBackupAlreadyRunning = Err ''backup already running''"
definition errRestoreAlreadyRunning :: go_error where "errRestoreAlreadyRunning = Err ''restore already running''"
definition errVerifyAlreadyRunning :: go_error where "errVerifyAlreadyRunning = Err ''backup verification already running''"

text \<open>A goroutine that runs a task; the map leads from a message to the goroutine whose context its
  cancel function belongs to.\<close>

record running_task =
  rt_id :: nat
  rt_message_id :: string
  rt_type :: string
  rt_cancelled :: bool

record task_manager =
  tm_tasks :: "(string \<times> nat) list"
  tm_backup_slot :: bool
  tm_restore_slot :: bool
  tm_verify_slot :: bool
  tm_running :: "running_task list"
  tm_next :: nat

definition newTaskManager :: task_manager where
  "newTaskManager = \<lparr>tm_tasks = [], tm_backup_slot = False, tm_restore_slot = False, tm_verify_slot = False,
     tm_running = [], tm_next = 0\<rparr>"

definition take_slot :: "string \<Rightarrow> task_manager \<Rightarrow> task_manager outcome" where
  "take_slot taskType tm =
     (if taskType = taskTypeBackup then
        (if tm_backup_slot tm \<or> tm_verify_slot tm then Inl errBackupAlreadyRunning else Inr (tm\<lparr>tm_backup_slot := True\<rparr>))
      else if taskType = taskTypeRestore then
        (if tm_restore_slot tm then Inl errRestoreAlreadyRunning else Inr (tm\<lparr>tm_restore_slot := True\<rparr>))
      else if taskType = taskTypeVerify then
        (if tm_backup_slot tm \<or> tm_verify_slot tm then Inl errVerifyAlreadyRunning else Inr (tm\<lparr>tm_verify_slot := True\<rparr>))
      else Inr tm)"

definition put_task :: "string \<Rightarrow> nat \<Rightarrow> (string \<times> nat) list \<Rightarrow> (string \<times> nat) list" where
  "put_task m n ts = (m, n) # filter (\<lambda>(k, _). k \<noteq> m) ts"

definition start_task :: "string \<Rightarrow> string \<Rightarrow> task_manager \<Rightarrow> task_manager outcome" where
  "start_task messageID taskType tm =
     (case take_slot taskType tm of Inl e \<Rightarrow> Inl e
      | Inr tm1 \<Rightarrow> Inr (tm1\<lparr>tm_tasks := put_task messageID (tm_next tm) (tm_tasks tm1),
          tm_running := tm_running tm1 @ [\<lparr>rt_id = tm_next tm, rt_message_id = messageID, rt_type = taskType, rt_cancelled = False\<rparr>],
          tm_next := tm_next tm + 1\<rparr>))"

text \<open>The deferred function of a task's goroutine.\<close>

definition finish_task :: "running_task \<Rightarrow> task_manager \<Rightarrow> task_manager" where
  "finish_task r tm =
     (let tm1 = tm\<lparr>tm_tasks := filter (\<lambda>(k, _). k \<noteq> rt_message_id r) (tm_tasks tm),
                   tm_running := filter (\<lambda>x. rt_id x \<noteq> rt_id r) (tm_running tm)\<rparr>
      in if rt_type r = taskTypeBackup then tm1\<lparr>tm_backup_slot := False\<rparr>
         else if rt_type r = taskTypeRestore then tm1\<lparr>tm_restore_slot := False\<rparr>
         else if rt_type r = taskTypeVerify then tm1\<lparr>tm_verify_slot := False\<rparr>
         else tm1)"

definition cancel_context :: "nat \<Rightarrow> running_task \<Rightarrow> running_task" where
  "cancel_context n r = (if rt_id r = n then r\<lparr>rt_cancelled := True\<rparr> else r)"

definition cancel_task :: "string \<Rightarrow> task_manager \<Rightarrow> bool \<times> task_manager" where
  "cancel_task messageID tm =
     (case map_of (tm_tasks tm) messageID of None \<Rightarrow> (False, tm)
      | Some n \<Rightarrow> (True, tm\<lparr>tm_running := map (cancel_context n) (tm_running tm)\<rparr>))"

inductive task_step :: "task_manager \<Rightarrow> task_manager \<Rightarrow> bool" where
  start: "start_task m ty tm = Inr tm' \<Longrightarrow> task_step tm tm'"
| finish: "r \<in> set (tm_running tm) \<Longrightarrow> task_step tm (finish_task r tm)"
| cancel: "task_step tm (snd (cancel_task m tm))"

section \<open>Slots\<close>

definition running_of :: "string \<Rightarrow> task_manager \<Rightarrow> running_task list" where
  "running_of ty tm = filter (\<lambda>r. rt_type r = ty) (tm_running tm)"

text \<open>A slot is taken exactly while its one task runs.\<close>

definition slot_ok :: "string \<Rightarrow> bool \<Rightarrow> task_manager \<Rightarrow> bool" where
  "slot_ok ty taken tm \<longleftrightarrow> length (running_of ty tm) = (if taken then 1 else 0)"

definition tasks_ok :: "task_manager \<Rightarrow> bool" where
  "tasks_ok tm \<longleftrightarrow> distinct (map rt_id (tm_running tm)) \<and> (\<forall>r \<in> set (tm_running tm). rt_id r < tm_next tm) \<and>
     slot_ok taskTypeBackup (tm_backup_slot tm) tm \<and> slot_ok taskTypeRestore (tm_restore_slot tm) tm \<and>
     slot_ok taskTypeVerify (tm_verify_slot tm) tm \<and> \<not> (tm_backup_slot tm \<and> tm_verify_slot tm)"

lemma tasks_ok_new: "tasks_ok newTaskManager"
  by (simp add: tasks_ok_def newTaskManager_def slot_ok_def running_of_def)

lemma take_slot_same:
  "take_slot ty tm = Inr tm' \<Longrightarrow> tm_running tm' = tm_running tm \<and> tm_next tm' = tm_next tm \<and> tm_tasks tm' = tm_tasks tm"
  by (auto simp: take_slot_def split: if_splits)

lemma start_task_run:
  assumes "start_task m ty tm = Inr tm'"
  shows "\<exists>tm1. take_slot ty tm = Inr tm1 \<and>
    tm_running tm' = tm_running tm @ [\<lparr>rt_id = tm_next tm, rt_message_id = m, rt_type = ty, rt_cancelled = False\<rparr>] \<and>
    tm_next tm' = tm_next tm + 1 \<and> tm_tasks tm' = put_task m (tm_next tm) (tm_tasks tm) \<and>
    tm_backup_slot tm' = tm_backup_slot tm1 \<and> tm_restore_slot tm' = tm_restore_slot tm1 \<and> tm_verify_slot tm' = tm_verify_slot tm1"
proof (cases "take_slot ty tm")
  case (Inr tm1)
  with take_slot_same [OF Inr] assms show ?thesis by (auto simp: start_task_def)
next
  case (Inl e)
  with assms show ?thesis by (simp add: start_task_def)
qed

lemma tasks_ok_start:
  assumes ok: "tasks_ok tm" and s: "start_task m ty tm = Inr tm'"
  shows "tasks_ok tm'"
proof -
  from start_task_run [OF s] obtain tm1 where t: "take_slot ty tm = Inr tm1" and
    run: "tm_running tm' = tm_running tm @ [\<lparr>rt_id = tm_next tm, rt_message_id = m, rt_type = ty, rt_cancelled = False\<rparr>]"
      "tm_next tm' = tm_next tm + 1"
      "tm_backup_slot tm' = tm_backup_slot tm1" "tm_restore_slot tm' = tm_restore_slot tm1"
      "tm_verify_slot tm' = tm_verify_slot tm1" by blast
  have len: "length (running_of k tm') = length (running_of k tm) + (if ty = k then 1 else 0)" for k
    by (simp add: running_of_def run)
  have ids: "distinct (map rt_id (tm_running tm'))" "\<forall>r \<in> set (tm_running tm'). rt_id r < tm_next tm'"
    using ok by (auto simp: run tasks_ok_def less_Suc_eq)
  from t ok ids show ?thesis
    unfolding tasks_ok_def slot_ok_def len run(2-5) by (auto simp: take_slot_def split: if_splits)
qed

lemma running_of_finish:
  assumes "distinct (map rt_id (tm_running tm))" "r \<in> set (tm_running tm)"
  shows "length (running_of ty (finish_task r tm)) = length (running_of ty tm) - (if rt_type r = ty then 1 else 0)"
proof -
  obtain xs ys where s: "tm_running tm = xs @ r # ys" using assms(2) by (meson split_list)
  with assms(1) have "\<forall>x \<in> set (xs @ ys). rt_id x \<noteq> rt_id r" by (auto simp: rev_image_eqI)
  then have "filter (\<lambda>x. rt_id x \<noteq> rt_id r) xs = xs" "filter (\<lambda>x. rt_id x \<noteq> rt_id r) ys = ys"
    by (simp_all add: filter_id_conv)
  then have "filter (\<lambda>x. rt_id x \<noteq> rt_id r) (tm_running tm) = xs @ ys" using s by simp
  moreover have "tm_running (finish_task r tm) = filter (\<lambda>x. rt_id x \<noteq> rt_id r) (tm_running tm)"
    by (simp add: finish_task_def Let_def)
  ultimately show ?thesis using s by (simp add: running_of_def)
qed

lemma tasks_ok_finish:
  assumes ok: "tasks_ok tm" and r: "r \<in> set (tm_running tm)"
  shows "tasks_ok (finish_task r tm)"
proof -
  have d: "distinct (map rt_id (tm_running tm))" using ok by (simp add: tasks_ok_def)
  have "r \<in> set (running_of (rt_type r) tm)" using r by (simp add: running_of_def)
  then have pos: "length (running_of (rt_type r) tm) > 0" by (metis length_pos_if_in_set)
  have slot: "slot_ok ty (taken \<and> rt_type r \<noteq> ty) (finish_task r tm)" if "slot_ok ty taken tm" for ty taken
    using that pos running_of_finish [OF d r, of ty] by (auto simp: slot_ok_def split: if_splits)
  have run: "tm_running (finish_task r tm) = filter (\<lambda>x. rt_id x \<noteq> rt_id r) (tm_running tm)"
    "tm_next (finish_task r tm) = tm_next tm"
    "tm_backup_slot (finish_task r tm) = (tm_backup_slot tm \<and> rt_type r \<noteq> taskTypeBackup)"
    "tm_restore_slot (finish_task r tm) = (tm_restore_slot tm \<and> rt_type r \<noteq> taskTypeRestore)"
    "tm_verify_slot (finish_task r tm) = (tm_verify_slot tm \<and> rt_type r \<noteq> taskTypeVerify)"
    by (simp_all add: finish_task_def Let_def)
  have "distinct (map rt_id (tm_running (finish_task r tm)))" unfolding run by (rule distinct_map_filter [OF d])
  moreover have "\<forall>x \<in> set (tm_running (finish_task r tm)). rt_id x < tm_next (finish_task r tm)"
    using ok by (simp add: run(1,2) tasks_ok_def)
  moreover have "slot_ok taskTypeBackup (tm_backup_slot tm) tm" "slot_ok taskTypeRestore (tm_restore_slot tm) tm"
    "slot_ok taskTypeVerify (tm_verify_slot tm) tm" "\<not> (tm_backup_slot tm \<and> tm_verify_slot tm)"
    using ok unfolding tasks_ok_def by blast+
  ultimately show ?thesis
    unfolding tasks_ok_def [of "finish_task r tm"] run(3-5) by (blast intro: slot)
qed

lemma cancel_context_fields [simp]:
  "rt_id (cancel_context n r) = rt_id r" "rt_type (cancel_context n r) = rt_type r"
  "rt_message_id (cancel_context n r) = rt_message_id r"
  by (simp_all add: cancel_context_def)

lemma tasks_ok_cancel: "tasks_ok tm \<Longrightarrow> tasks_ok (snd (cancel_task m tm))"
  by (cases "map_of (tm_tasks tm) m")
    (simp_all add: cancel_task_def tasks_ok_def slot_ok_def running_of_def comp_def)

lemma tasks_ok_step: "task_step tm tm' \<Longrightarrow> tasks_ok tm \<Longrightarrow> tasks_ok tm'"
  by (induction rule: task_step.induct) (auto intro: tasks_ok_start tasks_ok_finish tasks_ok_cancel)

lemma tasks_ok_reachable: "task_step\<^sup>*\<^sup>* newTaskManager tm \<Longrightarrow> tasks_ok tm"
  by (induction rule: rtranclp_induct) (auto intro: tasks_ok_new tasks_ok_step)
section \<open>Scheduled backups\<close>

definition policyScheduleJobID :: "policy_push \<Rightarrow> string" where
  "policyScheduleJobID p = (if trim_space (pp_policy_id p) \<noteq> '''' then ''policy:'' @ pp_policy_id p else pp_agent_id p)"

text \<open>Where a worker goroutine is: at the head of its loop, trying to start a backup (and sleeping
  between two tries), waiting for its \<open>done\<close> channel, or about to clear the pending entry.\<close>

datatype worker = WTop | WTry policy_push string | WWait policy_push nat | WClear policy_push

text \<open>\<open>sq_ended\<close> holds the goroutines whose function has returned but whose deferred function has not
  run; \<open>sq_started\<close> logs the policies whose scheduled backup was started.\<close>

record scheduled =
  sq_tm :: task_manager
  sq_queue :: "policy_push list"
  sq_pending :: "string list"
  sq_flag :: bool
  sq_workers :: "worker list"
  sq_ended :: "nat list"
  sq_started :: "policy_push list"

definition no_schedule :: scheduled where
  "no_schedule = \<lparr>sq_tm = newTaskManager, sq_queue = [], sq_pending = [], sq_flag = False, sq_workers = [],
     sq_ended = [], sq_started = []\<rparr>"

definition startScheduledBackup :: "policy_push \<Rightarrow> scheduled \<Rightarrow> scheduled" where
  "startScheduledBackup p s =
     (let k = policyScheduleJobID p in
      if k \<in> set (sq_pending s) then s
      else let s1 = s\<lparr>sq_pending := k # sq_pending s, sq_queue := sq_queue s @ [p]\<rparr>
           in if sq_flag s then s1 else s1\<lparr>sq_flag := True, sq_workers := sq_workers s1 @ [WTop]\<rparr>)"

text \<open>One step of a worker: what becomes of it and of the rest.  \<open>mid\<close> is the message id drawn, if
  the random source does not fail.\<close>

definition pop_queue :: "string option \<Rightarrow> scheduled \<Rightarrow> worker list \<times> scheduled" where
  "pop_queue mid s =
     (case sq_queue s of [] \<Rightarrow> ([], s\<lparr>sq_flag := False\<rparr>)
      | p # ps \<Rightarrow> ([case mid of None \<Rightarrow> WClear p | Some m \<Rightarrow> WTry p m], s\<lparr>sq_queue := ps\<rparr>))"

fun worker_move :: "string option \<Rightarrow> worker \<Rightarrow> scheduled \<Rightarrow> worker list \<times> scheduled" where
  "worker_move mid WTop s = pop_queue mid s"
| "worker_move mid (WTry p m) s =
     (case start_task m taskTypeBackup (sq_tm s) of
        Inr tm \<Rightarrow> ([WWait p (tm_next (sq_tm s))], s\<lparr>sq_tm := tm, sq_started := sq_started s @ [p]\<rparr>)
      | Inl e \<Rightarrow> (if e = errBackupAlreadyRunning then [WTry p m] else [WClear p], s))"
| "worker_move mid (WWait p n) s =
     (if n \<in> set (sq_ended s) \<or> n \<notin> rt_id ` set (tm_running (sq_tm s)) then [WClear p] else [WWait p n], s)"
| "worker_move mid (WClear p) s =
     ([WTop], s\<lparr>sq_pending := removeAll (policyScheduleJobID p) (sq_pending s)\<rparr>)"

inductive sched_step :: "scheduled \<Rightarrow> scheduled \<Rightarrow> bool" where
  trigger: "sched_step s (startScheduledBackup p s)"
| work: "sq_workers s = us @ w # vs \<Longrightarrow> worker_move mid w s = (ws, s') \<Longrightarrow>
    sched_step s (s'\<lparr>sq_workers := us @ ws @ vs\<rparr>)"
| returns: "r \<in> set (tm_running (sq_tm s)) \<Longrightarrow> sched_step s (s\<lparr>sq_ended := rt_id r # sq_ended s\<rparr>)"
| ends: "r \<in> set (tm_running (sq_tm s)) \<Longrightarrow> rt_id r \<in> set (sq_ended s) \<Longrightarrow>
    sched_step s (s\<lparr>sq_tm := finish_task r (sq_tm s)\<rparr>)"
| start: "start_task m ty (sq_tm s) = Inr tm \<Longrightarrow> sched_step s (s\<lparr>sq_tm := tm\<rparr>)"
| cancel: "sched_step s (s\<lparr>sq_tm := snd (cancel_task m (sq_tm s))\<rparr>)"

fun in_hand :: "worker \<Rightarrow> policy_push list" where
  "in_hand WTop = []"
| "in_hand (WTry p m) = [p]"
| "in_hand (WWait p n) = [p]"
| "in_hand (WClear p) = [p]"

definition waiting_keys :: "scheduled \<Rightarrow> string list" where
  "waiting_keys s = map policyScheduleJobID (concat (map in_hand (sq_workers s)) @ sq_queue s)"

definition sched_ok :: "scheduled \<Rightarrow> bool" where
  "sched_ok s \<longleftrightarrow> tasks_ok (sq_tm s) \<and> length (sq_workers s) = (if sq_flag s then 1 else 0) \<and>
     distinct (waiting_keys s) \<and> set (sq_pending s) = set (waiting_keys s) \<and>
     (sq_queue s \<noteq> [] \<longrightarrow> sq_flag s)"

lemma sched_ok_none: "sched_ok no_schedule"
  by (simp add: sched_ok_def no_schedule_def tasks_ok_new waiting_keys_def)

lemma sched_ok_trigger: "sched_ok s \<Longrightarrow> sched_ok (startScheduledBackup p s)"
  by (auto simp: sched_ok_def startScheduledBackup_def Let_def waiting_keys_def)

lemma sched_ok_one:
  assumes "sched_ok s" "sq_workers s = us @ w # vs"
  shows "sq_workers s = [w]" "us = []" "vs = []" "sq_flag s"
  using assms by (auto simp: sched_ok_def split: if_splits)

lemma start_task_ok: "tasks_ok (sq_tm s) \<Longrightarrow> start_task m ty (sq_tm s) = Inr tm \<Longrightarrow> tasks_ok tm"
  by (rule tasks_ok_start)

lemma sched_ok_work:
  assumes ok: "sched_ok s" and w: "sq_workers s = [w]" and m: "worker_move mid w s = (ws, s')"
  shows "sched_ok (s'\<lparr>sq_workers := ws\<rparr>)"
proof -
  have flag: "sq_flag s" using ok w by (simp add: sched_ok_def split: if_splits)
  show ?thesis
  proof (cases w)
    case WTop
    with ok w flag m show ?thesis
      by (cases "sq_queue s")
        (auto simp: sched_ok_def waiting_keys_def pop_queue_def split: option.splits)
  next
    case (WTry p m')
    show ?thesis
    proof (cases "start_task m' taskTypeBackup (sq_tm s)")
      case (Inl e)
      with m WTry have "s' = s" "concat (map in_hand ws) = [p]" by (auto split: if_splits)
      moreover have "length ws = 1" using Inl m WTry by (auto split: if_splits)
      ultimately show ?thesis using ok flag w WTry by (simp add: sched_ok_def waiting_keys_def)
    next
      case (Inr tm)
      then have "tasks_ok tm" using ok by (auto simp: sched_ok_def intro: start_task_ok)
      with Inr ok w flag m WTry show ?thesis by (auto simp: sched_ok_def waiting_keys_def)
    qed
  next
    case (WWait p n)
    with m have "s' = s" "concat (map in_hand ws) = [p]" "length ws = 1" by (auto split: if_splits)
    with ok flag w WWait show ?thesis by (simp add: sched_ok_def waiting_keys_def)
  next
    case (WClear p)
    with ok w flag m show ?thesis
      by (auto simp: sched_ok_def waiting_keys_def)
  qed
qed

lemma sched_ok_step: "sched_step s s' \<Longrightarrow> sched_ok s \<Longrightarrow> sched_ok s'"
proof (induction rule: sched_step.induct)
  case (trigger s p)
  then show ?case by (simp add: sched_ok_trigger)
next
  case (work s us w vs mid ws s')
  with sched_ok_one [OF work.prems work.hyps(1)] show ?case by (auto intro: sched_ok_work)
qed (auto simp: sched_ok_def waiting_keys_def intro: tasks_ok_start tasks_ok_finish tasks_ok_cancel)

definition sched_reachable :: "scheduled \<Rightarrow> bool" where
  "sched_reachable = sched_step\<^sup>*\<^sup>* no_schedule"

lemma sched_ok_reachable: "sched_reachable s \<Longrightarrow> sched_ok s"
  unfolding sched_reachable_def
  by (induction rule: rtranclp_induct) (auto intro: sched_ok_none sched_ok_step)
section \<open>What the slots and the queue guarantee\<close>

text \<open>C24. At most one backup or verification and at most one restore run at any time, however requests,
  finishing tasks and cancellations interleave; and a backup is refused only while one of them runs.\<close>

theorem slots_exclusive:
  assumes "task_step\<^sup>*\<^sup>* newTaskManager tm"
  shows "length (running_of taskTypeBackup tm) + length (running_of taskTypeVerify tm) \<le> 1 \<and>
    length (running_of taskTypeRestore tm) \<le> 1 \<and>
    (isl (start_task m taskTypeBackup tm) \<longleftrightarrow> running_of taskTypeBackup tm @ running_of taskTypeVerify tm \<noteq> [])"
proof -
  have ok: "tasks_ok tm" by (rule tasks_ok_reachable [OF assms])
  then have "isl (start_task m taskTypeBackup tm) \<longleftrightarrow> tm_backup_slot tm \<or> tm_verify_slot tm"
    by (simp add: start_task_def take_slot_def)
  with ok show ?thesis by (auto simp: tasks_ok_def slot_ok_def split: if_splits)
qed

theorem slots_exclusive_witness:
  "\<exists>tm. task_step\<^sup>*\<^sup>* newTaskManager tm \<and> length (running_of taskTypeBackup tm) = 1 \<and>
     length (running_of taskTypeVerify tm) = 0 \<and> isl (start_task ''m2'' taskTypeBackup tm)"
proof -
  let ?tm = "projr (start_task ''m1'' taskTypeBackup newTaskManager)"
  have s: "start_task ''m1'' taskTypeBackup newTaskManager = Inr ?tm" by code_simp
  have one: "length (running_of taskTypeBackup ?tm) = 1" by code_simp
  from s have "task_step\<^sup>*\<^sup>* newTaskManager ?tm" by (blast intro: task_step.start)
  with slots_exclusive [OF this, of "''m2''"] one show ?thesis by (intro exI [of _ ?tm]) auto
qed

definition twin_queries :: task_manager where
  "twin_queries = projr (start_task ''m'' taskTypeQuery (projr (start_task ''m'' taskTypeQuery newTaskManager)))"


text \<open>Letting the running tasks end.\<close>

definition same_queue :: "scheduled \<Rightarrow> scheduled \<Rightarrow> bool" where
  "same_queue s s' \<longleftrightarrow> sq_queue s' = sq_queue s \<and> sq_pending s' = sq_pending s \<and> sq_flag s' = sq_flag s \<and>
     sq_workers s' = sq_workers s \<and> sq_started s' = sq_started s"

lemma tasks_can_end:
  "\<exists>s'. sched_step\<^sup>*\<^sup>* s s' \<and> tm_running (sq_tm s') = [] \<and> same_queue s s'"
proof (induction "length (tm_running (sq_tm s))" arbitrary: s rule: less_induct)
  case less
  show ?case
  proof (cases "tm_running (sq_tm s)")
    case Nil
    then show ?thesis by (auto simp: same_queue_def)
  next
    case (Cons r rs)
    let ?s1 = "s\<lparr>sq_ended := rt_id r # sq_ended s\<rparr>"
    let ?s2 = "?s1\<lparr>sq_tm := finish_task r (sq_tm ?s1)\<rparr>"
    have "sched_step s ?s1" using Cons by (intro sched_step.returns) simp
    moreover have "sched_step ?s1 ?s2" using Cons by (intro sched_step.ends) simp_all
    moreover have "length (tm_running (sq_tm ?s2)) < length (tm_running (sq_tm s))"
      by (simp add: finish_task_def Let_def Cons less_Suc_eq_le)
    from less.hyps [OF this] obtain s' where
      "sched_step\<^sup>*\<^sup>* ?s2 s'" "tm_running (sq_tm s') = []" "same_queue ?s2 s'" by blast
    ultimately show ?thesis
      by (intro exI [of _ s']) (auto simp: same_queue_def intro: converse_rtranclp_into_rtranclp)
  qed
qed

lemma work_one: "sq_workers s = [w] \<Longrightarrow> worker_move mid w s = (ws, s') \<Longrightarrow> sched_step s (s'\<lparr>sq_workers := ws\<rparr>)"
  using sched_step.work [of s "[]" w "[]"] by simp

text \<open>From any place in its loop the worker comes back to the head of it.\<close>

definition at_top :: "scheduled \<Rightarrow> policy_push list \<Rightarrow> scheduled \<Rightarrow> bool" where
  "at_top s ps s' \<longleftrightarrow> sched_step\<^sup>*\<^sup>* s s' \<and> sched_ok s' \<and> sq_workers s' = [WTop] \<and> sq_queue s' = sq_queue s \<and>
     sq_started s' = sq_started s @ ps"

lemma sched_ok_steps: "sched_step\<^sup>*\<^sup>* s s' \<Longrightarrow> sched_ok s \<Longrightarrow> sched_ok s'"
  by (induction rule: rtranclp_induct) (auto intro: sched_ok_step)

lemma top_from_clear:
  assumes "sched_ok s" "sq_workers s = [WClear p]"
  shows "\<exists>s'. at_top s [] s'"
proof -
  let ?s' = "s\<lparr>sq_pending := removeAll (policyScheduleJobID p) (sq_pending s), sq_workers := [WTop]\<rparr>"
  have step: "sched_step s ?s'" using work_one [OF assms(2)] by simp
  with assms(1) have "sched_ok ?s'" by (blast intro: sched_ok_step)
  with step show ?thesis by (intro exI [of _ ?s']) (auto simp: at_top_def)
qed

lemma top_from_wait:
  assumes "sched_ok s" "sq_workers s = [WWait p n]"
  shows "\<exists>s'. at_top s [] s'"
proof -
  obtain s1 where s1: "sched_step\<^sup>*\<^sup>* s s1" "tm_running (sq_tm s1) = []" "same_queue s s1" using tasks_can_end by blast
  then have w: "sq_workers s1 = [WWait p n]" using assms by (simp add: same_queue_def)
  let ?s2 = "s1\<lparr>sq_workers := [WClear p]\<rparr>"
  have step: "sched_step s1 ?s2" using work_one [OF w] s1(2) by simp
  with s1 assms(1) have path: "sched_step\<^sup>*\<^sup>* s ?s2" and ok: "sched_ok ?s2"
    by (auto intro: rtranclp.rtrancl_into_rtrancl sched_ok_steps sched_ok_step)
  obtain s' where "at_top ?s2 [] s'" using top_from_clear [OF ok] by auto
  with path s1(3) show ?thesis
    by (intro exI [of _ s']) (auto simp: at_top_def same_queue_def intro: rtranclp_trans)
qed

lemma free_slot: "tasks_ok tm \<Longrightarrow> tm_running tm = [] \<Longrightarrow> \<exists>tm'. start_task m taskTypeBackup tm = Inr tm'"
  by (auto simp: start_task_def take_slot_def tasks_ok_def slot_ok_def running_of_def split: if_splits)

lemma top_from_try:
  assumes "sched_ok s" "sq_workers s = [WTry p m]"
  shows "\<exists>s'. at_top s [p] s'"
proof -
  obtain s1 where s1: "sched_step\<^sup>*\<^sup>* s s1" "tm_running (sq_tm s1) = []" "same_queue s s1" using tasks_can_end by blast
  then have w: "sq_workers s1 = [WTry p m]" using assms by (simp add: same_queue_def)
  have ok1: "sched_ok s1" using s1(1) assms(1) by (rule sched_ok_steps)
  with s1(2) free_slot obtain tm where tm: "start_task m taskTypeBackup (sq_tm s1) = Inr tm"
    unfolding sched_ok_def by blast
  let ?s2 = "s1\<lparr>sq_tm := tm, sq_started := sq_started s1 @ [p], sq_workers := [WWait p (tm_next (sq_tm s1))]\<rparr>"
  have step: "sched_step s1 ?s2" using work_one [OF w] tm by simp
  with s1 assms(1) have path: "sched_step\<^sup>*\<^sup>* s ?s2" and ok: "sched_ok ?s2"
    by (auto intro: rtranclp.rtrancl_into_rtrancl sched_ok_steps sched_ok_step)
  obtain s' where "at_top ?s2 [] s'" using top_from_wait [OF ok] by auto
  with path s1(3) show ?thesis
    by (intro exI [of _ s']) (auto simp: at_top_def same_queue_def intro: rtranclp_trans)
qed

lemma queue_drains:
  assumes "sched_ok s" "sq_workers s = [WTop]"
  shows "\<exists>s'. sched_step\<^sup>*\<^sup>* s s' \<and> sq_queue s' = [] \<and> sq_workers s' = [] \<and> sq_started s' = sq_started s @ sq_queue s"
  using assms
proof (induction "sq_queue s" arbitrary: s)
  case Nil
  have "sched_step s (s\<lparr>sq_flag := False, sq_workers := []\<rparr>)"
    using work_one [OF Nil(3)] Nil(1) by (simp add: pop_queue_def)
  with Nil(1) show ?case by (intro exI [of _ "s\<lparr>sq_flag := False, sq_workers := []\<rparr>"]) auto
next
  case (Cons p ps)
  let ?s1 = "s\<lparr>sq_queue := ps, sq_workers := [WTry p ''id'']\<rparr>"
  have step: "sched_step s ?s1"
    using work_one [OF Cons(4), of "Some ''id''"] by (simp add: pop_queue_def Cons(2) [symmetric])
  with Cons(3) have ok: "sched_ok ?s1" by (blast intro: sched_ok_step)
  obtain s2 where s2: "at_top ?s1 [p] s2" using top_from_try [OF ok] by auto
  then obtain s' where "sched_step\<^sup>*\<^sup>* s2 s' \<and> sq_queue s' = [] \<and> sq_workers s' = [] \<and> sq_started s' = sq_started s2 @ sq_queue s2"
    using Cons(1) [of s2] by (auto simp: at_top_def)
  with s2 step Cons(2) show ?case
    by (intro exI [of _ s']) (auto simp: at_top_def intro: converse_rtranclp_into_rtranclp rtranclp_trans)
qed

definition to_start :: "scheduled \<Rightarrow> policy_push list" where
  "to_start s = (case sq_workers s of [WTry p m] \<Rightarrow> [p] | _ \<Rightarrow> []) @ sq_queue s"


definition sample_policy :: "string \<Rightarrow> policy_push" where
  "sample_policy pid =
     \<lparr>pp_policy_id = pid, pp_policy_name = pid, pp_agent_id = ''a1'',
      pp_storage = \<lparr>sc_rclone_type = ''local'', sc_rclone_config = [], sc_repo_path = ''/backup'', sc_rclone_args = [],
        sc_rclone_pass_obscured = False\<rparr>,
      pp_restic_password = ''secret'', pp_plain_backup = False, pp_backup_mode = ''snapshot'', pp_archive_format = '''',
      pp_artifact_context_name = '''', pp_archive_remote_dir_template = '''', pp_archive_name_template = '''',
      pp_backup_dirs = [''/data''], pp_backup_sources = [], pp_exclude_patterns = [], pp_pre_backup_hook = None,
      pp_post_backup_hook = None, pp_schedule = ''@daily'',
      pp_retention = \<lparr>keep_last = 7, keep_daily = 0, keep_weekly = 0, keep_monthly = 0\<rparr>, pp_verification = None\<rparr>"

definition two_due :: scheduled where
  "two_due = startScheduledBackup (sample_policy ''p2'') (startScheduledBackup (sample_policy ''p1'')
     (startScheduledBackup (sample_policy ''p1'') no_schedule))"


end
