(* ===== verification/VF_AgentLink.thy ===== *)
theory VF_AgentLink
  imports VF_AgentFiles VF_AgentTasks VF_AgentLogs
begin

text \<open>
  What the agent's handlers (internal/agent/handler.go) share: the configuration of the handler, the
  messages it sends, its scheduler (internal/agent/scheduler, pkg/schedulecron) and the rclone
  configuration file (internal/agent/executor/rclone.go, pkg/rcloneobscure).

  An agent program acts on the files of \<open>VF_AgentFiles\<close>; the hub component of its world holds the
  messages sent so far, a script that says which of the next sends fail, and the scheduled jobs.
  The payload of a message sent by the agent is kept as a value, since its JSON encoding does not
  fail; \<open>hc_ids\<close> says whether the random source that numbers messages works.
\<close>

section \<open>Messages of the agent\<close>

record dir_entry =
  de_path :: string
  de_type :: string
  de_size :: int

datatype agent_body =
    PolicyAck string bool string
  | TaskResult task_result
  | LogLine task_log_payload
  | BackupProgress backup_progress
  | RestoreProgress string string float64 nat nat nat string string
  | SnapshotList snapshot_list
  | SnapshotBrowse string "file_entry list" string
  | RestorePreflight string string string "(string \<times> string \<times> string \<times> string) list" string
  | UpdateAgent bool string string string
  | DirBrowse string "dir_entry list" string
  | DirSize string int string
  | DatabaseDiscovery bool string "string list"
  | DockerDiscovery string
  | CollectedLogs string string

record agent_out =
  ao_id :: string
  ao_body :: agent_body

text \<open>What the scheduler runs when a job is due.\<close>

datatype job = BackupJob policy_push | VerifyJob policy_push verification_settings

record agent_state =
  as_sent :: "agent_out list"
  as_send_fails :: "bool list"
  as_jobs :: "(string \<times> string \<times> job) list"
  as_temp :: nat

type_synonym 'a handler_prog = "(agent_state, 'a) agent_prog"

record handler_config =
  hc_dir :: string
  hc_agent_id :: string
  hc_has_store :: bool
  hc_has_send :: bool
  hc_ids :: bool
  hc_js :: json_io
  hc_cron_ok :: "string \<Rightarrow> bool"
  hc_obscure :: "string \<Rightarrow> string outcome"

definition sendMessage :: "handler_config \<Rightarrow> agent_out \<Rightarrow> unit handler_prog" where
  "sendMessage hc m w =
     (if \<not> hc_has_send hc then (Inr (), w)
      else let s = w_hub w; fails = as_send_fails s
           in if fails \<noteq> [] \<and> hd fails then (Inl SysFault, w\<lparr>w_hub := s\<lparr>as_send_fails := tl fails\<rparr>\<rparr>)
              else (Inr (), w\<lparr>w_hub := s\<lparr>as_send_fails := tl fails, as_sent := as_sent s @ [m]\<rparr>\<rparr>))"

text \<open>A reply under the id of the request; an error of the send is only logged.\<close>

definition reply_with :: "handler_config \<Rightarrow> string \<Rightarrow> agent_body \<Rightarrow> unit handler_prog" where
  "reply_with hc messageID b =
     (if \<not> hc_ids hc then ret () else ignoring (sendMessage hc \<lparr>ao_id = messageID, ao_body = b\<rparr>))"

definition sendPolicyAck :: "handler_config \<Rightarrow> string \<Rightarrow> string \<Rightarrow> bool \<Rightarrow> string \<Rightarrow> unit handler_prog" where
  "sendPolicyAck hc messageID agentID success errorText =
     reply_with hc messageID (PolicyAck agentID success errorText)"

section \<open>Schedules\<close>

text \<open>The number of \<^verbatim>\<open>strings.Fields\<close>.\<close>

function count_words :: "bool \<Rightarrow> string \<Rightarrow> nat" where
  "count_words inside s =
     (if s = [] then 0
      else if space_len s > 0 then count_words False (drop (space_len s) s)
      else (if inside then 0 else 1) + count_words True (tl s))"
  by auto
termination by (relation "measure (length \<circ> snd)") auto

declare count_words.simps [simp del]

definition Normalize :: "string \<Rightarrow> string" where
  "Normalize schedule =
     (let s = trim_space schedule in
      if has_prefix s ''@'' then s else if count_words False s = 5 then ''0 '' @ s else s)"

text \<open>The parser of robfig/cron decides whether the normalized schedule is valid.\<close>

definition schedule_Validate :: "handler_config \<Rightarrow> string \<Rightarrow> go_error option" where
  "schedule_Validate hc schedule = (if hc_cron_ok hc (Normalize schedule) then None else Some (Err ''invalid schedule''))"

definition RemoveJob :: "string \<Rightarrow> unit handler_prog" where
  "RemoveJob jobID w = (Inr (), w\<lparr>w_hub := (w_hub w)\<lparr>as_jobs := AList.delete jobID (as_jobs (w_hub w))\<rparr>\<rparr>)"

definition UpdateSchedule :: "handler_config \<Rightarrow> string \<Rightarrow> string \<Rightarrow> job \<Rightarrow> unit handler_prog" where
  "UpdateSchedule hc jobID schedule j w =
     (case schedule_Validate hc schedule of Some e \<Rightarrow> (Inl e, w)
      | None \<Rightarrow> (Inr (), w\<lparr>w_hub := (w_hub w)\<lparr>as_jobs := AList.update jobID (Normalize schedule, j) (as_jobs (w_hub w))\<rparr>\<rparr>))"

definition verificationScheduleJobID :: "policy_push \<Rightarrow> string" where
  "verificationScheduleJobID p = policyScheduleJobID p @ '':verify''"

definition updateVerificationSchedule :: "handler_config \<Rightarrow> policy_push \<Rightarrow> unit handler_prog" where
  "updateVerificationSchedule hc p =
     (case pp_verification p of
        None \<Rightarrow> RemoveJob (verificationScheduleJobID p)
      | Some v \<Rightarrow> if \<not> vs_enabled v \<or> trim_space (vs_schedule v) = '''' then RemoveJob (verificationScheduleJobID p)
                 else UpdateSchedule hc (verificationScheduleJobID p) (vs_schedule v) (VerifyJob p v))"

section \<open>rclone.conf\<close>

definition ConfigValue :: "(string \<Rightarrow> string outcome) \<Rightarrow> string \<Rightarrow> string \<Rightarrow> bool \<Rightarrow> string outcome" where
  "ConfigValue obscure key v passObscured =
     (if key = ''pass'' \<and> v \<noteq> '''' then if passObscured then Inr v else obscure v else Inr v)"

fun rclone_lines :: "(string \<Rightarrow> string outcome) \<Rightarrow> (string \<times> string) list \<Rightarrow> bool \<Rightarrow> string list \<Rightarrow> string outcome" where
  "rclone_lines obscure params obscured [] = Inr ''''"
| "rclone_lines obscure params obscured (k # ks) =
     (case ConfigValue obscure k (the (map_of params k)) obscured of Inl e \<Rightarrow> Inl e
      | Inr v \<Rightarrow> (case rclone_lines obscure params obscured ks of Inl e \<Rightarrow> Inl e
          | Inr rest \<Rightarrow> Inr (k @ '' = '' @ v @ [nl] @ rest)))"

definition rclone_conf :: "(string \<Rightarrow> string outcome) \<Rightarrow> storage_config \<Rightarrow> string outcome" where
  "rclone_conf obscure s =
     (case rclone_lines obscure (sc_rclone_config s) (sc_rclone_pass_obscured s) (sort (map fst (sc_rclone_config s))) of
        Inl e \<Rightarrow> Inl e
      | Inr ls \<Rightarrow> Inr (''[vaultfleet]'' @ [nl] @ ''type = '' @ sc_rclone_type s @ [nl] @ ls))"

definition WriteRcloneConf :: "handler_config \<Rightarrow> string \<Rightarrow> storage_config \<Rightarrow> unit handler_prog" where
  "WriteRcloneConf hc p s =
     bnd (from_sum (rclone_conf (hc_obscure hc) s)) (\<lambda>data.
     bnd (put_file p '''') (\<lambda>_. bnd (chmod p) (\<lambda>_. put_file p data)))"

definition rclone_path :: "handler_config \<Rightarrow> string" where
  "rclone_path hc = path_join [hc_dir hc, ''rclone.conf'']"

definition password_path :: "handler_config \<Rightarrow> string" where
  "password_path hc = path_join [hc_dir hc, ''.restic-password'']"

definition ensureRcloneConf :: "handler_config \<Rightarrow> policy_push \<Rightarrow> unit handler_prog" where
  "ensureRcloneConf hc p =
     (if hc_dir hc = '''' then raise (Err ''config dir not configured'')
      else bnd (mkdir_all (hc_dir hc)) (\<lambda>_. WriteRcloneConf hc (rclone_path hc) (pp_storage p)))"

definition HasPasswordFile :: "string \<Rightarrow> bool handler_prog" where
  "HasPasswordFile p = attempt (read_file p) (\<lambda>r. ret (case r of Inl _ \<Rightarrow> False | Inr data \<Rightarrow> trim_space data \<noteq> ''''))"

end
