(* ===== verification/VF_PolicyPush.thy ===== *)
theory VF_PolicyPush
  imports VF_AgentLink
begin

text \<open>
  How the agent takes a pushed policy (internal/agent/handler.go, handlePolicyPush): it validates the
  schedules, keeps copies of the files it is about to replace, stages the new ones beside them,
  renames them into place, saves the policy and schedules its jobs; after an error it puts the old
  files and the old policy back.  The deferred clean-ups run last, in reverse order.
\<close>

section \<open>Temporary files\<close>

definition draw_temp :: "string \<Rightarrow> string \<Rightarrow> string handler_prog" where
  "draw_temp dir pre w =
     (Inr (path_join [dir, pre @ dec_digits (as_temp (w_hub w))]),
      w\<lparr>w_hub := (w_hub w)\<lparr>as_temp := as_temp (w_hub w) + 1\<rparr>\<rparr>)"

definition close_file :: "unit handler_prog" where
  "close_file = stmt (\<lambda>d. (Inr (), d))"

text \<open>What is done with a new file before it is closed; after an error it is removed.\<close>

definition or_remove :: "string \<Rightarrow> unit handler_prog \<Rightarrow> string handler_prog" where
  "or_remove p m = attempt m (\<lambda>r. case r of Inr _ \<Rightarrow> ret p
     | Inl e \<Rightarrow> bnd (ignoring (remove_file p)) (\<lambda>_. raise e))"

definition createSecureTempPath :: "string \<Rightarrow> string \<Rightarrow> string handler_prog" where
  "createSecureTempPath dir pre =
     bnd (draw_temp dir pre) (\<lambda>p. bnd (create_temp p) (\<lambda>_. or_remove p (bnd (chmod p) (\<lambda>_. close_file))))"

definition writeSecureTempFile :: "string \<Rightarrow> string \<Rightarrow> string \<Rightarrow> string handler_prog" where
  "writeSecureTempFile dir pre data =
     bnd (draw_temp dir pre) (\<lambda>p. bnd (create_temp p) (\<lambda>_.
       or_remove p (bnd (chmod p) (\<lambda>_. bnd (put_file p data) (\<lambda>_. close_file)))))"

text \<open>\<^verbatim>\<open>if path != "" { os.Remove(path) }\<close>, with the error only logged.\<close>

definition drop_file :: "string \<Rightarrow> unit handler_prog" where
  "drop_file p = (if p = '''' then ret () else ignoring (remove_file p))"

definition validateReplaceTarget :: "string \<Rightarrow> unit handler_prog" where
  "validateReplaceTarget p = attempt (stat p) (\<lambda>r. case r of
     Inr n \<Rightarrow> if n = Dir then raise Exists else ret ()
   | Inl e \<Rightarrow> if e = NotFound then ret () else raise e)"

section \<open>Copies of the old files\<close>

record file_snapshot =
  fs_target :: string
  fs_backup :: string
  fs_existed :: bool

definition no_file_snapshot :: file_snapshot where
  "no_file_snapshot = \<lparr>fs_target = '''', fs_backup = '''', fs_existed = False\<rparr>"

definition snapshotFile :: "string \<Rightarrow> string \<Rightarrow> string \<Rightarrow> file_snapshot handler_prog" where
  "snapshotFile target dir pre =
     attempt (stat target) (\<lambda>r. case r of
       Inl e \<Rightarrow> if e = NotFound then ret \<lparr>fs_target = target, fs_backup = '''', fs_existed = False\<rparr> else raise e
     | Inr n \<Rightarrow> if n = Dir then raise (Err ''snapshot: invalid argument'')
         else bnd (read_file target) (\<lambda>data. bnd (writeSecureTempFile dir pre data) (\<lambda>backup.
              ret \<lparr>fs_target = target, fs_backup = backup, fs_existed = True\<rparr>)))"

text \<open>Both return the snapshot as it is afterwards.\<close>

definition snapshot_restore :: "file_snapshot \<Rightarrow> file_snapshot handler_prog" where
  "snapshot_restore s =
     (if fs_target s = '''' then ret s
      else if \<not> fs_existed s then bnd (ignoring (remove_file (fs_target s))) (\<lambda>_. ret s)
      else if fs_backup s = '''' then ret s
      else attempt (rename (fs_backup s) (fs_target s)) (\<lambda>r. case r of
             Inl _ \<Rightarrow> ret s | Inr _ \<Rightarrow> ret (s\<lparr>fs_backup := ''''\<rparr>)))"

definition snapshot_cleanup :: "file_snapshot \<Rightarrow> unit handler_prog" where
  "snapshot_cleanup s = drop_file (fs_backup s)"

record rollback_state =
  rb_policy_id :: string
  rb_old_policy :: "policy_push option"
  rb_rclone :: file_snapshot
  rb_password :: file_snapshot

definition snapshot_password :: "handler_config \<Rightarrow> string \<Rightarrow> policy_push option \<Rightarrow> file_snapshot \<Rightarrow> rollback_state handler_prog" where
  "snapshot_password hc policyID oldPolicy rclone =
     attempt (snapshotFile (password_path hc) (hc_dir hc) ''.restic-password.rollback.'') (\<lambda>r. case r of
       Inl e \<Rightarrow> bnd (snapshot_cleanup rclone) (\<lambda>_. raise e)
     | Inr password \<Rightarrow> ret \<lparr>rb_policy_id = policyID, rb_old_policy = oldPolicy, rb_rclone = rclone, rb_password = password\<rparr>)"

definition snapshotPolicyState :: "handler_config \<Rightarrow> string \<Rightarrow> rollback_state handler_prog" where
  "snapshotPolicyState hc policyID =
     attempt (LoadPolicyByID (hc_js hc) (hc_dir hc) policyID) (\<lambda>old.
     case (case old of Inr p \<Rightarrow> Inr (Some p) | Inl e \<Rightarrow> if e = NotFound then Inr None else Inl e) of
       Inl e \<Rightarrow> raise e
     | Inr oldPolicy \<Rightarrow> bnd (snapshotFile (rclone_path hc) (hc_dir hc) ''.rclone.conf.rollback.'')
         (snapshot_password hc policyID oldPolicy))"

definition restoreConfig :: "rollback_state \<Rightarrow> rollback_state handler_prog" where
  "restoreConfig s = bnd (snapshot_restore (rb_rclone s)) (\<lambda>r. bnd (snapshot_restore (rb_password s)) (\<lambda>p.
     ret (s\<lparr>rb_rclone := r, rb_password := p\<rparr>)))"

definition restorePolicy :: "handler_config \<Rightarrow> rollback_state \<Rightarrow> unit handler_prog" where
  "restorePolicy hc s = (case rb_old_policy s of
     None \<Rightarrow> ignoring (DeletePolicy (hc_dir hc) (rb_policy_id s))
   | Some p \<Rightarrow> ignoring (SavePolicy (hc_js hc) (hc_dir hc) p))"

definition rollback_restore :: "handler_config \<Rightarrow> rollback_state \<Rightarrow> rollback_state handler_prog" where
  "rollback_restore hc s = bnd (restoreConfig s) (\<lambda>s'. bnd (restorePolicy hc s') (\<lambda>_. ret s'))"

definition rollback_cleanup :: "rollback_state \<Rightarrow> unit handler_prog" where
  "rollback_cleanup s = bnd (snapshot_cleanup (rb_rclone s)) (\<lambda>_. snapshot_cleanup (rb_password s))"

section \<open>Staged files\<close>

record staged_files =
  sf_rclone :: string
  sf_password :: string

definition staged_cleanup :: "staged_files \<Rightarrow> unit handler_prog" where
  "staged_cleanup s =
     bnd (drop_file (sf_rclone s)) (\<lambda>_. drop_file (sf_password s))"

definition drop_staged :: "string \<Rightarrow> go_error \<Rightarrow> staged_files handler_prog" where
  "drop_staged rclonePath e = bnd (staged_cleanup \<lparr>sf_rclone = rclonePath, sf_password = ''''\<rparr>) (\<lambda>_. raise e)"

definition stage_password :: "handler_config \<Rightarrow> policy_push \<Rightarrow> string \<Rightarrow> staged_files handler_prog" where
  "stage_password hc p rclonePath =
     (if pp_plain_backup p then ret \<lparr>sf_rclone = rclonePath, sf_password = password_path hc\<rparr>
      else attempt (writeSecureTempFile (hc_dir hc) ''.restic-password.'' (pp_restic_password p)) (\<lambda>r. case r of
        Inl e \<Rightarrow> drop_staged rclonePath e
      | Inr passwordPath \<Rightarrow> ret \<lparr>sf_rclone = rclonePath, sf_password = passwordPath\<rparr>))"

definition stage_rclone :: "handler_config \<Rightarrow> policy_push \<Rightarrow> string \<Rightarrow> staged_files handler_prog" where
  "stage_rclone hc p rclonePath =
     attempt (WriteRcloneConf hc rclonePath (pp_storage p)) (\<lambda>r. case r of
       Inl e \<Rightarrow> drop_staged rclonePath e
     | Inr _ \<Rightarrow> stage_password hc p rclonePath)"

definition stagePolicyFiles :: "handler_config \<Rightarrow> policy_push \<Rightarrow> staged_files handler_prog" where
  "stagePolicyFiles hc p =
     bnd (mkdir_all (hc_dir hc)) (\<lambda>_. bnd (createSecureTempPath (hc_dir hc) ''rclone.conf.'') (stage_rclone hc p))"

text \<open>The staged files after commit, with its error.\<close>

definition commit :: "handler_config \<Rightarrow> staged_files \<Rightarrow> (staged_files \<times> go_error option) handler_prog" where
  "commit hc s =
     attempt (validateReplaceTarget (rclone_path hc)) (\<lambda>r. case r of Inl e \<Rightarrow> ret (s, Some e)
     | Inr _ \<Rightarrow> attempt (validateReplaceTarget (password_path hc)) (\<lambda>r. case r of Inl e \<Rightarrow> ret (s, Some e)
     | Inr _ \<Rightarrow> attempt (rename (sf_rclone s) (rclone_path hc)) (\<lambda>r. case r of Inl e \<Rightarrow> ret (s, Some e)
     | Inr _ \<Rightarrow>
        (let s1 = s\<lparr>sf_rclone := ''''\<rparr> in
         if sf_password s1 = password_path hc
         then attempt (missing_ok (remove_file (password_path hc))) (\<lambda>r. case r of Inl e \<Rightarrow> ret (s1, Some e)
              | Inr _ \<Rightarrow> ret (s1\<lparr>sf_password := ''''\<rparr>, None))
         else attempt (rename (sf_password s1) (password_path hc)) (\<lambda>r. case r of Inl e \<Rightarrow> ret (s1, Some e)
              | Inr _ \<Rightarrow> ret (s1\<lparr>sf_password := ''''\<rparr>, None))))))"

section \<open>The push\<close>

definition invalid_schedules :: "handler_config \<Rightarrow> policy_push \<Rightarrow> go_error option" where
  "invalid_schedules hc p =
     (let v = (case pp_verification p of None \<Rightarrow> None
        | Some v \<Rightarrow> if vs_enabled v \<and> vs_schedule v \<noteq> '''' then schedule_Validate hc (vs_schedule v) else None)
      in if pp_schedule p = '''' then v
         else case schedule_Validate hc (pp_schedule p) of Some e \<Rightarrow> Some e | None \<Rightarrow> v)"

text \<open>The part between the clean-ups: what is left of the rollback state and the staged files, and the
  error to report.\<close>

definition schedule_jobs :: "handler_config \<Rightarrow> policy_push \<Rightarrow> unit handler_prog" where
  "schedule_jobs hc p =
     bnd (if pp_schedule p = '''' then RemoveJob (policyScheduleJobID p)
          else UpdateSchedule hc (policyScheduleJobID p) (pp_schedule p) (BackupJob p)) (\<lambda>_.
     updateVerificationSchedule hc p)"

definition put_on_schedule :: "handler_config \<Rightarrow> policy_push \<Rightarrow> rollback_state \<Rightarrow> staged_files \<Rightarrow>
    (rollback_state \<times> staged_files \<times> go_error option) handler_prog" where
  "put_on_schedule hc p rb st = attempt (schedule_jobs hc p) (\<lambda>r. case r of
     Inl e \<Rightarrow> bnd (rollback_restore hc rb) (\<lambda>rb'. ret (rb', st, Some e))
   | Inr _ \<Rightarrow> ret (rb, st, None))"

definition save_and_schedule :: "handler_config \<Rightarrow> policy_push \<Rightarrow> rollback_state \<Rightarrow> staged_files \<Rightarrow>
    (rollback_state \<times> staged_files \<times> go_error option) handler_prog" where
  "save_and_schedule hc p rb st = attempt (SavePolicy (hc_js hc) (hc_dir hc) p) (\<lambda>r. case r of
     Inl e \<Rightarrow> bnd (rollback_restore hc rb) (\<lambda>rb'. ret (rb', st, Some e))
   | Inr _ \<Rightarrow> put_on_schedule hc p rb st)"

definition install_policy :: "handler_config \<Rightarrow> policy_push \<Rightarrow> rollback_state \<Rightarrow> staged_files \<Rightarrow>
    (rollback_state \<times> staged_files \<times> go_error option) handler_prog" where
  "install_policy hc p rb staged =
     bnd (commit hc staged) (\<lambda>(st, err). case err of
       Some e \<Rightarrow> bnd (restoreConfig rb) (\<lambda>rb'. ret (rb', st, Some e))
     | None \<Rightarrow> save_and_schedule hc p rb st)"

definition acknowledge :: "handler_config \<Rightarrow> string \<Rightarrow> policy_push \<Rightarrow> go_error option \<Rightarrow> unit handler_prog" where
  "acknowledge hc messageID p err = (case err of
     Some e \<Rightarrow> sendPolicyAck hc messageID (pp_agent_id p) False (error_text e)
   | None \<Rightarrow> sendPolicyAck hc messageID (pp_agent_id p) True '''')"

definition push_files :: "handler_config \<Rightarrow> string \<Rightarrow> policy_push \<Rightarrow> (go_error option) handler_prog" where
  "push_files hc messageID p =
     attempt (snapshotPolicyState hc (pp_policy_id p)) (\<lambda>r. case r of
       Inl e \<Rightarrow> bnd (acknowledge hc messageID p (Some e)) (\<lambda>_. ret (Some e))
     | Inr rb \<Rightarrow> attempt (stagePolicyFiles hc p) (\<lambda>r. case r of
         Inl e \<Rightarrow> bnd (acknowledge hc messageID p (Some e)) (\<lambda>_. bnd (rollback_cleanup rb) (\<lambda>_. ret (Some e)))
       | Inr staged \<Rightarrow> bnd (install_policy hc p rb staged) (\<lambda>(rb', st', err).
           bnd (acknowledge hc messageID p err) (\<lambda>_.
           bnd (staged_cleanup st') (\<lambda>_. bnd (rollback_cleanup rb') (\<lambda>_. ret err))))))"

text \<open>The result tells the error that was reported, if any.\<close>

definition handlePolicyPush :: "handler_config \<Rightarrow> string \<Rightarrow> policy_push outcome \<Rightarrow> (go_error option) handler_prog" where
  "handlePolicyPush hc messageID parsed = (case parsed of
     Inl e \<Rightarrow> bnd (sendPolicyAck hc messageID '''' False (error_text e)) (\<lambda>_. ret (Some e))
   | Inr p \<Rightarrow>
      if \<not> hc_has_store hc
      then bnd (acknowledge hc messageID p (Some (Err ''policy store not configured''))) (\<lambda>_.
           ret (Some (Err ''policy store not configured'')))
      else case invalid_schedules hc p of
        Some e \<Rightarrow> bnd (acknowledge hc messageID p (Some e)) (\<lambda>_. ret (Some e))
      | None \<Rightarrow> push_files hc messageID p)"

section \<open>Reconciliation\<close>

text \<open>Go skips a nil element of the stored policies; JSON yields one only for the file \<open>null\<close>.\<close>

definition reconcile_one :: "handler_config \<Rightarrow> string list \<Rightarrow> policy_push \<Rightarrow> unit handler_prog" where
  "reconcile_one hc active p =
     (if trim_space (pp_policy_id p) \<in> set active \<and> trim_space (pp_policy_id p) \<noteq> '''' then ret ()
      else bnd (RemoveJob (policyScheduleJobID p)) (\<lambda>_. bnd (RemoveJob (verificationScheduleJobID p)) (\<lambda>_.
           ignoring (DeletePolicy (hc_dir hc) (pp_policy_id p)))))"

definition handlePolicyReconcile :: "handler_config \<Rightarrow> (string \<times> string list) outcome \<Rightarrow> unit handler_prog" where
  "handlePolicyReconcile hc parsed =
     (if \<not> hc_has_store hc then ret ()
      else case parsed of Inl _ \<Rightarrow> ret ()
      | Inr (agentID, policyIDs) \<Rightarrow>
        if hc_agent_id hc \<noteq> '''' \<and> agentID \<noteq> '''' \<and> agentID \<noteq> hc_agent_id hc then ret ()
        else attempt (LoadPolicies (hc_js hc) (hc_dir hc)) (\<lambda>r. case r of
            Inl _ \<Rightarrow> ret ()
          | Inr stored \<Rightarrow> for_each (reconcile_one hc (filter (\<lambda>i. i \<noteq> '''') (map trim_space policyIDs))) stored))"

text \<open>After a start the saved policies get their jobs back; an empty backup schedule also skips the
  verification job.\<close>

definition restore_job :: "handler_config \<Rightarrow> policy_push \<Rightarrow> unit handler_prog" where
  "restore_job hc p =
     (if pp_schedule p = '''' then RemoveJob (policyScheduleJobID p)
      else bnd (ignoring (UpdateSchedule hc (policyScheduleJobID p) (pp_schedule p) (BackupJob p))) (\<lambda>_.
           ignoring (updateVerificationSchedule hc p)))"

definition restoreSavedPolicySchedule :: "handler_config \<Rightarrow> unit handler_prog" where
  "restoreSavedPolicySchedule hc =
     (if \<not> hc_has_store hc then ret ()
      else attempt (LoadPolicies (hc_js hc) (hc_dir hc)) (\<lambda>r. case r of Inl _ \<Rightarrow> ret ()
        | Inr ps \<Rightarrow> for_each (restore_job hc) ps))"

end
