(* ===== verification/VF_AgentWp.thy ===== *)
theory VF_AgentWp
  imports VF_PolicyPush
begin

text \<open>
  Weakest preconditions for agent programs that run alone and meet at most one failing call: enough
  to show that a roll-back, which runs after the failure, finds every later call succeed.
\<close>

section \<open>At most one failing call\<close>

definition spent :: "('d, 'h) world \<Rightarrow> bool" where
  "spent w \<longleftrightarrow> True \<notin> set (w_faults w)"

definition at_most_one_fault :: "('d, 'h) world \<Rightarrow> bool" where
  "at_most_one_fault w \<longleftrightarrow> w_others w = [] \<and> length (filter id (w_faults w)) \<le> 1"

text \<open>\<open>Q\<close> holds of the outcome, of whether the failure is behind us, of the files and of the hub.\<close>

type_synonym ('h, 'a) post = "'a outcome \<Rightarrow> bool \<Rightarrow> fs \<Rightarrow> 'h \<Rightarrow> bool"

definition wp :: "('h, 'a) agent_prog \<Rightarrow> ('h, 'a) post \<Rightarrow> bool \<Rightarrow> fs \<Rightarrow> 'h \<Rightarrow> bool" where
  "wp m Q s d h \<longleftrightarrow> (\<forall>w. at_most_one_fault w \<and> spent w = s \<and> w_db w = d \<and> w_hub w = h \<longrightarrow>
     (case m w of (r, w') \<Rightarrow> at_most_one_fault w' \<and> Q r (spent w') (w_db w') (w_hub w')))"

lemma wpD:
  assumes "wp m Q (spent w) (w_db w) (w_hub w)" "at_most_one_fault w" "m w = (r, w')"
  shows "Q r (spent w') (w_db w') (w_hub w')" "at_most_one_fault w'"
  using assms by (auto simp: wp_def)

lemma wp_conseq:
  "wp m Q s d h \<Longrightarrow> (\<And>r s d h. Q r s d h \<Longrightarrow> Q' r s d h) \<Longrightarrow> wp m Q' s d h"
  by (fastforce simp: wp_def split: prod.splits)

lemma wp_ret: "Q (Inr a) s d h \<Longrightarrow> wp (ret a) Q s d h"
  by (simp add: wp_def)

lemma wp_raise: "Q (Inl e) s d h \<Longrightarrow> wp (raise e) Q s d h"
  by (simp add: wp_def)

lemma wpI:
  "(\<And>w r w'. at_most_one_fault w \<Longrightarrow> spent w = s \<Longrightarrow> w_db w = d \<Longrightarrow> w_hub w = h \<Longrightarrow> m w = (r, w') \<Longrightarrow>
     at_most_one_fault w' \<and> Q r (spent w') (w_db w') (w_hub w')) \<Longrightarrow> wp m Q s d h"
  unfolding wp_def by (clarsimp split: prod.splits)

lemma wp_attempt:
  assumes "wp m (\<lambda>r. wp (k r) Q) s d h"
  shows "wp (attempt m k) Q s d h"
proof (rule wpI)
  fix w r w'
  assume w: "at_most_one_fault w" "spent w = s" "w_db w = d" "w_hub w = h" and run: "attempt m k w = (r, w')"
  obtain x w1 where x: "m w = (x, w1)" by fastforce
  have "k x w1 = (r, w')" using run x by (simp add: attempt_def)
  with wpD [of m _ w, OF _ w(1) x] assms w(2-4) wpD [of "k x" Q w1]
  show "at_most_one_fault w' \<and> Q r (spent w') (w_db w') (w_hub w')" by blast
qed

lemma wp_bnd:
  assumes "wp m (\<lambda>r. case r of Inl e \<Rightarrow> Q (Inl e) | Inr a \<Rightarrow> wp (k a) Q) s d h"
  shows "wp (bnd m k) Q s d h"
  unfolding bnd_attempt
  by (rule wp_attempt, rule wp_conseq [OF assms]) (auto split: sum.splits intro: wp_raise)

lemma wp_if: "(b \<Longrightarrow> wp m Q s d h) \<Longrightarrow> (\<not> b \<Longrightarrow> wp n Q s d h) \<Longrightarrow> wp (if b then m else n) Q s d h"
  by simp

lemma wp_stmt:
  assumes "\<not> s \<Longrightarrow> Q (Inl SysFault) True d h" "Q (fst (f d)) s (snd (f d)) h"
  shows "wp (stmt f) Q s d h"
proof -
  have "at_most_one_fault w' \<and> Q r (spent w') (w_db w') (w_hub w')"
    if w: "at_most_one_fault w" "spent w = s" "w_db w = d" "w_hub w = h" "stmt f w = (r, w')" for w r w'
  proof (cases "w_faults w")
    case Nil
    with w assms(2) show ?thesis
      by (auto simp: stmt_def interfere_def in_tx_def at_most_one_fault_def spent_def Let_def split: prod.splits)
  next
    case (Cons b bs)
    show ?thesis
    proof (cases b)
      case True
      with w Cons have "filter id bs = []" by (simp add: at_most_one_fault_def)
      then have "True \<notin> set bs" by (auto simp: filter_empty_conv)
      with w Cons True assms(1) show ?thesis
        by (auto simp: stmt_def interfere_def in_tx_def at_most_one_fault_def spent_def Let_def)
    next
      case False
      with w Cons assms(2) show ?thesis
        by (auto simp: stmt_def interfere_def in_tx_def at_most_one_fault_def spent_def Let_def split: prod.splits)
    qed
  qed
  then show ?thesis by (fastforce simp: wp_def)
qed

lemma wp_from_sum: "Q r s d h \<Longrightarrow> wp (from_sum r) Q s d h"
  by (cases r) (simp_all add: from_sum_def wp_ret wp_raise)

lemma wp_ignoring: "wp m (\<lambda>_. Q (Inr ())) s d h \<Longrightarrow> wp (ignoring m) Q s d h"
  unfolding ignoring_def by (rule wp_attempt) (erule wp_conseq, rule wp_ret)

section \<open>File operations\<close>

text \<open>A file system is used only through what is at each path.\<close>

lemma at_update [simp]: "map_of (AList.update p n d) q = (if q = p then Some n else map_of d q)"
  by (simp add: update_conv')

lemma at_delete [simp]: "map_of (AList.delete p d) q = (if q = p then None else map_of d q)"
  by (simp add: delete_conv')

lemma wp_stat:
  "(\<not> s \<Longrightarrow> Q (Inl SysFault) True d h) \<Longrightarrow> Q (case map_of d p of None \<Rightarrow> Inl NotFound | Some n \<Rightarrow> Inr n) s d h \<Longrightarrow>
   wp (stat p) Q s d h"
  unfolding stat_def by (rule wp_stmt) simp_all

lemma wp_chmod:
  "(\<not> s \<Longrightarrow> Q (Inl SysFault) True d h) \<Longrightarrow> Q (if map_of d p = None then Inl NotFound else Inr ()) s d h \<Longrightarrow>
   wp (chmod p) Q s d h"
  unfolding chmod_def by (rule wp_stmt) simp_all

lemma wp_put_file:
  "(\<not> s \<Longrightarrow> Q (Inl SysFault) True d h) \<Longrightarrow>
   (map_of d p = Some Dir \<Longrightarrow> Q (Inl SysFault) s d h) \<Longrightarrow>
   (map_of d p \<noteq> Some Dir \<Longrightarrow> Q (Inr ()) s (AList.update p (File c) d) h) \<Longrightarrow>
   wp (put_file p c) Q s d h"
  unfolding put_file_def by (rule wp_stmt) simp_all

lemma wp_mkdir_all:
  "(\<not> s \<Longrightarrow> Q (Inl SysFault) True d h) \<Longrightarrow>
   (map_of d p = None \<Longrightarrow> Q (Inr ()) s (AList.update p Dir d) h) \<Longrightarrow>
   (map_of d p = Some Dir \<Longrightarrow> Q (Inr ()) s d h) \<Longrightarrow>
   (\<And>c. map_of d p = Some (File c) \<Longrightarrow> Q (Inl SysFault) s d h) \<Longrightarrow>
   wp (mkdir_all p) Q s d h"
  unfolding mkdir_all_def by (rule wp_stmt) (auto split: option.splits node.splits)

lemma wp_rename:
  "(\<not> s \<Longrightarrow> Q (Inl SysFault) True d h) \<Longrightarrow>
   (map_of d a = None \<Longrightarrow> Q (Inl NotFound) s d h) \<Longrightarrow>
   (map_of d a = Some Dir \<or> map_of d b = Some Dir \<Longrightarrow> Q (Inl SysFault) s d h) \<Longrightarrow>
   (\<And>c. map_of d a = Some (File c) \<Longrightarrow> map_of d b \<noteq> Some Dir \<Longrightarrow>
      Q (Inr ()) s (AList.update b (File c) (AList.delete a d)) h) \<Longrightarrow>
   wp (rename a b) Q s d h"
  unfolding rename_def by (rule wp_stmt) (auto split: option.splits node.splits intro: node.exhaust)

lemma wp_remove_file:
  "(\<not> s \<Longrightarrow> Q (Inl SysFault) True d h) \<Longrightarrow>
   (map_of d p = None \<Longrightarrow> Q (Inl NotFound) s d h) \<Longrightarrow>
   (map_of d p = Some Dir \<Longrightarrow> Q (Inl SysFault) s d h) \<Longrightarrow>
   (map_of d p \<noteq> None \<Longrightarrow> Q (Inr ()) s (AList.delete p d) h) \<Longrightarrow>
   wp (remove_file p) Q s d h"
  unfolding remove_file_def by (rule wp_stmt) (auto split: option.splits)

lemma wp_read_file:
  "(\<not> s \<Longrightarrow> Q (Inl SysFault) True d h) \<Longrightarrow>
   (map_of d p = None \<Longrightarrow> Q (Inl NotFound) s d h) \<Longrightarrow>
   (map_of d p = Some Dir \<Longrightarrow> Q (Inl SysFault) s d h) \<Longrightarrow>
   (\<And>c. map_of d p = Some (File c) \<Longrightarrow> Q (Inr c) s d h) \<Longrightarrow>
   wp (read_file p) Q s d h"
  unfolding read_file_def by (rule wp_stmt) (auto split: option.splits node.splits)

lemma wp_create_temp:
  "(\<not> s \<Longrightarrow> Q (Inl SysFault) True d h) \<Longrightarrow>
   (map_of d p \<noteq> None \<Longrightarrow> Q (Inl Exists) s d h) \<Longrightarrow>
   (map_of d p = None \<Longrightarrow> Q (Inr ()) s (AList.update p (File '''') d) h) \<Longrightarrow>
   wp (create_temp p) Q s d h"
  unfolding create_temp_def by (rule wp_stmt) auto

lemma wp_close_file: "(\<not> s \<Longrightarrow> Q (Inl SysFault) True d h) \<Longrightarrow> Q (Inr ()) s d h \<Longrightarrow> wp close_file Q s d h"
  unfolding close_file_def by (rule wp_stmt) simp_all

lemma wp_draw_temp:
  "Q (Inr (path_join [dir, pre @ dec_digits (as_temp h)])) s d (h\<lparr>as_temp := as_temp h + 1\<rparr>) \<Longrightarrow> wp (draw_temp dir pre) Q s d h"
  by (auto simp: wp_def draw_temp_def at_most_one_fault_def spent_def)

lemma wp_sendMessage:
  "(\<And>h'. as_jobs h' = as_jobs h \<Longrightarrow> as_temp h' = as_temp h \<Longrightarrow> Q (Inr ()) s d h' \<and> Q (Inl SysFault) s d h') \<Longrightarrow>
   wp (sendMessage hc m) Q s d h"
  by (auto simp: wp_def sendMessage_def at_most_one_fault_def spent_def Let_def)

lemma wp_reply_with:
  "(\<And>h'. as_jobs h' = as_jobs h \<Longrightarrow> as_temp h' = as_temp h \<Longrightarrow> Q (Inr ()) s d h') \<Longrightarrow> wp (reply_with hc i b) Q s d h"
  unfolding reply_with_def by (auto intro!: wp_ret wp_ignoring wp_sendMessage)

lemma wp_missing_ok:
  "wp m (\<lambda>r. case r of Inl e \<Rightarrow> if e = NotFound then Q (Inr ()) else Q (Inl e) | Inr _ \<Rightarrow> Q (Inr ())) s d h \<Longrightarrow>
   wp (missing_ok m) Q s d h"
  unfolding missing_ok_def
  by (rule wp_attempt) (erule wp_conseq, auto split: sum.splits if_splits intro: wp_ret wp_raise)

end
