(* ===== verification/VF_PolicyPushLaws.thy ===== *)
theory VF_PolicyPushLaws
  imports VF_AgentWp
begin

text \<open>
  A refused policy push leaves the agent as it was, whatever call fails - unless the policy is a plain
  one; and a plain policy takes the encryption of every other policy of the agent away.
\<close>

section \<open>Paths in the configuration directory\<close>

definition clean_dir :: "string \<Rightarrow> bool" where
  "clean_dir dir \<longleftrightarrow> (\<exists>b. dir = slash # b \<and> plain_path b)"

definition in_dir :: "string \<Rightarrow> string \<Rightarrow> string" where
  "in_dir dir name = dir @ slash # name"

lemma in_dir_eq [simp]: "in_dir dir a = in_dir dir b \<longleftrightarrow> a = b" "in_dir dir a \<noteq> dir" "dir \<noteq> in_dir dir a"
  by (simp_all add: in_dir_def)

lemma in_dir_ne [simp]: "in_dir dir a \<noteq> ''''" "'''' \<noteq> in_dir dir a" by (simp_all add: in_dir_def)

lemma path_join_in_dir:
  assumes "clean_dir dir" "plain_path name"
  shows "path_join [dir, name] = in_dir dir name"
proof -
  from assms(1) obtain b where b: "dir = slash # b" "plain_path b" by (auto simp: clean_dir_def)
  have p: "plain_path (b @ slash # name)" by (rule plain_path_join [OF b(2) assms(2)])
  then have "clean_segs True [] (split_on slash (b @ slash # name)) = split_on slash (b @ slash # name)"
    using clean_segs_plain [of "split_on slash (b @ slash # name)" True "[]"] by (simp add: plain_path_def)
  then have "path_clean (slash # b @ slash # name) = slash # b @ slash # name" by (simp add: path_clean_def)
  with b plain_path_ne [OF assms(2)] show ?thesis by (simp add: path_join_def in_dir_def)
qed

lemma clean_dir_in_dir: "clean_dir dir \<Longrightarrow> plain_path name \<Longrightarrow> clean_dir (in_dir dir name)"
  by (auto simp: clean_dir_def in_dir_def intro: plain_path_join)

lemma plain_name: "slash \<notin> set name \<Longrightarrow> plain_segment name \<Longrightarrow> plain_path name"
  by (simp add: plain_path_def split_on_no_sep)

lemma digits_plain: "slash \<notin> set (dec_digits n)" "hd (dec_digits n) \<noteq> CHR ''r''"
proof -
  show "slash \<notin> set (dec_digits n)" using dec_digits_digit [of slash n] by (auto simp: is_digit_def)
  have "is_digit (hd (dec_digits n))" by (rule dec_digits_digit [OF hd_in_set [OF dec_digits_ne]])
  then show "hd (dec_digits n) \<noteq> CHR ''r''" by (auto simp: is_digit_def)
qed

lemma digits_not_r [simp]: "dec_digits n \<noteq> CHR ''r'' # xs" "CHR ''r'' # xs \<noteq> dec_digits n"
  using digits_plain(2) [of n] by (metis list.sel(1))+

definition temp_of :: "string \<Rightarrow> string \<Rightarrow> string \<Rightarrow> bool" where
  "temp_of dir pre p \<longleftrightarrow> (\<exists>n. p = in_dir dir (pre @ dec_digits n))"

abbreviation rcloneRollback :: string where "rcloneRollback \<equiv> ''.rclone.conf.rollback.''"
abbreviation passwordRollback :: string where "passwordRollback \<equiv> ''.restic-password.rollback.''"
abbreviation rcloneStage :: string where "rcloneStage \<equiv> ''rclone.conf.''"
abbreviation passwordStage :: string where "passwordStage \<equiv> ''.restic-password.''"

lemma temp_join:
  assumes "clean_dir dir" "slash \<notin> set pre" "length pre > 2"
  shows "path_join [dir, pre @ dec_digits n] = in_dir dir (pre @ dec_digits n)"
proof (rule path_join_in_dir [OF assms(1)])
  have "plain_segment (pre @ dec_digits n)" 
  proof -
    have "plain_segment x" if "length x > 2" for x using that by (auto simp: plain_segment_def)
    then show ?thesis using assms(3) by simp
  qed
  with assms(2) digits_plain(1) show "plain_path (pre @ dec_digits n)" by (intro plain_name) auto
qed

lemma file_paths:
  assumes "clean_dir (hc_dir hc)"
  shows "rclone_path hc = in_dir (hc_dir hc) ''rclone.conf''" "password_path hc = in_dir (hc_dir hc) ''.restic-password''"
proof -
  have "plain_path ''rclone.conf''" "plain_path ''.restic-password''" by code_simp+
  with assms show "rclone_path hc = in_dir (hc_dir hc) ''rclone.conf''" "password_path hc = in_dir (hc_dir hc) ''.restic-password''"
    by (simp_all add: rclone_path_def password_path_def path_join_in_dir)
qed

lemma path_base_plain: "slash \<notin> set x \<Longrightarrow> x \<noteq> '''' \<Longrightarrow> path_base x = x"
proof -
  assume x: "slash \<notin> set x" "x \<noteq> ''''"
  then have "dropWhile (\<lambda>c. c = slash) (rev x) = rev x"
    by (cases "rev x") (auto simp: dropWhile_eq_self_iff)
  with x show ?thesis by (simp add: path_base_def Let_def split_on_no_sep)
qed

text \<open>The policy's file, and the directory it is in.\<close>

lemma policyPath_in_dir:
  assumes "clean_dir dir" "slash \<notin> set i"
  shows "policyPath dir i = in_dir dir ''policy.json'' \<and> parent_dir (policyPath dir i) = dir \<or>
    (\<exists>x. policyPath dir i = in_dir dir (''policies/'' @ x) \<and> parent_dir (policyPath dir i) = in_dir dir ''policies'')"
proof -
  have parent: "parent_dir (in_dir d n) = d" if "slash \<notin> set n" for d n
  proof -
    have "split_on slash (in_dir d n) = split_on slash d @ [n]"
      using that by (simp add: in_dir_def split_on_append split_on_no_sep)
    then show ?thesis by (simp add: parent_dir_def)
  qed
  have pj: "plain_path ''policy.json''" "plain_path ''policies''" by code_simp+
  show ?thesis
  proof (cases "trim_space i = ''''")
    case True
    with assms(1) pj(1) parent [of "''policy.json''" dir] show ?thesis
      by (simp add: policyPath_def store_path_def path_join_in_dir)
  next
    case False
    have t: "slash \<notin> set (trim_space i)" using assms(2) set_trim_space by blast
    then have b: "path_base (trim_space i) = trim_space i" using False by (simp add: path_base_plain)
    have "plain_path (trim_space i @ ''.json'')"
      using t by (intro plain_name) (auto simp: plain_segment_def append_eq_Cons_conv)
    moreover have "store_path dir PoliciesDirName = in_dir dir ''policies''"
      using assms(1) pj(2) by (simp add: store_path_def path_join_in_dir)
    moreover have "clean_dir (in_dir dir ''policies'')" using assms(1) pj(2) by (rule clean_dir_in_dir)
    ultimately have "policyPath dir i = in_dir (in_dir dir ''policies'') (trim_space i @ ''.json'')"
      using False b by (simp add: policyPath_def path_join_in_dir)
    moreover have "in_dir (in_dir dir ''policies'') (trim_space i @ ''.json'') = in_dir dir (''policies/'' @ trim_space i @ ''.json'')"
      by (simp add: in_dir_def)
    moreover have "slash \<notin> set (trim_space i @ ''.json'')" using t by simp
    ultimately show ?thesis using parent [of "trim_space i @ ''.json''" "in_dir dir ''policies''"] by auto
  qed
qed

section \<open>Temporary files touch nothing else\<close>

definition unchanged_but :: "(string \<Rightarrow> bool) \<Rightarrow> fs \<Rightarrow> fs \<Rightarrow> bool" where
  "unchanged_but P d d' \<longleftrightarrow> (\<forall>q. \<not> P q \<longrightarrow> map_of d' q = map_of d q)"

lemma unchanged_refl [simp]: "unchanged_but P d d" by (simp add: unchanged_but_def)

lemma unchanged_trans: "unchanged_but P d d1 \<Longrightarrow> unchanged_but P d1 d2 \<Longrightarrow> unchanged_but P d d2"
  by (simp add: unchanged_but_def)

lemma unchanged_at: "unchanged_but P d d' \<Longrightarrow> \<not> P q \<Longrightarrow> map_of d' q = map_of d q"
  by (simp add: unchanged_but_def)

lemma unchanged_weaken: "unchanged_but P d d' \<Longrightarrow> (\<And>q. P q \<Longrightarrow> P' q) \<Longrightarrow> unchanged_but P' d d'"
  by (auto simp: unchanged_but_def)

lemma wp_or_remove:
  assumes "wp m (\<lambda>r s' d' h'. unchanged_but (\<lambda>q. q = p) d d' \<and> as_jobs h' = as_jobs h \<and>
      (isl r \<or> map_of d' p = Some (File c))) s d h"
  shows "wp (or_remove p m) (\<lambda>r s' d' h'. unchanged_but (\<lambda>q. q = p) d d' \<and> as_jobs h' = as_jobs h \<and>
      (\<forall>x. r = Inr x \<longrightarrow> x = p \<and> map_of d' p = Some (File c))) s d h"
  unfolding or_remove_def
  by (rule wp_attempt, rule wp_conseq [OF assms], auto split: sum.splits intro!: wp_ret wp_bnd wp_ignoring wp_remove_file wp_raise
      simp: unchanged_but_def)

lemma wp_writeSecureTempFile:
  assumes "clean_dir dir" "slash \<notin> set pre" "length pre > 2"
  shows "wp (writeSecureTempFile dir pre data) (\<lambda>r s' d' h'. unchanged_but (temp_of dir pre) d d' \<and> as_jobs h' = as_jobs h \<and>
      (\<forall>x. r = Inr x \<longrightarrow> temp_of dir pre x \<and> map_of d' x = Some (File data))) s d h"
proof -
  let ?p = "in_dir dir (pre @ dec_digits (as_temp h))"
  have t: "temp_of dir pre ?p" by (auto simp: temp_of_def)
  have inner: "wp (bnd (chmod ?p) (\<lambda>_. bnd (put_file ?p data) (\<lambda>_. close_file)))
     (\<lambda>r s' d' h'. unchanged_but (\<lambda>q. q = ?p) d1 d' \<and> as_jobs h' = as_jobs h1 \<and> (isl r \<or> map_of d' ?p = Some (File data))) s1 d1 h1"
    for s1 d1 h1
    by (intro wp_bnd wp_chmod wp_put_file wp_close_file) (auto simp: unchanged_but_def intro!: wp_bnd wp_put_file wp_close_file)
  show ?thesis
    unfolding writeSecureTempFile_def
    apply (intro wp_bnd wp_draw_temp)
    apply (simp add: temp_join [OF assms])
    apply (intro wp_bnd wp_create_temp)
      apply simp
     apply simp
    apply simp
    apply (rule wp_conseq [OF wp_or_remove [OF inner]])
    using t by (auto simp: unchanged_but_def) (metis t)+
qed

lemma wp_createSecureTempPath:
  assumes "clean_dir dir" "slash \<notin> set pre" "length pre > 2"
  shows "wp (createSecureTempPath dir pre) (\<lambda>r s' d' h'. unchanged_but (temp_of dir pre) d d' \<and> as_jobs h' = as_jobs h \<and>
      (\<forall>x. r = Inr x \<longrightarrow> temp_of dir pre x \<and> map_of d' x = Some (File ''''))) s d h"
proof -
  let ?p = "in_dir dir (pre @ dec_digits (as_temp h))"
  have t: "temp_of dir pre ?p" by (auto simp: temp_of_def)
  have inner: "wp (bnd (chmod ?p) (\<lambda>_. close_file))
     (\<lambda>r s' d' h'. unchanged_but (\<lambda>q. q = ?p) d1 d' \<and> as_jobs h' = as_jobs h1 \<and> (isl r \<or> map_of d' ?p = Some (File ''''))) s1 d1 h1"
    if "map_of d1 ?p = Some (File '''')" for s1 d1 h1
    using that by (intro wp_bnd wp_chmod) (auto intro!: wp_close_file)
  show ?thesis
    unfolding createSecureTempPath_def
    apply (intro wp_bnd wp_draw_temp)
    apply (simp add: temp_join [OF assms])
    apply (intro wp_bnd wp_create_temp)
      apply simp
     apply simp
    apply simp
    apply (rule wp_conseq [OF wp_or_remove [OF inner]])
    using t by (auto simp: unchanged_but_def) (metis t)+
qed
section \<open>Copies and staged files\<close>

lemma wp_drop_file:
  assumes "p = '''' \<or> P p" "unchanged_but P d0 d"
  shows "wp (drop_file p) (\<lambda>r s' d' h'. r = Inr () \<and> unchanged_but P d0 d' \<and> h' = h) s d h"
  using assms unfolding drop_file_def
  by (auto simp: unchanged_but_def intro!: wp_if wp_ret wp_ignoring wp_remove_file)

definition snapshot_of :: "string \<Rightarrow> string \<Rightarrow> string \<Rightarrow> fs \<Rightarrow> fs \<Rightarrow> file_snapshot \<Rightarrow> bool" where
  "snapshot_of dir pre target d0 d sn \<longleftrightarrow> fs_target sn = target \<and>
     (if fs_existed sn then temp_of dir pre (fs_backup sn) \<and> map_of d (fs_backup sn) = map_of d0 target \<and>
        (\<exists>c. map_of d0 target = Some (File c))
      else fs_backup sn = '''' \<and> map_of d0 target = None)"

lemma wp_snapshotFile:
  assumes "clean_dir dir" "slash \<notin> set pre" "length pre > 2"
  shows "wp (snapshotFile target dir pre) (\<lambda>r s' d' h'. unchanged_but (temp_of dir pre) d d' \<and> as_jobs h' = as_jobs h \<and>
      (\<forall>sn. r = Inr sn \<longrightarrow> snapshot_of dir pre target d d' sn)) s d h"
proof -
  have copy: "wp (bnd (writeSecureTempFile dir pre c) (\<lambda>backup. ret \<lparr>fs_target = target, fs_backup = backup, fs_existed = True\<rparr>))
      (\<lambda>r s' d' h'. unchanged_but (temp_of dir pre) d d' \<and> as_jobs h' = as_jobs h \<and>
      (\<forall>sn. r = Inr sn \<longrightarrow> snapshot_of dir pre target d d' sn)) s1 d h"
    if "map_of d target = Some (File c)" for c s1
    by (rule wp_bnd, rule wp_conseq [OF wp_writeSecureTempFile [OF assms]])
      (use that in \<open>auto split: sum.splits intro!: wp_ret simp: snapshot_of_def\<close>)
  have none: "snapshot_of dir pre target d d \<lparr>fs_target = target, fs_backup = '''', fs_existed = False\<rparr>"
    if "map_of d target = None" using that by (simp add: snapshot_of_def)
  show ?thesis
    unfolding snapshotFile_def
    by (rule wp_attempt, rule wp_stat)
      (auto split: option.splits simp: none intro!: wp_ret wp_raise wp_if wp_bnd [of "read_file target"] wp_read_file copy)
qed

definition policy_at :: "handler_config \<Rightarrow> string \<Rightarrow> fs \<Rightarrow> policy_push option" where
  "policy_at hc policyID d = (case map_of d (policyPath (hc_dir hc) policyID) of
     Some (File c) \<Rightarrow> (case js_parse_policy (hc_js hc) c of Inr p \<Rightarrow> Some p | Inl _ \<Rightarrow> None)
   | _ \<Rightarrow> None)"

definition a_backup :: "handler_config \<Rightarrow> string \<Rightarrow> bool" where
  "a_backup hc q \<longleftrightarrow> temp_of (hc_dir hc) rcloneRollback q \<or> temp_of (hc_dir hc) passwordRollback q"

definition a_stage :: "handler_config \<Rightarrow> string \<Rightarrow> bool" where
  "a_stage hc q \<longleftrightarrow> temp_of (hc_dir hc) rcloneStage q \<or> temp_of (hc_dir hc) passwordStage q"

text \<open>What encoding/json promises: a policy can be written and reading back gives the same policy; and an
  error of the parser is not os.ErrNotExist.\<close>

definition writable :: "json_io \<Rightarrow> policy_push \<Rightarrow> bool" where
  "writable js p \<longleftrightarrow> (\<exists>c. js_policy js p = Inr c \<and> js_parse_policy js c = Inr p)"

definition honest_parser :: "json_io \<Rightarrow> bool" where
  "honest_parser js \<longleftrightarrow> (\<forall>c. js_parse_policy js c \<noteq> Inl NotFound)"

text \<open>What a roll-back can count on.\<close>

definition can_restore :: "handler_config \<Rightarrow> string \<Rightarrow> fs \<Rightarrow> fs \<Rightarrow> rollback_state \<Rightarrow> bool" where
  "can_restore hc policyID d0 d rb \<longleftrightarrow> rb_policy_id rb = policyID \<and>
     snapshot_of (hc_dir hc) rcloneRollback (rclone_path hc) d0 d (rb_rclone rb) \<and>
     snapshot_of (hc_dir hc) passwordRollback (password_path hc) d0 d (rb_password rb) \<and>
     (case rb_old_policy rb of None \<Rightarrow> map_of d0 (policyPath (hc_dir hc) policyID) = None
      | Some p \<Rightarrow> policy_at hc policyID d0 = Some p)"

lemma temps_distinct:
  "temp_of dir rcloneRollback q \<Longrightarrow> \<not> temp_of dir passwordRollback q"
  "temp_of dir rcloneStage q \<Longrightarrow> \<not> temp_of dir passwordStage q"
  "temp_of dir rcloneRollback q \<Longrightarrow> \<not> temp_of dir rcloneStage q"
  "temp_of dir rcloneRollback q \<Longrightarrow> \<not> temp_of dir passwordStage q"
  "temp_of dir passwordRollback q \<Longrightarrow> \<not> temp_of dir rcloneStage q"
  "temp_of dir passwordRollback q \<Longrightarrow> \<not> temp_of dir passwordStage q"
  by (auto simp: temp_of_def)

lemma backup_not_stage: "a_backup hc q \<Longrightarrow> \<not> a_stage hc q"
  by (auto simp: a_backup_def a_stage_def dest: temps_distinct)

text \<open>The files a push is about: neither temporary files nor directories.\<close>

definition target_paths :: "handler_config \<Rightarrow> string \<Rightarrow> string set" where
  "target_paths hc policyID = {rclone_path hc, password_path hc, policyPath (hc_dir hc) policyID}"

lemma targets_not_temp:
  assumes "clean_dir (hc_dir hc)" "slash \<notin> set i" "t \<in> target_paths hc i"
  shows "\<not> a_backup hc t" "\<not> a_stage hc t" "t \<noteq> hc_dir hc" "t \<noteq> in_dir (hc_dir hc) ''policies''" "t \<noteq> ''''"
  using assms policyPath_in_dir [OF assms(1,2)] file_paths [OF assms(1)]
  by (auto simp: target_paths_def a_backup_def a_stage_def temp_of_def)

lemma targets_distinct:
  assumes "clean_dir (hc_dir hc)" "slash \<notin> set i"
  shows "rclone_path hc \<noteq> password_path hc" "policyPath (hc_dir hc) i \<noteq> rclone_path hc"
    "policyPath (hc_dir hc) i \<noteq> password_path hc"
  using policyPath_in_dir [OF assms] file_paths [OF assms(1)] by auto

lemma wp_snapshotPolicyState:
  assumes c: "clean_dir (hc_dir hc)" and i: "slash \<notin> set i" and js: "honest_parser (hc_js hc)"
  shows "wp (snapshotPolicyState hc i) (\<lambda>r s' d' h'. unchanged_but (a_backup hc) d d' \<and> as_jobs h' = as_jobs h \<and>
      (\<forall>rb. r = Inr rb \<longrightarrow> can_restore hc i d d' rb)) s d h"
proof -
  let ?Q = "\<lambda>r s' d' h'. unchanged_but (a_backup hc) d d' \<and> as_jobs h' = as_jobs h \<and>
      (\<forall>rb. r = Inr rb \<longrightarrow> can_restore hc i d d' rb)"
  have pre: "slash \<notin> set rcloneRollback" "length rcloneRollback > 2" "slash \<notin> set passwordRollback" "length passwordRollback > 2"
    by auto
  have weak: "unchanged_but (temp_of (hc_dir hc) rcloneRollback) d1 d2 \<Longrightarrow> unchanged_but (a_backup hc) d1 d2"
    "unchanged_but (temp_of (hc_dir hc) passwordRollback) d1 d2 \<Longrightarrow> unchanged_but (a_backup hc) d1 d2" for d1 d2
    by (auto simp: unchanged_but_def a_backup_def)
  have pw: "\<not> a_backup hc (password_path hc)" "\<not> a_backup hc (rclone_path hc)"
    using targets_not_temp(1) [OF c i] by (auto simp: target_paths_def)
  have second: "wp (snapshot_password hc i old rclone) ?Q s1 d1 h1"
    if d1: "unchanged_but (temp_of (hc_dir hc) rcloneRollback) d d1" "as_jobs h1 = as_jobs h"
      and sn: "snapshot_of (hc_dir hc) rcloneRollback (rclone_path hc) d d1 rclone"
      and old: "case old of None \<Rightarrow> map_of d (policyPath (hc_dir hc) i) = None | Some p \<Rightarrow> policy_at hc i d = Some p"
    for s1 d1 h1 rclone old
  unfolding snapshot_password_def
  proof (rule wp_attempt, rule wp_conseq [OF wp_snapshotFile [OF c pre(3,4)]])
    fix r :: "file_snapshot outcome" and s2 d2 and h2 :: agent_state
    assume q: "unchanged_but (temp_of (hc_dir hc) passwordRollback) d1 d2 \<and> as_jobs h2 = as_jobs h1 \<and>
        (\<forall>sn. r = Inr sn \<longrightarrow> snapshot_of (hc_dir hc) passwordRollback (password_path hc) d1 d2 sn)"
    then have all: "unchanged_but (a_backup hc) d d2" using d1(1) weak by (blast intro: unchanged_trans)
    show "wp (case r of Inl e \<Rightarrow> bnd (snapshot_cleanup rclone) (\<lambda>_. raise e)
        | Inr password \<Rightarrow> ret \<lparr>rb_policy_id = i, rb_old_policy = old, rb_rclone = rclone, rb_password = password\<rparr>) ?Q s2 d2 h2"
    proof (cases r)
      case (Inl e)
      have "fs_backup rclone = '''' \<or> a_backup hc (fs_backup rclone)"
        using sn by (auto simp: snapshot_of_def a_backup_def split: if_splits)
      then have "wp (snapshot_cleanup rclone) (\<lambda>r s' d' h'. r = Inr () \<and> unchanged_but (a_backup hc) d d' \<and> h' = h2) s2 d2 h2"
        unfolding snapshot_cleanup_def using all by (rule wp_drop_file)
      with Inl q d1(2) show ?thesis
        by (auto intro!: wp_bnd wp_raise elim!: wp_conseq)
    next
      case (Inr password)
      have "map_of d1 (password_path hc) = map_of d (password_path hc)"
        using unchanged_at [OF weak(1) [OF d1(1)] pw(1)] .
      moreover have "map_of d2 (fs_backup rclone) = map_of d1 (fs_backup rclone)" if "fs_existed rclone"
      proof -
        have "temp_of (hc_dir hc) rcloneRollback (fs_backup rclone)" using sn that by (simp add: snapshot_of_def)
        with q show ?thesis by (auto simp: unchanged_but_def dest: temps_distinct)
      qed
      ultimately have "can_restore hc i d d2 \<lparr>rb_policy_id = i, rb_old_policy = old, rb_rclone = rclone, rb_password = password\<rparr>"
        using sn q old Inr by (auto simp: can_restore_def snapshot_of_def)
      with Inr all q d1(2) show ?thesis by (auto intro!: wp_ret)
    qed
  qed
  have first: "wp (bnd (snapshotFile (rclone_path hc) (hc_dir hc) rcloneRollback) (snapshot_password hc i old)) ?Q s1 d h"
    if old: "case old of None \<Rightarrow> map_of d (policyPath (hc_dir hc) i) = None | Some p \<Rightarrow> policy_at hc i d = Some p" for s1 old
    by (rule wp_bnd, rule wp_conseq [OF wp_snapshotFile [OF c pre(1,2)]])
      (use old weak in \<open>auto split: sum.splits intro!: second\<close>)
  show ?thesis
    unfolding snapshotPolicyState_def LoadPolicyByID_def loadPolicyFile_def
    by (intro wp_attempt wp_bnd wp_read_file)
      (use js in \<open>auto intro!: wp_raise wp_from_sum first simp: policy_at_def honest_parser_def split: sum.splits\<close>)
qed
definition staged_ok :: "handler_config \<Rightarrow> fs \<Rightarrow> staged_files \<Rightarrow> bool" where
  "staged_ok hc d st \<longleftrightarrow>
     temp_of (hc_dir hc) rcloneStage (sf_rclone st) \<and> (\<exists>c. map_of d (sf_rclone st) = Some (File c)) \<and>
     temp_of (hc_dir hc) passwordStage (sf_password st) \<and> (\<exists>c. map_of d (sf_password st) = Some (File c))"

text \<open>After commit a path is either cleared or still that of a staged file.\<close>

definition staged_left :: "handler_config \<Rightarrow> staged_files \<Rightarrow> bool" where
  "staged_left hc st \<longleftrightarrow> (sf_rclone st = '''' \<or> a_stage hc (sf_rclone st)) \<and> (sf_password st = '''' \<or> a_stage hc (sf_password st))"

lemma wp_WriteRcloneConf:
  "wp (WriteRcloneConf hc p c) (\<lambda>r s' d' h'. unchanged_but (\<lambda>q. q = p) d d' \<and> h' = h \<and>
     (r = Inr () \<longrightarrow> (\<exists>x. map_of d' p = Some (File x)))) s d h"
  unfolding WriteRcloneConf_def
  by (rule wp_bnd, rule wp_from_sum)
    (auto simp: unchanged_but_def split: sum.splits intro!: wp_bnd wp_put_file wp_chmod)

lemma wp_staged_cleanup:
  assumes "staged_left hc st"
  shows "wp (staged_cleanup st) (\<lambda>r s' d' h'. r = Inr () \<and> unchanged_but (a_stage hc) d d' \<and> h' = h) s d h"
  unfolding staged_cleanup_def
  by (rule wp_bnd, rule wp_conseq [OF wp_drop_file])
    (use assms in \<open>auto simp: staged_left_def intro!: wp_drop_file\<close>)

text \<open>What staging leaves behind, seen from the files \<open>d0\<close> it began with.\<close>

definition staging :: "handler_config \<Rightarrow> fs \<Rightarrow> (string \<times> string \<times> job) list \<Rightarrow> (agent_state, staged_files) post" where
  "staging hc d0 j r s' d' h' \<longleftrightarrow> unchanged_but (\<lambda>q. a_stage hc q \<or> q = hc_dir hc) d0 d' \<and> as_jobs h' = j \<and>
     (\<forall>st. r = Inr st \<longrightarrow> staged_ok hc d' st \<and> map_of d' (hc_dir hc) = Some Dir)"

lemma wp_drop_staged:
  assumes "temp_of (hc_dir hc) rcloneStage rp" "unchanged_but (\<lambda>q. a_stage hc q \<or> q = hc_dir hc) d0 d" "as_jobs h = j"
  shows "wp (drop_staged rp e) (staging hc d0 j) s d h"
  unfolding drop_staged_def
proof (rule wp_bnd, rule wp_conseq [OF wp_staged_cleanup [of hc]])
  show "staged_left hc \<lparr>sf_rclone = rp, sf_password = ''''\<rparr>" using assms(1) by (simp add: staged_left_def a_stage_def)
qed (use assms in \<open>auto simp: staging_def unchanged_but_def intro!: wp_raise\<close>)

lemma dir_not_temp: "\<not> temp_of dir x dir" by (auto simp: temp_of_def)

lemma wp_stage_password:
  assumes c: "clean_dir (hc_dir hc)" and np: "\<not> pp_plain_backup p"
    and t: "temp_of (hc_dir hc) rcloneStage rp" "\<exists>x. map_of d rp = Some (File x)"
    and d: "unchanged_but (\<lambda>q. a_stage hc q \<or> q = hc_dir hc) d0 d" "as_jobs h = j" "map_of d (hc_dir hc) = Some Dir"
  shows "wp (stage_password hc p rp) (staging hc d0 j) s d h"
proof -
  have pre: "slash \<notin> set passwordStage" "length passwordStage > 2" by auto
  show ?thesis
    unfolding stage_password_def if_not_P [OF np]
  proof (rule wp_attempt, rule wp_conseq [OF wp_writeSecureTempFile [OF c pre]])
    fix r :: "string outcome" and s2 d2 and h2 :: agent_state
    assume q: "unchanged_but (temp_of (hc_dir hc) passwordStage) d d2 \<and> as_jobs h2 = as_jobs h \<and>
        (\<forall>x. r = Inr x \<longrightarrow> temp_of (hc_dir hc) passwordStage x \<and> map_of d2 x = Some (File (pp_restic_password p)))"
    then have all: "unchanged_but (\<lambda>q. a_stage hc q \<or> q = hc_dir hc) d0 d2" "as_jobs h2 = j"
      using d by (auto simp: unchanged_but_def a_stage_def)
    have "map_of d2 rp = map_of d rp" "map_of d2 (hc_dir hc) = map_of d (hc_dir hc)"
      using q t(1) dir_not_temp by (auto simp: unchanged_but_def dest: temps_distinct)
    then show "wp (case r of Inl e \<Rightarrow> drop_staged rp e
         | Inr passwordPath \<Rightarrow> ret \<lparr>sf_rclone = rp, sf_password = passwordPath\<rparr>) (staging hc d0 j) s2 d2 h2"
      using q all t d(3)
      by (auto split: sum.splits simp: staged_ok_def staging_def [of _ _ _ "Inr _"] intro!: wp_drop_staged wp_ret)
  qed
qed

lemma wp_stage_rclone:
  assumes c: "clean_dir (hc_dir hc)" and np: "\<not> pp_plain_backup p"
    and t: "temp_of (hc_dir hc) rcloneStage rp"
    and d: "unchanged_but (\<lambda>q. a_stage hc q \<or> q = hc_dir hc) d0 d" "as_jobs h = j" "map_of d (hc_dir hc) = Some Dir"
  shows "wp (stage_rclone hc p rp) (staging hc d0 j) s d h"
  unfolding stage_rclone_def
proof (rule wp_attempt, rule wp_conseq [OF wp_WriteRcloneConf])
  fix r :: "unit outcome" and s2 d2 and h2 :: agent_state
  assume q: "unchanged_but (\<lambda>q. q = rp) d d2 \<and> h2 = h \<and> (r = Inr () \<longrightarrow> (\<exists>y. map_of d2 rp = Some (File y)))"
  have "rp \<noteq> hc_dir hc" using t dir_not_temp by auto
  then have dir: "map_of d2 (hc_dir hc) = Some Dir" using q d(3) by (auto simp: unchanged_but_def)
  have all: "unchanged_but (\<lambda>q. a_stage hc q \<or> q = hc_dir hc) d0 d2" "as_jobs h2 = j" using q d t
    by (auto simp: unchanged_but_def a_stage_def)
  show "wp (case r of Inl e \<Rightarrow> drop_staged rp e | Inr _ \<Rightarrow> stage_password hc p rp) (staging hc d0 j) s2 d2 h2"
    using q all dir t
    by (auto split: sum.splits intro!: wp_drop_staged wp_stage_password [OF c np])
qed

lemma wp_stagePolicyFiles:
  assumes c: "clean_dir (hc_dir hc)" and np: "\<not> pp_plain_backup p"
  shows "wp (stagePolicyFiles hc p) (staging hc d (as_jobs h)) s d h"
proof -
  have pre: "slash \<notin> set rcloneStage" "length rcloneStage > 2" by auto
  have rest: "wp (bnd (createSecureTempPath (hc_dir hc) rcloneStage) (stage_rclone hc p)) (staging hc d (as_jobs h)) s1 d1 h"
    if d1: "unchanged_but (\<lambda>q. q = hc_dir hc) d d1" "map_of d1 (hc_dir hc) = Some Dir" for s1 d1
  proof (rule wp_bnd, rule wp_conseq [OF wp_createSecureTempPath [OF c pre]])
    fix r :: "string outcome" and s2 d2 and h2 :: agent_state
    assume q: "unchanged_but (temp_of (hc_dir hc) rcloneStage) d1 d2 \<and> as_jobs h2 = as_jobs h \<and>
        (\<forall>x. r = Inr x \<longrightarrow> temp_of (hc_dir hc) rcloneStage x \<and> map_of d2 x = Some (File ''''))"
    then have all: "unchanged_but (\<lambda>q. a_stage hc q \<or> q = hc_dir hc) d d2" "as_jobs h2 = as_jobs h" "map_of d2 (hc_dir hc) = Some Dir"
      using d1 dir_not_temp by (auto simp: unchanged_but_def a_stage_def)
    with q show "(case r of Inl e \<Rightarrow> staging hc d (as_jobs h) (Inl e)
        | Inr x \<Rightarrow> wp (stage_rclone hc p x) (staging hc d (as_jobs h))) s2 d2 h2"
      by (auto split: sum.splits simp: staging_def intro!: wp_stage_rclone [OF c np])
  qed
  show ?thesis
    unfolding stagePolicyFiles_def
    by (rule wp_bnd, rule wp_mkdir_all) (auto simp: unchanged_but_def staging_def intro!: rest)
qed
section \<open>Putting the new files in place\<close>

definition is_target :: "handler_config \<Rightarrow> string \<Rightarrow> bool" where
  "is_target hc q \<longleftrightarrow> q = rclone_path hc \<or> q = password_path hc"

lemma stage_not_target:
  assumes "clean_dir (hc_dir hc)"
  shows "temp_of (hc_dir hc) rcloneStage q \<Longrightarrow> q \<noteq> rclone_path hc \<and> q \<noteq> password_path hc"
    "temp_of (hc_dir hc) passwordStage q \<Longrightarrow> q \<noteq> rclone_path hc \<and> q \<noteq> password_path hc"
    "rclone_path hc \<noteq> password_path hc" "password_path hc \<noteq> rclone_path hc"
  using file_paths [OF assms] by (auto simp: temp_of_def)

lemma wp_validateReplaceTarget:
  "(\<not> s \<Longrightarrow> Q (Inl SysFault) True d h) \<Longrightarrow> map_of d p \<noteq> Some Dir \<Longrightarrow> Q (Inr ()) s d h \<Longrightarrow>
   wp (validateReplaceTarget p) Q s d h"
  unfolding validateReplaceTarget_def
  by (rule wp_attempt, rule wp_stat) (auto split: option.splits intro!: wp_ret wp_raise wp_if)

definition committed :: "handler_config \<Rightarrow> fs \<Rightarrow> agent_state \<Rightarrow> (agent_state, staged_files \<times> go_error option) post" where
  "committed hc d0 h0 r s' d' h' \<longleftrightarrow> h' = h0 \<and> unchanged_but (\<lambda>q. a_stage hc q \<or> is_target hc q) d0 d' \<and>
     (\<forall>q. is_target hc q \<longrightarrow> map_of d' q \<noteq> Some Dir) \<and>
     (\<exists>st err. r = Inr (st, err) \<and> staged_left hc st \<and> (err \<noteq> None \<longrightarrow> s'))"

lemma wp_commit:
  assumes c: "clean_dir (hc_dir hc)" and st: "staged_ok hc d st"
    and nd: "map_of d (rclone_path hc) \<noteq> Some Dir" "map_of d (password_path hc) \<noteq> Some Dir"
  shows "wp (commit hc st) (committed hc d h) s d h"
proof -
  from st obtain cr cp where t: "temp_of (hc_dir hc) rcloneStage (sf_rclone st)" "map_of d (sf_rclone st) = Some (File cr)"
    "temp_of (hc_dir hc) passwordStage (sf_password st)" "map_of d (sf_password st) = Some (File cp)"
    by (auto simp: staged_ok_def)
  note ne = stage_not_target(1) [OF c t(1)] stage_not_target(2) [OF c t(3)] stage_not_target(3,4) [OF c]
  have sp: "sf_rclone st \<noteq> sf_password st" using t(1,3) temps_distinct(2) by metis
  have a: "a_stage hc (sf_rclone st)" "a_stage hc (sf_password st)" using t by (auto simp: a_stage_def)
  have err: "wp (ret (x, Some e)) (committed hc d h) True d1 h"
    if "staged_left hc x" "unchanged_but (\<lambda>q. a_stage hc q \<or> is_target hc q) d d1"
      "\<forall>q. is_target hc q \<longrightarrow> map_of d1 q \<noteq> Some Dir" for x e d1
    using that by (auto simp: committed_def intro!: wp_ret)
  have left: "staged_left hc st" "staged_left hc (st\<lparr>sf_rclone := ''''\<rparr>)" using a by (auto simp: staged_left_def)
  have ok: "\<forall>q. is_target hc q \<longrightarrow> map_of d q \<noteq> Some Dir" using nd by (auto simp: is_target_def)
  show ?thesis
    unfolding commit_def
    apply (rule wp_attempt, rule wp_validateReplaceTarget [OF _ nd(1)])
     apply (simp, rule err; simp add: left ok)
    apply simp
    apply (rule wp_attempt, rule wp_validateReplaceTarget [OF _ nd(2)])
     apply (simp, rule err; simp add: left ok)
    apply simp
    apply (rule wp_attempt, rule wp_rename)
       apply (simp, rule err; simp add: left ok)
      apply (simp add: t)
     apply (simp add: t nd)
    apply (simp add: Let_def ne)
    apply (rule wp_attempt, rule wp_rename)
       apply simp
       apply (rule err)
         apply (simp add: left)
        apply (use a in \<open>auto simp: unchanged_but_def is_target_def\<close>)[1]
       apply (use nd ne in \<open>auto simp: is_target_def\<close>)[1]
      apply (use ne sp t in simp)
     apply (use ne sp t nd in \<open>auto split: if_splits\<close>)[1]
    apply simp
    apply (rule wp_ret)
    using a nd ne by (auto simp: committed_def unchanged_but_def is_target_def staged_left_def)
qed

definition saves_at :: "handler_config \<Rightarrow> string \<Rightarrow> string \<Rightarrow> bool" where
  "saves_at hc i q \<longleftrightarrow> q = policyPath (hc_dir hc) i \<or> q = in_dir (hc_dir hc) ''policies''"

text \<open>The policies have a directory or none, and a policy's file is not a directory.\<close>

definition layout_ok :: "handler_config \<Rightarrow> string \<Rightarrow> fs \<Rightarrow> bool" where
  "layout_ok hc i d \<longleftrightarrow> (\<forall>c. map_of d (in_dir (hc_dir hc) ''policies'') \<noteq> Some (File c)) \<and>
     map_of d (policyPath (hc_dir hc) i) \<noteq> Some Dir"

definition saved :: "handler_config \<Rightarrow> policy_push \<Rightarrow> string \<Rightarrow> bool \<Rightarrow> fs \<Rightarrow> agent_state \<Rightarrow> (agent_state, unit) post" where
  "saved hc p i s0 d0 h0 r s' d' h' \<longleftrightarrow> h' = h0 \<and> unchanged_but (saves_at hc i) d0 d' \<and> layout_ok hc i d' \<and>
     (if s0 then s' \<and> \<not> isl r else isl r \<longrightarrow> s') \<and> (r = Inr () \<longrightarrow> policy_at hc i d' = Some p)"

lemma wp_writeFile0600:
  assumes par: "map_of d (parent_dir q) = Some Dir \<or> parent_dir q = in_dir (hc_dir hc) ''policies''"
    and q: "q = policyPath (hc_dir hc) i" and l: "layout_ok hc i d" and js: "js_parse_policy (hc_js hc) c = Inr p"
    and ne: "q \<noteq> in_dir (hc_dir hc) ''policies''"
  shows "wp (writeFile0600 q c) (saved hc p i s d h) s d h"
proof -
  have nd: "map_of d q \<noteq> Some Dir" using l q by (simp add: layout_ok_def)
  have nf: "map_of d (parent_dir q) \<noteq> Some (File x)" for x using par l by (auto simp: layout_ok_def)
  have q': "saves_at hc i q" using q by (simp add: saves_at_def)
  have body: "wp (bnd (write_file q c) (\<lambda>_. chmod q)) (saved hc p i s d h) s d1 h"
    if d1: "unchanged_but (saves_at hc i) d d1" "layout_ok hc i d1" for d1
  proof -
    have nd1: "map_of d1 q \<noteq> Some Dir" using d1(2) q by (simp add: layout_ok_def)
    have lay: "layout_ok hc i (AList.update q (File x) d')" if "layout_ok hc i d'" for x d'
      using that ne q by (auto simp: layout_ok_def)
    have un: "unchanged_but (saves_at hc i) d (AList.update q (File x) d')" if "unchanged_but (saves_at hc i) d d'" for x d'
      using that q' by (auto simp: unchanged_but_def)
    show ?thesis
      unfolding write_file_def
      apply (rule wp_bnd, rule wp_bnd, rule wp_put_file)
        apply (simp add: saved_def d1)
       apply (simp add: nd1)
      apply simp
      apply (rule wp_put_file)
        apply (simp add: saved_def d1 un lay)
       apply simp
      apply simp
      apply (rule wp_chmod)
       apply (simp add: saved_def d1 un lay)
      by (simp add: saved_def d1 un lay policy_at_def q [symmetric] js)
  qed
  show ?thesis
    unfolding writeFile0600_def
    apply (rule wp_bnd, rule wp_mkdir_all)
       apply (simp add: saved_def l)
      apply simp
      apply (rule body)
       apply (use par in \<open>auto simp: unchanged_but_def saves_at_def\<close>)[1]
      apply (use l par ne q in \<open>auto simp: layout_ok_def\<close>)[1]
     apply (simp, rule body, simp, rule l)
    using nf by simp
qed

lemma wp_SavePolicy:
  assumes c: "clean_dir (hc_dir hc)" and i: "slash \<notin> set (pp_policy_id p)" and js: "writable (hc_js hc) p"
    and dir: "map_of d (hc_dir hc) = Some Dir" and l: "layout_ok hc (pp_policy_id p) d"
  shows "wp (SavePolicy (hc_js hc) (hc_dir hc) p) (saved hc p (pp_policy_id p) s d h) s d h"
proof -
  obtain data where data: "js_policy (hc_js hc) p = Inr data" "js_parse_policy (hc_js hc) data = Inr p"
    using js by (auto simp: writable_def)
  let ?q = "policyPath (hc_dir hc) (pp_policy_id p)"
  have par: "map_of d (parent_dir ?q) = Some Dir \<or> parent_dir ?q = in_dir (hc_dir hc) ''policies''"
    using policyPath_in_dir [OF c i] dir by auto
  have ne: "?q \<noteq> in_dir (hc_dir hc) ''policies''"
    using targets_not_temp(4) [OF c i, of ?q] by (simp add: target_paths_def)
  show ?thesis
    unfolding SavePolicy_def
    by (rule wp_bnd, rule wp_mkdir_all)
      (auto simp: dir saved_def [of _ _ _ _ _ _ "Inl _"] l data intro!: wp_bnd wp_from_sum
        wp_writeFile0600 [OF par refl l data(2) ne])
qed
section \<open>Putting the old files back\<close>

lemma wp_snapshot_restore:
  assumes sn: "snapshot_of dir pre target d0 d sn" and nd: "map_of d target \<noteq> Some Dir"
    and t: "\<not> temp_of dir pre target" "target \<noteq> ''''" and ne: "\<not> temp_of dir pre ''''"
  shows "wp (snapshot_restore sn) (\<lambda>r s' d' h'. s' \<and> h' = h \<and> unchanged_but (\<lambda>q. temp_of dir pre q \<or> q = target) d d' \<and>
     map_of d' target = map_of d0 target \<and>
     (\<exists>sn'. r = Inr sn' \<and> (fs_backup sn' = '''' \<or> temp_of dir pre (fs_backup sn')))) True d h"
proof (cases "fs_existed sn")
  case False
  with sn t nd show ?thesis
    unfolding snapshot_restore_def
    by (auto simp: snapshot_of_def unchanged_but_def intro!: wp_if wp_bnd wp_ignoring wp_remove_file wp_ret)
next
  case True
  with sn obtain c where b: "temp_of dir pre (fs_backup sn)" "map_of d (fs_backup sn) = Some (File c)"
    "map_of d0 target = Some (File c)" "fs_target sn = target" by (auto simp: snapshot_of_def)
  then have "fs_backup sn \<noteq> ''''" "fs_backup sn \<noteq> target" using ne t by auto
  with True b t nd show ?thesis
    unfolding snapshot_restore_def
    by (auto simp: unchanged_but_def intro!: wp_if wp_attempt wp_rename wp_ret)
qed

definition backups_left :: "handler_config \<Rightarrow> rollback_state \<Rightarrow> bool" where
  "backups_left hc rb \<longleftrightarrow> (fs_backup (rb_rclone rb) = '''' \<or> a_backup hc (fs_backup (rb_rclone rb))) \<and>
     (fs_backup (rb_password rb) = '''' \<or> a_backup hc (fs_backup (rb_password rb)))"

definition restored_files :: "handler_config \<Rightarrow> fs \<Rightarrow> fs \<Rightarrow> bool" where
  "restored_files hc d0 d' \<longleftrightarrow> map_of d' (rclone_path hc) = map_of d0 (rclone_path hc) \<and>
     map_of d' (password_path hc) = map_of d0 (password_path hc)"

lemma target_not_backup:
  assumes "clean_dir (hc_dir hc)"
  shows "\<not> temp_of (hc_dir hc) rcloneRollback (rclone_path hc)" "\<not> temp_of (hc_dir hc) rcloneRollback (password_path hc)"
    "\<not> temp_of (hc_dir hc) passwordRollback (rclone_path hc)" "\<not> temp_of (hc_dir hc) passwordRollback (password_path hc)"
    "rclone_path hc \<noteq> ''''" "password_path hc \<noteq> ''''" "\<not> temp_of (hc_dir hc) x ''''"
  using file_paths [OF assms] by (auto simp: temp_of_def)

lemma wp_restoreConfig:
  assumes c: "clean_dir (hc_dir hc)" and rb: "can_restore hc i d0 d rb"
    and nd: "map_of d (rclone_path hc) \<noteq> Some Dir" "map_of d (password_path hc) \<noteq> Some Dir"
  shows "wp (restoreConfig rb) (\<lambda>r s' d' h'. s' \<and> h' = h \<and>
     unchanged_but (\<lambda>q. a_backup hc q \<or> is_target hc q) d d' \<and> restored_files hc d0 d' \<and>
     (\<exists>rb'. r = Inr rb' \<and> rb_policy_id rb' = rb_policy_id rb \<and> rb_old_policy rb' = rb_old_policy rb \<and> backups_left hc rb')) True d h"
proof -
  note tn = target_not_backup [OF c]
  note ne = stage_not_target(3,4) [OF c]
  from rb have sn: "snapshot_of (hc_dir hc) rcloneRollback (rclone_path hc) d0 d (rb_rclone rb)"
    "snapshot_of (hc_dir hc) passwordRollback (password_path hc) d0 d (rb_password rb)" by (auto simp: can_restore_def)
  show ?thesis
    unfolding restoreConfig_def
  proof (rule wp_bnd, rule wp_conseq [OF wp_snapshot_restore [OF sn(1) nd(1) tn(1,5,7)]])
    fix r :: "file_snapshot outcome" and s1 d1 and h1 :: agent_state
    assume q: "s1 \<and> h1 = h \<and> unchanged_but (\<lambda>q. temp_of (hc_dir hc) rcloneRollback q \<or> q = rclone_path hc) d d1 \<and>
     map_of d1 (rclone_path hc) = map_of d0 (rclone_path hc) \<and>
     (\<exists>sn'. r = Inr sn' \<and> (fs_backup sn' = '''' \<or> temp_of (hc_dir hc) rcloneRollback (fs_backup sn')))"
    then obtain sn' where r: "r = Inr sn'" "fs_backup sn' = '''' \<or> a_backup hc (fs_backup sn')" by (auto simp: a_backup_def)
    have same: "map_of d1 x = map_of d x" if "\<not> temp_of (hc_dir hc) rcloneRollback x" "x \<noteq> rclone_path hc" for x
      using q that by (simp add: unchanged_but_def)
    have "map_of d1 (fs_backup (rb_password rb)) = map_of d (fs_backup (rb_password rb))" if "fs_existed (rb_password rb)"
    proof (rule same)
      from sn(2) that have t: "temp_of (hc_dir hc) passwordRollback (fs_backup (rb_password rb))" by (simp add: snapshot_of_def)
      then show "\<not> temp_of (hc_dir hc) rcloneRollback (fs_backup (rb_password rb))" by (metis temps_distinct(1))
      show "fs_backup (rb_password rb) \<noteq> rclone_path hc" using t tn(3) by auto
    qed
    with sn(2) have sn2: "snapshot_of (hc_dir hc) passwordRollback (password_path hc) d0 d1 (rb_password rb)"
      by (auto simp: snapshot_of_def)
    have nd2: "map_of d1 (password_path hc) \<noteq> Some Dir" using nd(2) same [OF tn(2) ne(2)] by simp
    have "wp (bnd (snapshot_restore (rb_password rb)) (\<lambda>p. ret (rb\<lparr>rb_rclone := sn', rb_password := p\<rparr>)))
      (\<lambda>r s' d' h'. s' \<and> h' = h \<and>
     unchanged_but (\<lambda>q. a_backup hc q \<or> is_target hc q) d d' \<and> restored_files hc d0 d' \<and>
     (\<exists>rb'. r = Inr rb' \<and> rb_policy_id rb' = rb_policy_id rb \<and> rb_old_policy rb' = rb_old_policy rb \<and> backups_left hc rb')) True d1 h"
      by (rule wp_bnd, rule wp_conseq [OF wp_snapshot_restore [OF sn2 nd2 tn(4,6,7)]])
        (use q r(2) ne tn in \<open>auto simp: unchanged_but_def restored_files_def a_backup_def is_target_def backups_left_def
          intro!: wp_ret\<close>)
    with q r(1) show "(case r of Inl e \<Rightarrow> \<lambda>s' d' h'. s' \<and> h' = h \<and>
     unchanged_but (\<lambda>q. a_backup hc q \<or> is_target hc q) d d' \<and> restored_files hc d0 d' \<and>
     (\<exists>rb'. Inl e = Inr rb' \<and> rb_policy_id rb' = rb_policy_id rb \<and> rb_old_policy rb' = rb_old_policy rb \<and> backups_left hc rb')
      | Inr a \<Rightarrow> wp (bnd (snapshot_restore (rb_password rb)) (\<lambda>p. ret (rb\<lparr>rb_rclone := a, rb_password := p\<rparr>)))
      (\<lambda>r s' d' h'. s' \<and> h' = h \<and>
     unchanged_but (\<lambda>q. a_backup hc q \<or> is_target hc q) d d' \<and> restored_files hc d0 d' \<and>
     (\<exists>rb'. r = Inr rb' \<and> rb_policy_id rb' = rb_policy_id rb \<and> rb_old_policy rb' = rb_old_policy rb \<and> backups_left hc rb'))) s1 d1 h1"
      by simp
  qed
qed

definition restored_policy :: "handler_config \<Rightarrow> string \<Rightarrow> fs \<Rightarrow> fs \<Rightarrow> bool" where
  "restored_policy hc i d0 d' \<longleftrightarrow> policy_at hc i d' = policy_at hc i d0 \<and>
     (map_of d' (policyPath (hc_dir hc) i) = None \<longleftrightarrow> map_of d0 (policyPath (hc_dir hc) i) = None)"

lemma wp_restorePolicy:
  assumes c: "clean_dir (hc_dir hc)" and i: "slash \<notin> set i"
    and id: "rb_policy_id rb = i"
    and old: "case rb_old_policy rb of None \<Rightarrow> map_of d0 (policyPath (hc_dir hc) i) = None
      | Some p \<Rightarrow> policy_at hc i d0 = Some p \<and> pp_policy_id p = i \<and> writable (hc_js hc) p"
    and dir: "map_of d (hc_dir hc) = Some Dir" and l: "layout_ok hc i d"
  shows "wp (restorePolicy hc rb) (\<lambda>r s' d' h'. r = Inr () \<and> s' \<and> h' = h \<and> unchanged_but (saves_at hc i) d d' \<and>
     restored_policy hc i d0 d') True d h"
proof (cases "rb_old_policy rb")
  case None
  have nd: "map_of d (policyPath (hc_dir hc) i) \<noteq> Some Dir" using l by (simp add: layout_ok_def)
  have "wp (DeletePolicy (hc_dir hc) i) (\<lambda>r s' d' h'. s' \<and> h' = h \<and> unchanged_but (saves_at hc i) d d' \<and>
     restored_policy hc i d0 d') True d h"
    unfolding DeletePolicy_def
    by (rule wp_missing_ok, rule wp_remove_file)
      (use nd old None in \<open>auto simp: unchanged_but_def saves_at_def restored_policy_def policy_at_def\<close>)
  with None id show ?thesis
    unfolding restorePolicy_def by (auto intro!: wp_ignoring elim!: wp_conseq)
next
  case (Some p)
  with old have p: "policy_at hc i d0 = Some p" "pp_policy_id p = i" and wr: "writable (hc_js hc) p" by auto
  have "wp (SavePolicy (hc_js hc) (hc_dir hc) p) (saved hc p i True d h) True d h"
    using wp_SavePolicy [where p = p and s = True and h = h, OF c _ wr dir] p(2) i l by simp
  moreover have ex: "map_of d0 (policyPath (hc_dir hc) i) \<noteq> None" using p(1) by (auto simp: policy_at_def split: option.splits)
  moreover have "restored_policy hc i d0 d'" if "policy_at hc i d' = Some p" for d'
    using that p(1) ex by (auto simp: restored_policy_def policy_at_def split: option.splits node.splits)
  ultimately show ?thesis
    unfolding restorePolicy_def Some option.case
    by (intro wp_ignoring) (erule wp_conseq, case_tac r, auto simp: saved_def)
qed

section \<open>Jobs\<close>

lemma wp_RemoveJob: "(\<And>h'. Q (Inr ()) s d h') \<Longrightarrow> wp (RemoveJob k) Q s d h"
  by (auto simp: wp_def RemoveJob_def at_most_one_fault_def spent_def)

lemma wp_UpdateSchedule:
  "schedule_Validate hc sc = None \<Longrightarrow> (\<And>h'. Q (Inr ()) s d h') \<Longrightarrow> wp (UpdateSchedule hc k sc j) Q s d h"
  by (auto simp: wp_def UpdateSchedule_def at_most_one_fault_def spent_def)

text \<open>Schedules that were validated are accepted.\<close>

lemma wp_schedule_jobs:
  assumes "invalid_schedules hc p = None"
  shows "wp (schedule_jobs hc p) (\<lambda>r s' d' h'. r = Inr () \<and> s' = s \<and> d' = d) s d h"
proof -
  have v: "schedule_Validate hc (vs_schedule v) = None"
    if "pp_verification p = Some v" "vs_enabled v" "trim_space (vs_schedule v) \<noteq> ''''" for v
  proof -
    have "vs_schedule v \<noteq> ''''" using that(3) by auto
    with assms that show ?thesis by (auto simp: invalid_schedules_def Let_def split: if_splits option.splits)
  qed
  have "pp_schedule p \<noteq> '''' \<Longrightarrow> schedule_Validate hc (pp_schedule p) = None"
    using assms by (auto simp: invalid_schedules_def Let_def split: option.splits)
  with v show ?thesis
    unfolding schedule_jobs_def updateVerificationSchedule_def
    by (intro wp_bnd wp_if) (auto split: option.splits intro!: wp_RemoveJob wp_UpdateSchedule)
qed
section \<open>The whole push\<close>

text \<open>What is seen of a policy: the two files in use, its stored copy and the scheduled jobs.\<close>

definition as_before :: "handler_config \<Rightarrow> string \<Rightarrow> fs \<Rightarrow> (string \<times> string \<times> job) list \<Rightarrow> fs \<Rightarrow> agent_state \<Rightarrow> bool" where
  "as_before hc i d0 j d' h' \<longleftrightarrow> restored_files hc d0 d' \<and> restored_policy hc i d0 d' \<and> as_jobs h' = j"

definition installed :: "handler_config \<Rightarrow> policy_push \<Rightarrow> fs \<Rightarrow> (string \<times> string \<times> job) list \<Rightarrow>
    (agent_state, rollback_state \<times> staged_files \<times> go_error option) post" where
  "installed hc p d0 j r s' d' h' \<longleftrightarrow> (\<exists>rb st err. r = Inr (rb, st, err) \<and> backups_left hc rb \<and> staged_left hc st \<and>
     (case err of Some e \<Rightarrow> as_before hc (pp_policy_id p) d0 j d' h' | None \<Rightarrow> policy_at hc (pp_policy_id p) d' = Some p))"

lemma snapshot_moves:
  "snapshot_of dir pre t d0 d sn \<Longrightarrow> (\<And>q. temp_of dir pre q \<Longrightarrow> map_of d' q = map_of d q) \<Longrightarrow> snapshot_of dir pre t d0 d' sn"
  by (auto simp: snapshot_of_def)

text \<open>Changes beside the copies leave the roll-back possible.\<close>

lemma can_restore_moves:
  assumes "can_restore hc i d0 d rb" "\<And>q. a_backup hc q \<Longrightarrow> map_of d' q = map_of d q"
  shows "can_restore hc i d0 d' rb"
  using assms unfolding can_restore_def by (auto intro: snapshot_moves simp: a_backup_def)

lemma other_paths:
  assumes c: "clean_dir (hc_dir hc)" and i: "slash \<notin> set i"
  shows "a_backup hc q \<Longrightarrow> \<not> a_stage hc q \<and> \<not> is_target hc q \<and> \<not> saves_at hc i q"
    "is_target hc q \<Longrightarrow> \<not> a_stage hc q \<and> \<not> a_backup hc q \<and> \<not> saves_at hc i q"
    "saves_at hc i q \<Longrightarrow> \<not> a_stage hc q \<and> \<not> a_backup hc q \<and> \<not> is_target hc q"
    "\<not> a_backup hc (hc_dir hc)" "\<not> a_stage hc (hc_dir hc)" "\<not> is_target hc (hc_dir hc)" "\<not> saves_at hc i (hc_dir hc)"
  using policyPath_in_dir [OF c i] file_paths [OF c] backup_not_stage
  by (auto simp: is_target_def saves_at_def a_backup_def a_stage_def temp_of_def)

lemma layout_moves:
  "layout_ok hc i d \<Longrightarrow> (\<And>q. saves_at hc i q \<Longrightarrow> map_of d' q = map_of d q) \<Longrightarrow> layout_ok hc i d'"
  by (auto simp: layout_ok_def saves_at_def)

lemma restored_policy_same:
  "(\<And>q. saves_at hc i q \<Longrightarrow> map_of d' q = map_of d0 q) \<Longrightarrow> restored_policy hc i d0 d'"
  by (auto simp: restored_policy_def policy_at_def saves_at_def)

text \<open>The policy stored so far carries the id it is stored under.\<close>

definition own_id :: "handler_config \<Rightarrow> string \<Rightarrow> fs \<Rightarrow> bool" where
  "own_id hc i d \<longleftrightarrow> (case policy_at hc i d of None \<Rightarrow> True | Some p \<Rightarrow> pp_policy_id p = i \<and> writable (hc_js hc) p)"

text \<open>The situation a push starts from.\<close>

definition push_ready :: "handler_config \<Rightarrow> policy_push \<Rightarrow> fs \<Rightarrow> bool" where
  "push_ready hc p d \<longleftrightarrow> clean_dir (hc_dir hc) \<and> slash \<notin> set (pp_policy_id p) \<and> honest_parser (hc_js hc) \<and> writable (hc_js hc) p \<and>
     map_of d (rclone_path hc) \<noteq> Some Dir \<and> map_of d (password_path hc) \<noteq> Some Dir \<and>
     layout_ok hc (pp_policy_id p) d \<and> own_id hc (pp_policy_id p) d"

lemma push_readyD:
  assumes "push_ready hc p d"
  shows "clean_dir (hc_dir hc)" "slash \<notin> set (pp_policy_id p)" "honest_parser (hc_js hc)"
    "map_of d (rclone_path hc) \<noteq> Some Dir" "map_of d (password_path hc) \<noteq> Some Dir"
    "layout_ok hc (pp_policy_id p) d" "own_id hc (pp_policy_id p) d" "writable (hc_js hc) p"
  using assms by (auto simp: push_ready_def)

text \<open>A roll-back from files \<open>d\<close> of a push that began with files \<open>d0\<close>.\<close>

definition mid_push :: "handler_config \<Rightarrow> policy_push \<Rightarrow> fs \<Rightarrow> fs \<Rightarrow> rollback_state \<Rightarrow> bool" where
  "mid_push hc p d0 d rb \<longleftrightarrow> push_ready hc p d0 \<and> can_restore hc (pp_policy_id p) d0 d rb \<and>
     map_of d (rclone_path hc) \<noteq> Some Dir \<and> map_of d (password_path hc) \<noteq> Some Dir \<and>
     map_of d (hc_dir hc) = Some Dir \<and> layout_ok hc (pp_policy_id p) d"

lemma wp_config_back:
  assumes m: "mid_push hc p d0 d rb" and st: "staged_left hc st" and j: "as_jobs h = j"
    and same: "\<And>q. saves_at hc (pp_policy_id p) q \<Longrightarrow> map_of d q = map_of d0 q"
  shows "wp (bnd (restoreConfig rb) (\<lambda>rb'. ret (rb', st, Some e))) (installed hc p d0 j) True d h"
proof -
  note r = push_readyD [of hc p d0]
  have rd: "push_ready hc p d0" using m by (simp add: mid_push_def)
  note op = other_paths [OF r(1) [OF rd] r(2) [OF rd]]
  have "restored_policy hc (pp_policy_id p) d0 d2" if "unchanged_but (\<lambda>q. a_backup hc q \<or> is_target hc q) d d2" for d2
    by (rule restored_policy_same) (use that same op(3) in \<open>simp add: unchanged_but_def\<close>)
  then show ?thesis
    using m st j
    by (intro wp_bnd, intro wp_conseq [OF wp_restoreConfig [OF r(1) [OF rd], of "pp_policy_id p" d0]])
      (auto simp: mid_push_def installed_def as_before_def intro!: wp_ret)
qed

lemma wp_all_back:
  assumes m: "mid_push hc p d0 d rb" and st: "staged_left hc st" and j: "as_jobs h = j"
  shows "wp (bnd (rollback_restore hc rb) (\<lambda>rb'. ret (rb', st, Some e))) (installed hc p d0 j) True d h"
proof -
  let ?i = "pp_policy_id p"
  have rd: "push_ready hc p d0" using m by (simp add: mid_push_def)
  note r = push_readyD [OF rd]
  note op = other_paths [OF r(1,2)]
  have id: "rb_policy_id rb = ?i" using m by (simp add: mid_push_def can_restore_def)
  have old: "case rb_old_policy rb of None \<Rightarrow> map_of d0 (policyPath (hc_dir hc) ?i) = None
      | Some q \<Rightarrow> policy_at hc ?i d0 = Some q \<and> pp_policy_id q = ?i \<and> writable (hc_js hc) q"
    using m r(7) by (auto simp: mid_push_def can_restore_def own_id_def split: option.splits)
  have second: "wp (bnd (restorePolicy hc rb') (\<lambda>_. ret rb')) (\<lambda>r. case r of Inl e \<Rightarrow> installed hc p d0 j (Inl e)
      | Inr x \<Rightarrow> wp (ret (x, st, Some e)) (installed hc p d0 j)) True d2 h"
    if u: "unchanged_but (\<lambda>q. a_backup hc q \<or> is_target hc q) d d2" and res: "restored_files hc d0 d2" and b: "backups_left hc rb'"
      and rb': "rb_policy_id rb' = rb_policy_id rb" "rb_old_policy rb' = rb_old_policy rb" for rb' d2
  proof -
    have dir: "map_of d2 (hc_dir hc) = Some Dir" using m u op(4,6) by (simp add: unchanged_but_def mid_push_def)
    have l: "layout_ok hc ?i d2"
      by (rule layout_moves [of hc ?i d]) (use m u op(3) in \<open>auto simp: unchanged_but_def mid_push_def\<close>)
    have "restored_files hc d0 d'" if "unchanged_but (saves_at hc ?i) d2 d'" for d'
      using that res op(2) [of "rclone_path hc"] op(2) [of "password_path hc"]
      by (auto simp: restored_files_def unchanged_but_def is_target_def)
    then show ?thesis
      by (intro wp_bnd, intro wp_conseq [OF wp_restorePolicy [OF r(1,2) id [folded rb'(1)] old [folded rb'(2)] dir l]])
        (use st j b in \<open>auto simp: installed_def as_before_def intro!: wp_ret\<close>)
  qed
  show ?thesis
    unfolding rollback_restore_def
    by (intro wp_bnd, intro wp_conseq [OF wp_restoreConfig [OF r(1), of ?i d0]])
      (use m in \<open>auto simp: mid_push_def intro!: second\<close>)
qed

lemma wp_save_and_schedule:
  assumes m: "mid_push hc p d0 d rb" and st: "staged_left hc st" and j: "as_jobs h = j"
    and v: "invalid_schedules hc p = None" and bl: "backups_left hc rb"
  shows "wp (save_and_schedule hc p rb st) (installed hc p d0 j) s d h"
proof -
  let ?i = "pp_policy_id p"
  have rd: "push_ready hc p d0" using m by (simp add: mid_push_def)
  note r = push_readyD [OF rd]
  note op = other_paths [OF r(1,2)]
  have d: "map_of d (hc_dir hc) = Some Dir" "layout_ok hc ?i d" using m by (simp_all add: mid_push_def)
  have fin: "wp (put_on_schedule hc p rb st) (installed hc p d0 j) s1 d1 h1" if "policy_at hc ?i d1 = Some p" for s1 d1 h1
    unfolding put_on_schedule_def
    by (rule wp_attempt, rule wp_conseq [OF wp_schedule_jobs [OF v]])
      (use that bl st in \<open>auto simp: installed_def intro!: wp_ret\<close>)
  show ?thesis
    unfolding save_and_schedule_def
  proof (rule wp_attempt, rule wp_conseq [OF wp_SavePolicy [OF r(1,2,8) d]])
    fix r' :: "unit outcome" and s2 d2 and h2 :: agent_state
    assume sv: "saved hc p ?i s d h r' s2 d2 h2"
    have u: "unchanged_but (saves_at hc ?i) d d2" "layout_ok hc ?i d2" "h2 = h" using sv by (auto simp: saved_def)
    have mid: "mid_push hc p d0 d2 rb"
      unfolding mid_push_def
    proof (intro conjI)
      show "can_restore hc ?i d0 d2 rb"
        by (rule can_restore_moves [of hc ?i d0 d]) (use m u op(1) in \<open>auto simp: unchanged_but_def mid_push_def\<close>)
    qed (use m rd u op(2) [of "rclone_path hc"] op(2) [of "password_path hc"] op(7) in
        \<open>auto simp: mid_push_def unchanged_but_def is_target_def\<close>)
    have over: "s2" if "r' = Inl e" for e using sv that by (auto simp: saved_def split: if_splits)
    show "wp (case r' of Inl e \<Rightarrow> bnd (rollback_restore hc rb) (\<lambda>rb'. ret (rb', st, Some e))
        | Inr _ \<Rightarrow> put_on_schedule hc p rb st) (installed hc p d0 j) s2 d2 h2"
    proof (cases r')
      case (Inl e)
      with over have "s2" by simp
      with Inl wp_all_back [OF mid st, of h2 j e] j u(3) show ?thesis by simp
    next
      case (Inr y)
      with sv have "policy_at hc ?i d2 = Some p" by (simp add: saved_def)
      with Inr show ?thesis by (simp add: fin)
    qed
  qed
qed

lemma wp_install_policy:
  assumes rd: "push_ready hc p d0" and rb: "can_restore hc (pp_policy_id p) d0 d rb" and st: "staged_ok hc d st"
    and same: "\<And>q. is_target hc q \<or> saves_at hc (pp_policy_id p) q \<Longrightarrow> map_of d q = map_of d0 q"
    and dir: "map_of d (hc_dir hc) = Some Dir" and bl: "backups_left hc rb" and j: "as_jobs h = j"
    and v: "invalid_schedules hc p = None"
  shows "wp (install_policy hc p rb st) (installed hc p d0 j) s d h"
proof -
  let ?i = "pp_policy_id p"
  note r = push_readyD [OF rd]
  note op = other_paths [OF r(1,2)]
  have nd: "map_of d (rclone_path hc) \<noteq> Some Dir" "map_of d (password_path hc) \<noteq> Some Dir"
    using r(4,5) same by (auto simp: is_target_def)
  show ?thesis
    unfolding install_policy_def
  proof (rule wp_bnd, rule wp_conseq [OF wp_commit [OF r(1) st nd]])
    fix x :: "(staged_files \<times> go_error option) outcome" and s1 d1 and h1 :: agent_state
    assume "committed hc d h x s1 d1 h1"
    then obtain st' err where x: "x = Inr (st', err)" "h1 = h" "staged_left hc st'" "err \<noteq> None \<longrightarrow> s1"
      and d1: "unchanged_but (\<lambda>q. a_stage hc q \<or> is_target hc q) d d1"
        "\<forall>q. is_target hc q \<longrightarrow> map_of d1 q \<noteq> Some Dir" by (auto simp: committed_def)
    have same1: "map_of d1 q = map_of d q" if "a_backup hc q \<or> saves_at hc ?i q \<or> q = hc_dir hc" for q
    proof (rule unchanged_at [OF d1(1)])
      show "\<not> (a_stage hc q \<or> is_target hc q)" using that op(1) [of q] op(3) [of q] op(5,6) by blast
    qed
    have mid: "mid_push hc p d0 d1 rb"
      unfolding mid_push_def
    proof (intro conjI)
      show "can_restore hc ?i d0 d1 rb" by (rule can_restore_moves [OF rb]) (simp add: same1)
      show "layout_ok hc ?i d1" by (rule layout_moves [OF r(6)]) (simp add: same1 same)
    qed (use rd d1(2) dir same1 in \<open>auto simp: is_target_def\<close>)
    have sv: "map_of d1 q = map_of d0 q" if "saves_at hc ?i q" for q using that same1 same by simp
    show "(case x of Inl e \<Rightarrow> installed hc p d0 j (Inl e) | Inr a \<Rightarrow>
        wp (case a of (st, err) \<Rightarrow> (case err of Some e \<Rightarrow> bnd (restoreConfig rb) (\<lambda>rb'. ret (rb', st, Some e))
          | None \<Rightarrow> save_and_schedule hc p rb st)) (installed hc p d0 j)) s1 d1 h1"
    proof (cases err)
      case (Some e)
      with x(4) have s1: "s1 = True" by simp
      have "wp (bnd (restoreConfig rb) (\<lambda>rb'. ret (rb', st', Some e))) (installed hc p d0 j) s1 d1 h1"
        unfolding s1 by (rule wp_config_back [OF mid x(3)]) (simp_all add: x(2) j sv)
      then show ?thesis by (simp only: x(1) Some sum.case prod.case option.case)
    next
      case None
      have "wp (save_and_schedule hc p rb st') (installed hc p d0 j) s1 d1 h1"
        by (rule wp_save_and_schedule [OF mid x(3) _ v bl]) (simp add: x(2) j)
      then show ?thesis by (simp only: x(1) None sum.case prod.case option.case)
    qed
  qed
qed
lemma wp_rollback_cleanup:
  assumes "backups_left hc rb"
  shows "wp (rollback_cleanup rb) (\<lambda>r s' d' h'. r = Inr () \<and> unchanged_but (a_backup hc) d d' \<and> h' = h) s d h"
  unfolding rollback_cleanup_def snapshot_cleanup_def
  by (rule wp_bnd, rule wp_conseq [OF wp_drop_file])
    (use assms in \<open>auto simp: backups_left_def intro!: wp_drop_file\<close>)

lemma wp_acknowledge:
  "(\<And>h'. as_jobs h' = as_jobs h \<Longrightarrow> Q (Inr ()) s d h') \<Longrightarrow> wp (acknowledge hc m p err) Q s d h"
  unfolding acknowledge_def sendPolicyAck_def by (auto split: option.splits intro!: wp_reply_with)

text \<open>Removing temporary files does not bring anything back or take it away.\<close>

lemma as_before_moves:
  assumes "push_ready hc p d0" "as_before hc (pp_policy_id p) d0 j d h" "as_jobs h' = as_jobs h"
    and u: "unchanged_but (\<lambda>q. a_backup hc q \<or> a_stage hc q \<or> q = hc_dir hc) d d'"
  shows "as_before hc (pp_policy_id p) d0 j d' h'"
proof -
  note r = push_readyD [OF assms(1)]
  have same: "map_of d' t = map_of d t" if "t \<in> target_paths hc (pp_policy_id p)" for t
    using targets_not_temp [OF r(1,2) that] u by (simp add: unchanged_but_def)
  with assms(2,3) show ?thesis
    by (simp add: as_before_def restored_files_def restored_policy_def policy_at_def target_paths_def)
qed

lemma as_before_start: "as_before hc i d (as_jobs h) d h"
  by (simp add: as_before_def restored_files_def restored_policy_def)

definition pushed :: "handler_config \<Rightarrow> policy_push \<Rightarrow> fs \<Rightarrow> (string \<times> string \<times> job) list \<Rightarrow> (agent_state, go_error option) post" where
  "pushed hc p d0 j r s' d' h' \<longleftrightarrow> (\<exists>err. r = Inr err \<and> (case err of
     Some e \<Rightarrow> as_before hc (pp_policy_id p) d0 j d' h' | None \<Rightarrow> policy_at hc (pp_policy_id p) d' = Some p))"

text \<open>The acknowledgement and the deferred clean-ups.\<close>

lemma wp_finish_push:
  assumes rd: "push_ready hc p d0" and i: "installed hc p d0 j (Inr (rb, st, err)) s d h"
  shows "wp (bnd (acknowledge hc m p err) (\<lambda>_. bnd (staged_cleanup st) (\<lambda>_. bnd (rollback_cleanup rb) (\<lambda>_. ret err))))
    (pushed hc p d0 j) s d h"
proof -
  note r = push_readyD [OF rd]
  from i have bl: "backups_left hc rb" and sl: "staged_left hc st"
    and e: "case err of Some e \<Rightarrow> as_before hc (pp_policy_id p) d0 j d h | None \<Rightarrow> policy_at hc (pp_policy_id p) d = Some p"
    by (auto simp: installed_def)
  have fin: "pushed hc p d0 j (Inr err) s3 d3 h3"
    if "unchanged_but (\<lambda>q. a_backup hc q \<or> a_stage hc q \<or> q = hc_dir hc) d d3" "as_jobs h3 = as_jobs h" for s3 d3 h3
  proof (cases err)
    case (Some x)
    with e as_before_moves [OF rd _ that(2,1)] show ?thesis by (simp add: pushed_def)
  next
    case None
    have "map_of d3 (policyPath (hc_dir hc) (pp_policy_id p)) = map_of d (policyPath (hc_dir hc) (pp_policy_id p))"
      using targets_not_temp [OF r(1,2), of "policyPath (hc_dir hc) (pp_policy_id p)"] that(1)
      by (simp add: unchanged_but_def target_paths_def)
    with None e show ?thesis by (simp add: pushed_def policy_at_def)
  qed
  have "wp (bnd (rollback_cleanup rb) (\<lambda>_. ret err)) (pushed hc p d0 j) s2 d2 h2"
    if "unchanged_but (a_stage hc) d d2" "as_jobs h2 = as_jobs h" for s2 d2 h2
    by (rule wp_bnd, rule wp_conseq [OF wp_rollback_cleanup [OF bl]])
      (use that in \<open>auto intro!: wp_ret fin simp: unchanged_but_def\<close>)
  then have "wp (bnd (staged_cleanup st) (\<lambda>_. bnd (rollback_cleanup rb) (\<lambda>_. ret err))) (pushed hc p d0 j) s d h1"
    if "as_jobs h1 = as_jobs h" for h1
    by (intro wp_bnd [of "staged_cleanup st"], intro wp_conseq [OF wp_staged_cleanup [OF sl]]) (use that in auto)
  then show ?thesis by (intro wp_bnd [of "acknowledge hc m p err"] wp_acknowledge) simp
qed

lemma wp_push_files:
  assumes rd: "push_ready hc p d" and np: "\<not> pp_plain_backup p" and v: "invalid_schedules hc p = None"
  shows "wp (push_files hc m p) (pushed hc p d (as_jobs h)) s d h"
proof -
  let ?i = "pp_policy_id p" and ?j = "as_jobs h"
  note r = push_readyD [OF rd]
  note op = other_paths [OF r(1,2)]
  have refuse: "pushed hc p d ?j (Inr (Some e)) s' d' h'"
    if "unchanged_but (\<lambda>q. a_backup hc q \<or> a_stage hc q \<or> q = hc_dir hc) d d'" "as_jobs h' = ?j" for e s' d' h'
    using as_before_moves [OF rd as_before_start that(2,1)] by (simp add: pushed_def)
  have staged: "wp (attempt (stagePolicyFiles hc p) (\<lambda>x. case x of
         Inl e \<Rightarrow> bnd (acknowledge hc m p (Some e)) (\<lambda>_. bnd (rollback_cleanup rb) (\<lambda>_. ret (Some e)))
       | Inr st \<Rightarrow> bnd (install_policy hc p rb st) (\<lambda>(rb', st', err).
           bnd (acknowledge hc m p err) (\<lambda>_. bnd (staged_cleanup st') (\<lambda>_. bnd (rollback_cleanup rb') (\<lambda>_. ret err))))))
      (pushed hc p d ?j) s1 d1 h1"
    if u1: "unchanged_but (a_backup hc) d d1" "as_jobs h1 = ?j" and rb: "can_restore hc ?i d d1 rb" for s1 d1 h1 rb
  proof (rule wp_attempt, rule wp_conseq [OF wp_stagePolicyFiles [OF r(1) np]])
    fix x :: "staged_files outcome" and s2 d2 and h2 :: agent_state
    assume q: "staging hc d1 (as_jobs h1) x s2 d2 h2"
    then have u2: "unchanged_but (\<lambda>q. a_stage hc q \<or> q = hc_dir hc) d1 d2" "as_jobs h2 = ?j" using u1(2) by (auto simp: staging_def)
    have u: "unchanged_but (\<lambda>q. a_backup hc q \<or> a_stage hc q \<or> q = hc_dir hc) d d2"
      using u1(1) u2(1) by (simp add: unchanged_but_def)
    have bl: "backups_left hc rb"
      using rb by (auto simp: backups_left_def can_restore_def snapshot_of_def a_backup_def split: if_splits)
    show "wp (case x of
         Inl e \<Rightarrow> bnd (acknowledge hc m p (Some e)) (\<lambda>_. bnd (rollback_cleanup rb) (\<lambda>_. ret (Some e)))
       | Inr st \<Rightarrow> bnd (install_policy hc p rb st) (\<lambda>(rb', st', err).
           bnd (acknowledge hc m p err) (\<lambda>_. bnd (staged_cleanup st') (\<lambda>_. bnd (rollback_cleanup rb') (\<lambda>_. ret err)))))
      (pushed hc p d ?j) s2 d2 h2"
    proof (cases x)
      case (Inl e)
      have "wp (bnd (rollback_cleanup rb) (\<lambda>_. ret (Some e))) (pushed hc p d ?j) s2 d2 h3" if "as_jobs h3 = ?j" for h3
        by (rule wp_bnd, rule wp_conseq [OF wp_rollback_cleanup [OF bl]])
          (use u that in \<open>auto intro!: wp_ret refuse simp: unchanged_but_def\<close>)
      with Inl u2(2) show ?thesis by (auto intro!: wp_bnd [of "acknowledge hc m p (Some e)"] wp_acknowledge)
    next
      case (Inr st)
      with q have st: "staged_ok hc d2 st" "map_of d2 (hc_dir hc) = Some Dir" by (auto simp: staging_def)
      have rb2: "can_restore hc ?i d d2 rb"
      proof (rule can_restore_moves [OF rb])
        fix q assume "a_backup hc q"
        then have "\<not> (a_stage hc q \<or> q = hc_dir hc)" using op(4) backup_not_stage by blast
        then show "map_of d2 q = map_of d1 q" by (rule unchanged_at [OF u2(1)])
      qed
      have same: "map_of d2 q = map_of d q" if "is_target hc q \<or> saves_at hc ?i q" for q
      proof (rule unchanged_at [OF u])
        show "\<not> (a_backup hc q \<or> a_stage hc q \<or> q = hc_dir hc)" using that op(2,3) [of q] op(6,7) by blast
      qed
      have "wp (install_policy hc p rb st) (installed hc p d ?j) s2 d2 h2"
        by (rule wp_install_policy [OF rd rb2 st(1) same st(2) bl u2(2) v])
      then have "wp (bnd (install_policy hc p rb st) (\<lambda>(rb', st', err).
           bnd (acknowledge hc m p err) (\<lambda>_. bnd (staged_cleanup st') (\<lambda>_. bnd (rollback_cleanup rb') (\<lambda>_. ret err)))))
          (pushed hc p d ?j) s2 d2 h2"
      proof (intro wp_bnd [of "install_policy hc p rb st"], elim wp_conseq)
        fix y s3 d3 h3
        assume ins: "installed hc p d ?j y s3 d3 h3"
        then obtain rb' st' err where y: "y = Inr (rb', st', err)" by (auto simp: installed_def)
        from wp_finish_push [OF rd ins [unfolded y], of m] show "(case y of Inl e \<Rightarrow> pushed hc p d ?j (Inl e)
            | Inr a \<Rightarrow> wp (case a of (rb', st', err) \<Rightarrow>
              bnd (acknowledge hc m p err) (\<lambda>_. bnd (staged_cleanup st') (\<lambda>_. bnd (rollback_cleanup rb') (\<lambda>_. ret err))))
              (pushed hc p d ?j)) s3 d3 h3"
          by (simp only: y sum.case prod.case)
      qed
      with Inr show ?thesis by simp
    qed
  qed
  show ?thesis
    unfolding push_files_def
  proof (rule wp_attempt, rule wp_conseq [OF wp_snapshotPolicyState [OF r(1-3)]])
    fix x :: "rollback_state outcome" and s1 d1 and h1 :: agent_state
    assume q: "unchanged_but (a_backup hc) d d1 \<and> as_jobs h1 = as_jobs h \<and> (\<forall>rb. x = Inr rb \<longrightarrow> can_restore hc ?i d d1 rb)"
    show "wp (case x of Inl e \<Rightarrow> bnd (acknowledge hc m p (Some e)) (\<lambda>_. ret (Some e))
      | Inr rb \<Rightarrow> attempt (stagePolicyFiles hc p) (\<lambda>x. case x of
         Inl e \<Rightarrow> bnd (acknowledge hc m p (Some e)) (\<lambda>_. bnd (rollback_cleanup rb) (\<lambda>_. ret (Some e)))
       | Inr st \<Rightarrow> bnd (install_policy hc p rb st) (\<lambda>(rb', st', err).
           bnd (acknowledge hc m p err) (\<lambda>_. bnd (staged_cleanup st') (\<lambda>_. bnd (rollback_cleanup rb') (\<lambda>_. ret err))))))
      (pushed hc p d ?j) s1 d1 h1"
    proof (cases x)
      case (Inl e)
      have u: "unchanged_but (\<lambda>q. a_backup hc q \<or> a_stage hc q \<or> q = hc_dir hc) d d1"
        using q by (blast intro: unchanged_weaken)
      have "wp (bnd (acknowledge hc m p (Some e)) (\<lambda>_. ret (Some e))) (pushed hc p d ?j) s1 d1 h1"
      proof (rule wp_bnd, rule wp_acknowledge)
        fix h2 :: agent_state
        assume "as_jobs h2 = as_jobs h1"
        with q have "as_jobs h2 = ?j" by simp
        then show "(case Inr () of Inl e \<Rightarrow> pushed hc p d ?j (Inl e) | Inr _ \<Rightarrow> wp (ret (Some e)) (pushed hc p d ?j)) s1 d1 h2"
          by (simp add: wp_ret refuse [OF u])
      qed
      with Inl show ?thesis by simp
    next
      case (Inr rb)
      with q staged [of d1 h1 rb s1] show ?thesis by simp
    qed
  qed
qed
section \<open>Plain policies\<close>

text \<open>Two policies of one agent, the second without a password; a JSON coding of just these.\<close>

definition secret_policy :: policy_push where
  "secret_policy = sample_policy ''p1''"

definition plain_policy :: policy_push where
  "plain_policy = (sample_policy ''p2'')\<lparr>pp_restic_password := '''', pp_plain_backup := True\<rparr>"

definition two_json :: json_io where
  "two_json =
     \<lparr>js_policy = (\<lambda>p. Inr (pp_policy_id p)),
      js_parse_policy = (\<lambda>c. if c = ''p1'' then Inr secret_policy else if c = ''p2'' then Inr plain_policy else Inl (Err ''bad'')),
      js_pending = (\<lambda>_. Inl (Err ''unused'')), js_raw_array = (\<lambda>_. Inl (Err ''unused'')), js_has_payload = (\<lambda>_. Inl (Err ''unused'')),
      js_parse_pending = (\<lambda>_. Inl (Err ''unused'')), js_parse_result = (\<lambda>_. Inl (Err ''unused''))\<rparr>"

definition sample_agent :: handler_config where
  "sample_agent =
     \<lparr>hc_dir = ''/c'', hc_agent_id = ''a1'', hc_has_store = True, hc_has_send = True, hc_ids = True,
      hc_js = two_json, hc_cron_ok = (\<lambda>_. True), hc_obscure = Inr\<rparr>"

definition agent_world :: "bool list \<Rightarrow> (fs, agent_state) world" where
  "agent_world faults =
     \<lparr>w_db = [(''/c'', Dir)], w_hub = \<lparr>as_sent = [], as_send_fails = [], as_jobs = [], as_temp = 0\<rparr>,
      w_faults = faults, w_others = [], w_clock = [], w_now = 0\<rparr>"

text \<open>What the first push leaves.\<close>

definition after_secret :: "(fs, agent_state) world" where
  "after_secret = (agent_world [])\<lparr>
     w_db := [(''/c'', Dir), (''/c/rclone.conf'', File (''[vaultfleet]'' @ [nl] @ ''type = local'' @ [nl])),
       (''/c/.restic-password'', File ''secret''), (''/c/policies'', Dir), (''/c/policies/p1.json'', File ''p1'')],
     w_hub := \<lparr>as_sent = [\<lparr>ao_id = ''m1'', ao_body = PolicyAck ''a1'' True ''''\<rparr>], as_send_fails = [],
       as_jobs = [(''policy:p1'', ''@daily'', BackupJob secret_policy)], as_temp = 2\<rparr>\<rparr>"

lemma first_push: "case handlePolicyPush sample_agent ''m1'' (Inr secret_policy) (agent_world []) of
    (r, w) \<Rightarrow> r = Inr None \<and> w_db w = w_db after_secret \<and> w_hub w = w_hub after_secret"
  by code_simp

text \<open>usePlain of executor.NewExecutor (and runRestore) for a policy, from the files at hand.\<close>

definition use_plain :: "handler_config \<Rightarrow> policy_push \<Rightarrow> bool handler_prog" where
  "use_plain hc p = (if pp_plain_backup p then ret True
     else bnd (HasPasswordFile (password_path hc)) (\<lambda>b. ret (\<not> b)))"


text \<open>A refused plain push is not harmless: when the rename of rclone.conf fails (the 23rd call here)
  the old password is put back, and then the deferred clean-up of the staged files, whose password
  path is the password file itself, deletes it.\<close>

lemma refused_plain_push_deletes_password:
  "map_of (w_db after_secret) (password_path sample_agent) = Some (File ''secret'') \<and>
   (let (r, w) = handlePolicyPush sample_agent ''m2'' (Inr plain_policy) (after_secret\<lparr>w_faults := replicate 22 False @ [True]\<rparr>)
    in r = Inr (Some SysFault) \<and> map_of (w_db w) (password_path sample_agent) = None \<and>
       policy_at sample_agent ''p1'' (w_db w) = Some secret_policy)"
  by code_simp


end
