(* ===== verification/VF_Manifest.thy ===== *)
theory VF_Manifest
  imports VF_ArtifactNaming
begin

text \<open>
  The content manifest of a backup (internal/agent/manifest/builder.go): a summary of the agent, the
  policy and the sources, with paths, docker containers and database dumps, that travels with the
  backup and is shown by the master.  It is meant to hold nothing secret.
\<close>

section \<open>The document\<close>

record manifest_agent =
  ma_id :: string
  ma_version :: string
  ma_hostname :: string

record manifest_policy =
  mp_name :: string
  mp_backup_mode :: string
  mp_archive_format :: string
  mp_storage_type :: string
  mp_repository :: string

record manifest_path_source =
  mps_path :: string
  mps_kind :: string
  mps_origin :: string

record manifest_warning =
  mw_code :: string
  mw_message :: string
  mw_source :: string

record manifest_docker_source =
  mds_container_id :: string
  mds_name :: string
  mds_image :: string
  mds_compose_project :: string
  mds_compose_service :: string
  mds_compose_working_dir :: string
  mds_compose_config_files :: "string list"
  mds_mounts :: "docker_mount list"
  mds_resolved_paths :: "string list"
  mds_warnings :: "manifest_warning list"

record manifest_database_dump =
  mdd_engine :: string
  mdd_execution_mode :: string
  mdd_database :: string
  mdd_all_databases :: bool
  mdd_container_name :: string
  mdd_output_name :: string
  mdd_size :: int
  mdd_compressed :: bool
  mdd_warnings :: "manifest_warning list"

record manifest_sources =
  ms_paths :: "manifest_path_source list"
  ms_docker :: "manifest_docker_source list"
  ms_databases :: "manifest_database_dump list"

record manifest_artifact =
  mart_name :: string
  mart_path :: string
  mart_format :: string
  mart_content_type :: string
  mart_size :: int

text \<open>The integrity field, which no code sets, is left out.\<close>

record content_manifest =
  cm_version :: int
  cm_generated_at :: time
  cm_backup_mode :: string
  cm_archive_format :: string
  cm_agent :: manifest_agent
  cm_policy :: manifest_policy
  cm_sources :: manifest_sources
  cm_exclude_patterns :: "string list"
  cm_artifact :: "manifest_artifact option"
  cm_warnings :: "manifest_warning list"
  cm_context_name :: string
  cm_site_name :: string
  cm_source_type :: string
  cm_artifact_naming :: "naming_metadata option"

abbreviation BackupContentManifestVersion :: int where "BackupContentManifestVersion \<equiv> 1"
abbreviation BackupContentManifestName :: string where "BackupContentManifestName \<equiv> ''VAULTFLEET-MANIFEST.json''"

section \<open>Building it\<close>

record build_input =
  bi_agent_id :: string
  bi_agent_version :: string
  bi_generated_at :: time
  bi_policy :: "policy_push option"
  bi_backup_mode :: string
  bi_archive_format :: string
  bi_backup_dirs :: "string list"
  bi_excludes :: "string list"
  bi_docker :: "docker_metadata option"
  bi_database :: "database_metadata option"
  bi_context_name :: string
  bi_source_type :: string
  bi_warnings :: "manifest_warning list"

definition cleanedStrings :: "string list \<Rightarrow> string list" where
  "cleanedStrings vs = first_occurrences {} (filter (\<lambda>v. v \<noteq> '''') (map trim_space vs))"

definition policyAgentID :: "policy_push option \<Rightarrow> string" where
  "policyAgentID p = (case p of None \<Rightarrow> '''' | Some p \<Rightarrow> pp_agent_id p)"

definition buildPolicySummary :: "policy_push option \<Rightarrow> string \<Rightarrow> string \<Rightarrow> manifest_policy" where
  "buildPolicySummary policy backupMode archiveFormat = (case policy of
     None \<Rightarrow> \<lparr>mp_name = '''', mp_backup_mode = backupMode, mp_archive_format = archiveFormat, mp_storage_type = '''',
       mp_repository = ''''\<rparr>
   | Some p \<Rightarrow> \<lparr>mp_name = trim_space (pp_policy_name p), mp_backup_mode = backupMode,
       mp_archive_format = archiveFormat, mp_storage_type = trim_space (sc_rclone_type (pp_storage p)),
       mp_repository = trim_space (sc_repo_path (pp_storage p))\<rparr>)"

definition path_source :: "string list \<Rightarrow> string \<Rightarrow> manifest_path_source" where
  "path_source databasePaths path =
     (if path_base path = BackupContentManifestName
      then \<lparr>mps_path = path, mps_kind = ''manifest'', mps_origin = ''vaultfleet''\<rparr>
      else if path \<in> set databasePaths
      then \<lparr>mps_path = path, mps_kind = ''database_dump'', mps_origin = ''database''\<rparr>
      else \<lparr>mps_path = path, mps_kind = ''path'', mps_origin = ''''\<rparr>)"

definition buildPathSources :: "string list \<Rightarrow> string list \<Rightarrow> manifest_path_source list" where
  "buildPathSources paths databasePaths = map (path_source databasePaths) (cleanedStrings paths)"

definition docker_source :: "docker_resolved_source \<Rightarrow> manifest_docker_source" where
  "docker_source s =
     \<lparr>mds_container_id = rs_container_id s, mds_name = rs_name s, mds_image = rs_image s,
      mds_compose_project = ci_project (rs_compose s), mds_compose_service = ci_service (rs_compose s),
      mds_compose_working_dir = ci_working_dir (rs_compose s), mds_compose_config_files = ci_config_files (rs_compose s),
      mds_mounts = rs_mounts s, mds_resolved_paths = rs_resolved_paths s,
      mds_warnings = map (\<lambda>m. \<lparr>mw_code = ''docker_source_warning'', mw_message = m,
        mw_source = firstNonEmpty [rs_name s, rs_container_id s]\<rparr>) (rs_warnings s)\<rparr>"

definition buildDockerSources :: "docker_metadata option \<Rightarrow> manifest_docker_source list" where
  "buildDockerSources m = (case m of None \<Rightarrow> [] | Some m \<Rightarrow> map docker_source (dkm_sources m))"

definition database_dump_entry :: "database_dump \<Rightarrow> manifest_database_dump" where
  "database_dump_entry d =
     \<lparr>mdd_engine = dd_engine d, mdd_execution_mode = dd_execution_mode d, mdd_database = dd_database d,
      mdd_all_databases = dd_all_databases d, mdd_container_name = dd_container_name d,
      mdd_output_name = dd_output_name d, mdd_size = dd_size d, mdd_compressed = dd_compressed d,
      mdd_warnings = map (\<lambda>m. \<lparr>mw_code = ''database_dump_warning'', mw_message = m, mw_source = dd_output_name d\<rparr>)
        (dd_warnings d)\<rparr>"

definition buildDatabaseDumps :: "database_metadata option \<Rightarrow> manifest_database_dump list" where
  "buildDatabaseDumps m = (case m of None \<Rightarrow> [] | Some m \<Rightarrow> map database_dump_entry (dbm_dumps m))"

definition databaseOutputPaths :: "database_metadata option \<Rightarrow> string list" where
  "databaseOutputPaths m = (case m of None \<Rightarrow> []
     | Some m \<Rightarrow> filter (\<lambda>p. p \<noteq> '''') (map (\<lambda>d. trim_space (dd_output_path d)) (dbm_dumps m)))"

definition dockerWarnings :: "docker_metadata option \<Rightarrow> manifest_warning list" where
  "dockerWarnings m = (case m of None \<Rightarrow> []
     | Some m \<Rightarrow> map (\<lambda>t. \<lparr>mw_code = ''docker_warning'', mw_message = t, mw_source = ''docker''\<rparr>) (dkm_warnings m))"

definition databaseWarnings :: "database_metadata option \<Rightarrow> manifest_warning list" where
  "databaseWarnings m = (case m of None \<Rightarrow> []
     | Some m \<Rightarrow> map (\<lambda>t. \<lparr>mw_code = ''database_warning'', mw_message = t, mw_source = ''database''\<rparr>) (dbm_warnings m))"

text \<open>\<open>hostname\<close> is what \<^verbatim>\<open>os.Hostname\<close> returns, \<open>now\<close> the clock.\<close>

definition Build :: "string \<Rightarrow> time \<Rightarrow> build_input \<Rightarrow> content_manifest" where
  "Build hostname now inp =
     (let mode0 = trim_space (bi_backup_mode inp);
          mode1 = (if mode0 = '''' then (case bi_policy inp of Some p \<Rightarrow> pp_backup_mode p | None \<Rightarrow> '''') else mode0);
          mode = (if mode1 = '''' then BackupModeSnapshot else mode1);
          format0 = trim_space (bi_archive_format inp);
          format = (if format0 = '''' then (case bi_policy inp of Some p \<Rightarrow> pp_archive_format p | None \<Rightarrow> '''') else format0)
      in \<lparr>cm_version = BackupContentManifestVersion,
          cm_generated_at = (if bi_generated_at inp = 0 then now else bi_generated_at inp),
          cm_backup_mode = mode, cm_archive_format = format,
          cm_agent = \<lparr>ma_id = firstNonEmpty [bi_agent_id inp, policyAgentID (bi_policy inp)],
            ma_version = trim_space (bi_agent_version inp), ma_hostname = hostname\<rparr>,
          cm_policy = buildPolicySummary (bi_policy inp) mode format,
          cm_sources = \<lparr>ms_paths = buildPathSources (bi_backup_dirs inp) (databaseOutputPaths (bi_database inp)),
            ms_docker = buildDockerSources (bi_docker inp), ms_databases = buildDatabaseDumps (bi_database inp)\<rparr>,
          cm_exclude_patterns = cleanedStrings (bi_excludes inp), cm_artifact = None,
          cm_warnings = bi_warnings inp @ dockerWarnings (bi_docker inp) @ databaseWarnings (bi_database inp),
          cm_context_name = trim_space (bi_context_name inp), cm_site_name = trim_space (bi_context_name inp),
          cm_source_type = trim_space (bi_source_type inp), cm_artifact_naming = None\<rparr>)"

section \<open>No secret gets in\<close>

text \<open>What is erased: passwords and rclone parameters of the policy, its hooks and its database sources,
  and of each container its environment, command line and labels.\<close>

definition public_policy :: "policy_push \<Rightarrow> policy_push" where
  "public_policy p = p\<lparr>pp_restic_password := '''', pp_backup_sources := [], pp_pre_backup_hook := None,
     pp_post_backup_hook := None,
     pp_storage := (pp_storage p)\<lparr>sc_rclone_config := [], sc_rclone_args := []\<rparr>\<rparr>"

definition public_source :: "docker_resolved_source \<Rightarrow> docker_resolved_source" where
  "public_source s = s\<lparr>rs_env := [], rs_cmd := [], rs_entrypoint := [], rs_labels := [],
     rs_selection := (rs_selection s)\<lparr>dcs_labels := []\<rparr>\<rparr>"

definition public_input :: "build_input \<Rightarrow> build_input" where
  "public_input inp = inp\<lparr>bi_policy := map_option public_policy (bi_policy inp),
     bi_docker := map_option (\<lambda>m. m\<lparr>dkm_sources := map public_source (dkm_sources m)\<rparr>) (bi_docker inp)\<rparr>"

lemma public_simps [simp]:
  "pp_backup_mode (public_policy p) = pp_backup_mode p" "pp_archive_format (public_policy p) = pp_archive_format p"
  "policyAgentID (map_option public_policy q) = policyAgentID q"
  "buildPolicySummary (map_option public_policy q) = buildPolicySummary q"
  "docker_source (public_source s) = docker_source s"
  by (cases q; auto simp: policyAgentID_def buildPolicySummary_def public_policy_def fun_eq_iff
    docker_source_def public_source_def)+

lemma public_docker [simp]:
  "buildDockerSources (map_option (\<lambda>m. m\<lparr>dkm_sources := map public_source (dkm_sources m)\<rparr>) m) = buildDockerSources m"
  "dockerWarnings (map_option (\<lambda>m. m\<lparr>dkm_sources := map public_source (dkm_sources m)\<rparr>) m) = dockerWarnings m"
  by (cases m; simp add: buildDockerSources_def dockerWarnings_def)+

text \<open>C39. The manifest is a function of the public parts of its input: two backups that differ only in
  passwords, rclone parameters, hooks, database sources and the environment of their containers get
  the same manifest.\<close>

theorem manifest_hides_secrets:
  assumes "public_input inp = public_input inp'"
  shows "Build hostname now inp = Build hostname now inp'"
proof -
  have "Build hostname now (public_input i) = Build hostname now i" for i
    by (simp add: Build_def Let_def public_input_def, cases "bi_policy i") simp_all
  then show ?thesis by (metis assms)
qed

text \<open>Two backups of one policy with different passwords.\<close>

definition backup_with :: "string \<Rightarrow> build_input" where
  "backup_with password = \<lparr>bi_agent_id = ''a1'', bi_agent_version = ''v1'', bi_generated_at = 5,
     bi_policy = Some \<lparr>pp_policy_id = ''p1'', pp_policy_name = ''nightly'', pp_agent_id = ''a1'',
       pp_storage = \<lparr>sc_rclone_type = ''s3'', sc_rclone_config = [(''secret_access_key'', password)],
         sc_repo_path = ''bucket'', sc_rclone_args = [], sc_rclone_pass_obscured = False\<rparr>,
       pp_restic_password = password, pp_plain_backup = False, pp_backup_mode = ''snapshot'', pp_archive_format = '''',
       pp_artifact_context_name = '''', pp_archive_remote_dir_template = '''', pp_archive_name_template = '''',
       pp_backup_dirs = [''/data''], pp_backup_sources = [], pp_exclude_patterns = [], pp_pre_backup_hook = None,
       pp_post_backup_hook = None, pp_schedule = ''@daily'',
       pp_retention = \<lparr>keep_last = 7, keep_daily = 0, keep_weekly = 0, keep_monthly = 0\<rparr>, pp_verification = None\<rparr>,
     bi_backup_mode = ''snapshot'', bi_archive_format = '''', bi_backup_dirs = [''/data''], bi_excludes = [],
     bi_docker = None, bi_database = None, bi_context_name = '''', bi_source_type = ''path'', bi_warnings = []\<rparr>"

theorem manifest_hides_secrets_witness:
  "Build ''host'' 9 (backup_with ''one'') = Build ''host'' 9 (backup_with ''two'') \<and>
   backup_with ''one'' \<noteq> backup_with ''two''"
proof -
  have "public_input (backup_with ''one'') = public_input (backup_with ''two'')"
    by (simp add: backup_with_def public_input_def public_policy_def)
  from manifest_hides_secrets [OF this, of "''host''" 9] show ?thesis by (simp add: backup_with_def)
qed

text \<open>Every path of the manifest is a path of the backup, each once, and marked by where it comes from.\<close>

lemma manifest_paths:
  "map mps_path (buildPathSources paths dbs) = cleanedStrings paths \<and> distinct (cleanedStrings paths) \<and>
   '''' \<notin> set (cleanedStrings paths)"
proof -
  have "mps_path (path_source dbs p) = p" for p by (simp add: path_source_def)
  then have "map (mps_path \<circ> path_source dbs) ps = ps" for ps by (induction ps) simp_all
  then show ?thesis by (simp add: buildPathSources_def cleanedStrings_def)
qed

end
