(* ===== verification/VF_AgentOutbox.thy ===== *)
theory VF_AgentOutbox
  imports VF_AgentWp VF_Manifest
begin

text \<open>
  The results an agent owes the master (internal/agent/handler.go): a result that cannot be sent is
  kept in the file of pending results and sent again at the next connection.  Also the result of an
  executor (internal/agent/executor/executor.go) and the results of requests that fail early.
\<close>

section \<open>Results\<close>

record verification_check =
  vk_code :: string
  vk_status :: string
  vk_severity :: string
  vk_message :: string
  vk_detail :: string
  vk_duration_ms :: int

record verification_result =
  vr_status :: string
  vr_snapshot_id :: string
  vr_checks :: "verification_check list"
  vr_error :: string

record exec_result =
  er_type :: string
  er_status :: string
  er_duration_ms :: int
  er_snapshot_id :: string
  er_policy_name :: string
  er_backup_mode :: string
  er_archive_format :: string
  er_artifact_path :: string
  er_artifact_name :: string
  er_artifact_size :: int
  er_artifact_content_type :: string
  er_repo_size :: int
  er_snapshots :: "snapshot_info list"
  er_error_log :: string
  er_docker :: "docker_metadata option"
  er_database :: "database_metadata option"
  er_verification :: "verification_result option"
  er_manifest :: "content_manifest option"
  er_manifest_warnings :: "manifest_warning list"
  er_artifact_naming :: "naming_metadata option"

definition no_exec_result :: exec_result where
  "no_exec_result = \<lparr>er_type = '''', er_status = '''', er_duration_ms = 0, er_snapshot_id = '''', er_policy_name = '''',
     er_backup_mode = '''', er_archive_format = '''', er_artifact_path = '''', er_artifact_name = '''',
     er_artifact_size = 0, er_artifact_content_type = '''', er_repo_size = 0, er_snapshots = [], er_error_log = '''',
     er_docker = None, er_database = None, er_verification = None, er_manifest = None, er_manifest_warnings = [],
     er_artifact_naming = None\<rparr>"

text \<open>encoding/json on the metadata of a result.\<close>

record meta_json =
  mj_docker :: "docker_metadata \<Rightarrow> string"
  mj_database :: "database_metadata \<Rightarrow> string"
  mj_verification :: "verification_result \<Rightarrow> string"
  mj_manifest :: "content_manifest \<Rightarrow> string"
  mj_naming :: "naming_metadata \<Rightarrow> string"

definition milliseconds :: "int \<Rightarrow> duration" where
  "milliseconds n = int64 (int64 n * 1000000)"

definition ToProtocol :: "meta_json \<Rightarrow> string \<Rightarrow> time \<Rightarrow> exec_result \<Rightarrow> task_result" where
  "ToProtocol mj agentID startedAt r =
     \<lparr>tr_agent_id = agentID, tr_task_type = er_type r, tr_status = er_status r, tr_snapshot_id = er_snapshot_id r,
      tr_policy_name = er_policy_name r, tr_backup_mode = er_backup_mode r, tr_archive_format = er_archive_format r,
      tr_artifact_path = er_artifact_path r, tr_artifact_name = er_artifact_name r,
      tr_artifact_size = er_artifact_size r, tr_artifact_content_type = er_artifact_content_type r,
      tr_duration_ms = er_duration_ms r, tr_repo_size = er_repo_size r, tr_error_log = er_error_log r,
      tr_started_at = startedAt, tr_finished_at = startedAt + milliseconds (er_duration_ms r),
      tr_snapshots = er_snapshots r, tr_docker = map_option (mj_docker mj) (er_docker r),
      tr_database = map_option (mj_database mj) (er_database r),
      tr_verification = map_option (mj_verification mj) (er_verification r),
      tr_manifest = map_option (mj_manifest mj) (er_manifest r),
      tr_artifact_naming = map_option (mj_naming mj) (er_artifact_naming r), tr_restore_items = None\<rparr>"

definition failedTypedTaskResult :: "meta_json \<Rightarrow> string \<Rightarrow> string \<Rightarrow> string \<Rightarrow> string \<Rightarrow> time \<Rightarrow> task_result" where
  "failedTypedTaskResult mj agentID taskType snapshotID errorText startedAt =
     ToProtocol mj agentID startedAt (no_exec_result\<lparr>er_type := taskType, er_status := ''failed'',
       er_snapshot_id := snapshotID, er_error_log := errorText\<rparr>)"

definition failedTaskResult :: "meta_json \<Rightarrow> string \<Rightarrow> string \<Rightarrow> time \<Rightarrow> task_result" where
  "failedTaskResult mj agentID errorText startedAt = failedTypedTaskResult mj agentID ''backup'' '''' errorText startedAt"

definition failedPolicyTaskResult :: "meta_json \<Rightarrow> string \<Rightarrow> string \<Rightarrow> time \<Rightarrow> policy_push \<Rightarrow> task_result" where
  "failedPolicyTaskResult mj agentID errorText startedAt p =
     (failedTaskResult mj agentID errorText startedAt)\<lparr>tr_policy_name := pp_policy_name p\<rparr>"

section \<open>Sending and keeping\<close>

text \<open>protocol.NewMessageID for a message that gets no id from its request: a new one every time.\<close>

definition draw_id :: "string handler_prog" where
  "draw_id w = (Inr (''id-'' @ dec_digits (as_temp (w_hub w))), w\<lparr>w_hub := (w_hub w)\<lparr>as_temp := as_temp (w_hub w) + 1\<rparr>\<rparr>)"

definition message_id :: "string \<Rightarrow> string handler_prog" where
  "message_id mid = (if mid = '''' then draw_id else ret mid)"

definition persistPendingResult :: "handler_config \<Rightarrow> string \<Rightarrow> task_result \<Rightarrow> unit handler_prog" where
  "persistPendingResult hc mid r =
     (if \<not> hc_has_store hc then ret ()
      else attempt (LoadPendingResults (hc_js hc) (hc_dir hc)) (\<lambda>l.
        ignoring (SavePendingResults (hc_js hc) (hc_dir hc)
          ((case l of Inl _ \<Rightarrow> [] | Inr rs \<Rightarrow> rs) @ [\<lparr>pr_message_id = mid, pr_payload = r\<rparr>]))))"

definition sendTaskResultWithID :: "handler_config \<Rightarrow> string \<Rightarrow> task_result \<Rightarrow> unit handler_prog" where
  "sendTaskResultWithID hc mid r =
     (if \<not> hc_ids hc then ret ()
      else bnd (message_id mid) (\<lambda>i. attempt (sendMessage hc \<lparr>ao_id = i, ao_body = TaskResult r\<rparr>) (\<lambda>s. case s of
        Inl _ \<Rightarrow> persistPendingResult hc mid r | Inr _ \<Rightarrow> ret ())))"

text \<open>The loop over the pending results: what remains.\<close>

fun flush_results :: "handler_config \<Rightarrow> pending_result list \<Rightarrow> (pending_result list) handler_prog" where
  "flush_results hc [] = ret []"
| "flush_results hc (p # ps) =
     (if \<not> hc_ids hc then bnd (flush_results hc ps) (\<lambda>rest. ret (p # rest))
      else bnd (message_id (pr_message_id p)) (\<lambda>i.
        attempt (sendMessage hc \<lparr>ao_id = i, ao_body = TaskResult (pr_payload p)\<rparr>) (\<lambda>s.
        bnd (flush_results hc ps) (\<lambda>rest. ret (case s of Inl _ \<Rightarrow> p # rest | Inr _ \<Rightarrow> rest)))))"

definition FlushPendingResults :: "handler_config \<Rightarrow> unit handler_prog" where
  "FlushPendingResults hc =
     (if \<not> hc_has_store hc then ret ()
      else attempt (LoadPendingResults (hc_js hc) (hc_dir hc)) (\<lambda>l. case l of
          Inl _ \<Rightarrow> ret ()
        | Inr results \<Rightarrow> if results = [] then ret ()
            else bnd (flush_results hc results) (\<lambda>remaining.
              if remaining = [] then ignoring (ClearPendingResults (hc_dir hc))
              else ignoring (SavePendingResults (hc_js hc) (hc_dir hc) remaining))))"

section \<open>Where the results are\<close>

definition sent_results :: "agent_state \<Rightarrow> (string \<times> task_result) list" where
  "sent_results h = List.map_filter (\<lambda>m. case ao_body m of TaskResult r \<Rightarrow> Some (ao_id m, r) | _ \<Rightarrow> None) (as_sent h)"

definition pending_path :: "handler_config \<Rightarrow> string" where
  "pending_path hc = store_path (hc_dir hc) PendingResultsFile"

text \<open>What the file of pending results holds: nothing when it is missing, \<open>None\<close> when it is unreadable.\<close>

definition pending_in :: "handler_config \<Rightarrow> fs \<Rightarrow> pending_result list option" where
  "pending_in hc d = (case map_of d (pending_path hc) of
     None \<Rightarrow> Some []
   | Some Dir \<Rightarrow> None
   | Some (File c) \<Rightarrow> (case js_raw_array (hc_js hc) c of Inl _ \<Rightarrow> None
       | Inr raws \<Rightarrow> (case decode_pending (hc_js hc) raws of Inl _ \<Rightarrow> None | Inr rs \<Rightarrow> Some rs)))"

definition owed :: "pending_result \<Rightarrow> string \<times> task_result" where
  "owed p = (pr_message_id p, pr_payload p)"

end
