(* ===== verification/VF_OutboxLaws.thy ===== *)
theory VF_OutboxLaws
  imports VF_PolicyPushLaws VF_AgentOutbox "HOL-Library.Multiset"
begin

text \<open>
  No result of a task is lost or counted twice while the agent's disk works: each is either sent or in
  the file of pending results, however often the connection fails; and a flush over a working
  connection sends all of them in order.  A single failing read loses every pending result.
\<close>

section \<open>Sending, exactly\<close>

definition can_send :: "agent_state \<Rightarrow> bool" where
  "can_send h \<longleftrightarrow> as_send_fails h = [] \<or> \<not> hd (as_send_fails h)"

definition after_send :: "agent_out \<Rightarrow> agent_state \<Rightarrow> agent_state" where
  "after_send m h = (if can_send h then h\<lparr>as_send_fails := tl (as_send_fails h), as_sent := as_sent h @ [m]\<rparr>
     else h\<lparr>as_send_fails := tl (as_send_fails h)\<rparr>)"

lemma wp_send:
  "hc_has_send hc \<Longrightarrow> Q (if can_send h then Inr () else Inl SysFault) s d (after_send m h) \<Longrightarrow> wp (sendMessage hc m) Q s d h"
  by (auto simp: wp_def sendMessage_def at_most_one_fault_def spent_def Let_def can_send_def after_send_def split: if_splits)

lemma sent_after_send:
  "sent_results (after_send m h) = sent_results h @
     (if can_send h then (case ao_body m of TaskResult r \<Rightarrow> [(ao_id m, r)] | _ \<Rightarrow> []) else [])"
  by (auto simp: sent_results_def after_send_def List.map_filter_def split: agent_body.splits)

lemma wp_message_id: "mid \<noteq> '''' \<Longrightarrow> Q (Inr mid) s d h \<Longrightarrow> wp (message_id mid) Q s d h"
  by (simp add: message_id_def wp_ret)

section \<open>The file of pending results\<close>

definition online :: "handler_config \<Rightarrow> bool" where
  "online hc \<longleftrightarrow> clean_dir (hc_dir hc) \<and> hc_has_store hc \<and> hc_has_send hc \<and> hc_ids hc"

text \<open>encoding/json: the file reads back as what was written, for lists of the results at hand.\<close>

definition honest_pending :: "json_io \<Rightarrow> pending_result set \<Rightarrow> bool" where
  "honest_pending js R \<longleftrightarrow> (\<forall>ps. set ps \<subseteq> R \<longrightarrow> (\<exists>data raws. js_pending js ps = Inr data \<and> js_raw_array js data = Inr raws \<and>
     decode_pending js raws = Inr ps))"

text \<open>The file is readable, and its results, which all come from requests, have their ids.\<close>

definition outbox_ok :: "handler_config \<Rightarrow> pending_result set \<Rightarrow> fs \<Rightarrow> bool" where
  "outbox_ok hc R d \<longleftrightarrow> (map_of d (hc_dir hc) = None \<or> map_of d (hc_dir hc) = Some Dir) \<and>
     (\<exists>ps. pending_in hc d = Some ps \<and> set ps \<subseteq> R) \<and> (\<forall>p \<in> R. pr_message_id p \<noteq> '''')"

lemma pending_path_in_dir:
  assumes "online hc"
  shows "pending_path hc = in_dir (hc_dir hc) ''pending_results.json''" "parent_dir (pending_path hc) = hc_dir hc"
proof -
  have "plain_path ''pending_results.json''" by code_simp
  with assms show p: "pending_path hc = in_dir (hc_dir hc) ''pending_results.json''"
    by (simp add: pending_path_def store_path_def path_join_in_dir online_def)
  have "split_on slash ''pending_results.json'' = [''pending_results.json'']" by code_simp
  then have "split_on slash (pending_path hc) = split_on slash (hc_dir hc) @ [''pending_results.json'']"
    unfolding p by (simp only: in_dir_def split_on_append)
  then show "parent_dir (pending_path hc) = hc_dir hc" by (simp add: parent_dir_def)
qed

lemma pending_in_cong:
  "map_of d' (pending_path hc) = map_of d (pending_path hc) \<Longrightarrow> pending_in hc d' = pending_in hc d"
  by (simp add: pending_in_def)

text \<open>From here on no system call fails any more: the third argument of \<open>wp\<close> is \<open>True\<close>.\<close>

lemma wp_LoadPending:
  assumes "pending_in hc d = Some ps" "Q (Inr ps) True d h"
  shows "wp (LoadPendingResults (hc_js hc) (hc_dir hc)) Q True d h"
  using assms
  by (auto simp: LoadPendingResults_def pending_in_def pending_path_def split: option.splits node.splits sum.splits
      intro!: wp_attempt wp_read_file wp_ret wp_from_sum)

lemma wp_SavePending:
  assumes on: "online hc" and js: "honest_pending (hc_js hc) R" and ok: "outbox_ok hc R d" and sub: "set ps \<subseteq> R"
    and Q: "\<And>d'. outbox_ok hc R d' \<Longrightarrow> pending_in hc d' = Some ps \<Longrightarrow> Q (Inr ()) True d' h"
  shows "wp (SavePendingResults (hc_js hc) (hc_dir hc) ps) Q True d h"
proof -
  obtain data raws where data: "js_pending (hc_js hc) ps = Inr data" "js_raw_array (hc_js hc) data = Inr raws"
    "decode_pending (hc_js hc) raws = Inr ps"
    using js sub unfolding honest_pending_def by meson
  note pp = pending_path_in_dir [OF on]
  have nd: "map_of d (pending_path hc) \<noteq> Some Dir" using ok by (auto simp: outbox_ok_def pending_in_def)
  have put: "wp (writeFile0600 (pending_path hc) data) Q True d1 h"
    if d1: "map_of d1 (hc_dir hc) = Some Dir" "map_of d1 (pending_path hc) \<noteq> Some Dir" for d1
    unfolding writeFile0600_def write_file_def pp(2)
    apply (rule wp_bnd, rule wp_mkdir_all)
       apply simp
      apply (simp add: d1)
     apply simp
     apply (rule wp_bnd, rule wp_bnd, rule wp_put_file, simp, simp add: d1, simp)
     apply (rule wp_put_file, simp, simp, simp)
     apply (rule wp_chmod, simp, simp)
     apply (rule Q)
      using ok sub apply (simp add: outbox_ok_def pending_in_def data d1 pp(1))
     apply (simp add: pending_in_def data)
    apply (simp add: d1)
    done
  have rest: "wp (bnd (from_sum (js_pending (hc_js hc) ps)) (\<lambda>data. writeFile0600 (pending_path hc) data)) Q True d1 h"
    if "map_of d1 (hc_dir hc) = Some Dir" "map_of d1 (pending_path hc) \<noteq> Some Dir" for d1
    unfolding data by (rule wp_bnd, rule wp_from_sum, simp, rule put [OF that])
  have nd': "map_of (AList.update (hc_dir hc) Dir d) (pending_path hc) \<noteq> Some Dir" using nd by (simp add: pp(1))
  show ?thesis
    unfolding SavePendingResults_def pending_path_def [symmetric]
    apply (rule wp_bnd, rule wp_mkdir_all)
       apply simp
      apply (simp, rule rest, simp, rule nd')
     apply (simp, rule rest, assumption, rule nd)
    using ok by (auto simp: outbox_ok_def)
qed

lemma wp_ClearPending:
  assumes on: "online hc" and ok: "outbox_ok hc R d"
    and Q: "\<And>d'. outbox_ok hc R d' \<Longrightarrow> pending_in hc d' = Some [] \<Longrightarrow> Q (Inr ()) True d' h"
  shows "wp (ClearPendingResults (hc_dir hc)) Q True d h"
proof -
  note pp = pending_path_in_dir [OF on]
  have nd: "map_of d (pending_path hc) \<noteq> Some Dir" using ok by (auto simp: outbox_ok_def pending_in_def)
  show ?thesis
    unfolding ClearPendingResults_def pending_path_def [symmetric]
    apply (rule wp_missing_ok, rule wp_remove_file)
       apply simp
      apply (simp, rule Q [OF ok], simp add: pending_in_def)
     apply (simp add: nd)
    apply (simp, rule Q)
    using ok apply (simp add: outbox_ok_def pending_in_def pp(1))
    apply (simp add: pending_in_def)
    done
qed

section \<open>Reporting and flushing\<close>

text \<open>Where results are: those sent and those pending.\<close>

definition in_account :: "handler_config \<Rightarrow> fs \<Rightarrow> agent_state \<Rightarrow> (string \<times> task_result) multiset" where
  "in_account hc d h = mset (sent_results h) + mset (map owed (the (pending_in hc d)))"

lemma wp_persist:
  assumes "online hc" "honest_pending (hc_js hc) R" "outbox_ok hc R d" "\<lparr>pr_message_id = mid, pr_payload = r\<rparr> \<in> R"
    and "\<And>d'. outbox_ok hc R d' \<Longrightarrow> pending_in hc d' = Some (the (pending_in hc d) @ [\<lparr>pr_message_id = mid, pr_payload = r\<rparr>]) \<Longrightarrow>
      Q (Inr ()) True d' h"
  shows "wp (persistPendingResult hc mid r) Q True d h"
proof -
  obtain ps where ps: "pending_in hc d = Some ps" and sub: "set (ps @ [\<lparr>pr_message_id = mid, pr_payload = r\<rparr>]) \<subseteq> R"
    using assms(3,4) by (auto simp: outbox_ok_def)
  show ?thesis
    using assms(1) assms(5) [simplified ps option.sel]
    by (auto simp: persistPendingResult_def online_def
        intro!: wp_attempt wp_LoadPending [OF ps] wp_ignoring wp_SavePending [OF assms(1-3) sub])
qed

lemma wp_report_offline:
  assumes "online hc" "honest_pending (hc_js hc) R" "outbox_ok hc R d" "\<lparr>pr_message_id = mid, pr_payload = r\<rparr> \<in> R"
    and "\<And>d' h'. outbox_ok hc R d' \<Longrightarrow>
      sent_results h' = sent_results h \<and> the (pending_in hc d') = the (pending_in hc d) @ [\<lparr>pr_message_id = mid, pr_payload = r\<rparr>] \<or>
      sent_results h' = sent_results h @ [(mid, r)] \<and> pending_in hc d' = pending_in hc d \<Longrightarrow> Q (Inr ()) True d' h'"
  shows "wp (sendTaskResultWithID hc mid r) Q True d h"
proof -
  have ids: "hc_ids hc" "hc_has_send hc" using assms(1) by (simp_all add: online_def)
  let ?h = "after_send \<lparr>ao_id = mid, ao_body = TaskResult r\<rparr> h"
  have "wp (case if can_send h then Inr () else Inl SysFault of Inl _ \<Rightarrow> persistPendingResult hc mid r | Inr _ \<Rightarrow> ret ())
      Q True d ?h"
  proof (cases "can_send h")
    case True
    then have "sent_results ?h = sent_results h @ [(mid, r)]" by (simp add: sent_after_send)
    with True assms(3,5) show ?thesis by (simp add: wp_ret)
  next
    case False
    then have "sent_results ?h = sent_results h" by (simp add: sent_after_send)
    with False assms(5) show ?thesis
      by (auto intro!: wp_persist [OF assms(1-4)])
  qed
  then show ?thesis
    unfolding sendTaskResultWithID_def using ids assms(3,4)
    by (fastforce simp: outbox_ok_def intro!: wp_bnd wp_message_id wp_attempt wp_send)
qed

lemma wp_flush_results:
  assumes "online hc" "\<forall>p \<in> set ps. pr_message_id p \<noteq> ''''"
    and "\<And>rest h'. mset (sent_results h') + mset (map owed rest) = mset (sent_results h) + mset (map owed ps) \<Longrightarrow>
      set rest \<subseteq> set ps \<Longrightarrow>
      (as_send_fails h = [] \<longrightarrow> rest = [] \<and> sent_results h' = sent_results h @ map owed ps \<and> as_send_fails h' = []) \<Longrightarrow>
      Q (Inr rest) True d h'"
  shows "wp (flush_results hc ps) Q True d h"
  using assms(2,3)
proof (induction ps arbitrary: h Q)
  case Nil
  have "Q (Inr []) True d h" by (rule Nil.prems(2)) simp_all
  then show ?case unfolding flush_results.simps by (rule wp_ret)
next
  case (Cons p ps)
  have ids: "hc_ids hc" "hc_has_send hc" using assms(1) by (simp_all add: online_def)
  let ?h = "after_send \<lparr>ao_id = pr_message_id p, ao_body = TaskResult (pr_payload p)\<rparr> h"
  let ?s = "if can_send h then Inr () else Inl SysFault"
  have sent: "sent_results ?h = sent_results h @ (if can_send h then [owed p] else [])"
    by (simp add: sent_after_send owed_def)
  have "wp (bnd (flush_results hc ps) (\<lambda>rest. ret (case ?s of Inl _ \<Rightarrow> p # rest | Inr _ \<Rightarrow> rest))) Q True d ?h"
  proof (rule wp_bnd, rule Cons.IH)
    show "\<forall>p \<in> set ps. pr_message_id p \<noteq> ''''" using Cons.prems(1) by simp
  next
    fix rest h'
    assume m: "mset (sent_results h') + mset (map owed rest) = mset (sent_results ?h) + mset (map owed ps)"
      and sub: "set rest \<subseteq> set ps"
      and all: "as_send_fails ?h = [] \<longrightarrow> rest = [] \<and> sent_results h' = sent_results ?h @ map owed ps \<and> as_send_fails h' = []"
    have "Q (Inr (if can_send h then rest else p # rest)) True d h'"
    proof (rule Cons.prems(2))
      show "mset (sent_results h') + mset (map owed (if can_send h then rest else p # rest)) =
          mset (sent_results h) + mset (map owed (p # ps))"
        using m by (simp add: sent)
      show "set (if can_send h then rest else p # rest) \<subseteq> set (p # ps)" using sub by auto
      show "as_send_fails h = [] \<longrightarrow> (if can_send h then rest else p # rest) = [] \<and>
          sent_results h' = sent_results h @ map owed (p # ps) \<and> as_send_fails h' = []"
      proof
        assume none: "as_send_fails h = []"
        then have "can_send h" "as_send_fails ?h = []" by (simp_all add: can_send_def after_send_def)
        with all sent show "(if can_send h then rest else p # rest) = [] \<and>
            sent_results h' = sent_results h @ map owed (p # ps) \<and> as_send_fails h' = []" by simp
      qed
    qed
    then show "(case Inr rest of Inl e \<Rightarrow> Q (Inl e)
        | Inr rest \<Rightarrow> wp (ret (case ?s of Inl _ \<Rightarrow> p # rest | Inr _ \<Rightarrow> rest)) Q) True d h'"
      by (cases "can_send h") (simp_all add: wp_ret)
  qed
  then show ?case
    using ids Cons.prems(1) by (auto intro!: wp_bnd wp_message_id wp_attempt wp_send)
qed

lemma wp_Flush:
  assumes on: "online hc" and js: "honest_pending (hc_js hc) R" and ok: "outbox_ok hc R d"
    and Q: "\<And>d' h'. outbox_ok hc R d' \<Longrightarrow> in_account hc d' h' = in_account hc d h \<Longrightarrow>
      (as_send_fails h = [] \<longrightarrow> pending_in hc d' = Some [] \<and>
        sent_results h' = sent_results h @ map owed (the (pending_in hc d)) \<and> as_send_fails h' = []) \<Longrightarrow>
      Q (Inr ()) True d' h'"
  shows "wp (FlushPendingResults hc) Q True d h"
proof -
  obtain ps where ps: "pending_in hc d = Some ps" and R: "set ps \<subseteq> R" "\<forall>p \<in> R. pr_message_id p \<noteq> ''''"
    using ok by (auto simp: outbox_ok_def)
  have st: "hc_has_store hc" using on by (simp add: online_def)
  have none: "Q (Inr ()) True d h" if "ps = []"
    by (rule Q [OF ok]) (simp_all add: ps that)
  have "wp (bnd (flush_results hc ps) (\<lambda>remaining. if remaining = [] then ignoring (ClearPendingResults (hc_dir hc))
      else ignoring (SavePendingResults (hc_js hc) (hc_dir hc) remaining))) Q True d h"
  proof (rule wp_bnd, rule wp_flush_results [OF on])
    show "\<forall>p \<in> set ps. pr_message_id p \<noteq> ''''" using R by blast
  next
    fix rest h'
    assume m: "mset (sent_results h') + mset (map owed rest) = mset (sent_results h) + mset (map owed ps)"
      and sub: "set rest \<subseteq> set ps"
      and all: "as_send_fails h = [] \<longrightarrow> rest = [] \<and> sent_results h' = sent_results h @ map owed ps \<and> as_send_fails h' = []"
    have post: "Q (Inr ()) True d' h'" if "outbox_ok hc R d'" "pending_in hc d' = Some rest" for d'
    proof (rule Q [OF that(1)])
      show "in_account hc d' h' = in_account hc d h" using m that(2) by (simp add: in_account_def ps)
      show "as_send_fails h = [] \<longrightarrow> pending_in hc d' = Some [] \<and>
          sent_results h' = sent_results h @ map owed (the (pending_in hc d)) \<and> as_send_fails h' = []"
        using all that(2) ps by simp
    qed
    show "(case Inr rest of Inl e \<Rightarrow> Q (Inl e) | Inr rest \<Rightarrow>
        wp (if rest = [] then ignoring (ClearPendingResults (hc_dir hc))
          else ignoring (SavePendingResults (hc_js hc) (hc_dir hc) rest)) Q) True d h'"
      using post by (auto intro!: wp_ignoring wp_ClearPending [OF on ok] wp_SavePending [OF on js ok order_trans [OF sub R(1)]])
  qed
  with st none show ?thesis
    unfolding FlushPendingResults_def
    by (auto intro!: wp_attempt wp_LoadPending [OF ps] wp_ret)
qed

text \<open>The life of an agent, as far as its results go: tasks report, and every connection begins with a
  flush; which of the sends fail is up to the world.\<close>

datatype outbox_call = Report string task_result | Flush

fun serve_outbox :: "handler_config \<Rightarrow> outbox_call list \<Rightarrow> unit handler_prog" where
  "serve_outbox hc [] = ret ()"
| "serve_outbox hc (Report mid r # cs) = bnd (sendTaskResultWithID hc mid r) (\<lambda>_. serve_outbox hc cs)"
| "serve_outbox hc (Flush # cs) = bnd (FlushPendingResults hc) (\<lambda>_. serve_outbox hc cs)"

fun reports :: "outbox_call list \<Rightarrow> pending_result list" where
  "reports [] = []"
| "reports (Report mid r # cs) = \<lparr>pr_message_id = mid, pr_payload = r\<rparr> # reports cs"
| "reports (Flush # cs) = reports cs"

lemma wp_serve_outbox:
  assumes "online hc" "honest_pending (hc_js hc) R" "outbox_ok hc R d" "set (reports cs) \<subseteq> R"
  shows "wp (serve_outbox hc cs) (\<lambda>r s' d' h'. r = Inr () \<and> s' \<and> outbox_ok hc R d' \<and>
    in_account hc d' h' = in_account hc d h + mset (map owed (reports cs))) True d h"
  using assms(3-4)
proof (induction cs arbitrary: d h rule: reports.induct)
  case 1
  then show ?case unfolding serve_outbox.simps by (intro wp_ret) simp
next
  case (2 mid r cs)
  have mid: "\<lparr>pr_message_id = mid, pr_payload = r\<rparr> \<in> R" using 2(3) by simp
  obtain ps where ps: "pending_in hc d = Some ps" using 2(2) by (auto simp: outbox_ok_def)
  show ?case
  proof (unfold serve_outbox.simps reports.simps, rule wp_bnd, rule wp_report_offline [OF assms(1,2) 2(2) mid])
    fix d' h'
    assume ok: "outbox_ok hc R d'"
      and where_to: "sent_results h' = sent_results h \<and> the (pending_in hc d') = the (pending_in hc d) @ [\<lparr>pr_message_id = mid, pr_payload = r\<rparr>] \<or>
        sent_results h' = sent_results h @ [(mid, r)] \<and> pending_in hc d' = pending_in hc d"
    have acc: "in_account hc d' h' = add_mset (mid, r) (in_account hc d h)"
      using where_to by (auto simp: in_account_def owed_def)
    from 2(1) [OF ok, of h'] 2(3)
    have "wp (serve_outbox hc cs) (\<lambda>ra s' d'' h''. ra = Inr () \<and> s' \<and> outbox_ok hc R d'' \<and>
        in_account hc d'' h'' = in_account hc d' h' + mset (map owed (reports cs))) True d' h'" by simp
    then show "(case Inr () of Inl e \<Rightarrow> (\<lambda>s' d' h'. Inl e = Inr () \<and> s' \<and> outbox_ok hc R d' \<and>
          in_account hc d' h' = in_account hc d h + mset (map owed (\<lparr>pr_message_id = mid, pr_payload = r\<rparr> # reports cs)))
        | Inr a \<Rightarrow> wp (serve_outbox hc cs) (\<lambda>ra s' d' h'. ra = Inr () \<and> s' \<and> outbox_ok hc R d' \<and>
            in_account hc d' h' = in_account hc d h + mset (map owed (\<lparr>pr_message_id = mid, pr_payload = r\<rparr> # reports cs)))) True d' h'"
      unfolding acc by (simp add: owed_def)
  qed
next
  case (3 cs)
  show ?case
  proof (unfold serve_outbox.simps reports.simps, rule wp_bnd, rule wp_Flush [OF assms(1,2) 3(2)])
    fix d' h'
    assume "outbox_ok hc R d'" and acc: "in_account hc d' h' = in_account hc d h"
    from 3(1) [OF this(1), of h'] 3(3) acc
    show "(case Inr () of Inl e \<Rightarrow> (\<lambda>s' d' h'. Inl e = Inr () \<and> s' \<and> outbox_ok hc R d' \<and>
          in_account hc d' h' = in_account hc d h + mset (map owed (reports cs)))
        | Inr a \<Rightarrow> wp (serve_outbox hc cs) (\<lambda>r s' d' h'. r = Inr () \<and> s' \<and> outbox_ok hc R d' \<and>
            in_account hc d' h' = in_account hc d h + mset (map owed (reports cs)))) True d' h'"
      by simp
  qed
qed

section \<open>The guarantees\<close>

text \<open>C29. While the disk works, no result is lost or sent twice: after any sequence of reports and
  flushes, with any of the sends failing, the results sent and the results pending are together those
  there were before and those reported since, each exactly once.\<close>

theorem results_neither_lost_nor_doubled:
  assumes on: "online hc" and js: "honest_pending (hc_js hc) R" and ok: "outbox_ok hc R (w_db w)"
    and rs: "set (reports cs) \<subseteq> R" and calm: "at_most_one_fault w" "spent w"
    and run: "serve_outbox hc cs w = (r, w')"
  shows "outbox_ok hc R (w_db w') \<and>
    mset (sent_results (w_hub w')) + mset (map owed (the (pending_in hc (w_db w')))) =
    mset (sent_results (w_hub w)) + mset (map owed (the (pending_in hc (w_db w)))) + mset (map owed (reports cs))"
proof -
  have "wp (serve_outbox hc cs) (\<lambda>r s' d' h'. r = Inr () \<and> s' \<and> outbox_ok hc R d' \<and>
    in_account hc d' h' = in_account hc (w_db w) (w_hub w) + mset (map owed (reports cs))) (spent w) (w_db w) (w_hub w)"
    using wp_serve_outbox [OF on js ok rs] calm(2) by simp
  from wpD(1) [OF this calm(1) run] show ?thesis by (simp add: in_account_def)
qed

text \<open>C30. Over a working connection a flush sends every pending result, in the order they were kept,
  and leaves none.\<close>

theorem flush_sends_all_in_order:
  assumes on: "online hc" and js: "honest_pending (hc_js hc) R" and ok: "outbox_ok hc R (w_db w)"
    and calm: "at_most_one_fault w" "spent w" and up: "as_send_fails (w_hub w) = []"
    and run: "FlushPendingResults hc w = (r, w')"
  shows "sent_results (w_hub w') = sent_results (w_hub w) @ map owed (the (pending_in hc (w_db w))) \<and>
    pending_in hc (w_db w') = Some []"
proof -
  have "wp (FlushPendingResults hc) (\<lambda>r s' d' h'. pending_in hc d' = Some [] \<and>
      sent_results h' = sent_results (w_hub w) @ map owed (the (pending_in hc (w_db w)))) True (w_db w) (w_hub w)"
    by (rule wp_Flush [OF on js ok]) (simp add: up)
  with calm(2) have "wp (FlushPendingResults hc) (\<lambda>r s' d' h'. pending_in hc d' = Some [] \<and>
      sent_results h' = sent_results (w_hub w) @ map owed (the (pending_in hc (w_db w)))) (spent w) (w_db w) (w_hub w)"
    by simp
  from wpD(1) [OF this calm(1) run] show ?thesis by simp
qed

section \<open>A run with a broken connection\<close>

text \<open>An encoding of the lists of two results, and an agent that uses it.\<close>

definition result_of :: "char \<Rightarrow> pending_result" where
  "result_of c = \<lparr>pr_message_id = ''m'' @ [c], pr_payload = failedTaskResult
     \<lparr>mj_docker = (\<lambda>_. ''''), mj_database = (\<lambda>_. ''''), mj_verification = (\<lambda>_. ''''), mj_manifest = (\<lambda>_. ''''), mj_naming = (\<lambda>_. '''')\<rparr>
     ''a1'' [c] 0\<rparr>"

definition letter_json :: json_io where
  "letter_json = two_json\<lparr>js_pending := (\<lambda>ps. Inr (map (\<lambda>p. List.last (pr_message_id p)) ps)),
     js_raw_array := (\<lambda>data. Inr (map (\<lambda>c. [c]) data)), js_has_payload := (\<lambda>_. Inr True),
     js_parse_pending := (\<lambda>raw. Inr (result_of (hd raw)))\<rparr>"

definition letters :: "pending_result set" where "letters = range result_of"

definition letter_agent :: handler_config where "letter_agent = sample_agent\<lparr>hc_js := letter_json\<rparr>"

definition report_of :: "char \<Rightarrow> outbox_call" where
  "report_of c = Report (pr_message_id (result_of c)) (pr_payload (result_of c))"

text \<open>The first two sends fail; then a flush sends one of the two results and fails on the other.\<close>

definition flaky_world :: "(fs, agent_state) world" where
  "flaky_world = (agent_world [])\<lparr>w_hub := (w_hub (agent_world []))\<lparr>as_send_fails := [True, True, False, True]\<rparr>\<rparr>"

lemma honest_letters: "honest_pending letter_json letters"
proof -
  have "decode_pending letter_json (map (\<lambda>c. [c]) cs) = Inr (map result_of cs)" for cs
    by (induction cs) (simp_all add: letter_json_def)
  moreover have "map result_of (map (\<lambda>p. List.last (pr_message_id p)) ps) = ps" if "set ps \<subseteq> letters" for ps
    using that by (induction ps) (auto simp: letters_def result_of_def)
  ultimately have "decode_pending letter_json (map (\<lambda>c. [c]) (map (\<lambda>p. List.last (pr_message_id p)) ps)) = Inr ps"
    if "set ps \<subseteq> letters" for ps using that by metis
  then show ?thesis by (simp add: honest_pending_def letter_json_def)
qed

lemma letter_agent_online: "online letter_agent"
proof -
  have "hc_dir letter_agent = slash # ''c''" "plain_path ''c''" by code_simp+
  then have "clean_dir (hc_dir letter_agent)" unfolding clean_dir_def by blast
  then show ?thesis by (simp add: online_def letter_agent_def sample_agent_def)
qed

lemma flaky_ok: "outbox_ok letter_agent letters (w_db flaky_world)" "at_most_one_fault flaky_world" "spent flaky_world"
proof -
  have "map_of (w_db flaky_world) (hc_dir letter_agent) = Some Dir" "pending_in letter_agent (w_db flaky_world) = Some []"
    by code_simp+
  then show "outbox_ok letter_agent letters (w_db flaky_world)"
    by (auto simp: outbox_ok_def letters_def result_of_def)
qed code_simp+

lemma letter_agent_json: "hc_js letter_agent = letter_json" by (simp add: letter_agent_def)

theorem results_neither_lost_nor_doubled_witness:
  "\<exists>w'. serve_outbox letter_agent [report_of CHR ''a'', report_of CHR ''b'', Flush] flaky_world = (Inr (), w') \<and>
     mset (sent_results (w_hub w')) + mset (map owed (the (pending_in letter_agent (w_db w')))) =
     mset (map owed [result_of CHR ''a'', result_of CHR ''b'']) \<and>
     length (sent_results (w_hub w')) = 1"
proof -
  let ?cs = "[report_of CHR ''a'', report_of CHR ''b'', Flush]"
  obtain r w' where run: "serve_outbox letter_agent ?cs flaky_world = (r, w')" by fastforce
  have rs: "reports ?cs = [result_of CHR ''a'', result_of CHR ''b'']" by code_simp
  then have "set (reports ?cs) \<subseteq> letters" by (simp add: letters_def)
  from results_neither_lost_nor_doubled [OF letter_agent_online _ flaky_ok(1) this flaky_ok(2,3) run]
  have all: "mset (sent_results (w_hub w')) + mset (map owed (the (pending_in letter_agent (w_db w')))) =
      mset (sent_results (w_hub flaky_world)) + mset (map owed (the (pending_in letter_agent (w_db flaky_world)))) +
      mset (map owed (reports ?cs))"
    using honest_letters by (simp add: letter_agent_json)
  have "sent_results (w_hub flaky_world) = []" "pending_in letter_agent (w_db flaky_world) = Some []"
    "fst (serve_outbox letter_agent ?cs flaky_world) = Inr ()"
    "length (sent_results (w_hub (snd (serve_outbox letter_agent ?cs flaky_world)))) = 1"
    by code_simp+
  with all rs run show ?thesis by auto
qed

text \<open>Two results wait when the connection comes back.\<close>

definition waiting_world :: "(fs, agent_state) world" where
  "waiting_world = (let w = snd (serve_outbox letter_agent [report_of CHR ''a'', report_of CHR ''b'']
     (flaky_world\<lparr>w_hub := (w_hub flaky_world)\<lparr>as_send_fails := [True, True]\<rparr>\<rparr>)) in w)"

theorem flush_sends_all_in_order_witness:
  "\<exists>w'. FlushPendingResults letter_agent waiting_world = (Inr (), w') \<and>
     sent_results (w_hub w') = map owed [result_of CHR ''a'', result_of CHR ''b''] \<and>
     pending_in letter_agent (w_db w') = Some []"
proof -
  obtain r w' where run: "FlushPendingResults letter_agent waiting_world = (r, w')" by fastforce
  have w: "map_of (w_db waiting_world) (hc_dir letter_agent) = Some Dir"
    "pending_in letter_agent (w_db waiting_world) = Some [result_of CHR ''a'', result_of CHR ''b'']"
    "as_send_fails (w_hub waiting_world) = []" "sent_results (w_hub waiting_world) = []"
    "at_most_one_fault waiting_world" "spent waiting_world"
    "fst (FlushPendingResults letter_agent waiting_world) = Inr ()"
    by code_simp+
  have "outbox_ok letter_agent letters (w_db waiting_world)"
    using w(1,2) by (auto simp: outbox_ok_def letters_def result_of_def)
  from flush_sends_all_in_order [OF letter_agent_online _ this w(5,6,3) run] honest_letters w(2,4,7) run
  show ?thesis by (auto simp: letter_agent_json)
qed


end
