(* ===== verification/VF_Runners.thy ===== *)
theory VF_Runners
  imports VF_AgentOutbox
begin

text \<open>
  The runners of the agent: internal/agent/executor/restic.go, which drives restic through rclone, and
  internal/agent/executor/plain.go, which copies plain files with rclone.  Both build command lines,
  run them and read what they print.

  A program here acts on the agent's files and on a \<open>shell\<close>: the log of the command lines run so far
  and \<open>sh_run\<close>, which says what a command prints and whether it fails, given the commands before it.
  So a claim about all shells is a claim about all behaviours of restic, rclone and the remote store.
  The environment of the commands is left out.
\<close>

section \<open>Commands\<close>

record command_line =
  cl_program :: string
  cl_args :: "string list"
  cl_stdin :: string

record cmd_out =
  co_stdout :: string
  co_stderr :: string
  co_err :: "string option"

record shell =
  sh_log :: "command_line list"
  sh_run :: "command_line list \<Rightarrow> command_line \<Rightarrow> cmd_out"

type_synonym 'a shell_prog = "(shell, 'a) agent_prog"

definition run_cmd :: "string \<Rightarrow> string list \<Rightarrow> string \<Rightarrow> cmd_out shell_prog" where
  "run_cmd program args stdin w =
     (let h = w_hub w; c = \<lparr>cl_program = program, cl_args = args, cl_stdin = stdin\<rparr>
      in (Inr (sh_run h (sh_log h) c), w\<lparr>w_hub := h\<lparr>sh_log := sh_log h @ [c]\<rparr>\<rparr>))"

definition commandError :: "string \<Rightarrow> string \<Rightarrow> string \<Rightarrow> go_error" where
  "commandError action stderr err =
     Err (if stderr = '''' then action @ '': '' @ err else action @ '': '' @ err @ '': '' @ trim_space stderr)"

text \<open>\<^verbatim>\<open>if err := cmd.Run(); err != nil { return commandError(...) }\<close>, with the output.\<close>

definition checked :: "string \<Rightarrow> string \<Rightarrow> string list \<Rightarrow> string \<Rightarrow> string shell_prog" where
  "checked action program args stdin = bnd (run_cmd program args stdin) (\<lambda>out. case co_err out of
     Some e \<Rightarrow> raise (commandError action (co_stderr out) e) | None \<Rightarrow> ret (co_stdout out))"

definition parsed :: "string \<Rightarrow> 'a outcome \<Rightarrow> 'a shell_prog" where
  "parsed what r = (case r of Inl e \<Rightarrow> raise (Err (what @ '': '' @ error_text e)) | Inr a \<Rightarrow> ret a)"

section \<open>Progress of a backup\<close>

record progress_info =
  pi_percent_done :: float64
  pi_total_files :: int
  pi_files_done :: int
  pi_total_bytes :: int
  pi_bytes_done :: int
  pi_current_file :: string

text \<open>The arithmetic of \<^verbatim>\<open>float64\<close>, which rounds, and \<^verbatim>\<open>%.1f\<close>.\<close>

record float_ops =
  fo_of_int :: "int \<Rightarrow> float64"
  fo_to_int :: "float64 \<Rightarrow> int"
  fo_add :: "float64 \<Rightarrow> float64 \<Rightarrow> float64"
  fo_mul :: "float64 \<Rightarrow> float64 \<Rightarrow> float64"
  fo_div :: "float64 \<Rightarrow> float64 \<Rightarrow> float64"
  fo_fmt1 :: "float64 \<Rightarrow> string"

section \<open>What the runners take from libraries\<close>

record restic_message =
  rm_type :: string
  rm_progress :: progress_info
  rm_snapshot_id :: string
  rm_error :: string
  rm_during :: string
  rm_item :: string

text \<open>The decoders of encoding/json for the outputs read here, the number and duration parsers of
  strconv and time, the hash and the quoting.\<close>

record runner_io =
  rio_snapshots :: "string \<Rightarrow> snapshot_info list outcome"
  rio_stats :: "string \<Rightarrow> int outcome"
  rio_node :: "string \<Rightarrow> (string \<times> file_entry) option"
  rio_message :: "string \<Rightarrow> restic_message option"
  rio_text :: "string \<Rightarrow> string option"
  rio_plain_meta :: "string \<Rightarrow> (string \<times> string list) outcome"
  rio_size :: "string \<Rightarrow> int outcome"
  rio_is_dir :: "string \<Rightarrow> bool outcome"
  rio_items :: "string \<Rightarrow> (file_entry \<times> bool) list outcome"
  rio_nonneg_float :: "string \<Rightarrow> bool"
  rio_nonneg_duration :: "string \<Rightarrow> bool"
  rio_parse_time :: "string \<Rightarrow> time"
  rio_hash :: "string \<Rightarrow> string"
  rio_quote :: "string \<Rightarrow> string"
  rio_floats :: float_ops

section \<open>Extra arguments of rclone\<close>

text \<open>\<^verbatim>\<open>strconv.Atoi\<close>.\<close>

definition digits_value :: "string \<Rightarrow> int" where
  "digits_value ds = foldl (\<lambda>n c. 10 * n + (int (byte c) - 48)) 0 ds"

definition Atoi :: "string \<Rightarrow> int option" where
  "Atoi s =
     (let ds = (if s \<noteq> '''' \<and> (hd s = CHR ''-'' \<or> hd s = CHR ''+'') then tl s else s);
          n = (if s \<noteq> '''' \<and> hd s = CHR ''-'' then - digits_value ds else digits_value ds)
      in if ds \<noteq> '''' \<and> list_all is_digit ds \<and> - (2 ^ 63) \<le> n \<and> n < 2 ^ 63 then Some n else None)"

definition isAllowedRcloneExtraArg :: "string \<Rightarrow> bool" where
  "isAllowedRcloneExtraArg key \<longleftrightarrow> key \<in> set [''transfers'', ''tpslimit'', ''retries'', ''retries-sleep'',
     ''low-level-retries'', ''timeout'', ''local-no-check-updated'']"

definition isRcloneBooleanExtraArg :: "string \<Rightarrow> bool" where
  "isRcloneBooleanExtraArg key \<longleftrightarrow> key = ''local-no-check-updated''"

definition isTruthyRcloneExtraArgValue :: "string \<Rightarrow> bool" where
  "isTruthyRcloneExtraArgValue v \<longleftrightarrow> to_lower v \<in> set [''true'', ''1'', ''yes'', ''on'']"

definition normalizeRcloneExtraArgValue :: "runner_io \<Rightarrow> string \<Rightarrow> string \<Rightarrow> string option" where
  "normalizeRcloneExtraArgValue io key v =
     (let n = trim_space v; if_ok = (\<lambda>b. if b then Some n else None) in
      if n = '''' \<or> contains_any n [CHR '' '', CHR 0x09, CHR 0x0D, CHR 0x0A] then None
      else if key = ''transfers'' then if_ok (case Atoi n of None \<Rightarrow> False | Some i \<Rightarrow> i > 0)
      else if key = ''retries'' \<or> key = ''low-level-retries'' then if_ok (case Atoi n of None \<Rightarrow> False | Some i \<Rightarrow> i \<ge> 0)
      else if key = ''tpslimit'' then if_ok (rio_nonneg_float io n)
      else if key = ''retries-sleep'' \<or> key = ''timeout'' then if_ok (n = ''0'' \<or> rio_nonneg_duration io n)
      else if key = ''local-no-check-updated'' then (if isTruthyRcloneExtraArgValue n then Some ''true'' else None)
      else None)"

text \<open>The arguments of a Go map, given as a list with distinct keys.\<close>

definition extra_arg :: "runner_io \<Rightarrow> (string \<times> string) list \<Rightarrow> string \<Rightarrow> string list" where
  "extra_arg io extra key = (case map_of extra key of None \<Rightarrow> [] | Some v \<Rightarrow>
     (case normalizeRcloneExtraArgValue io key v of None \<Rightarrow> []
      | Some n \<Rightarrow> if \<not> isAllowedRcloneExtraArg key then []
          else if isRcloneBooleanExtraArg key then [''--'' @ key] else [''--'' @ key, n]))"

definition normalizedRcloneExtraArgs :: "runner_io \<Rightarrow> (string \<times> string) list \<Rightarrow> string list" where
  "normalizedRcloneExtraArgs io extra = concat (map (extra_arg io extra) (sort (map fst extra)))"

section \<open>restic\<close>

record restic_runner =
  rr_rclone_conf :: string
  rr_password_file :: string
  rr_repo_path :: string
  rr_extra_args :: "(string \<times> string) list"

definition repoArg :: "restic_runner \<Rightarrow> string" where
  "repoArg r = ''rclone:vaultfleet:'' @ rr_repo_path r"

definition hasPassword :: "restic_runner \<Rightarrow> bool shell_prog" where
  "hasPassword r = attempt (read_file (rr_password_file r)) (\<lambda>d. ret (case d of Inl _ \<Rightarrow> False | Inr c \<Rightarrow> trim_space c \<noteq> ''''))"

definition rcloneServeArgs :: "runner_io \<Rightarrow> restic_runner \<Rightarrow> string" where
  "rcloneServeArgs io r = ''serve restic --stdio --config '' @ rr_rclone_conf r @
     concat (map (\<lambda>a. '' '' @ a) (normalizedRcloneExtraArgs io (rr_extra_args r)))"

definition baseArgs :: "runner_io \<Rightarrow> restic_runner \<Rightarrow> string list shell_prog" where
  "baseArgs io r = bnd (hasPassword r) (\<lambda>b. ret ([''-r'', repoArg r] @
     (if b then [''--password-file'', rr_password_file r] else [''--insecure-no-password'']) @
     [''-o'', ''rclone.args='' @ rcloneServeArgs io r]))"

definition baseReadOnlyArgs :: "runner_io \<Rightarrow> restic_runner \<Rightarrow> string list shell_prog" where
  "baseReadOnlyArgs io r = bnd (baseArgs io r) (\<lambda>args. ret (''--no-lock'' # args))"

definition buildInitCmd :: "runner_io \<Rightarrow> restic_runner \<Rightarrow> string list shell_prog" where
  "buildInitCmd io r = bnd (baseArgs io r) (\<lambda>args. ret (''init'' # args))"

definition backup_targets :: "string list \<Rightarrow> string list \<Rightarrow> string list" where
  "backup_targets dirs excludes = map (\<lambda>e. ''--exclude='' @ e) excludes @ dirs"

definition buildBackupCmd :: "runner_io \<Rightarrow> restic_runner \<Rightarrow> string list \<Rightarrow> string list \<Rightarrow> string list shell_prog" where
  "buildBackupCmd io r dirs excludes = bnd (baseArgs io r) (\<lambda>args. ret (''backup'' # args @ backup_targets dirs excludes))"

definition buildBackupWithProgressCmd :: "runner_io \<Rightarrow> restic_runner \<Rightarrow> string list \<Rightarrow> string list \<Rightarrow> string list shell_prog" where
  "buildBackupWithProgressCmd io r dirs excludes =
     bnd (baseArgs io r) (\<lambda>args. ret (''backup'' # ''--json'' # args @ backup_targets dirs excludes))"

definition keep_arg :: "string \<Rightarrow> int \<Rightarrow> string list" where
  "keep_arg flag n = (if n > 0 then [flag @ dec_digits (nat n)] else [])"

definition buildForgetCmd :: "runner_io \<Rightarrow> restic_runner \<Rightarrow> retention_policy \<Rightarrow> string list shell_prog" where
  "buildForgetCmd io r p = bnd (baseArgs io r) (\<lambda>args. ret (''forget'' # args @ [''--prune''] @
     keep_arg ''--keep-last='' (keep_last p) @ keep_arg ''--keep-daily='' (keep_daily p) @
     keep_arg ''--keep-weekly='' (keep_weekly p) @ keep_arg ''--keep-monthly='' (keep_monthly p)))"

definition buildSnapshotsCmd :: "runner_io \<Rightarrow> restic_runner \<Rightarrow> string list shell_prog" where
  "buildSnapshotsCmd io r = bnd (baseReadOnlyArgs io r) (\<lambda>args. ret ([''snapshots'', ''--json''] @ args))"

definition buildLsSnapshotCmd :: "runner_io \<Rightarrow> restic_runner \<Rightarrow> string \<Rightarrow> string list \<Rightarrow> string list shell_prog" where
  "buildLsSnapshotCmd io r snapshotID paths = bnd (baseReadOnlyArgs io r) (\<lambda>args.
     ret ([''ls'', snapshotID, ''--json''] @ args @ filter (\<lambda>p. p \<noteq> '''') paths))"

definition buildStatsCmd :: "runner_io \<Rightarrow> restic_runner \<Rightarrow> string list shell_prog" where
  "buildStatsCmd io r = bnd (baseReadOnlyArgs io r) (\<lambda>args. ret ([''stats'', ''--mode'', ''raw-data'', ''--json''] @ args))"

definition buildCheckCmd :: "runner_io \<Rightarrow> restic_runner \<Rightarrow> string list shell_prog" where
  "buildCheckCmd io r = bnd (baseArgs io r) (\<lambda>args. ret (''check'' # args))"

definition buildRestoreCmdWithIncludes :: "runner_io \<Rightarrow> restic_runner \<Rightarrow> string \<Rightarrow> string \<Rightarrow> string list \<Rightarrow> string list shell_prog" where
  "buildRestoreCmdWithIncludes io r snapshotID targetPath includePaths = bnd (baseReadOnlyArgs io r) (\<lambda>args.
     ret ([''restore'', snapshotID, ''--target'', targetPath] @ concat (map (\<lambda>p. [''--include'', p]) includePaths) @ args))"

definition isAlreadyInitializedRepo :: "string \<Rightarrow> bool" where
  "isAlreadyInitializedRepo stderr \<longleftrightarrow> contains (to_lower stderr) ''already initialized'' \<or>
     contains (to_lower stderr) ''config file already exists''"

definition isMissingRepository :: "string \<Rightarrow> bool" where
  "isMissingRepository stderr \<longleftrightarrow> contains (to_lower stderr) ''is there a repository at the following location'' \<or>
     contains (to_lower stderr) ''repository does not exist'' \<or> contains (to_lower stderr) ''unable to open repository'' \<or>
     contains (to_lower stderr) ''config file does not exist''"

definition repoExists :: "runner_io \<Rightarrow> restic_runner \<Rightarrow> bool shell_prog" where
  "repoExists io r = bnd (buildSnapshotsCmd io r) (\<lambda>args. bnd (run_cmd ''restic'' args '''') (\<lambda>out. case co_err out of
     None \<Rightarrow> ret True
   | Some e \<Rightarrow> if isAlreadyInitializedRepo (co_stderr out) then ret True
       else if isMissingRepository (co_stderr out) then ret False
       else raise (commandError ''check restic repository'' (co_stderr out) e)))"

definition ensureRemoteDir :: "runner_io \<Rightarrow> restic_runner \<Rightarrow> unit shell_prog" where
  "ensureRemoteDir io r = bnd (checked ''pre-create remote directory'' ''rclone''
     ([''--config'', rr_rclone_conf r] @ normalizedRcloneExtraArgs io (rr_extra_args r) @
      [''mkdir'', ''vaultfleet:'' @ rr_repo_path r]) '''') (\<lambda>_. ret ())"

definition restic_InitRepo :: "runner_io \<Rightarrow> restic_runner \<Rightarrow> unit shell_prog" where
  "restic_InitRepo io r = bnd (repoExists io r) (\<lambda>known. if known then ret ()
     else bnd (ensureRemoteDir io r) (\<lambda>_. bnd (buildInitCmd io r) (\<lambda>args. bnd (run_cmd ''restic'' args '''') (\<lambda>out.
       case co_err out of None \<Rightarrow> ret ()
       | Some e \<Rightarrow> if isAlreadyInitializedRepo (co_stderr out) then ret ()
           else raise (commandError ''initialize restic repository'' (co_stderr out) e)))))"

definition restic_RunBackup :: "runner_io \<Rightarrow> restic_runner \<Rightarrow> string list \<Rightarrow> string list \<Rightarrow> string shell_prog" where
  "restic_RunBackup io r dirs excludes = bnd (buildBackupCmd io r dirs excludes) (\<lambda>args.
     checked ''run restic backup'' ''restic'' args '''')"

definition resticBackupJSONErrorText :: "runner_io \<Rightarrow> string \<Rightarrow> string \<Rightarrow> string \<Rightarrow> string" where
  "resticBackupJSONErrorText io item during rawError =
     join_with '': '' ((if item \<noteq> '''' then [item] else []) @ (if during \<noteq> '''' then [during] else []) @
       (if rawError = '''' then []
        else case rio_text io rawError of Some m \<Rightarrow> if m \<noteq> '''' then [m] else [] | None \<Rightarrow> [trim_space rawError]))"

definition resticBackupErrorDetails :: "string \<Rightarrow> string list \<Rightarrow> string" where
  "resticBackupErrorDetails stderr backupErrors =
     (let details = trim_space stderr in
      if backupErrors = [] then details
      else (if details \<noteq> '''' then details @ [nl] else details) @ join_with [nl] backupErrors)"

text \<open>The scanner stops at a line that does not fit its buffer of a megabyte.\<close>

definition scan_limit :: nat where "scan_limit = 1024 * 1024"

definition output_lines :: "string \<Rightarrow> string list" where
  "output_lines out = (if out = '''' then [] else let ls = split_on nl out in if List.last ls = '''' then butlast ls else ls)"

definition scanned :: "string \<Rightarrow> string list" where
  "scanned out = takeWhile (\<lambda>l. length l < scan_limit) (output_lines out)"

text \<open>Progress, snapshot id and errors of the lines of \<^verbatim>\<open>restic backup --json\<close>.\<close>

fun backup_lines :: "runner_io \<Rightarrow> string list \<Rightarrow> progress_info list \<Rightarrow> string \<Rightarrow> string list \<Rightarrow>
    progress_info list \<times> string \<times> string list" where
  "backup_lines io [] ps i es = (ps, i, es)"
| "backup_lines io (l # ls) ps i es =
     (if trim_space l = '''' then backup_lines io ls ps i es
      else case rio_message io l of None \<Rightarrow> backup_lines io ls ps i es
      | Some m \<Rightarrow>
        if rm_type m = ''status'' then backup_lines io ls (ps @ [rm_progress m]) i es
        else if rm_type m = ''summary'' then backup_lines io ls ps (rm_snapshot_id m) es
        else if rm_type m = ''error'' then
          (let t = resticBackupJSONErrorText io (rm_item m) (rm_during m) (rm_error m)
           in backup_lines io ls ps i (if t \<noteq> '''' then es @ [t] else es))
        else backup_lines io ls ps i es)"

text \<open>With the progress reported on the way, whatever the outcome.\<close>

definition restic_RunBackupWithProgress :: "runner_io \<Rightarrow> restic_runner \<Rightarrow> string list \<Rightarrow> string list \<Rightarrow>
    (progress_info list \<times> string outcome) shell_prog" where
  "restic_RunBackupWithProgress io r dirs excludes = bnd (buildBackupWithProgressCmd io r dirs excludes) (\<lambda>args.
     bnd (run_cmd ''restic'' args '''') (\<lambda>out.
     case backup_lines io (scanned (co_stdout out)) [] '''' [] of (ps, snapshotID, errors) \<Rightarrow>
       if scanned (co_stdout out) \<noteq> output_lines (co_stdout out)
       then ret (ps, Inl (Err (''scan restic backup JSON output: bufio.Scanner: token too long'' @
              (case co_err out of None \<Rightarrow> '''' | Some e \<Rightarrow> ''; '' @ error_text (commandError ''run restic backup'' (co_stderr out) e)))))
       else case co_err out of
         Some e \<Rightarrow> ret (ps, Inl (commandError ''run restic backup'' (resticBackupErrorDetails (co_stderr out) errors) e))
       | None \<Rightarrow> ret (ps, Inr snapshotID)))"

definition restic_RunForget :: "runner_io \<Rightarrow> restic_runner \<Rightarrow> retention_policy \<Rightarrow> unit shell_prog" where
  "restic_RunForget io r p = bnd (buildForgetCmd io r p) (\<lambda>args.
     bnd (checked ''run restic forget'' ''restic'' args '''') (\<lambda>_. ret ()))"

definition CheckRepository :: "runner_io \<Rightarrow> restic_runner \<Rightarrow> unit shell_prog" where
  "CheckRepository io r = bnd (buildCheckCmd io r) (\<lambda>args.
     bnd (checked ''run restic check'' ''restic'' args '''') (\<lambda>_. ret ()))"

definition restic_ListSnapshots :: "runner_io \<Rightarrow> restic_runner \<Rightarrow> snapshot_info list shell_prog" where
  "restic_ListSnapshots io r = bnd (buildSnapshotsCmd io r) (\<lambda>args.
     bnd (checked ''list restic snapshots'' ''restic'' args '''') (\<lambda>out.
     parsed ''parse restic snapshots JSON'' (rio_snapshots io out)))"

definition ls_entries :: "runner_io \<Rightarrow> string \<Rightarrow> file_entry list" where
  "ls_entries io out = List.map_filter (\<lambda>l. if l = '''' then None else
     case rio_node io l of Some (kind, e) \<Rightarrow> if kind = ''node'' then Some e else None | None \<Rightarrow> None)
     (split_on nl (trim_space out))"

definition restic_LsSnapshot :: "runner_io \<Rightarrow> restic_runner \<Rightarrow> string \<Rightarrow> string list \<Rightarrow> file_entry list shell_prog" where
  "restic_LsSnapshot io r snapshotID paths = bnd (buildLsSnapshotCmd io r snapshotID paths) (\<lambda>args.
     bnd (checked ''list snapshot contents'' ''restic'' args '''') (\<lambda>out. ret (ls_entries io out)))"

definition restic_RepositorySize :: "runner_io \<Rightarrow> restic_runner \<Rightarrow> int shell_prog" where
  "restic_RepositorySize io r = bnd (buildStatsCmd io r) (\<lambda>args.
     bnd (checked ''read restic repository stats'' ''restic'' args '''') (\<lambda>out.
     parsed ''parse restic stats JSON'' (rio_stats io out)))"

definition validateRestoreIncludePaths :: "string list \<Rightarrow> go_error option" where
  "validateRestoreIncludePaths ps = (case find (\<lambda>p. contains_any p ''*?['') ps of None \<Rightarrow> None
     | Some p \<Rightarrow> Some (Err (''include path contains unsupported pattern characters: '' @ p)))"

definition restic_RestoreSnapshot :: "runner_io \<Rightarrow> restic_runner \<Rightarrow> string \<Rightarrow> string \<Rightarrow> string list \<Rightarrow> unit shell_prog" where
  "restic_RestoreSnapshot io r snapshotID targetPath includePaths = (case validateRestoreIncludePaths includePaths of
     Some e \<Rightarrow> raise e
   | None \<Rightarrow> bnd (buildRestoreCmdWithIncludes io r snapshotID targetPath includePaths) (\<lambda>args.
       bnd (checked ''restore restic snapshot'' ''restic'' args '''') (\<lambda>_. ret ())))"

end
