(* ===== verification/VF_PlainRunner.thy ===== *)
theory VF_PlainRunner
  imports VF_Runners
begin

text \<open>
  The plain runner (internal/agent/executor/plain.go): backups without restic, as files that rclone
  copies below \<open>data/\<close> of the repository, with a marker file that stands for the one snapshot.
\<close>

section \<open>Command lines\<close>

record plain_runner =
  pr_rclone_conf :: string
  pr_repo_path :: string
  pr_extra_args :: "(string \<times> string) list"

abbreviation marker_name :: string where "marker_name \<equiv> ''.vaultfleet-backup-meta''"

definition remoteArg :: "plain_runner \<Rightarrow> string \<Rightarrow> string" where
  "remoteArg r subPath = (if subPath = '''' then ''vaultfleet:'' @ pr_repo_path r
     else ''vaultfleet:'' @ path_join [pr_repo_path r, subPath])"

definition rcloneBaseArgs :: "runner_io \<Rightarrow> plain_runner \<Rightarrow> string list" where
  "rcloneBaseArgs io r = [''--config'', pr_rclone_conf r] @ normalizedRcloneExtraArgs io (pr_extra_args r)"

definition rclone :: "runner_io \<Rightarrow> plain_runner \<Rightarrow> string \<Rightarrow> string list \<Rightarrow> string shell_prog" where
  "rclone io r action args = checked action ''rclone'' (rcloneBaseArgs io r @ args) ''''"

definition plain_InitRepo :: "runner_io \<Rightarrow> plain_runner \<Rightarrow> unit shell_prog" where
  "plain_InitRepo io r = bnd (rclone io r ''create plain backup directory'' [''mkdir'', remoteArg r '''']) (\<lambda>_. ret ())"

section \<open>Backups\<close>

definition trim_slashes :: "string \<Rightarrow> string" where
  "trim_slashes s = dropWhile (\<lambda>c. c = slash) s"

definition data_path :: "string \<Rightarrow> string" where
  "data_path dir = ''data/'' @ trim_slashes dir"

definition syncDir :: "runner_io \<Rightarrow> plain_runner \<Rightarrow> string \<Rightarrow> string list \<Rightarrow> unit shell_prog" where
  "syncDir io r dir excludes =
     attempt (stat (path_clean dir)) (\<lambda>s.
     let operation = (case s of Inr (File _) \<Rightarrow> ''copyto'' | _ \<Rightarrow> ''sync'')
     in bnd (rclone io r (''rclone '' @ operation @ '' '' @ dir)
          ([operation, path_clean dir, remoteArg r (data_path (path_clean dir))] @
           (if operation = ''sync'' then concat (map (\<lambda>e. [''--exclude'', e]) excludes) else []))) (\<lambda>_. ret ()))"

text \<open>\<^verbatim>\<open>t.UTC().Format(time.RFC3339)\<close>\<close>

definition format_rfc3339 :: "time \<Rightarrow> string" where
  "format_rfc3339 t = (case civil_clock t of (h, m, s) \<Rightarrow>
     format_date t @ ''T'' @ pad_digits 2 h @ '':'' @ pad_digits 2 m @ '':'' @ pad_digits 2 s @ ''Z'')"

definition quoteJSONStrings :: "runner_io \<Rightarrow> string list \<Rightarrow> string" where
  "quoteJSONStrings io strs = ''['' @ join_with '','' (map (rio_quote io) strs) @ '']''"

definition marker_text :: "runner_io \<Rightarrow> time \<Rightarrow> string list \<Rightarrow> string" where
  "marker_text io t dirs = ''{'' @ quoted ''timestamp'' @ '':'' @ quoted (format_rfc3339 t) @ '','' @ quoted ''dirs'' @ '':'' @
     quoteJSONStrings io dirs @ ''}''"

definition writeBackupMarker :: "runner_io \<Rightarrow> plain_runner \<Rightarrow> string list \<Rightarrow> string shell_prog" where
  "writeBackupMarker io r dirs = bnd clock (\<lambda>t.
     bnd (checked ''write backup marker'' ''rclone'' (rcloneBaseArgs io r @ [''rcat'', remoteArg r marker_name])
            (marker_text io t dirs)) (\<lambda>_.
     ret (rio_hash io (marker_text io t dirs))))"

fun sync_dirs :: "runner_io \<Rightarrow> plain_runner \<Rightarrow> string list \<Rightarrow> string list \<Rightarrow> unit shell_prog" where
  "sync_dirs io r [] excludes = ret ()"
| "sync_dirs io r (d # ds) excludes = bnd (syncDir io r d excludes) (\<lambda>_. sync_dirs io r ds excludes)"

definition plain_RunBackup :: "runner_io \<Rightarrow> plain_runner \<Rightarrow> string list \<Rightarrow> string list \<Rightarrow> string shell_prog" where
  "plain_RunBackup io r dirs excludes = bnd (sync_dirs io r dirs excludes) (\<lambda>_. writeBackupMarker io r dirs)"

definition dir_progress :: "runner_io \<Rightarrow> int \<Rightarrow> int \<Rightarrow> string \<Rightarrow> progress_info" where
  "dir_progress io i count dir =
     \<lparr>pi_percent_done = fo_div (rio_floats io) (fo_of_int (rio_floats io) i) (fo_of_int (rio_floats io) count),
      pi_total_files = count, pi_files_done = i, pi_total_bytes = 0, pi_bytes_done = 0, pi_current_file = dir\<rparr>"

fun sync_with_progress :: "runner_io \<Rightarrow> plain_runner \<Rightarrow> int \<Rightarrow> int \<Rightarrow> string list \<Rightarrow> string list \<Rightarrow>
    progress_info list \<Rightarrow> (progress_info list \<times> unit outcome) shell_prog" where
  "sync_with_progress io r i count [] excludes ps = ret (ps, Inr ())"
| "sync_with_progress io r i count (d # ds) excludes ps =
     attempt (syncDir io r d excludes) (\<lambda>s. case s of
       Inl e \<Rightarrow> ret (ps @ [dir_progress io i count d], Inl e)
     | Inr _ \<Rightarrow> sync_with_progress io r (i + 1) count ds excludes (ps @ [dir_progress io i count d]))"

definition all_done :: "int \<Rightarrow> progress_info" where
  "all_done count = \<lparr>pi_percent_done = float_nat 1, pi_total_files = count, pi_files_done = count,
     pi_total_bytes = 0, pi_bytes_done = 0, pi_current_file = ''''\<rparr>"

definition plain_RunBackupWithProgress :: "runner_io \<Rightarrow> plain_runner \<Rightarrow> string list \<Rightarrow> string list \<Rightarrow>
    (progress_info list \<times> string outcome) shell_prog" where
  "plain_RunBackupWithProgress io r dirs excludes =
     bnd (sync_with_progress io r 0 (int (length dirs)) dirs excludes []) (\<lambda>(ps, s). case s of
       Inl e \<Rightarrow> ret (ps, Inl e)
     | Inr _ \<Rightarrow> attempt (writeBackupMarker io r dirs) (\<lambda>m. ret (ps @ [all_done (int (length dirs))], m)))"

definition CopyFileToRemote :: "runner_io \<Rightarrow> plain_runner \<Rightarrow> string \<Rightarrow> string \<Rightarrow> unit shell_prog" where
  "CopyFileToRemote io r localPath remoteSubPath =
     bnd (rclone io r (''rclone copyto '' @ localPath) [''copyto'', localPath, remoteArg r remoteSubPath]) (\<lambda>_. ret ())"

definition CopyFileFromRemote :: "runner_io \<Rightarrow> plain_runner \<Rightarrow> string \<Rightarrow> string \<Rightarrow> unit shell_prog" where
  "CopyFileFromRemote io r remoteSubPath localPath =
     bnd (mkdir_all (parent_dir localPath)) (\<lambda>_.
     bnd (rclone io r (''rclone copyto '' @ remoteSubPath) [''copyto'', remoteArg r remoteSubPath, localPath]) (\<lambda>_. ret ()))"

section \<open>The snapshot\<close>

text \<open>Retention does not apply.\<close>

definition plain_RunForget :: "retention_policy \<Rightarrow> unit shell_prog" where
  "plain_RunForget p = ret ()"

definition plain_ListSnapshots :: "runner_io \<Rightarrow> plain_runner \<Rightarrow> snapshot_info list shell_prog" where
  "plain_ListSnapshots io r =
     bnd (run_cmd ''rclone'' (rcloneBaseArgs io r @ [''cat'', remoteArg r marker_name]) '''') (\<lambda>out.
     if co_err out \<noteq> None then ret []
     else bnd (parsed ''parse plain backup metadata'' (rio_plain_meta io (co_stdout out))) (\<lambda>(stamp, dirs).
       bnd (if rio_parse_time io stamp = 0 then clock else ret (rio_parse_time io stamp)) (\<lambda>t.
       ret [\<lparr>si_id = rio_hash io (trim_space (co_stdout out)), si_time = t, si_paths = dirs, si_size = 0\<rparr>])))"

definition plain_RepositorySize :: "runner_io \<Rightarrow> plain_runner \<Rightarrow> int shell_prog" where
  "plain_RepositorySize io r = bnd (rclone io r ''rclone size'' [''size'', remoteArg r ''data'', ''--json'']) (\<lambda>out.
     parsed ''parse rclone size JSON'' (rio_size io out))"

definition readBackupMetadata :: "runner_io \<Rightarrow> plain_runner \<Rightarrow> string list shell_prog" where
  "readBackupMetadata io r = bnd (rclone io r ''read plain backup metadata'' [''cat'', remoteArg r marker_name]) (\<lambda>out.
     bnd (parsed ''parse plain backup metadata'' (rio_plain_meta io out)) (\<lambda>(stamp, dirs). ret dirs))"

definition remotePathIsDir :: "runner_io \<Rightarrow> plain_runner \<Rightarrow> string \<Rightarrow> bool shell_prog" where
  "remotePathIsDir io r remote = bnd (rclone io r ''stat plain backup path'' [''lsjson'', remote, ''--stat'']) (\<lambda>out.
     parsed ''parse plain backup path metadata'' (rio_is_dir io out))"

definition entry_of :: "file_entry \<times> bool \<Rightarrow> file_entry" where
  "entry_of x = (fst x)\<lparr>fe_type := (if snd x then ''dir'' else ''file'')\<rparr>"

definition plain_LsSnapshot :: "runner_io \<Rightarrow> plain_runner \<Rightarrow> string \<Rightarrow> string list \<Rightarrow> file_entry list shell_prog" where
  "plain_LsSnapshot io r snapshotID paths =
     (let subPath = (case paths of [] \<Rightarrow> '''' | p # _ \<Rightarrow> p); listing = ''list plain backup files'' in
      bnd (attempt (rclone io r listing [''lsjson'', remoteArg r (''data/'' @ subPath), ''-R'']) (\<lambda>res. case res of
             Inr out \<Rightarrow> ret out
           | Inl e \<Rightarrow> if subPath \<noteq> '''' then rclone io r listing [''lsjson'', remoteArg r ''data'', ''-R''] else raise e)) (\<lambda>out.
      bnd (parsed ''parse rclone lsjson'' (rio_items io out)) (\<lambda>items. ret (map entry_of items))))"

section \<open>Restoring\<close>

definition matchesIncludePaths :: "string \<Rightarrow> string list \<Rightarrow> bool" where
  "matchesIncludePaths sourceDir includePaths \<longleftrightarrow>
     list_ex (\<lambda>p. let cleanPath = path_clean p; cleanSource = path_clean sourceDir in
       \<not> is_abs cleanPath \<and> path_base cleanPath = path_base sourceDir \<or>
       cleanPath = cleanSource \<or> has_prefix cleanPath (cleanSource @ [slash])) includePaths"

definition restore_dest :: "string \<Rightarrow> string \<Rightarrow> string" where
  "restore_dest targetPath sourceDir =
     (if path_clean targetPath = [slash] \<and> is_abs sourceDir then sourceDir
      else path_join [targetPath, path_base sourceDir])"

text \<open>The remote of a source, at its path or, in an old backup, at its base name, and whether it is a
  directory.\<close>

definition source_remote :: "runner_io \<Rightarrow> plain_runner \<Rightarrow> string \<Rightarrow> (string \<times> bool) shell_prog" where
  "source_remote io r sourceDir =
     (let srcRemote = remoteArg r (data_path sourceDir) in
      attempt (remotePathIsDir io r srcRemote) (\<lambda>res. case res of
        Inr b \<Rightarrow> ret (srcRemote, b)
      | Inl _ \<Rightarrow> (let old = remoteArg r (''data/'' @ path_base sourceDir) in
          bnd (remotePathIsDir io r old) (\<lambda>b. ret (old, b)))))"

definition restore_source :: "runner_io \<Rightarrow> plain_runner \<Rightarrow> string \<Rightarrow> string \<Rightarrow> unit shell_prog" where
  "restore_source io r targetPath sourceDir =
     bnd (source_remote io r sourceDir) (\<lambda>(srcRemote, isDir).
     bnd (rclone io r ''rclone restore copy'' [if isDir then ''copy'' else ''copyto'', srcRemote, restore_dest targetPath sourceDir])
       (\<lambda>_. ret ()))"

definition skips_source :: "string list \<Rightarrow> string \<Rightarrow> bool" where
  "skips_source includePaths sourceDir \<longleftrightarrow> sourceDir = ''.'' \<or> sourceDir = [slash] \<or>
     includePaths \<noteq> [] \<and> \<not> matchesIncludePaths sourceDir includePaths"

text \<open>The loop over the directories of the backup, with the number of those restored.\<close>

fun restore_sources :: "runner_io \<Rightarrow> plain_runner \<Rightarrow> string \<Rightarrow> string list \<Rightarrow> string list \<Rightarrow> nat \<Rightarrow> nat shell_prog" where
  "restore_sources io r targetPath includePaths [] restored = ret restored"
| "restore_sources io r targetPath includePaths (d # ds) restored =
     (let sourceDir = path_clean (trim_space d) in
      if skips_source includePaths sourceDir then restore_sources io r targetPath includePaths ds restored
      else bnd (restore_source io r targetPath sourceDir) (\<lambda>_.
           restore_sources io r targetPath includePaths ds (restored + 1)))"

definition plain_RestoreSnapshot :: "runner_io \<Rightarrow> plain_runner \<Rightarrow> string \<Rightarrow> string \<Rightarrow> string list \<Rightarrow> unit shell_prog" where
  "plain_RestoreSnapshot io r snapshotID targetPath includePaths =
     bnd (readBackupMetadata io r) (\<lambda>dirs.
     if dirs = [] then raise (Err ''plain backup metadata contains no source directories'')
     else bnd (restore_sources io r targetPath includePaths dirs 0) (\<lambda>restored.
       if includePaths \<noteq> [] \<and> restored = 0
       then raise (Err (''none of the requested restore paths exist in plain backup metadata: '' @ join_with '', '' includePaths))
       else ret ()))"

section \<open>Output of a command, line by line\<close>

text \<open>The split function of the scanner of rclone's progress, and the lines it yields at the end of the
  output.\<close>

fun progress_split :: "string \<Rightarrow> string \<Rightarrow> string list" where
  "progress_split cur [] = (if cur = '''' then [] else [rev cur])"
| "progress_split cur (c # s) = (if c = nl \<or> c = cr then rev cur # progress_split '''' s else progress_split (c # cur) s)"

definition scanCommandProgressLines :: "string \<Rightarrow> string list" where
  "scanCommandProgressLines out =
     filter (\<lambda>l. l \<noteq> '''') (map trim_space (takeWhile (\<lambda>l. length l < scan_limit) (progress_split '''' out)))"

text \<open>The lines logged (the two streams one after the other; they really interleave), and the outcome.\<close>

definition runCommandWithTaskLog :: "string list \<Rightarrow> string \<Rightarrow>
    ((string \<times> string) list \<times> unit outcome) shell_prog" where
  "runCommandWithTaskLog args operation =
     bnd (run_cmd ''rclone'' args '''') (\<lambda>out.
     let outs = scanCommandProgressLines (co_stdout out); errs = scanCommandProgressLines (co_stderr out);
         logs = map (\<lambda>l. (''stdout'', l)) outs @ map (\<lambda>l. (''stderr'', l)) errs;
         text = (\<lambda>ls. trim_space (concat (map (\<lambda>l. l @ [nl]) ls)))
     in ret (logs, case co_err out of None \<Rightarrow> Inr ()
          | Some e \<Rightarrow> Inl (commandError operation (if text errs = '''' then text outs else text errs) e)))"

definition CopyFileToRemoteWithTaskLog :: "runner_io \<Rightarrow> plain_runner \<Rightarrow> string \<Rightarrow> string \<Rightarrow>
    ((string \<times> string) list \<times> unit outcome) shell_prog" where
  "CopyFileToRemoteWithTaskLog io r localPath remoteSubPath =
     runCommandWithTaskLog (rcloneBaseArgs io r @ [''--stats'', ''2s'', ''--stats-one-line'', ''--stats-log-level'', ''NOTICE'',
       ''copyto'', localPath, remoteArg r remoteSubPath]) (''rclone copyto '' @ localPath)"

end
