(* ===== verification/VF_Executor.thy ===== *)
theory VF_Executor
  imports VF_PlainRunner
begin

text \<open>
  The jobs of the agent's executor (internal/agent/executor/executor.go and verification.go): a backup
  initialises the repository, copies, applies the retention policy and reads back the snapshots and the
  size; a verification runs five checks on the latest snapshot.  What a job tells on the way, progress
  and log lines, is a list of events.
\<close>

section \<open>Configuration\<close>

record exec_naming =
  en_agent_id :: string
  en_agent_name :: string
  en_policy_id :: string
  en_policy_name :: string
  en_sources :: "backup_source list"
  en_docker :: "docker_metadata option"
  en_database :: "database_metadata option"

record exec_config =
  ec_config_dir :: string
  ec_repo_path :: string
  ec_backup_dirs :: "string list"
  ec_excludes :: "string list"
  ec_retention :: retention_policy
  ec_rclone_args :: "(string \<times> string) list"
  ec_plain_backup :: bool
  ec_backup_mode :: string
  ec_archive_format :: string
  ec_artifact_context_name :: string
  ec_archive_remote_dir_template :: string
  ec_archive_name_template :: string
  ec_naming :: exec_naming
  ec_extra_files :: "(string \<times> string) list"
  ec_pre_hook :: "policy_hook option"
  ec_post_hook :: "policy_hook option"

definition no_naming :: exec_naming where
  "no_naming = \<lparr>en_agent_id = '''', en_agent_name = '''', en_policy_id = '''', en_policy_name = '''', en_sources = [],
     en_docker = None, en_database = None\<rparr>"

section \<open>Runners behind one interface\<close>

text \<open>The interface resticExecutor, with the progress of a backup.\<close>

record runner_ops =
  ro_init :: "unit shell_prog"
  ro_backup :: "string list \<Rightarrow> string list \<Rightarrow> (progress_info list \<times> string outcome) shell_prog"
  ro_forget :: "retention_policy \<Rightarrow> unit shell_prog"
  ro_list :: "snapshot_info list shell_prog"
  ro_size :: "int shell_prog"
  ro_restore :: "string \<Rightarrow> string \<Rightarrow> string list \<Rightarrow> unit shell_prog"
  ro_ls :: "string \<Rightarrow> string list \<Rightarrow> file_entry list shell_prog"

definition restic_ops :: "runner_io \<Rightarrow> restic_runner \<Rightarrow> runner_ops" where
  "restic_ops io r = \<lparr>ro_init = restic_InitRepo io r, ro_backup = restic_RunBackupWithProgress io r,
     ro_forget = restic_RunForget io r, ro_list = restic_ListSnapshots io r, ro_size = restic_RepositorySize io r,
     ro_restore = restic_RestoreSnapshot io r, ro_ls = restic_LsSnapshot io r\<rparr>"

definition plain_ops :: "runner_io \<Rightarrow> plain_runner \<Rightarrow> runner_ops" where
  "plain_ops io r = \<lparr>ro_init = plain_InitRepo io r, ro_backup = plain_RunBackupWithProgress io r,
     ro_forget = plain_RunForget, ro_list = plain_ListSnapshots io r, ro_size = plain_RepositorySize io r,
     ro_restore = plain_RestoreSnapshot io r, ro_ls = plain_LsSnapshot io r\<rparr>"

definition restic_of :: "exec_config \<Rightarrow> restic_runner" where
  "restic_of cfg = \<lparr>rr_rclone_conf = path_join [ec_config_dir cfg, ''rclone.conf''],
     rr_password_file = path_join [ec_config_dir cfg, ''.restic-password''], rr_repo_path = ec_repo_path cfg,
     rr_extra_args = ec_rclone_args cfg\<rparr>"

definition plain_of :: "exec_config \<Rightarrow> plain_runner" where
  "plain_of cfg = \<lparr>pr_rclone_conf = path_join [ec_config_dir cfg, ''rclone.conf''], pr_repo_path = ec_repo_path cfg,
     pr_extra_args = ec_rclone_args cfg\<rparr>"

definition has_password_file :: "string \<Rightarrow> bool shell_prog" where
  "has_password_file p = attempt (read_file p) (\<lambda>r. ret (case r of Inl _ \<Rightarrow> False | Inr data \<Rightarrow> trim_space data \<noteq> ''''))"

definition NewExecutor :: "runner_io \<Rightarrow> exec_config \<Rightarrow> runner_ops shell_prog" where
  "NewExecutor io cfg =
     (if ec_plain_backup cfg then ret (plain_ops io (plain_of cfg))
      else bnd (has_password_file (path_join [ec_config_dir cfg, ''.restic-password''])) (\<lambda>b.
           ret (if b then restic_ops io (restic_of cfg) else plain_ops io (plain_of cfg))))"

section \<open>The backup job\<close>

datatype runner_event = JobProgress string "progress_info option" | JobLog string string string string

text \<open>\<^verbatim>\<open>time.Since(start).Milliseconds()\<close>\<close>

definition elapsed_ms :: "time \<Rightarrow> int shell_prog" where
  "elapsed_ms start = bnd clock (\<lambda>now. ret (int64 (time_sub now start) div 1000000))"

definition latestSnapshot :: "snapshot_info list \<Rightarrow> snapshot_info" where
  "latestSnapshot ss = foldl (\<lambda>latest s. if si_time s > si_time latest then s else latest) (hd ss) (tl ss)"

definition backup_base :: exec_result where
  "backup_base = no_exec_result\<lparr>er_type := ''backup'', er_status := ''failed'', er_backup_mode := BackupModeSnapshot\<rparr>"

definition job_log :: "string \<Rightarrow> string \<Rightarrow> runner_event" where
  "job_log phase line = JobLog ''info'' phase ''system'' line"

definition job_fails :: "runner_event list \<Rightarrow> string \<Rightarrow> string \<Rightarrow> go_error \<Rightarrow> (runner_event list \<times> exec_result) shell_prog" where
  "job_fails ev phase step e = ret (ev @ [JobLog ''error'' phase ''stderr'' (error_text e)],
     backup_base\<lparr>er_error_log := step @ '': '' @ error_text e\<rparr>)"

definition backup_done :: "snapshot_info list \<Rightarrow> int \<Rightarrow> exec_result" where
  "backup_done snapshots repoSize = backup_base\<lparr>er_status := ''success'', er_snapshots := snapshots, er_repo_size := repoSize,
     er_snapshot_id := (if snapshots = [] then '''' else si_id (latestSnapshot snapshots))\<rparr>"

definition read_statistics :: "runner_ops \<Rightarrow> runner_event list \<Rightarrow> (runner_event list \<times> exec_result) shell_prog" where
  "read_statistics ops ev0 =
     (let ev = ev0 @ [JobProgress ''stats'' None, job_log ''stats'' ''listing snapshots''] in
      attempt (ro_list ops) (\<lambda>r. case r of Inl e \<Rightarrow> job_fails ev ''stats'' ''snapshots'' e
      | Inr snapshots \<Rightarrow> let ev2 = ev @ [job_log ''stats'' ''reading repository statistics''] in
         attempt (ro_size ops) (\<lambda>r. case r of Inl e \<Rightarrow> job_fails ev2 ''stats'' ''stats'' e
         | Inr repoSize \<Rightarrow> ret (ev2, backup_done snapshots repoSize))))"

definition forget_old :: "runner_ops \<Rightarrow> retention_policy \<Rightarrow> runner_event list \<Rightarrow> (runner_event list \<times> exec_result) shell_prog" where
  "forget_old ops p ev0 =
     (let ev = ev0 @ [JobProgress ''forget'' None, job_log ''forget'' ''applying retention policy''] in
      attempt (ro_forget ops p) (\<lambda>r. case r of Inl e \<Rightarrow> job_fails ev ''forget'' ''forget'' e
      | Inr _ \<Rightarrow> read_statistics ops ev))"

definition copy_sources :: "runner_ops \<Rightarrow> exec_config \<Rightarrow> runner_event list \<Rightarrow> (runner_event list \<times> exec_result) shell_prog" where
  "copy_sources ops cfg ev0 =
     (let ev = ev0 @ [JobProgress ''backup'' None, job_log ''backup'' ''running backup''] in
      bnd (ro_backup ops (ec_backup_dirs cfg) (ec_excludes cfg)) (\<lambda>(ps, r).
      let ev2 = ev @ map (\<lambda>p. JobProgress ''backup'' (Some p)) ps in
      case r of Inl e \<Rightarrow> job_fails ev2 ''backup'' ''backup'' e
      | Inr _ \<Rightarrow> forget_old ops (ec_retention cfg) ev2))"

definition backup_steps :: "runner_ops \<Rightarrow> exec_config \<Rightarrow> (runner_event list \<times> exec_result) shell_prog" where
  "backup_steps ops cfg =
     (let ev = [JobProgress ''init'' None, job_log ''init'' ''checking repository''] in
      attempt (ro_init ops) (\<lambda>r. case r of Inl e \<Rightarrow> job_fails ev ''init'' ''init'' e
      | Inr _ \<Rightarrow> copy_sources ops cfg ev))"

definition RunBackupJobWithProgress :: "runner_ops \<Rightarrow> exec_config \<Rightarrow> (runner_event list \<times> exec_result) shell_prog" where
  "RunBackupJobWithProgress ops cfg = bnd clock (\<lambda>start. bnd (backup_steps ops cfg) (\<lambda>(ev, r).
     bnd (elapsed_ms start) (\<lambda>ms. ret (ev, r\<lparr>er_duration_ms := ms\<rparr>))))"

text \<open>Without progress and log.\<close>

definition RunBackupJob :: "runner_ops \<Rightarrow> exec_config \<Rightarrow> exec_result shell_prog" where
  "RunBackupJob ops cfg = bnd (RunBackupJobWithProgress ops cfg) (\<lambda>(ev, r). ret r)"

section \<open>Verification\<close>

text \<open>The state of the context, by the number of checks that are through.\<close>

datatype ctx_end = CtxLive | CtxCancelled | CtxDeadline

fun ctx_text :: "ctx_end \<Rightarrow> string" where
  "ctx_text CtxLive = ''''"
| "ctx_text CtxCancelled = ''context canceled''"
| "ctx_text CtxDeadline = ''context deadline exceeded''"

abbreviation VerificationStatusPassed :: string where "VerificationStatusPassed \<equiv> ''passed''"
abbreviation VerificationStatusFailed :: string where "VerificationStatusFailed \<equiv> ''failed''"
abbreviation VerificationCheckStatusPassed :: string where "VerificationCheckStatusPassed \<equiv> ''passed''"
abbreviation VerificationCheckStatusFailed :: string where "VerificationCheckStatusFailed \<equiv> ''failed''"
abbreviation VerificationCheckStatusSkipped :: string where "VerificationCheckStatusSkipped \<equiv> ''skipped''"
abbreviation VerificationSeverityInfo :: string where "VerificationSeverityInfo \<equiv> ''info''"
abbreviation VerificationSeverityWarning :: string where "VerificationSeverityWarning \<equiv> ''warning''"
abbreviation VerificationSeverityError :: string where "VerificationSeverityError \<equiv> ''error''"

definition verificationCheck :: "string \<Rightarrow> string \<Rightarrow> string \<Rightarrow> string \<Rightarrow> string \<Rightarrow> verification_check" where
  "verificationCheck code status severity message detail =
     \<lparr>vk_code = code, vk_status = status, vk_severity = severity, vk_message = message, vk_detail = detail, vk_duration_ms = 0\<rparr>"

definition verificationSuccessMessage :: "string \<Rightarrow> string" where
  "verificationSuccessMessage code =
     (if code = ''snapshot_list'' then ''repository snapshots listed''
      else if code = ''restic_check'' then ''repository check passed''
      else if code = ''snapshot_ls'' then ''latest snapshot contents listed''
      else if code = ''sample_ls'' then ''sample snapshot entries listed''
      else if code = ''sample_restore'' then ''sample file restored''
      else ''verification check passed'')"

definition verificationFailureMessage :: "string \<Rightarrow> string" where
  "verificationFailureMessage code =
     (if code = ''snapshot_list'' then ''list repository snapshots failed''
      else if code = ''restic_check'' then ''repository check failed''
      else if code = ''snapshot_ls'' then ''list latest snapshot contents failed''
      else if code = ''sample_ls'' then ''list sample snapshot entries failed''
      else if code = ''sample_restore'' then ''sample restore failed''
      else ''verification check failed'')"

definition failed_check :: "verification_check \<Rightarrow> bool" where
  "failed_check c \<longleftrightarrow> vk_severity c = VerificationSeverityError \<and> vk_status c = VerificationCheckStatusFailed"

definition verificationOverallStatus :: "verification_check list \<Rightarrow> string" where
  "verificationOverallStatus cs = (if list_ex failed_check cs then VerificationStatusFailed else VerificationStatusPassed)"

definition firstVerificationError :: "verification_check list \<Rightarrow> string" where
  "firstVerificationError cs = (case find failed_check cs of
     None \<Rightarrow> ''backup verification failed''
   | Some c \<Rightarrow> if vk_detail c \<noteq> '''' then vk_message c @ '': '' @ vk_detail c else vk_message c)"

text \<open>The check, and what the function under it returned besides the detail.\<close>

definition timedVerificationCheck :: "string \<Rightarrow> (string \<times> 'a) shell_prog \<Rightarrow> (verification_check \<times> 'a option) shell_prog" where
  "timedVerificationCheck code fn = bnd clock (\<lambda>start. attempt fn (\<lambda>r. bnd (elapsed_ms start) (\<lambda>ms. ret (case r of
     Inl e \<Rightarrow> ((verificationCheck code VerificationCheckStatusFailed VerificationSeverityError
         (verificationFailureMessage code) (error_text e))\<lparr>vk_duration_ms := ms\<rparr>, None)
   | Inr (detail, a) \<Rightarrow> ((verificationCheck code VerificationCheckStatusPassed VerificationSeverityInfo
         (verificationSuccessMessage code) detail)\<lparr>vk_duration_ms := ms\<rparr>, Some a)))))"

text \<open>The order of the samples.  \<^verbatim>\<open>sort.SliceStable\<close> is given as an insertion sort, which is what it
  is on short slices; the comparison is an order when no entry is other than a file or a directory.\<close>

definition sample_less :: "file_entry \<Rightarrow> file_entry \<Rightarrow> bool" where
  "sample_less a b \<longleftrightarrow>
     (if fe_type a \<noteq> fe_type b then fe_type a = ''file''
      else if fe_size a \<noteq> fe_size b then fe_size a < fe_size b
      else ord_class.lexordp (fe_path a) (fe_path b))"

fun insert_back :: "('a \<Rightarrow> 'a \<Rightarrow> bool) \<Rightarrow> 'a \<Rightarrow> 'a list \<Rightarrow> 'a list" where
  "insert_back lt x [] = [x]"
| "insert_back lt x (y # ys) = (if lt x y then y # insert_back lt x ys else x # y # ys)"

definition slice_stable :: "('a \<Rightarrow> 'a \<Rightarrow> bool) \<Rightarrow> 'a list \<Rightarrow> 'a list" where
  "slice_stable lt xs = rev (foldl (\<lambda>acc x. insert_back lt x acc) [] xs)"

definition sampleEntries :: "file_entry list \<Rightarrow> int \<Rightarrow> file_entry list" where
  "sampleEntries entries count0 =
     (let count = (if count0 \<le> 0 then 10 else count0)
      in take (nat count) (slice_stable sample_less (filter (\<lambda>e. trim_space (fe_path e) \<noteq> '''') entries)))"

definition sampleRestoreEntry :: "file_entry list \<Rightarrow> file_entry option" where
  "sampleRestoreEntry entries = find (\<lambda>e. fe_type e = ''file'') (sampleEntries entries (int (length entries)))"

text \<open>\<^verbatim>\<open>os.MkdirTemp\<close> with the name it drew, and \<^verbatim>\<open>os.RemoveAll\<close>.\<close>

definition mkdir_temp :: "string \<Rightarrow> ('h, unit) agent_prog" where
  "mkdir_temp p = stmt (\<lambda>d. if map_of d p \<noteq> None then (Inl Exists, d) else (Inr (), AList.update p Dir d))"

definition remove_all :: "string \<Rightarrow> ('h, unit) agent_prog" where
  "remove_all p = stmt (\<lambda>d. (Inr (), filter (\<lambda>(q, _). q \<noteq> p \<and> \<not> has_prefix q (p @ [slash])) d))"

definition os_temp_dir :: string where "os_temp_dir = ''/tmp''"

definition cleanup_check :: "string \<Rightarrow> verification_check shell_prog" where
  "cleanup_check tempDir = bnd clock (\<lambda>start. attempt (remove_all tempDir) (\<lambda>r. bnd (elapsed_ms start) (\<lambda>ms. ret
     ((case r of
        Inl e \<Rightarrow> verificationCheck ''cleanup'' VerificationCheckStatusFailed VerificationSeverityWarning
          ''sample restore cleanup failed'' (error_text e)
      | Inr _ \<Rightarrow> verificationCheck ''cleanup'' VerificationCheckStatusPassed VerificationSeverityInfo
          ''sample restore directory cleaned up'' tempDir)\<lparr>vk_duration_ms := ms\<rparr>))))"

definition restored_path :: "string \<Rightarrow> file_entry \<Rightarrow> string" where
  "restored_path tempDir sample = path_join [tempDir, trim_prefix (path_clean (fe_path sample)) [slash]]"

definition restore_sample :: "runner_ops \<Rightarrow> string \<Rightarrow> file_entry \<Rightarrow> string \<Rightarrow> verification_check list shell_prog" where
  "restore_sample ops snapshotID sample tempDir =
     bnd (timedVerificationCheck ''sample_restore'' (bnd (ro_restore ops snapshotID tempDir [fe_path sample]) (\<lambda>_.
            bnd (stat (restored_path tempDir sample)) (\<lambda>_. ret (fe_path sample, ()))))) (\<lambda>(c, _).
     bnd (cleanup_check tempDir) (\<lambda>d. ret [c, d]))"

definition sample_failure :: "string \<Rightarrow> go_error \<Rightarrow> verification_check list" where
  "sample_failure message e = [verificationCheck ''sample_restore'' VerificationCheckStatusFailed VerificationSeverityError
     message (error_text e)]"

text \<open>\<open>name\<close> is the random part of the temporary directory.\<close>

definition runSampleRestoreCheck :: "runner_ops \<Rightarrow> string \<Rightarrow> string \<Rightarrow> file_entry list \<Rightarrow> string \<Rightarrow> verification_check list shell_prog" where
  "runSampleRestoreCheck ops name snapshotID entries parentTempDir0 = (case sampleRestoreEntry entries of
     None \<Rightarrow> ret [verificationCheck ''sample_restore'' VerificationCheckStatusSkipped VerificationSeverityWarning
       ''sample restore skipped because no regular file sample was found'' '''']
   | Some sample \<Rightarrow> let parentTempDir = (if parentTempDir0 = '''' then os_temp_dir else parentTempDir0);
         tempDir = path_join [parentTempDir, ''vaultfleet-verify-'' @ name] in
       attempt (mkdir_all parentTempDir) (\<lambda>r. case r of
         Inl e \<Rightarrow> ret (sample_failure ''create sample restore parent directory failed'' e)
       | Inr _ \<Rightarrow> attempt (mkdir_temp tempDir) (\<lambda>r. case r of
           Inl e \<Rightarrow> ret (sample_failure ''create sample restore directory failed'' e)
         | Inr _ \<Rightarrow> restore_sample ops snapshotID sample tempDir)))"

record verification_config =
  vc_sample_count :: int
  vc_sample_restore_enabled :: bool
  vc_temp_dir :: string

text \<open>A verification so far: its checks, the snapshot and the error that ended it early.\<close>

record verification_run =
  vn_checks :: "verification_check list"
  vn_snapshot_id :: string
  vn_error :: string

definition count_text :: "nat \<Rightarrow> string \<Rightarrow> string" where
  "count_text n what = dec_digits n @ what"

text \<open>Stops when the context has ended, as after each of the first four checks.\<close>

definition unless_ended :: "(nat \<Rightarrow> ctx_end) \<Rightarrow> verification_run \<Rightarrow> verification_run shell_prog \<Rightarrow> verification_run shell_prog" where
  "unless_ended ctx v rest = (case ctx (length (vn_checks v)) of CtxLive \<Rightarrow> rest
     | c \<Rightarrow> ret (v\<lparr>vn_error := ctx_text c\<rparr>))"

definition add_check :: "verification_check \<Rightarrow> verification_run \<Rightarrow> verification_run" where
  "add_check c v = v\<lparr>vn_checks := vn_checks v @ [c]\<rparr>"

definition last_checks :: "runner_ops \<Rightarrow> string \<Rightarrow> verification_config \<Rightarrow> file_entry list \<Rightarrow> verification_run \<Rightarrow> verification_run shell_prog" where
  "last_checks ops name cfg entries v =
     (if vc_sample_restore_enabled cfg
      then bnd (runSampleRestoreCheck ops name (vn_snapshot_id v) entries (vc_temp_dir cfg)) (\<lambda>cs.
           ret (v\<lparr>vn_checks := vn_checks v @ cs\<rparr>))
      else ret (add_check (verificationCheck ''sample_restore'' VerificationCheckStatusSkipped VerificationSeverityInfo
             ''sample restore is disabled'' '''') v))"

definition check_samples :: "runner_ops \<Rightarrow> string \<Rightarrow> (nat \<Rightarrow> ctx_end) \<Rightarrow> verification_config \<Rightarrow> file_entry list \<Rightarrow> verification_run \<Rightarrow> verification_run shell_prog" where
  "check_samples ops name ctx cfg entries v =
     (let samples = sampleEntries entries (vc_sample_count cfg) in
      bnd (timedVerificationCheck ''sample_ls''
        (if samples = [] then ret (''no sample entries available'', ())
         else bnd (ro_ls ops (vn_snapshot_id v) (map fe_path samples)) (\<lambda>_.
              ret (count_text (length samples) '' sample entries listed'', ())))) (\<lambda>(c, _).
      unless_ended ctx (add_check c v) (last_checks ops name cfg entries (add_check c v))))"

definition check_contents :: "runner_ops \<Rightarrow> string \<Rightarrow> (nat \<Rightarrow> ctx_end) \<Rightarrow> verification_config \<Rightarrow> verification_run \<Rightarrow> verification_run shell_prog" where
  "check_contents ops name ctx cfg v =
     bnd (timedVerificationCheck ''snapshot_ls'' (bnd (ro_ls ops (vn_snapshot_id v) []) (\<lambda>es.
            ret (count_text (length es) '' entries listed'', es)))) (\<lambda>(c, es).
     unless_ended ctx (add_check c v)
       (check_samples ops name ctx cfg (case es of None \<Rightarrow> [] | Some es \<Rightarrow> es) (add_check c v)))"

definition check_repository :: "unit shell_prog \<Rightarrow> runner_ops \<Rightarrow> string \<Rightarrow> (nat \<Rightarrow> ctx_end) \<Rightarrow> verification_config \<Rightarrow> verification_run \<Rightarrow> verification_run shell_prog" where
  "check_repository check ops name ctx cfg v =
     bnd (timedVerificationCheck ''restic_check'' (bnd check (\<lambda>_. ret ('''', ())))) (\<lambda>(c, _).
     unless_ended ctx (add_check c v) (check_contents ops name ctx cfg (add_check c v)))"

definition verification_checks :: "unit shell_prog \<Rightarrow> runner_ops \<Rightarrow> string \<Rightarrow> (nat \<Rightarrow> ctx_end) \<Rightarrow> verification_config \<Rightarrow> verification_run shell_prog" where
  "verification_checks check ops name ctx cfg =
     bnd (timedVerificationCheck ''snapshot_list'' (bnd (ro_list ops) (\<lambda>ss.
            ret (count_text (length ss) '' snapshots found'', ss)))) (\<lambda>(c, found).
     let snapshots = (case found of None \<Rightarrow> [] | Some ss \<Rightarrow> ss);
         v = \<lparr>vn_checks = [c], vn_snapshot_id = '''', vn_error = ''''\<rparr>
     in unless_ended ctx v
        (if snapshots = [] then ret (add_check (verificationCheck ''snapshot_available'' VerificationCheckStatusFailed
              VerificationSeverityError ''no snapshots are available for verification'' '''') v)
         else check_repository check ops name ctx cfg (v\<lparr>vn_snapshot_id := si_id (latestSnapshot snapshots)\<rparr>)))"

text \<open>The deferred function, which settles status and error by the checks.\<close>

definition verification_outcome :: "verification_run \<Rightarrow> int \<Rightarrow> exec_result" where
  "verification_outcome v ms =
     (let passed = (verificationOverallStatus (vn_checks v) = VerificationStatusPassed)
      in no_exec_result\<lparr>er_type := ''verify'', er_status := (if passed then ''success'' else ''failed''),
        er_duration_ms := ms, er_snapshot_id := vn_snapshot_id v,
        er_error_log := (if passed then '''' else if vn_error v = '''' then firstVerificationError (vn_checks v) else vn_error v),
        er_verification := Some \<lparr>vr_status = verificationOverallStatus (vn_checks v), vr_snapshot_id = vn_snapshot_id v,
          vr_checks = vn_checks v, vr_error = ''''\<rparr>\<rparr>)"

definition RunVerificationJob :: "unit shell_prog \<Rightarrow> runner_ops \<Rightarrow> string \<Rightarrow> (nat \<Rightarrow> ctx_end) \<Rightarrow> verification_config \<Rightarrow> exec_result shell_prog" where
  "RunVerificationJob check ops name ctx cfg = bnd clock (\<lambda>start.
     bnd (verification_checks check ops name ctx cfg) (\<lambda>v. bnd (elapsed_ms start) (\<lambda>ms.
     ret (verification_outcome v ms))))"

end
