(* ===== verification/VF_Archive.thy ===== *)
theory VF_Archive
  imports VF_Executor
begin

text \<open>
  Archive backups of the agent (internal/agent/executor/executor.go): the files below the backup
  directories are planned, written to one local zip or tar.gz file and uploaded with rclone.

  The bytes of an archive come from archive/zip, archive/tar and compress/gzip: \<open>ai_bytes\<close> gives them
  for the entries written so far, before or after the writer has been closed.  The context of the job
  is asked once for every path, so it is a function of the path.
\<close>

section \<open>Configuration and plan\<close>

type_synonym extra_file = "string \<times> string"

text \<open>A planned file; \<open>af_size\<close> is what os.FileInfo said when the tree was walked.\<close>

record archive_file =
  af_path :: string
  af_name :: string
  af_regular :: bool
  af_size :: nat

record archive_entry =
  ae_name :: string
  ae_data :: string

record archive_io =
  ai_bytes :: "string \<Rightarrow> archive_entry list \<Rightarrow> bool \<Rightarrow> string"
  ai_parse_manifest :: "string \<Rightarrow> content_manifest option"
  ai_marshal_manifest :: "content_manifest \<Rightarrow> string option"
  ai_ctx :: "string \<Rightarrow> go_error option"

definition archiveFileSuffix :: "string \<Rightarrow> string" where
  "archiveFileSuffix format = (if normalizeArchiveFormat format = ArchiveFormatZip then ''.zip'' else ''.tar.gz'')"

definition archiveContentType :: "string \<Rightarrow> string" where
  "archiveContentType format =
     (if normalizeArchiveFormat format = ArchiveFormatZip then ''application/zip'' else ''application/gzip'')"

definition skippedArchiveFileWarning :: "string \<Rightarrow> go_error \<Rightarrow> manifest_warning" where
  "skippedArchiveFileWarning p e = \<lparr>mw_code = ''archive_file_skipped'',
     mw_message = ''skipped file that disappeared during archive: '' @ error_text e, mw_source = p\<rparr>"

definition unreadable_warning :: "string \<Rightarrow> go_error \<Rightarrow> manifest_warning" where
  "unreadable_warning p e = \<lparr>mw_code = ''archive_file_skipped'',
     mw_message = ''skipped unreadable file: '' @ error_text e, mw_source = p\<rparr>"

definition in_context_of :: "archive_io \<Rightarrow> string \<Rightarrow> 'a shell_prog \<Rightarrow> 'a shell_prog" where
  "in_context_of ai p m = (case ai_ctx ai p of Some e \<Rightarrow> raise e | None \<Rightarrow> m)"

text \<open>The file is read to its end.\<close>

definition verifyArchiveSourceReadable :: "archive_io \<Rightarrow> string \<Rightarrow> unit shell_prog" where
  "verifyArchiveSourceReadable ai p = in_context_of ai p (bnd (read_file p) (\<lambda>_. ret ()))"

definition safeArchiveRootName :: "string \<Rightarrow> string option" where
  "safeArchiveRootName name0 =
     (let name = trim_space name0 in
      if name = '''' \<or> name = ''.'' \<or> contains name [slash] \<or> contains name [backslash] then None else Some name)"

section \<open>Walking the tree\<close>

record archive_plan =
  ap_files :: "archive_file list"
  ap_warnings :: "manifest_warning list"

text \<open>The walk function of planArchiveFiles on a path that could be read; \<open>True\<close> stands for
  \<^verbatim>\<open>filepath.SkipDir\<close>.\<close>

definition excluded :: "string list \<Rightarrow> string \<Rightarrow> bool" where
  "excluded excludes p = list_ex (\<lambda>x. x \<noteq> '''' \<and> contains p x) excludes"

definition archive_name :: "string \<Rightarrow> string" where
  "archive_name p = trim_prefix p [slash]"

definition visit :: "archive_io \<Rightarrow> string list \<Rightarrow> string \<Rightarrow> node \<Rightarrow> archive_plan \<Rightarrow> (bool \<times> archive_plan) shell_prog" where
  "visit ai excludes p n plan = in_context_of ai p
     (if excluded excludes p then ret (n = Dir, plan)
      else case n of
        Dir \<Rightarrow> ret (False, plan\<lparr>ap_files := ap_files plan @
          [\<lparr>af_path = p, af_name = archive_name p, af_regular = False, af_size = 0\<rparr>]\<rparr>)
      | File c \<Rightarrow> attempt (verifyArchiveSourceReadable ai p) (\<lambda>r. case r of
          Inl e \<Rightarrow> ret (False, plan\<lparr>ap_warnings := ap_warnings plan @ [unreadable_warning p e]\<rparr>)
        | Inr _ \<Rightarrow> ret (False, plan\<lparr>ap_files := ap_files plan @
            [\<lparr>af_path = p, af_name = archive_name p, af_regular = True, af_size = length c\<rparr>]\<rparr>)))"

text \<open>The walk function on a path that could not be read.\<close>

definition visit_error :: "archive_io \<Rightarrow> string \<Rightarrow> go_error \<Rightarrow> archive_plan \<Rightarrow> archive_plan shell_prog" where
  "visit_error ai p e plan = in_context_of ai p
     (if e = NotFound then ret (plan\<lparr>ap_warnings := ap_warnings plan @ [skippedArchiveFileWarning p e]\<rparr>) else raise e)"

text \<open>\<^verbatim>\<open>filepath.Walk\<close> of a path with what is there: directories are read before they are visited, and their
  names are walked in order.  The fuel bounds the depth of the tree.\<close>

fun walk :: "archive_io \<Rightarrow> string list \<Rightarrow> nat \<Rightarrow> string \<Rightarrow> node \<Rightarrow> archive_plan \<Rightarrow> archive_plan shell_prog"
and walk_names :: "archive_io \<Rightarrow> string list \<Rightarrow> nat \<Rightarrow> string \<Rightarrow> string list \<Rightarrow> archive_plan \<Rightarrow> archive_plan shell_prog" where
  "walk ai excludes 0 p n plan = raise (Err ''too deep'')"
| "walk ai excludes (Suc fuel) p (File c) plan = bnd (visit ai excludes p (File c) plan) (\<lambda>(_, plan). ret plan)"
| "walk ai excludes (Suc fuel) p Dir plan =
     attempt (read_dir p) (\<lambda>names. case names of
       Inl e \<Rightarrow> visit_error ai p e plan
     | Inr es \<Rightarrow> bnd (visit ai excludes p Dir plan) (\<lambda>(skip, plan).
         if skip then ret plan else walk_names ai excludes fuel p (map fst es) plan))"
| "walk_names ai excludes fuel p [] plan = ret plan"
| "walk_names ai excludes fuel p (name # names) plan =
     (let q = path_join [p, name] in
      bnd (attempt (stat q) (\<lambda>s. case s of Inl e \<Rightarrow> visit_error ai q e plan | Inr n \<Rightarrow> walk ai excludes fuel q n plan)) (\<lambda>plan.
      walk_names ai excludes fuel p names plan))"

fun plan_roots :: "archive_io \<Rightarrow> nat \<Rightarrow> string list \<Rightarrow> string list \<Rightarrow> archive_plan \<Rightarrow> archive_plan shell_prog" where
  "plan_roots ai fuel [] excludes plan = ret plan"
| "plan_roots ai fuel (dir # dirs) excludes plan = in_context_of ai dir
     (let root = path_clean dir in
      bnd (attempt (stat root) (\<lambda>s. case s of Inl e \<Rightarrow> visit_error ai root e plan
           | Inr n \<Rightarrow> walk ai excludes fuel root n plan)) (\<lambda>plan.
      plan_roots ai fuel dirs excludes plan))"

definition planArchiveFiles :: "archive_io \<Rightarrow> nat \<Rightarrow> string list \<Rightarrow> string list \<Rightarrow> archive_plan shell_prog" where
  "planArchiveFiles ai fuel dirs excludes = plan_roots ai fuel dirs excludes \<lparr>ap_files = [], ap_warnings = []\<rparr>"

text \<open>The warnings are added to the manifest among the extra files, as often as it is there.\<close>

definition with_warnings :: "archive_io \<Rightarrow> manifest_warning list \<Rightarrow> extra_file \<Rightarrow> extra_file" where
  "with_warnings ai ws x =
     (if fst x \<noteq> BackupContentManifestName then x
      else case ai_parse_manifest ai (snd x) of None \<Rightarrow> x
      | Some m \<Rightarrow> (case ai_marshal_manifest ai (m\<lparr>cm_warnings := cm_warnings m @ ws\<rparr>) of None \<Rightarrow> x
          | Some raw \<Rightarrow> (fst x, raw @ [nl])))"

definition appendManifestWarnings :: "archive_io \<Rightarrow> extra_file list \<Rightarrow> manifest_warning list \<Rightarrow> extra_file list" where
  "appendManifestWarnings ai extraFiles ws = (if ws = [] then extraFiles else map (with_warnings ai ws) extraFiles)"

section \<open>Progress\<close>

text \<open>\<open>rp_sent\<close> is what was passed to the callback.\<close>

record reporter =
  rp_total_bytes :: nat
  rp_bytes_done :: nat
  rp_total_files :: nat
  rp_files_done :: nat
  rp_current_file :: string
  rp_last_emit :: "time option"
  rp_sent :: "progress_info list"

definition newArchiveProgressReporter :: "archive_file list \<Rightarrow> extra_file list \<Rightarrow> reporter" where
  "newArchiveProgressReporter files extra =
     \<lparr>rp_total_bytes = sum_list (map af_size (filter af_regular files)) +
        sum_list (map (length \<circ> snd) (filter (\<lambda>x. safeArchiveRootName (fst x) \<noteq> None) extra)),
      rp_bytes_done = 0, rp_total_files = length (filter af_regular files), rp_files_done = 0, rp_current_file = '''',
      rp_last_emit = None, rp_sent = []\<rparr>"

definition reporter_progress :: "float_ops \<Rightarrow> reporter \<Rightarrow> progress_info" where
  "reporter_progress fo r =
     \<lparr>pi_percent_done = (if rp_total_bytes r > 0
        then fo_div fo (fo_of_int fo (int (rp_bytes_done r))) (fo_of_int fo (int (rp_total_bytes r))) else 0),
      pi_total_files = int (rp_total_files r), pi_files_done = int (rp_files_done r),
      pi_total_bytes = int (rp_total_bytes r), pi_bytes_done = int (rp_bytes_done r), pi_current_file = rp_current_file r\<rparr>"

definition emitLocked :: "float_ops \<Rightarrow> bool \<Rightarrow> reporter \<Rightarrow> reporter shell_prog" where
  "emitLocked fo force r = bnd clock (\<lambda>now. ret
     (if \<not> force \<and> (case rp_last_emit r of None \<Rightarrow> False | Some t \<Rightarrow> time_sub now t < 2 * second) then r
      else r\<lparr>rp_last_emit := Some now, rp_sent := rp_sent r @ [reporter_progress fo r]\<rparr>))"

definition StartFile :: "float_ops \<Rightarrow> string \<Rightarrow> reporter \<Rightarrow> reporter shell_prog" where
  "StartFile fo p r = emitLocked fo False (r\<lparr>rp_current_file := p\<rparr>)"

definition AddBytes :: "float_ops \<Rightarrow> nat \<Rightarrow> string \<Rightarrow> reporter \<Rightarrow> reporter shell_prog" where
  "AddBytes fo n p r = (if n = 0 then ret r
     else emitLocked fo False (r\<lparr>rp_bytes_done := rp_bytes_done r + n,
       rp_current_file := (if p \<noteq> '''' then p else rp_current_file r)\<rparr>))"

definition FinishFile :: "float_ops \<Rightarrow> string \<Rightarrow> reporter \<Rightarrow> reporter shell_prog" where
  "FinishFile fo p r = emitLocked fo False (r\<lparr>rp_files_done := rp_files_done r + 1,
     rp_current_file := (if p \<noteq> '''' then p else rp_current_file r)\<rparr>)"

definition Finish :: "float_ops \<Rightarrow> reporter \<Rightarrow> reporter shell_prog" where
  "Finish fo r = emitLocked fo True (r\<lparr>rp_bytes_done := (if rp_total_bytes r > 0 then rp_total_bytes r else rp_bytes_done r),
     rp_files_done := (if rp_total_files r > 0 then rp_total_files r else rp_files_done r)\<rparr>)"

section \<open>Writing\<close>

text \<open>The data of an entry: as many bytes as were planned, filled up with zeros when the file has become
  shorter.  io.Copy reads in chunks of 32 KiB.\<close>

definition copyZeroPadding :: "nat \<Rightarrow> string" where
  "copyZeroPadding n = replicate n (CHR 0x00)"

definition limited :: "nat \<Rightarrow> string \<Rightarrow> string" where
  "limited n content = take n content @ copyZeroPadding (n - length content)"

fun count_chunks :: "float_ops \<Rightarrow> nat \<Rightarrow> nat \<Rightarrow> string \<Rightarrow> reporter \<Rightarrow> reporter shell_prog" where
  "count_chunks fo 0 n p r = ret r"
| "count_chunks fo (Suc fuel) n p r = (if n = 0 then ret r
     else bnd (AddBytes fo (min n 32768) p r) (\<lambda>r. count_chunks fo fuel (n - min n 32768) p r))"

definition copyArchiveSource :: "float_ops \<Rightarrow> nat \<Rightarrow> string \<Rightarrow> string \<Rightarrow> reporter \<Rightarrow> (string \<times> reporter) shell_prog" where
  "copyArchiveSource fo n content p r =
     bnd (count_chunks fo (min n (length content)) (min n (length content)) p r) (\<lambda>r. ret (limited n content, r))"

text \<open>A writer: the output file and the entries written to it so far.  The bytes reach the file after each
  entry, where the disk may fail; the bytes that closing the writer adds are written by deferred calls
  whose error nobody looks at.\<close>

record archive_state =
  as_entries :: "archive_entry list"
  as_warnings :: "manifest_warning list"
  as_reporter :: reporter

definition write_entry :: "archive_io \<Rightarrow> string \<Rightarrow> string \<Rightarrow> archive_entry \<Rightarrow> archive_state \<Rightarrow> archive_state shell_prog" where
  "write_entry ai output format e s =
     bnd (put_file output (ai_bytes ai format (as_entries s @ [e]) False)) (\<lambda>_. ret (s\<lparr>as_entries := as_entries s @ [e]\<rparr>))"

fun write_extras :: "archive_io \<Rightarrow> float_ops \<Rightarrow> string \<Rightarrow> string \<Rightarrow> extra_file list \<Rightarrow> archive_state \<Rightarrow> archive_state shell_prog" where
  "write_extras ai fo output format [] s = ret s"
| "write_extras ai fo output format (x # xs) s = (case safeArchiveRootName (fst x) of
     None \<Rightarrow> write_extras ai fo output format xs s
   | Some name \<Rightarrow> bnd (write_entry ai output format \<lparr>ae_name = name, ae_data = snd x\<rparr> s) (\<lambda>s.
       bnd (AddBytes fo (length (snd x)) name (as_reporter s)) (\<lambda>r.
       write_extras ai fo output format xs (s\<lparr>as_reporter := r\<rparr>))))"

definition write_regular :: "archive_io \<Rightarrow> float_ops \<Rightarrow> string \<Rightarrow> string \<Rightarrow> archive_file \<Rightarrow> archive_state \<Rightarrow> archive_state shell_prog" where
  "write_regular ai fo output format f s =
     attempt (read_file (af_path f)) (\<lambda>c. case c of
       Inl e \<Rightarrow> if e = NotFound
         then ret (s\<lparr>as_warnings := as_warnings s @ [skippedArchiveFileWarning (af_path f) e]\<rparr>) else raise e
     | Inr content \<Rightarrow> bnd (StartFile fo (af_path f) (as_reporter s)) (\<lambda>r.
         bnd (copyArchiveSource fo (af_size f) content (af_path f) r) (\<lambda>(data, r).
         bnd (write_entry ai output format \<lparr>ae_name = af_name f, ae_data = data\<rparr> (s\<lparr>as_reporter := r\<rparr>)) (\<lambda>s.
         bnd (FinishFile fo (af_path f) (as_reporter s)) (\<lambda>r. ret (s\<lparr>as_reporter := r\<rparr>))))))"

text \<open>A tar file has an entry for a directory, a zip file has none.\<close>

fun write_files :: "archive_io \<Rightarrow> float_ops \<Rightarrow> string \<Rightarrow> string \<Rightarrow> archive_file list \<Rightarrow> archive_state \<Rightarrow> archive_state shell_prog" where
  "write_files ai fo output format [] s = ret s"
| "write_files ai fo output format (f # fs) s = in_context_of ai (af_path f)
     (bnd (if af_regular f then write_regular ai fo output format f s
           else if format = ArchiveFormatZip then ret s
           else write_entry ai output format \<lparr>ae_name = af_name f, ae_data = ''''\<rparr> s) (\<lambda>s.
      write_files ai fo output format fs s))"

text \<open>writeTarGzArchive and writeZipArchive, with the format.  What closing the writer adds to an archive that
  has failed already is left out.\<close>

definition write_archive_as :: "archive_io \<Rightarrow> float_ops \<Rightarrow> string \<Rightarrow> string \<Rightarrow> archive_file list \<Rightarrow> extra_file list \<Rightarrow>
    reporter \<Rightarrow> archive_state shell_prog" where
  "write_archive_as ai fo output format files extra r =
     bnd (put_file output '''') (\<lambda>_.
     attempt (bnd (write_extras ai fo output format extra \<lparr>as_entries = [], as_warnings = [], as_reporter = r\<rparr>) (\<lambda>s.
              bnd (write_files ai fo output format files s) (\<lambda>s.
              bnd (Finish fo (as_reporter s)) (\<lambda>r. ret (s\<lparr>as_reporter := r\<rparr>))))) (\<lambda>res.
     case res of Inl e \<Rightarrow> raise e
     | Inr s \<Rightarrow> bnd (ignoring (put_file output (ai_bytes ai format (as_entries s) True))) (\<lambda>_. ret s)))"

definition writeTarGzArchive :: "archive_io \<Rightarrow> float_ops \<Rightarrow> string \<Rightarrow> archive_file list \<Rightarrow> extra_file list \<Rightarrow> reporter \<Rightarrow>
    archive_state shell_prog" where
  "writeTarGzArchive ai fo output = write_archive_as ai fo output ArchiveFormatTarGz"

definition writeZipArchive :: "archive_io \<Rightarrow> float_ops \<Rightarrow> string \<Rightarrow> archive_file list \<Rightarrow> extra_file list \<Rightarrow> reporter \<Rightarrow>
    archive_state shell_prog" where
  "writeZipArchive ai fo output = write_archive_as ai fo output ArchiveFormatZip"

definition writeArchive :: "archive_io \<Rightarrow> float_ops \<Rightarrow> nat \<Rightarrow> string \<Rightarrow> string \<Rightarrow> string list \<Rightarrow> string list \<Rightarrow> extra_file list \<Rightarrow>
    archive_state shell_prog" where
  "writeArchive ai fo fuel output format dirs excludes extra0 =
     bnd (planArchiveFiles ai fuel dirs excludes) (\<lambda>plan.
     let extra = appendManifestWarnings ai extra0 (ap_warnings plan);
         r = newArchiveProgressReporter (ap_files plan) extra
     in bnd (if normalizeArchiveFormat format = ArchiveFormatZip then writeZipArchive ai fo output (ap_files plan) extra r
             else writeTarGzArchive ai fo output (ap_files plan) extra r) (\<lambda>s.
        ret (s\<lparr>as_warnings := ap_warnings plan @ as_warnings s\<rparr>)))"

section \<open>The job\<close>

definition archive_base :: "string \<Rightarrow> exec_result" where
  "archive_base format = no_exec_result\<lparr>er_type := ''backup'', er_status := ''failed'', er_backup_mode := BackupModeArchive,
     er_archive_format := normalizeArchiveFormat format\<rparr>"

definition archive_naming_input :: "exec_config \<Rightarrow> time \<Rightarrow> render_input" where
  "archive_naming_input cfg start =
     \<lparr>in_context = \<lparr>nc_agent_id = en_agent_id (ec_naming cfg), nc_agent_name = en_agent_name (ec_naming cfg),
        nc_policy_id = en_policy_id (ec_naming cfg), nc_policy_name = en_policy_name (ec_naming cfg),
        nc_context_name = ec_artifact_context_name cfg, nc_archive_format = normalizeArchiveFormat (ec_archive_format cfg),
        nc_now = start, nc_sources = en_sources (ec_naming cfg), nc_docker = en_docker (ec_naming cfg),
        nc_database = en_database (ec_naming cfg)\<rparr>,
      in_remote_dir_template = ec_archive_remote_dir_template cfg, in_name_template = ec_archive_name_template cfg,
      in_recommended = False\<rparr>"

definition one_file :: "float64 \<Rightarrow> int \<Rightarrow> int \<Rightarrow> int \<Rightarrow> string \<Rightarrow> progress_info" where
  "one_file percent files total_bytes bytes name = \<lparr>pi_percent_done = percent, pi_total_files = 1, pi_files_done = files,
     pi_total_bytes = total_bytes, pi_bytes_done = bytes, pi_current_file = name\<rparr>"

definition file_size :: "node \<Rightarrow> int" where
  "file_size n = (case n of Dir \<Rightarrow> 0 | File c \<Rightarrow> int (length c))"

type_synonym archive_run = "runner_event list \<times> exec_result"

definition archive_fails :: "runner_event list \<Rightarrow> exec_result \<Rightarrow> string \<Rightarrow> string \<Rightarrow> go_error \<Rightarrow> archive_run shell_prog" where
  "archive_fails ev r phase step e = ret (ev @ [JobLog ''error'' phase ''stderr'' (error_text e)],
     r\<lparr>er_error_log := step @ '': '' @ error_text e\<rparr>)"

definition upload_archive :: "runner_io \<Rightarrow> exec_config \<Rightarrow> naming_metadata \<Rightarrow> string \<Rightarrow> manifest_warning list \<Rightarrow>
    runner_event list \<Rightarrow> exec_result \<Rightarrow> archive_run shell_prog" where
  "upload_archive io cfg naming artifactPath warnings ev0 r =
     (let name = nm_artifact_name naming;
          ev1 = ev0 @ [JobProgress ''archive-upload'' None, job_log ''archive-upload'' ''uploading archive''] in
      bnd (attempt (stat artifactPath) (\<lambda>s. ret (case s of Inl _ \<Rightarrow> ev1
           | Inr n \<Rightarrow> ev1 @ [JobProgress ''archive-upload'' (Some (one_file 0 0 (file_size n) 0 name))]))) (\<lambda>ev2.
      bnd (CopyFileToRemoteWithTaskLog io (plain_of cfg) artifactPath (nm_artifact_path naming)) (\<lambda>(ls, up).
      let ev3 = ev2 @ map (\<lambda>(stream, l). JobLog ''info'' ''archive-upload'' stream l) ls in
      case up of Inl e \<Rightarrow> archive_fails ev3 r ''archive-upload'' ''archive-upload'' e
      | Inr _ \<Rightarrow> attempt (stat artifactPath) (\<lambda>s. case s of
          Inl e \<Rightarrow> archive_fails ev3 r ''archive-stat'' ''archive-stat'' e
        | Inr n \<Rightarrow> let size = file_size n in
            ret (ev3 @ [JobProgress ''archive-upload'' (Some (one_file (float_nat 1) 1 size size name)),
                   job_log ''complete'' ''archive backup completed''],
               r\<lparr>er_status := ''success'', er_artifact_path := nm_artifact_path naming, er_artifact_name := name,
                 er_artifact_size := size, er_artifact_content_type := archiveContentType (er_archive_format r),
                 er_manifest_warnings := warnings, er_repo_size := size\<rparr>)))))"

definition write_and_upload :: "archive_io \<Rightarrow> runner_io \<Rightarrow> nat \<Rightarrow> exec_config \<Rightarrow> naming_metadata \<Rightarrow> runner_event list \<Rightarrow>
    exec_result \<Rightarrow> archive_run shell_prog" where
  "write_and_upload ai io fuel cfg naming ev0 r =
     (let artifactPath = path_join [path_join [ec_config_dir cfg, ''artifacts''], nm_artifact_name naming];
          ev1 = ev0 @ [JobProgress ''archive'' None,
            job_log ''archive'' (''writing local archive '' @ nm_artifact_name naming)] in
      attempt (writeArchive ai (rio_floats io) fuel artifactPath (er_archive_format r) (ec_backup_dirs cfg) (ec_excludes cfg)
               (ec_extra_files cfg)) (\<lambda>res. case res of
        Inl e \<Rightarrow> archive_fails ev1 r ''archive'' ''archive'' e
      | Inr s \<Rightarrow> upload_archive io cfg naming artifactPath (as_warnings s)
          (ev1 @ map (JobProgress ''archive'' \<circ> Some) (rp_sent (as_reporter s)) @
           map (\<lambda>w. JobLog ''warn'' ''archive'' ''stderr'' (mw_message w)) (as_warnings s)) r))"

definition archive_job :: "archive_io \<Rightarrow> runner_io \<Rightarrow> nat \<Rightarrow> exec_config \<Rightarrow> time \<Rightarrow> archive_run shell_prog" where
  "archive_job ai io fuel cfg start =
     (let r = archive_base (ec_archive_format cfg) in
      case Render start (archive_naming_input cfg start) of
        Inl e \<Rightarrow> archive_fails [] r ''archive'' ''archive naming'' e
      | Inr naming \<Rightarrow> let r = r\<lparr>er_artifact_naming := Some naming\<rparr>;
            ev = [job_log ''archive'' ''preparing archive directory''] in
          attempt (mkdir_all (path_join [ec_config_dir cfg, ''artifacts''])) (\<lambda>m. case m of
            Inl e \<Rightarrow> archive_fails ev r ''archive'' ''archive'' e
          | Inr _ \<Rightarrow> write_and_upload ai io fuel cfg naming ev r))"

definition RunArchiveJobWithProgress :: "archive_io \<Rightarrow> runner_io \<Rightarrow> nat \<Rightarrow> exec_config \<Rightarrow> archive_run shell_prog" where
  "RunArchiveJobWithProgress ai io fuel cfg = bnd clock (\<lambda>start. bnd (archive_job ai io fuel cfg start) (\<lambda>(ev, r).
     bnd (elapsed_ms start) (\<lambda>ms. ret (ev, r\<lparr>er_duration_ms := ms\<rparr>))))"

definition RunArchiveJob :: "archive_io \<Rightarrow> runner_io \<Rightarrow> nat \<Rightarrow> exec_config \<Rightarrow> exec_result shell_prog" where
  "RunArchiveJob ai io fuel cfg = bnd (RunArchiveJobWithProgress ai io fuel cfg) (\<lambda>(ev, r). ret r)"

end
