(* ===== verification/VF_AgentRuns.thy ===== *)
theory VF_AgentRuns
  imports VF_Archive VF_AgentOutbox
begin

text \<open>
  Backups and verifications on the agent (internal/agent/handler.go): from the policy to the executor's
  configuration, hooks, database dumps, the content manifest, the run itself with its progress and log
  messages, and the result that is sent.

  The fields of the handler that hold functions (runners, database preparation, docker) are fields of
  \<open>handler_env\<close>; the default runners are at the end.  A runner works on the files and on a shell of its own;
  what it tells on the way is delivered when it ends.
\<close>

section \<open>The environment of the handlers\<close>

text \<open>\<open>hv_ctx\<close> is the state of the task's context where the code asks for it, by the name of the phase, and
  \<open>hv_shell\<close> the shell of the commands of a phase.\<close>

record handler_env =
  hv_version :: string
  hv_hostname :: string
  hv_meta :: meta_json
  hv_marshal_manifest :: "content_manifest \<Rightarrow> string outcome"
  hv_cache :: cache_io
  hv_redact :: "string \<Rightarrow> string"
  hv_log_json :: "task_log_payload \<Rightarrow> bool"
  hv_floats :: float_ops
  hv_shell :: "string \<Rightarrow> shell"
  hv_ctx :: "string \<Rightarrow> ctx_end"
  hv_resolve :: "backup_source list \<Rightarrow> (string list \<times> docker_metadata option) outcome"
  hv_database :: "backup_source list \<Rightarrow>
    (runner_event list \<times> (string list \<times> database_metadata option) outcome \<times> unit shell_prog) shell_prog"
  hv_backup :: "exec_config \<Rightarrow> (runner_event list \<times> exec_result) shell_prog"
  hv_verify :: "exec_config \<Rightarrow> verification_settings \<Rightarrow> exec_result shell_prog"
  hv_browse :: "exec_config \<Rightarrow> string \<Rightarrow> string \<Rightarrow> file_entry list shell_prog"

text \<open>A program of the shell as a program of the handler: the same files, faults, interference and clock.\<close>

definition on_shell :: "shell \<Rightarrow> 'a shell_prog \<Rightarrow> 'a handler_prog" where
  "on_shell sh m w =
     (case m \<lparr>w_db = w_db w, w_hub = sh, w_faults = w_faults w, w_others = w_others w, w_clock = w_clock w, w_now = w_now w\<rparr> of
        (r, v) \<Rightarrow> (r, \<lparr>w_db = w_db v, w_hub = w_hub w, w_faults = w_faults v, w_others = w_others v, w_clock = w_clock v,
                   w_now = w_now v\<rparr>))"

text \<open>\<^verbatim>\<open>defer c()\<close> around \<open>m\<close>.\<close>

definition finally_do :: "unit handler_prog \<Rightarrow> 'a handler_prog \<Rightarrow> 'a handler_prog" where
  "finally_do c m = attempt m (\<lambda>r. bnd (ignoring c) (\<lambda>_. from_sum r))"

section \<open>Task logs\<close>

definition task_logger :: "handler_config \<Rightarrow> handler_env \<Rightarrow> string \<Rightarrow> string \<Rightarrow> string \<Rightarrow> emitter" where
  "task_logger hc env agentID messageID taskType =
     newTaskLogEmitter agentID messageID taskType (hc_has_send hc) (hv_redact env) (hv_log_json env)"

fun send_lines :: "handler_config \<Rightarrow> task_log_payload list \<Rightarrow> unit handler_prog" where
  "send_lines hc [] = ret ()"
| "send_lines hc (p # ps) = bnd (ignoring (sendMessage hc \<lparr>ao_id = tl_message_id p, ao_body = LogLine p\<rparr>)) (\<lambda>_.
     send_lines hc ps)"

definition log_text :: "handler_config \<Rightarrow> string \<Rightarrow> string \<Rightarrow> string \<Rightarrow> string \<Rightarrow> emitter \<Rightarrow> emitter handler_prog" where
  "log_text hc level phase stream line e = bnd clock (\<lambda>now.
     let e1 = Emit now level phase stream line e
     in bnd (send_lines hc (drop (length (em_sent e)) (em_sent e1))) (\<lambda>_. ret e1))"

definition log_info :: "handler_config \<Rightarrow> string \<Rightarrow> string \<Rightarrow> emitter \<Rightarrow> emitter handler_prog" where
  "log_info hc phase line = log_text hc ''info'' phase ''system'' line"

definition log_error :: "handler_config \<Rightarrow> string \<Rightarrow> string \<Rightarrow> emitter \<Rightarrow> emitter handler_prog" where
  "log_error hc phase line = log_text hc ''error'' phase ''system'' line"

section \<open>The executor's configuration\<close>

definition is_archive :: "string \<Rightarrow> bool" where
  "is_archive mode \<longleftrightarrow> to_lower (trim_space mode) = BackupModeArchive"

definition appendUniqueStrings :: "string list \<Rightarrow> string list \<Rightarrow> string list" where
  "appendUniqueStrings vs added = cleanedStrings (vs @ added)"

definition clonePolicyHook :: "policy_hook option \<Rightarrow> policy_hook option" where
  "clonePolicyHook h = map_option (\<lambda>h. h\<lparr>ph_command := trim_space (ph_command h)\<rparr>) h"

definition executorConfigForPolicy :: "string \<Rightarrow> policy_push \<Rightarrow> exec_config" where
  "executorConfigForPolicy configDir p =
     \<lparr>ec_config_dir = configDir, ec_repo_path = sc_repo_path (pp_storage p), ec_backup_dirs = pp_backup_dirs p,
      ec_excludes = pp_exclude_patterns p, ec_retention = pp_retention p, ec_rclone_args = sc_rclone_args (pp_storage p),
      ec_plain_backup = pp_plain_backup p, ec_backup_mode = pp_backup_mode p, ec_archive_format = pp_archive_format p,
      ec_artifact_context_name = pp_artifact_context_name p,
      ec_archive_remote_dir_template = pp_archive_remote_dir_template p, ec_archive_name_template = pp_archive_name_template p,
      ec_naming = no_naming, ec_extra_files = [], ec_pre_hook = clonePolicyHook (pp_pre_backup_hook p),
      ec_post_hook = clonePolicyHook (pp_post_backup_hook p)\<rparr>"

definition backupContextName :: "policy_push \<Rightarrow> docker_metadata option \<Rightarrow> database_metadata option \<Rightarrow> string" where
  "backupContextName p docker database =
     (if trim_space (pp_artifact_context_name p) \<noteq> '''' then trim_space (pp_artifact_context_name p)
      else inferContextName
        \<lparr>nc_agent_id = pp_agent_id p, nc_agent_name = '''', nc_policy_id = pp_policy_id p, nc_policy_name = '''',
         nc_context_name = pp_artifact_context_name p, nc_archive_format = pp_archive_format p, nc_now = 0,
         nc_sources = pp_backup_sources p, nc_docker = docker, nc_database = database\<rparr>
        (inferSourceType (pp_backup_sources p) docker database))"

definition appendHookError :: "string \<Rightarrow> string \<Rightarrow> string" where
  "appendHookError existing hookError0 =
     (let hookError = trim_space hookError0 in
      if hookError = '''' then existing else if trim_space existing = '''' then hookError else existing @ [nl] @ hookError)"

section \<open>Hooks\<close>

definition hook_failed :: "handler_config \<Rightarrow> handler_env \<Rightarrow> string \<Rightarrow> string \<Rightarrow> string \<Rightarrow> emitter \<Rightarrow>
    (emitter \<times> go_error option) handler_prog" where
  "hook_failed hc env phase output err e =
     (let trimmed = trim_space output in
      if hv_ctx env phase = CtxDeadline
      then bnd (log_error hc phase ''hook timed out'' e) (\<lambda>e.
           ret (e, Some (Err (if trimmed \<noteq> '''' then ''timeout: '' @ trimmed else ''timeout''))))
      else bnd (log_error hc phase ''hook failed'' e) (\<lambda>e. ret (e, Some (Err (if trimmed \<noteq> '''' then trimmed else err)))))"

definition runPolicyHookWithLogs :: "handler_config \<Rightarrow> handler_env \<Rightarrow> policy_hook option \<Rightarrow> string \<Rightarrow> emitter \<Rightarrow>
    (emitter \<times> go_error option) handler_prog" where
  "runPolicyHookWithLogs hc env hook phase0 e = (case hook of None \<Rightarrow> ret (e, None)
   | Some h \<Rightarrow> let command = trim_space (ph_command h); phase = (if phase0 = '''' then ''hook'' else phase0) in
       if command = '''' then ret (e, Some (Err ''hook command is empty''))
       else bnd (log_info hc phase ''running hook'' e) (\<lambda>e.
         bnd (on_shell (hv_shell env phase) (run_cmd ''sh'' [''-c'', command] '''')) (\<lambda>out.
         let output = co_stdout out @ co_stderr out in
         bnd (if output = '''' then ret e
              else if co_err out = None then log_text hc ''info'' phase ''stdout'' output e
              else log_text hc ''error'' phase ''stderr'' output e) (\<lambda>e.
         case co_err out of None \<Rightarrow> bnd (log_info hc phase ''hook completed'' e) (\<lambda>e. ret (e, None))
         | Some err \<Rightarrow> hook_failed hc env phase output err e))))"

section \<open>Progress\<close>

definition int_text :: "int \<Rightarrow> string" where
  "int_text n = (if n < 0 then ''-'' @ dec_digits (nat (- n)) else dec_digits (nat n))"

definition progressComplete :: "progress_info option \<Rightarrow> bool" where
  "progressComplete p = (case p of None \<Rightarrow> False | Some p \<Rightarrow>
     pi_total_bytes p > 0 \<and> pi_bytes_done p \<ge> pi_total_bytes p \<or>
     pi_total_files p > 0 \<and> pi_files_done p \<ge> pi_total_files p \<or>
     (if pi_percent_done p \<le> float_nat 1 then pi_percent_done p \<ge> float_nat 1 else pi_percent_done p \<ge> float_nat 100))"

definition normalizedProgressPercent :: "float_ops \<Rightarrow> float64 \<Rightarrow> float64" where
  "normalizedProgressPercent fo v =
     (if v < 0 then - float_nat 1 else if v \<le> float_nat 1 then fo_mul fo v (float_nat 100) else v)"

text \<open>The loop over the units.\<close>

fun with_unit :: "float_ops \<Rightarrow> float64 \<Rightarrow> string list \<Rightarrow> string" where
  "with_unit fo v [] = fo_fmt1 fo (fo_div fo v (float_nat 1024)) @ '' EiB''"
| "with_unit fo v (u # us) = (let x = fo_div fo v (float_nat 1024) in
     if x < float_nat 1024 then fo_fmt1 fo x @ '' '' @ u else with_unit fo x us)"

definition formatLogBytes :: "float_ops \<Rightarrow> int \<Rightarrow> string" where
  "formatLogBytes fo bytes0 =
     (let bytes = max 0 bytes0 in
      if bytes < 1024 then int_text bytes @ '' B''
      else with_unit fo (fo_of_int fo bytes) [''KiB'', ''MiB'', ''GiB'', ''TiB'', ''PiB''])"

definition formatBackupProgressLog :: "float_ops \<Rightarrow> backup_progress \<Rightarrow> string" where
  "formatBackupProgressLog fo p =
     (let percent = normalizedProgressPercent fo (bp_percent_done p);
          parts = (if percent \<ge> 0 then [fo_fmt1 fo percent @ ''%''] else []) @
            (if bp_total_bytes p > 0 then [formatLogBytes fo (bp_bytes_done p) @ '' / '' @ formatLogBytes fo (bp_total_bytes p)]
             else if bp_bytes_done p > 0 then [formatLogBytes fo (bp_bytes_done p)] else []) @
            (if bp_bytes_per_sec p > 0 then [formatLogBytes fo (bp_bytes_per_sec p) @ ''/s''] else []) @
            (if bp_total_files p > 0 then [int_text (bp_files_done p) @ '' / '' @ int_text (bp_total_files p) @ '' files''] else [])
      in ''progress'' @ (if parts = [] then '''' else '': '' @ join_with '', '' parts) @
         (if bp_current_file p = '''' then '''' else '' current='' @ bp_current_file p))"

text \<open>The variables the callback closes over.\<close>

record progress_state =
  ps_last_phase :: string
  ps_last_sent_at :: time
  ps_last_bytes_done :: int
  ps_last_bytes_at :: time
  ps_measured :: bool

definition no_progress_state :: progress_state where
  "no_progress_state = \<lparr>ps_last_phase = '''', ps_last_sent_at = 0, ps_last_bytes_done = 0, ps_last_bytes_at = 0, ps_measured = False\<rparr>"

definition backupProgressThrottleInterval :: duration where "backupProgressThrottleInterval = 2 * second"

definition throttled :: "time \<Rightarrow> string \<Rightarrow> progress_info option \<Rightarrow> progress_state \<Rightarrow> bool" where
  "throttled now phase p s \<longleftrightarrow> phase = ps_last_phase s \<and> ps_last_sent_at s \<noteq> 0 \<and>
     time_sub now (ps_last_sent_at s) < backupProgressThrottleInterval \<and> \<not> progressComplete p \<and> (p = None \<or> ps_measured s)"

text \<open>\<^verbatim>\<open>int64(float64(bytesDelta) / timeDelta.Seconds())\<close>\<close>

definition duration_seconds :: "float_ops \<Rightarrow> duration \<Rightarrow> float64" where
  "duration_seconds fo d = fo_add fo (fo_of_int fo (d div second)) (fo_div fo (fo_of_int fo (d mod second)) (float_nat 1000000000))"

definition bytes_per_sec :: "float_ops \<Rightarrow> time \<Rightarrow> progress_info \<Rightarrow> progress_state \<Rightarrow> int" where
  "bytes_per_sec fo now p s =
     (let bytesDelta = pi_bytes_done p - ps_last_bytes_done s; timeDelta = time_sub now (ps_last_bytes_at s) in
      if ps_last_bytes_at s \<noteq> 0 \<and> bytesDelta > 0 \<and> timeDelta > 0
      then fo_to_int fo (fo_div fo (fo_of_int fo bytesDelta) (duration_seconds fo timeDelta)) else 0)"

definition progress_payload :: "float_ops \<Rightarrow> string \<Rightarrow> time \<Rightarrow> string \<Rightarrow> progress_info option \<Rightarrow> progress_state \<Rightarrow> backup_progress" where
  "progress_payload fo agentID now phase p s = (case p of
     None \<Rightarrow> \<lparr>bp_agent_id = agentID, bp_phase = phase, bp_percent_done = 0, bp_total_files = 0, bp_files_done = 0,
       bp_total_bytes = 0, bp_bytes_done = 0, bp_bytes_per_sec = 0, bp_current_file = ''''\<rparr>
   | Some p \<Rightarrow> \<lparr>bp_agent_id = agentID, bp_phase = phase, bp_percent_done = pi_percent_done p,
       bp_total_files = pi_total_files p, bp_files_done = pi_files_done p, bp_total_bytes = pi_total_bytes p,
       bp_bytes_done = pi_bytes_done p, bp_bytes_per_sec = bytes_per_sec fo now p s, bp_current_file = pi_current_file p\<rparr>)"

definition progress_after :: "time \<Rightarrow> string \<Rightarrow> progress_info option \<Rightarrow> progress_state \<Rightarrow> progress_state" where
  "progress_after now phase p s =
     (let s1 = s\<lparr>ps_last_phase := phase, ps_last_sent_at := now\<rparr> in case p of None \<Rightarrow> s1
      | Some p \<Rightarrow> s1\<lparr>ps_last_bytes_done := pi_bytes_done p, ps_last_bytes_at := now, ps_measured := True\<rparr>)"

definition sendBackupProgress :: "handler_config \<Rightarrow> string \<Rightarrow> backup_progress \<Rightarrow> unit handler_prog" where
  "sendBackupProgress hc messageID p =
     (if \<not> hc_ids hc then ret ()
      else bnd (message_id messageID) (\<lambda>i. ignoring (sendMessage hc \<lparr>ao_id = i, ao_body = BackupProgress p\<rparr>)))"

definition backupProgressCallback :: "handler_config \<Rightarrow> float_ops \<Rightarrow> string \<Rightarrow> string \<Rightarrow> string \<Rightarrow> progress_info option \<Rightarrow>
    emitter \<times> progress_state \<Rightarrow> (emitter \<times> progress_state) handler_prog" where
  "backupProgressCallback hc fo messageID agentID phase p es = bnd clock (\<lambda>now.
     case es of (e, s) \<Rightarrow>
     bnd (if phase \<noteq> '''' \<and> phase \<noteq> ps_last_phase s then log_info hc phase (''entered '' @ phase @ '' phase'') e else ret e) (\<lambda>e.
     if throttled now phase p s then ret (e, s)
     else let payload = progress_payload fo agentID now phase p s in
       bnd (sendBackupProgress hc messageID payload) (\<lambda>_.
       bnd (if p = None then ret e else log_info hc phase (formatBackupProgressLog fo payload) e) (\<lambda>e.
       ret (e, progress_after now phase p s)))))"

fun deliver :: "handler_config \<Rightarrow> float_ops \<Rightarrow> string \<Rightarrow> string \<Rightarrow> runner_event list \<Rightarrow> emitter \<times> progress_state \<Rightarrow>
    (emitter \<times> progress_state) handler_prog" where
  "deliver hc fo messageID agentID [] es = ret es"
| "deliver hc fo messageID agentID (JobProgress phase p # evs) es =
     bnd (backupProgressCallback hc fo messageID agentID phase p es) (deliver hc fo messageID agentID evs)"
| "deliver hc fo messageID agentID (JobLog level phase stream line # evs) (e, s) =
     bnd (log_text hc level phase stream line e) (\<lambda>e. deliver hc fo messageID agentID evs (e, s))"

end
