(* ===== verification/VF_AgentBackup.thy ===== *)
theory VF_AgentBackup
  imports VF_AgentRuns
begin

text \<open>
  The run of a backup and of a verification on the agent (internal/agent/handler.go,
  runBackupForPolicy and runBackupVerificationForPolicy) and the warming of the snapshot cache.
\<close>

section \<open>What a backup run knows\<close>

record backup_run =
  bk_message_id :: string
  bk_agent_id :: string
  bk_started :: time
  bk_policy :: policy_push
  bk_resolved :: policy_push
  bk_docker :: "docker_metadata option"

text \<open>The goroutine that warms the snapshot cache after a successful run.\<close>

type_synonym warm_up = "(exec_config \<times> snapshot_info list) option"

text \<open>The run ends early: the failure is logged and sent.\<close>

definition backup_fails :: "handler_config \<Rightarrow> handler_env \<Rightarrow> backup_run \<Rightarrow> policy_push \<Rightarrow> string \<Rightarrow> string \<Rightarrow> string \<Rightarrow>
    go_error \<Rightarrow> emitter \<Rightarrow> warm_up handler_prog" where
  "backup_fails hc env b p phase line step err e =
     bnd (log_error hc phase (line @ '': '' @ error_text err) e) (\<lambda>_.
     bnd (sendTaskResultWithID hc (bk_message_id b)
       (failedPolicyTaskResult (hv_meta env) (bk_agent_id b) (step @ '': '' @ error_text err) (bk_started b) p)) (\<lambda>_.
     ret None))"

section \<open>Sources and manifest\<close>

definition resolvePolicyBackupSources :: "handler_env \<Rightarrow> policy_push \<Rightarrow> (policy_push \<times> docker_metadata option) outcome" where
  "resolvePolicyBackupSources env p =
     (if pp_backup_sources p = [] then Inr (p, None)
      else case hv_resolve env (pp_backup_sources p) of Inl e \<Rightarrow> Inl e
        | Inr (paths, m) \<Rightarrow> Inr (p\<lparr>pp_backup_dirs := appendUniqueStrings (pp_backup_dirs p) paths\<rparr>, m))"

definition naming_of :: "policy_push \<Rightarrow> docker_metadata option \<Rightarrow> database_metadata option \<Rightarrow> exec_naming" where
  "naming_of p docker database = \<lparr>en_agent_id = pp_agent_id p, en_agent_name = '''', en_policy_id = pp_policy_id p,
     en_policy_name = pp_policy_name p, en_sources = pp_backup_sources p, en_docker = docker, en_database = database\<rparr>"

definition backup_manifest :: "handler_env \<Rightarrow> backup_run \<Rightarrow> exec_config \<Rightarrow> database_metadata option \<Rightarrow> string \<Rightarrow> content_manifest" where
  "backup_manifest env b cfg database manifestPath =
     Build (hv_hostname env) (bk_started b)
       \<lparr>bi_agent_id = bk_agent_id b, bi_agent_version = hv_version env, bi_generated_at = bk_started b,
        bi_policy = Some (bk_resolved b), bi_backup_mode = ec_backup_mode cfg, bi_archive_format = ec_archive_format cfg,
        bi_backup_dirs = (if is_archive (ec_backup_mode cfg) then ec_backup_dirs cfg
          else appendUniqueStrings (ec_backup_dirs cfg) [manifestPath]),
        bi_excludes = ec_excludes cfg, bi_docker = bk_docker b, bi_database = database,
        bi_context_name = backupContextName (bk_resolved b) (bk_docker b) database,
        bi_source_type = inferSourceType (pp_backup_sources (bk_resolved b)) (bk_docker b) database, bi_warnings = []\<rparr>"

definition manifest_at :: "content_manifest \<Rightarrow> string \<Rightarrow> content_manifest" where
  "manifest_at m p = m\<lparr>cm_artifact := Some \<lparr>mart_name = BackupContentManifestName, mart_path = p, mart_format = '''',
     mart_content_type = '''', mart_size = 0\<rparr>\<rparr>"

text \<open>The manifest and the directory to be removed at the end.\<close>

definition prepareBackupManifest :: "handler_config \<Rightarrow> handler_env \<Rightarrow> backup_run \<Rightarrow> exec_config \<Rightarrow> database_metadata option \<Rightarrow>
    (content_manifest \<times> string) handler_prog" where
  "prepareBackupManifest hc env b cfg database =
     bnd (draw_temp (hc_dir hc) ''backup-manifest-'') (\<lambda>stageDir.
     bnd (mkdir_temp stageDir) (\<lambda>_.
     let manifestPath = path_join [stageDir, BackupContentManifestName];
         doc = backup_manifest env b cfg database manifestPath
     in attempt (bnd (from_sum (hv_marshal_manifest env doc)) (\<lambda>raw. write_file manifestPath (raw @ [nl]))) (\<lambda>r. case r of
          Inl e \<Rightarrow> bnd (ignoring (remove_all stageDir)) (\<lambda>_. raise e)
        | Inr _ \<Rightarrow> ret (manifest_at doc manifestPath, stageDir))))"

definition applyManifestToExecutorConfig :: "handler_env \<Rightarrow> exec_config \<Rightarrow> content_manifest \<Rightarrow> exec_config" where
  "applyManifestToExecutorConfig env cfg doc = (case cm_artifact doc of None \<Rightarrow> cfg
     | Some a \<Rightarrow> if mart_path a = '''' then cfg
         else if is_archive (ec_backup_mode cfg)
         then (case hv_marshal_manifest env (doc\<lparr>cm_artifact := None\<rparr>) of Inl _ \<Rightarrow> cfg
           | Inr raw \<Rightarrow> cfg\<lparr>ec_extra_files := ec_extra_files cfg @ [(BackupContentManifestName, raw @ [nl])]\<rparr>)
         else cfg\<lparr>ec_backup_dirs := appendUniqueStrings (ec_backup_dirs cfg) [mart_path a]\<rparr>)"

definition attachArtifactToManifest :: "content_manifest \<Rightarrow> exec_result \<Rightarrow> content_manifest" where
  "attachArtifactToManifest doc r =
     (if is_archive (er_backup_mode r)
      then doc\<lparr>cm_artifact := Some \<lparr>mart_name = er_artifact_name r, mart_path = er_artifact_path r,
        mart_format = er_archive_format r, mart_content_type = er_artifact_content_type r, mart_size = er_artifact_size r\<rparr>\<rparr>
      else doc\<lparr>cm_artifact := Some (case cm_artifact doc of
          Some a \<Rightarrow> a\<lparr>mart_format := BackupModeSnapshot\<rparr>
        | None \<Rightarrow> \<lparr>mart_name = BackupContentManifestName, mart_path = '''', mart_format = BackupModeSnapshot,
            mart_content_type = '''', mart_size = 0\<rparr>)\<rparr>)"

definition result_manifest :: "content_manifest \<Rightarrow> exec_result \<Rightarrow> content_manifest" where
  "result_manifest doc0 r =
     (let doc = attachArtifactToManifest doc0 r;
          doc1 = doc\<lparr>cm_warnings := cm_warnings doc @ er_manifest_warnings r\<rparr>
      in case er_artifact_naming r of None \<Rightarrow> doc1
         | Some n \<Rightarrow> doc1\<lparr>cm_artifact_naming := Some n, cm_context_name := nm_context_name n, cm_site_name := nm_site_name n,
             cm_source_type := nm_source_type n\<rparr>)"

section \<open>The run\<close>

definition with_metadata :: "backup_run \<Rightarrow> database_metadata option \<Rightarrow> content_manifest \<Rightarrow> exec_result \<Rightarrow> exec_result" where
  "with_metadata b database doc r =
     (let r1 = (if er_policy_name r = '''' then r\<lparr>er_policy_name := pp_policy_name (bk_policy b)\<rparr> else r);
          r2 = (if bk_docker b \<noteq> None then r1\<lparr>er_docker := bk_docker b\<rparr> else r1);
          r3 = (case database of Some d \<Rightarrow> if dbm_dumps d \<noteq> [] then r2\<lparr>er_database := database\<rparr> else r2 | None \<Rightarrow> r2)
      in r3\<lparr>er_manifest := Some (result_manifest doc r3)\<rparr>)"

definition cancelled_result :: "ctx_end \<Rightarrow> exec_result \<Rightarrow> exec_result" where
  "cancelled_result c r = r\<lparr>er_status := ''cancelled'',
     er_error_log := (if er_error_log r = '''' then ctx_text c else er_error_log r)\<rparr>"

definition post_hook :: "handler_config \<Rightarrow> handler_env \<Rightarrow> exec_config \<Rightarrow> exec_result \<Rightarrow> emitter \<Rightarrow> (emitter \<times> exec_result) handler_prog" where
  "post_hook hc env cfg r e =
     (if hv_ctx env ''backup'' = CtxCancelled then ret (e, cancelled_result CtxCancelled r)
      else if er_status r = ''success'' \<and> ec_post_hook cfg \<noteq> None
      then bnd (runPolicyHookWithLogs hc env (ec_post_hook cfg) ''post_backup_hook'' e) (\<lambda>(e, err). case err of
          None \<Rightarrow> ret (e, r)
        | Some x \<Rightarrow> bnd (log_error hc ''post_backup_hook'' (''post-backup hook failed: '' @ error_text x) e) (\<lambda>e.
            ret (e, r\<lparr>er_status := ''failed'',
              er_error_log := appendHookError (er_error_log r) (''post_backup_hook: '' @ error_text x)\<rparr>)))
      else ret (e, r))"

definition backup_finish :: "handler_config \<Rightarrow> handler_env \<Rightarrow> backup_run \<Rightarrow> exec_config \<Rightarrow> exec_result \<Rightarrow> emitter \<Rightarrow> warm_up handler_prog" where
  "backup_finish hc env b cfg r0 e0 =
     bnd (post_hook hc env cfg r0 e0) (\<lambda>(e, r).
     bnd (if er_status r = ''success'' then log_info hc ''complete'' ''backup completed successfully'' e
          else log_error hc ''complete'' (''backup finished with status '' @ er_status r @ '': '' @ er_error_log r) e) (\<lambda>_.
     bnd (sendTaskResultWithID hc (bk_message_id b) (ToProtocol (hv_meta env) (bk_agent_id b) (bk_started b) r)) (\<lambda>_.
     ret (if er_status r = ''success'' \<and> er_snapshots r \<noteq> [] then Some (cfg, er_snapshots r) else None))))"

definition backup_execute :: "handler_config \<Rightarrow> handler_env \<Rightarrow> backup_run \<Rightarrow> exec_config \<Rightarrow> database_metadata option \<Rightarrow>
    content_manifest \<Rightarrow> emitter \<Rightarrow> warm_up handler_prog" where
  "backup_execute hc env b cfg0 database doc e0 =
     (let cfg = applyManifestToExecutorConfig env cfg0 doc in
      bnd (log_info hc ''manifest'' ''prepared backup content manifest'' e0) (\<lambda>e.
      bnd (log_info hc ''backup'' ''starting backup'' e) (\<lambda>e.
      bnd (on_shell (hv_shell env ''backup'') (hv_backup env cfg)) (\<lambda>(evs, r).
      bnd (deliver hc (hv_floats env) (bk_message_id b) (bk_agent_id b) evs (e, no_progress_state)) (\<lambda>(e, _).
      backup_finish hc env b cfg (with_metadata b database doc r) e)))))"

definition backup_with_manifest :: "handler_config \<Rightarrow> handler_env \<Rightarrow> backup_run \<Rightarrow> exec_config \<Rightarrow> database_metadata option \<Rightarrow>
    emitter \<Rightarrow> warm_up handler_prog" where
  "backup_with_manifest hc env b cfg database e =
     attempt (prepareBackupManifest hc env b cfg database) (\<lambda>m. case m of
       Inl err \<Rightarrow> backup_fails hc env b (bk_resolved b) ''manifest'' ''prepare backup manifest failed'' ''manifest'' err e
     | Inr (doc, stageDir) \<Rightarrow> finally_do (remove_all stageDir) (backup_execute hc env b cfg database doc e))"

definition backup_with_dumps :: "handler_config \<Rightarrow> handler_env \<Rightarrow> backup_run \<Rightarrow> exec_config \<Rightarrow> string list \<Rightarrow>
    database_metadata option \<Rightarrow> emitter \<Rightarrow> warm_up handler_prog" where
  "backup_with_dumps hc env b cfg0 paths database e0 =
     (let cfg1 = (if paths = [] then cfg0 else cfg0\<lparr>ec_backup_dirs := appendUniqueStrings (ec_backup_dirs cfg0) paths\<rparr>);
          cfg = (if is_archive (ec_backup_mode cfg1)
            then cfg1\<lparr>ec_naming := naming_of (bk_resolved b) (bk_docker b) database\<rparr> else cfg1) in
      bnd (if paths = [] then ret e0 else log_info hc ''database-dump'' ''prepared database dump files'' e0) (\<lambda>e.
      backup_with_manifest hc env b cfg database e))"

text \<open>The clean-up of the dumps is deferred whether or not they could be made.\<close>

definition backup_databases :: "handler_config \<Rightarrow> handler_env \<Rightarrow> backup_run \<Rightarrow> exec_config \<Rightarrow> emitter \<Rightarrow> warm_up handler_prog" where
  "backup_databases hc env b cfg e0 =
     bnd (on_shell (hv_shell env ''database'') (hv_database env (pp_backup_sources (bk_resolved b)))) (\<lambda>(evs, res, cleanup).
     bnd (deliver hc (hv_floats env) (bk_message_id b) (bk_agent_id b) evs (e0, no_progress_state)) (\<lambda>(e, _).
     finally_do (on_shell (hv_shell env ''cleanup'') cleanup) (case res of
       Inl err \<Rightarrow> backup_fails hc env b (bk_resolved b) ''database-dump'' ''prepare database backup sources failed'' ''database_dump'' err e
     | Inr (paths, database) \<Rightarrow> backup_with_dumps hc env b cfg paths database e)))"

definition pre_hook :: "handler_config \<Rightarrow> handler_env \<Rightarrow> backup_run \<Rightarrow> emitter \<Rightarrow> warm_up handler_prog" where
  "pre_hook hc env b e0 =
     (let cfg = executorConfigForPolicy (hc_dir hc) (bk_resolved b) in
      bnd (runPolicyHookWithLogs hc env (ec_pre_hook cfg) ''pre_backup_hook'' e0) (\<lambda>(e, err). case err of
        Some x \<Rightarrow> backup_fails hc env b (bk_resolved b) ''pre_backup_hook'' ''pre-backup hook failed'' ''pre_backup_hook'' x e
      | None \<Rightarrow> backup_databases hc env b cfg e))"

definition backup_sources :: "handler_config \<Rightarrow> handler_env \<Rightarrow> backup_run \<Rightarrow> emitter \<Rightarrow> warm_up handler_prog" where
  "backup_sources hc env b e0 =
     bnd (log_info hc ''sources'' ''resolving backup sources'' e0) (\<lambda>e.
     case resolvePolicyBackupSources env (bk_policy b) of
       Inl err \<Rightarrow> backup_fails hc env b (bk_policy b) ''sources'' ''resolve backup sources failed'' ''resolve backup sources'' err e
     | Inr (resolved, docker) \<Rightarrow>
         bnd (if docker = None then ret e else log_info hc ''sources'' ''resolved Docker backup metadata'' e) (\<lambda>e.
         pre_hook hc env (b\<lparr>bk_resolved := resolved, bk_docker := docker\<rparr>) e))"

definition runBackupForPolicy :: "handler_config \<Rightarrow> handler_env \<Rightarrow> string \<Rightarrow> string \<Rightarrow> policy_push \<Rightarrow> warm_up handler_prog" where
  "runBackupForPolicy hc env messageID agentID0 p =
     (let agentID = (if agentID0 = '''' then pp_agent_id p else agentID0) in
      bnd clock (\<lambda>startedAt.
      let b = \<lparr>bk_message_id = messageID, bk_agent_id = agentID, bk_started = startedAt, bk_policy = p, bk_resolved = p,
               bk_docker = None\<rparr>
      in bnd (log_info hc ''init'' ''preparing backup configuration'' (task_logger hc env agentID messageID taskTypeBackup)) (\<lambda>e.
      attempt (ensureRcloneConf hc p) (\<lambda>r. case r of
        Inl err \<Rightarrow> backup_fails hc env b p ''init'' ''prepare rclone config failed'' ''prepare rclone config'' err e
      | Inr _ \<Rightarrow> backup_sources hc env b e))))"

section \<open>Warming the snapshot cache\<close>

definition warm_one :: "handler_config \<Rightarrow> handler_env \<Rightarrow> exec_config \<Rightarrow> string \<Rightarrow> unit handler_prog" where
  "warm_one hc env cfg snapshotID =
     attempt (on_shell (hv_shell env snapshotID) (hv_browse env cfg snapshotID '''')) (\<lambda>r. case r of
       Inl _ \<Rightarrow> ret ()
     | Inr entries \<Rightarrow> bnd (draw_temp (newSnapshotCache (hc_dir hc)) ''snapshot-'') (\<lambda>tmp.
         ignoring (cache_put (hv_cache env) (newSnapshotCache (hc_dir hc)) tmp snapshotID entries)))"

fun warm_all :: "handler_config \<Rightarrow> handler_env \<Rightarrow> exec_config \<Rightarrow> snapshot_info list \<Rightarrow> unit handler_prog" where
  "warm_all hc env cfg [] = ret ()"
| "warm_all hc env cfg (s # ss) =
     bnd (if si_id s = '''' then ret True else cache_has (newSnapshotCache (hc_dir hc)) (si_id s)) (\<lambda>known.
     bnd (if known then ret () else warm_one hc env cfg (si_id s)) (\<lambda>_. warm_all hc env cfg ss))"

definition warmSnapshotCache :: "handler_config \<Rightarrow> handler_env \<Rightarrow> exec_config \<Rightarrow> snapshot_info list \<Rightarrow> unit handler_prog" where
  "warmSnapshotCache hc env cfg snapshots =
     bnd (ignoring (cache_sync (newSnapshotCache (hc_dir hc)) (filter (\<lambda>i. i \<noteq> '''') (map si_id snapshots)))) (\<lambda>_.
     warm_all hc env cfg snapshots)"

section \<open>Verifications\<close>

definition verify_ended :: "ctx_end \<Rightarrow> exec_result \<Rightarrow> exec_result" where
  "verify_ended c r = (case c of
     CtxLive \<Rightarrow> r
   | CtxCancelled \<Rightarrow> cancelled_result CtxCancelled r
   | CtxDeadline \<Rightarrow> let t = ''backup verification timed out'';
        v = (case er_verification r of Some v \<Rightarrow> v
          | None \<Rightarrow> \<lparr>vr_status = '''', vr_snapshot_id = '''', vr_checks = [], vr_error = ''''\<rparr>)
      in r\<lparr>er_status := ''failed'', er_error_log := t,
           er_verification := Some (v\<lparr>vr_status := VerificationStatusFailed, vr_error := t\<rparr>)\<rparr>)"

definition verify_fails :: "handler_config \<Rightarrow> handler_env \<Rightarrow> string \<Rightarrow> string \<Rightarrow> time \<Rightarrow> string \<Rightarrow> string \<Rightarrow> emitter \<Rightarrow> unit handler_prog" where
  "verify_fails hc env messageID agentID startedAt line text e =
     bnd (log_error hc ''init'' line e) (\<lambda>_. sendTaskResultWithID hc messageID
       (failedTypedTaskResult (hv_meta env) agentID ''verify'' '''' text startedAt))"

definition verify_execute :: "handler_config \<Rightarrow> handler_env \<Rightarrow> string \<Rightarrow> string \<Rightarrow> time \<Rightarrow> policy_push \<Rightarrow> verification_settings \<Rightarrow>
    emitter \<Rightarrow> unit handler_prog" where
  "verify_execute hc env messageID agentID startedAt p settings e =
     bnd (log_info hc ''verify'' ''running backup recoverability verification'' e) (\<lambda>e.
     bnd (on_shell (hv_shell env ''verify'') (hv_verify env (executorConfigForPolicy (hc_dir hc) p) settings)) (\<lambda>r0.
     let r = verify_ended (hv_ctx env ''verify'') r0 in
     bnd (if er_status r = ''success'' then log_info hc ''complete'' ''backup verification completed successfully'' e
          else log_error hc ''complete'' (''backup verification finished with status '' @ er_status r @ '': '' @ er_error_log r) e) (\<lambda>_.
     sendTaskResultWithID hc messageID (ToProtocol (hv_meta env) agentID startedAt r))))"

definition runBackupVerificationForPolicy :: "handler_config \<Rightarrow> handler_env \<Rightarrow> string \<Rightarrow> string \<Rightarrow> policy_push \<Rightarrow>
    verification_settings \<Rightarrow> unit handler_prog" where
  "runBackupVerificationForPolicy hc env messageID agentID0 p settings =
     (let agentID = (if agentID0 = '''' then pp_agent_id p else agentID0);
          e0 = task_logger hc env agentID messageID taskTypeVerify in
      bnd clock (\<lambda>startedAt.
      if trim_space (pp_backup_mode p) = BackupModeArchive
      then verify_fails hc env messageID agentID startedAt ''archive backup verification is unsupported''
             ''archive backup verification is unsupported'' e0
      else bnd (log_info hc ''init'' ''preparing backup verification'' e0) (\<lambda>e.
        attempt (ensureRcloneConf hc p) (\<lambda>r. case r of
          Inl err \<Rightarrow> verify_fails hc env messageID agentID startedAt (''prepare rclone config failed: '' @ error_text err)
            (''prepare rclone config: '' @ error_text err) e
        | Inr _ \<Rightarrow> verify_execute hc env messageID agentID startedAt p settings e))))"

section \<open>The default runners\<close>

definition runBackupWithProgress :: "archive_io \<Rightarrow> runner_io \<Rightarrow> nat \<Rightarrow> exec_config \<Rightarrow> (runner_event list \<times> exec_result) shell_prog" where
  "runBackupWithProgress ai io fuel cfg =
     (if is_archive (ec_backup_mode cfg) then RunArchiveJobWithProgress ai io fuel cfg
      else bnd (NewExecutor io cfg) (\<lambda>ops. RunBackupJobWithProgress ops cfg))"

definition not_encrypted :: exec_result where
  "not_encrypted = no_exec_result\<lparr>er_type := ''verify'', er_status := ''failed'',
     er_error_log := ''restic backup verification requires an encrypted restic repository'',
     er_verification := Some \<lparr>vr_status = VerificationStatusFailed, vr_snapshot_id = '''',
       vr_checks = [verificationCheck ''repository_type'' VerificationCheckStatusFailed VerificationSeverityError
         ''repository is not a restic snapshot repository'' ''''],
       vr_error = ''restic backup verification requires an encrypted restic repository''\<rparr>\<rparr>"

definition runBackupVerification :: "runner_io \<Rightarrow> string \<Rightarrow> (nat \<Rightarrow> ctx_end) \<Rightarrow> exec_config \<Rightarrow> verification_settings \<Rightarrow> exec_result shell_prog" where
  "runBackupVerification io name ctx cfg settings = bnd clock (\<lambda>start.
     bnd (if ec_plain_backup cfg then ret False else has_password_file (path_join [ec_config_dir cfg, ''.restic-password''])) (\<lambda>encrypted.
     if \<not> encrypted then bnd (elapsed_ms start) (\<lambda>ms. ret (not_encrypted\<lparr>er_duration_ms := ms\<rparr>))
     else RunVerificationJob (CheckRepository io (restic_of cfg)) (restic_ops io (restic_of cfg)) name ctx
       \<lparr>vc_sample_count = vs_sample_count settings, vc_sample_restore_enabled = vs_sample_restore_enabled settings,
        vc_temp_dir = path_join [ec_config_dir cfg, ''verify-tmp'']\<rparr>))"

definition runRestore :: "runner_io \<Rightarrow> exec_config \<Rightarrow> string \<Rightarrow> string \<Rightarrow> string list \<Rightarrow> unit shell_prog" where
  "runRestore io cfg snapshotID target includePaths =
     bnd (if ec_plain_backup cfg then ret False else has_password_file (path_join [ec_config_dir cfg, ''.restic-password''])) (\<lambda>encrypted.
     if encrypted then restic_RestoreSnapshot io (restic_of cfg) snapshotID target includePaths
     else plain_RestoreSnapshot io (plain_of cfg) snapshotID target includePaths)"

definition runSnapshotList :: "runner_io \<Rightarrow> exec_config \<Rightarrow> snapshot_info list shell_prog" where
  "runSnapshotList io cfg = bnd (has_password_file (path_join [ec_config_dir cfg, ''.restic-password''])) (\<lambda>encrypted.
     if encrypted then restic_ListSnapshots io (restic_of cfg) else plain_ListSnapshots io (plain_of cfg))"

definition runSnapshotBrowse :: "runner_io \<Rightarrow> exec_config \<Rightarrow> string \<Rightarrow> string \<Rightarrow> file_entry list shell_prog" where
  "runSnapshotBrowse io cfg snapshotID path = bnd (has_password_file (path_join [ec_config_dir cfg, ''.restic-password''])) (\<lambda>encrypted.
     if encrypted then restic_LsSnapshot io (restic_of cfg) snapshotID (if path = '''' then [] else [path])
     else plain_LsSnapshot io (plain_of cfg) snapshotID [path])"

end
