(* ===== verification/VF_Database.thy ===== *)
theory VF_Database
  imports VF_AgentRuns
begin

text \<open>
  Database dumps (internal/agent/database/dump.go): for every database source of a policy the agent runs
  the client of the engine, on the host or in a container, and writes what it prints into a staging
  directory; the dumps become part of the backup.

  gzip and the redaction of pkg/redact are parameters; the environment of a command is kept in its
  specification but not passed to the shell.
\<close>

section \<open>Configuration\<close>

abbreviation DatabaseEnginePostgreSQL :: string where "DatabaseEnginePostgreSQL \<equiv> ''postgresql''"
abbreviation DatabaseEngineMySQL :: string where "DatabaseEngineMySQL \<equiv> ''mysql''"
abbreviation DatabaseExecutionDocker :: string where "DatabaseExecutionDocker \<equiv> ''docker''"

record command_spec =
  cs_env :: "string list"
  cs_command :: string
  cs_args :: "string list"

record dump_io =
  di_gzip :: "string \<Rightarrow> string"
  di_redact :: "string \<Rightarrow> string"

definition databaseSources :: "backup_source list \<Rightarrow> database_source list" where
  "databaseSources ss = List.map_filter (\<lambda>s. if bs_type s = BackupSourceTypeDatabase then bs_database s else None) ss"

section \<open>Names\<close>

text \<open>The loop over the runes of a name; an invalid byte is a rune of its own.\<close>

definition safe_char :: "char \<Rightarrow> bool" where
  "safe_char c \<longleftrightarrow> is_lower c \<or> is_upper c \<or> is_digit c \<or> c = CHR ''.'' \<or> c = CHR ''-'' \<or> c = CHR ''_''"

function safe_runes :: "string \<Rightarrow> string" where
  "safe_runes s = (if s = [] then []
     else (if safe_char (hd s) then hd s else CHR ''_'') # safe_runes (drop (max 1 (rune_len s)) s))"
  by auto
termination by (relation "measure length") auto

declare safe_runes.simps [simp del]

definition safeFilePart :: "string \<Rightarrow> string" where
  "safeFilePart value0 =
     (let v = trim_space (path_base value0) in
      if v = '''' \<or> v = ''.'' \<or> v = [slash] then ''database-dump.sql''
      else if safe_runes v = '''' then ''database-dump.sql'' else safe_runes v)"

definition firstContainerIdentity :: "docker_container_source \<Rightarrow> string" where
  "firstContainerIdentity c = (case find (\<lambda>v. v \<noteq> '''') (map (\<lambda>v. trim_set [slash] (trim_space v))
     [dcs_container_id c, dcs_name c, dcs_compose_service c]) of None \<Rightarrow> '''' | Some v \<Rightarrow> v)"

definition dockerContainerName :: "database_source \<Rightarrow> string" where
  "dockerContainerName s = (case ds_docker_container s of None \<Rightarrow> '''' | Some c \<Rightarrow> firstContainerIdentity c)"

definition dumpLabel :: "database_source \<Rightarrow> string" where
  "dumpLabel s = (if ds_all_databases s then ''all databases'' else if ds_database s \<noteq> '''' then ds_database s else ds_engine s)"

definition dumpFileName :: "database_source \<Rightarrow> time \<Rightarrow> string" where
  "dumpFileName s now =
     (if ds_output_name s \<noteq> '''' then safeFilePart (ds_output_name s)
      else safeFilePart (ds_engine s @
        (if ds_all_databases s then ''-all'' else if ds_database s \<noteq> '''' then ''-'' @ ds_database s else '''') @
        ''-'' @ format_stamp now @ ''.sql'' @ (if ds_compress s then ''.gz'' else '''')))"

definition dumpFileNameForDatabase :: "database_source \<Rightarrow> string \<Rightarrow> time \<Rightarrow> string" where
  "dumpFileNameForDatabase s database now =
     (if trim_space (ds_output_name s) = ''''
      then dumpFileName (s\<lparr>ds_all_databases := False, ds_database := database\<rparr>) now
      else let base0 = trim_space (trim_suffix (trim_suffix (safeFilePart (ds_output_name s)) ''.gz'') ''.sql'');
               base = (if base0 = '''' then ''database-dump'' else base0)
           in safeFilePart (base @ ''-'' @ database @ (if ds_compress s then ''.sql.gz'' else ''.sql'')))"

text \<open>\<open>seen\<close> counts how often a name was asked for.\<close>

definition numbered :: "string \<Rightarrow> nat \<Rightarrow> string" where
  "numbered name n =
     (let ext = (if has_suffix name ''.sql.gz'' then ''.sql.gz'' else if has_suffix name ''.sql'' then ''.sql'' else '''')
      in trim_suffix name ext @ ''-'' @ dec_digits n @ ext)"

definition uniqueDumpFileName :: "string \<Rightarrow> (string \<times> nat) list \<Rightarrow> string \<times> (string \<times> nat) list" where
  "uniqueDumpFileName name seen =
     (let count = (case map_of seen name of None \<Rightarrow> 0 | Some n \<Rightarrow> n)
      in (if count = 0 then name else numbered name (count + 1), AList.update name (count + 1) seen))"

section \<open>Commands\<close>

definition postgresConnectionArgs :: "database_source \<Rightarrow> string list" where
  "postgresConnectionArgs s = (if ds_host s \<noteq> '''' then [''-h'', ds_host s] else []) @
     (if ds_port s > 0 then [''-p'', int_text (ds_port s)] else []) @
     (if ds_username s \<noteq> '''' then [''-U'', ds_username s] else [])"

definition mysqlConnectionArgs :: "database_source \<Rightarrow> string list" where
  "mysqlConnectionArgs s = (if ds_host s \<noteq> '''' then [''--protocol=tcp'', ''-h'', ds_host s] else []) @
     (if ds_port s > 0 then [''-P'', int_text (ds_port s)] else []) @
     (if ds_username s \<noteq> '''' then [''-u'', ds_username s] else [])"

text \<open>A tool inside the container, with the password in its environment.\<close>

definition in_container :: "database_source \<Rightarrow> string \<Rightarrow> string \<Rightarrow> string list \<Rightarrow> command_spec outcome" where
  "in_container s variable tool args =
     (let container = dockerContainerName s in
      if container = '''' then Inl (Err ''database docker source needs a container'')
      else Inr \<lparr>cs_env = [], cs_command = ''docker'',
        cs_args = [''exec'', ''-i''] @ (if ds_password s \<noteq> '''' then [''-e'', variable @ ''='' @ ds_password s] else []) @
          [container, tool] @ args\<rparr>)"

definition postgres_command :: "database_source \<Rightarrow> string \<Rightarrow> string list \<Rightarrow> command_spec outcome" where
  "postgres_command s tool args =
     (if ds_execution_mode s = DatabaseExecutionDocker then in_container s ''PGPASSWORD'' tool args
      else Inr \<lparr>cs_env = (if ds_password s \<noteq> '''' then [''PGPASSWORD='' @ ds_password s] else []), cs_command = tool, cs_args = args\<rparr>)"

definition buildPostgresCommand :: "database_source \<Rightarrow> command_spec outcome" where
  "buildPostgresCommand s = postgres_command s ''pg_dump''
     (postgresConnectionArgs s @ [''-d'', ds_database s] @ ds_extra_args s)"

definition buildPostgresListCommand :: "database_source \<Rightarrow> command_spec outcome" where
  "buildPostgresListCommand s = postgres_command s ''psql'' (postgresConnectionArgs s @ [''-d'', ''postgres'', ''-At'', ''-c'',
     ''SELECT datname FROM pg_database WHERE datallowconn AND NOT datistemplate ORDER BY datname''])"

definition writeMySQLDefaultsFile :: "string \<Rightarrow> database_source \<Rightarrow> string shell_prog" where
  "writeMySQLDefaultsFile stageDir s =
     (let p = path_join [stageDir, ''.mysql-'' @ safeFilePart (ds_username s) @ ''.cnf''] in
      attempt (write_file p (''[client]'' @ [nl] @ ''user='' @ ds_username s @ [nl] @ ''password='' @ ds_password s @ [nl])) (\<lambda>r.
      case r of Inl e \<Rightarrow> raise (Err (''write mysql defaults file: '' @ error_text e)) | Inr _ \<Rightarrow> ret p))"

definition mysql_command :: "string \<Rightarrow> database_source \<Rightarrow> string \<Rightarrow> string list \<Rightarrow> command_spec shell_prog" where
  "mysql_command stageDir s tool args =
     (if ds_execution_mode s = DatabaseExecutionDocker then from_sum (in_container s ''MYSQL_PWD'' tool args)
      else if ds_password s = '''' then ret \<lparr>cs_env = [], cs_command = tool, cs_args = args\<rparr>
      else bnd (writeMySQLDefaultsFile stageDir s) (\<lambda>p.
        ret \<lparr>cs_env = [], cs_command = tool, cs_args = (''--defaults-extra-file='' @ p) # args\<rparr>))"

definition buildMySQLCommand :: "string \<Rightarrow> database_source \<Rightarrow> command_spec shell_prog" where
  "buildMySQLCommand stageDir s = mysql_command stageDir s ''mysqldump''
     (mysqlConnectionArgs s @ [ds_database s] @ ds_extra_args s)"

definition buildMySQLListCommand :: "string \<Rightarrow> database_source \<Rightarrow> command_spec shell_prog" where
  "buildMySQLListCommand stageDir s = mysql_command stageDir s ''mysql''
     (mysqlConnectionArgs s @ [''-N'', ''-B'', ''-e'', ''SHOW DATABASES''])"

definition buildDumpCommand :: "string \<Rightarrow> database_source \<Rightarrow> command_spec shell_prog" where
  "buildDumpCommand stageDir s =
     (if ds_engine s = DatabaseEnginePostgreSQL then from_sum (buildPostgresCommand s)
      else if ds_engine s = DatabaseEngineMySQL then buildMySQLCommand stageDir s
      else raise (Err (''unsupported database engine '' @ quoted (ds_engine s))))"

definition buildListCommand :: "string \<Rightarrow> database_source \<Rightarrow> command_spec shell_prog" where
  "buildListCommand stageDir s =
     (if ds_engine s = DatabaseEnginePostgreSQL then from_sum (buildPostgresListCommand s)
      else if ds_engine s = DatabaseEngineMySQL then buildMySQLListCommand stageDir s
      else raise (Err (''unsupported database engine '' @ quoted (ds_engine s))))"

section \<open>Errors\<close>

text \<open>\<^verbatim>\<open>strings.ReplaceAll\<close> of a non-empty text.\<close>

function replace_text :: "string \<Rightarrow> string \<Rightarrow> string \<Rightarrow> string" where
  "replace_text old new s = (if old = [] \<or> s = [] then s
     else if has_prefix s old then new @ replace_text old new (drop (length old) s) else hd s # replace_text old new (tl s))"
  by auto
termination by (relation "measure (\<lambda>(old, new, s). length s)") auto

declare replace_text.simps [simp del]

definition redactSecrets :: "dump_io \<Rightarrow> string \<Rightarrow> string \<Rightarrow> string" where
  "redactSecrets io t secret0 = (let secret = trim_space secret0; r = di_redact io t in
     if secret = '''' then r else replace_text secret ''[REDACTED]'' r)"

definition databaseErrorHint :: "string \<Rightarrow> database_source \<Rightarrow> string" where
  "databaseErrorHint detail s =
     (if ds_engine s \<noteq> DatabaseEngineMySQL \<or>
         \<not> contains (to_lower detail) ''error 1045'' \<and> \<not> contains (to_lower detail) ''access denied for user'' then ''''
      else ''MySQL refused the login; verify the username/password, host/port, execution mode ('' @
        (if ds_execution_mode s = DatabaseExecutionDocker then ''selected Docker container'' else ''Agent host'') @
        ''), and GRANT host allowed by MySQL for this user'')"

definition dump_error :: "dump_io \<Rightarrow> string \<Rightarrow> string \<Rightarrow> database_source \<Rightarrow> string" where
  "dump_error io err stderr s =
     (let detail = trim_space (redactSecrets io stderr (ds_password s)); hint = databaseErrorHint detail s in
      if detail = '''' then err else err @ '': '' @ detail @ (if hint = '''' then '''' else ''; '' @ hint))"

section \<open>Dumping\<close>

definition dump_log :: "string \<Rightarrow> string \<Rightarrow> string \<Rightarrow> runner_event" where
  "dump_log level stream line = JobLog level ''database-dump'' stream line"

text \<open>Runs a command and logs what it printed on stderr; a result comes with the log so far.\<close>

type_synonym 'a dump_prog = "(runner_event list \<times> 'a outcome) shell_prog"

definition run_spec :: "dump_io \<Rightarrow> string \<Rightarrow> database_source \<Rightarrow> command_spec \<Rightarrow> runner_event list \<Rightarrow> string dump_prog" where
  "run_spec io what s spec ev = bnd (run_cmd (cs_command spec) (cs_args spec) '''') (\<lambda>out.
     let ev1 = (if co_stderr out = '''' then ev else ev @ [dump_log ''error'' ''stderr'' (redactSecrets io (co_stderr out) (ds_password s))])
     in ret (ev1, case co_err out of None \<Rightarrow> Inr (co_stdout out)
          | Some e \<Rightarrow> Inl (Err (what @ '': '' @ dump_error io e (co_stderr out) s))))"

definition skipDatabase :: "string \<Rightarrow> string \<Rightarrow> bool" where
  "skipDatabase engine database \<longleftrightarrow> engine = DatabaseEngineMySQL \<and> database \<in> {''information_schema'', ''performance_schema''}"

definition parseDatabaseList :: "string \<Rightarrow> string \<Rightarrow> string list" where
  "parseDatabaseList output engine = first_occurrences {} (filter (\<lambda>d. d \<noteq> '''' \<and> \<not> skipDatabase engine d)
     (map (\<lambda>l. trim_space (trim_suffix l [cr])) (split_on nl output)))"

definition listDatabases :: "dump_io \<Rightarrow> string \<Rightarrow> database_source \<Rightarrow> runner_event list \<Rightarrow> string list dump_prog" where
  "listDatabases io stageDir s ev0 =
     (let ev = ev0 @ [dump_log ''info'' ''system'' (''listing '' @ ds_engine s @ '' databases'')] in
      attempt (buildListCommand stageDir s) (\<lambda>c. case c of Inl e \<Rightarrow> ret (ev, Inl e)
      | Inr spec \<Rightarrow> bnd (run_spec io (''list '' @ ds_engine s @ '' databases'') s spec ev) (\<lambda>(ev, r).
          ret (ev, case r of Inl e \<Rightarrow> Inl e | Inr out \<Rightarrow> Inr (parseDatabaseList out (ds_engine s))))))"

definition writeDump :: "dump_io \<Rightarrow> string \<Rightarrow> string \<Rightarrow> bool \<Rightarrow> unit shell_prog" where
  "writeDump io p data compress = (if compress then bnd (put_file p '''') (\<lambda>_. put_file p (di_gzip io data)) else write_file p data)"

definition dump_meta :: "database_source \<Rightarrow> string \<Rightarrow> string \<Rightarrow> int \<Rightarrow> database_dump" where
  "dump_meta s outputPath name n =
     \<lparr>dd_engine = ds_engine s, dd_execution_mode = ds_execution_mode s, dd_database = ds_database s,
      dd_all_databases = ds_all_databases s, dd_container_name = dockerContainerName s, dd_output_path = outputPath,
      dd_output_name = name, dd_size = n, dd_compressed = ds_compress s, dd_warnings = []\<rparr>"

definition store_dump :: "dump_io \<Rightarrow> string \<Rightarrow> string \<Rightarrow> database_source \<Rightarrow> string \<Rightarrow> database_dump shell_prog" where
  "store_dump io outputPath name s data =
     attempt (writeDump io outputPath data (ds_compress s)) (\<lambda>r. case r of
       Inl e \<Rightarrow> raise (Err (''write database dump '' @ outputPath @ '': '' @ error_text e))
     | Inr _ \<Rightarrow> attempt (stat outputPath) (\<lambda>i. case i of
         Inl e \<Rightarrow> raise (Err (''stat database dump '' @ outputPath @ '': '' @ error_text e))
       | Inr n \<Rightarrow> ret (dump_meta s outputPath name (file_size n))))"

definition dumpSingleDatabase :: "dump_io \<Rightarrow> string \<Rightarrow> database_source \<Rightarrow> runner_event list \<Rightarrow> database_dump dump_prog" where
  "dumpSingleDatabase io stageDir s ev0 = bnd clock (\<lambda>now.
     let name = dumpFileName s now; outputPath = path_join [stageDir, name];
         ev = ev0 @ [dump_log ''info'' ''system'' (''starting '' @ ds_engine s @ '' dump '' @ dumpLabel s)] in
     attempt (buildDumpCommand stageDir s) (\<lambda>c. case c of Inl e \<Rightarrow> ret (ev, Inl e)
     | Inr spec \<Rightarrow> bnd (run_spec io (''database dump '' @ dumpLabel s) s spec ev) (\<lambda>(ev, r). case r of
         Inl e \<Rightarrow> ret (ev, Inl e)
       | Inr out \<Rightarrow> attempt (store_dump io outputPath name s out) (\<lambda>m. case m of Inl e \<Rightarrow> ret (ev, Inl e)
           | Inr meta \<Rightarrow> ret (ev @ [dump_log ''info'' ''system'' (''completed '' @ ds_engine s @ '' dump '' @ name)], Inr meta)))))"

fun dump_each :: "dump_io \<Rightarrow> string \<Rightarrow> database_source \<Rightarrow> time \<Rightarrow> string list \<Rightarrow> (string \<times> nat) list \<Rightarrow> runner_event list \<Rightarrow>
    database_dump list \<Rightarrow> database_dump list dump_prog" where
  "dump_each io stageDir s now [] seen ev metas = ret (ev, Inr metas)"
| "dump_each io stageDir s now (d # ds) seen ev metas =
     (case uniqueDumpFileName (dumpFileNameForDatabase s d now) seen of (name, seen1) \<Rightarrow>
      bnd (dumpSingleDatabase io stageDir (s\<lparr>ds_all_databases := False, ds_database := d, ds_output_name := name\<rparr>) ev) (\<lambda>(ev, r).
      case r of Inl e \<Rightarrow> ret (ev, Inl e)
      | Inr m \<Rightarrow> dump_each io stageDir s now ds seen1 ev (metas @ [m])))"

definition dumpAllDatabases :: "dump_io \<Rightarrow> string \<Rightarrow> database_source \<Rightarrow> runner_event list \<Rightarrow> database_dump list dump_prog" where
  "dumpAllDatabases io stageDir s ev0 = bnd (listDatabases io stageDir s ev0) (\<lambda>(ev, r). case r of
     Inl e \<Rightarrow> ret (ev, Inl e)
   | Inr ds \<Rightarrow> if ds = [] then ret (ev, Inl (Err ''database dump all databases: no databases found''))
       else bnd clock (\<lambda>now. dump_each io stageDir s now ds [] ev []))"

definition dumpSource :: "dump_io \<Rightarrow> string \<Rightarrow> database_source \<Rightarrow> runner_event list \<Rightarrow> database_dump list dump_prog" where
  "dumpSource io stageDir s ev =
     (if ds_all_databases s then dumpAllDatabases io stageDir s ev
      else bnd (dumpSingleDatabase io stageDir s ev) (\<lambda>(ev, r). ret (ev, map_sum id (\<lambda>m. [m]) r)))"

fun dump_sources :: "dump_io \<Rightarrow> string \<Rightarrow> database_source list \<Rightarrow> runner_event list \<Rightarrow> database_dump list \<Rightarrow> database_dump list dump_prog" where
  "dump_sources io stageDir [] ev metas = ret (ev, Inr metas)"
| "dump_sources io stageDir (s # ss) ev metas = bnd (dumpSource io stageDir s ev) (\<lambda>(ev, r). case r of
     Inl e \<Rightarrow> ret (ev, Inl e)
   | Inr ms \<Rightarrow> dump_sources io stageDir ss ev (metas @ ms))"

text \<open>The log, the paths of the dumps with their metadata, and the clean-up left to the caller.  \<open>name\<close> is the
  random part of the staging directory.\<close>

type_synonym prepared = "runner_event list \<times> (string list \<times> database_metadata option) outcome \<times> unit shell_prog"

definition Prepare :: "dump_io \<Rightarrow> string \<Rightarrow> string \<Rightarrow> backup_source list \<Rightarrow> prepared shell_prog" where
  "Prepare io name configDir0 sources =
     (let ss = databaseSources sources; configDir = trim_space configDir0;
          stageDir = path_join [configDir, ''database-dumps-'' @ name] in
      if ss = [] then ret ([], Inr ([], None), ret ())
      else if configDir = '''' then ret ([], Inl (Err ''database dump config dir is required''), ret ())
      else attempt (mkdir_temp stageDir) (\<lambda>m. case m of
        Inl e \<Rightarrow> ret ([], Inl (Err (''prepare database dump staging: '' @ error_text e)), ret ())
      | Inr _ \<Rightarrow> bnd (dump_sources io stageDir ss [] []) (\<lambda>(ev, r). case r of
          Inl e \<Rightarrow> bnd (ignoring (remove_all stageDir)) (\<lambda>_. ret (ev, Inl e, ret ()))
        | Inr metas \<Rightarrow> ret (ev, Inr (map dd_output_path metas, Some \<lparr>dbm_dumps = metas, dbm_warnings = []\<rparr>), remove_all stageDir))))"

definition list_databases :: "dump_io \<Rightarrow> string \<Rightarrow> string \<Rightarrow> database_source \<Rightarrow> string list shell_prog" where
  "list_databases io name configDir0 s =
     (let configDir = trim_space configDir0; stageDir = path_join [configDir, ''database-discovery-'' @ name] in
      if configDir = '''' then raise (Err ''database list config dir is required'')
      else attempt (mkdir_temp stageDir) (\<lambda>m. case m of
        Inl e \<Rightarrow> raise (Err (''prepare database discovery staging: '' @ error_text e))
      | Inr _ \<Rightarrow> bnd (listDatabases io stageDir s []) (\<lambda>(ev, r). bnd (ignoring (remove_all stageDir)) (\<lambda>_. from_sum r))))"

end
