(* ===== verification/VF_AgentRequests.thy ===== *)
theory VF_AgentRequests
  imports VF_AgentBackup VF_Database
begin

text \<open>
  How the agent answers the master's requests (internal/agent/handler.go, Handle and the handlers it
  calls; internal/agent/logcollect.go).  A handler answers at once or starts a task, whose goroutine is
  an \<open>agent_task\<close> and runs by \<open>run_agent_task\<close>.
\<close>

section \<open>Requests and tasks\<close>

record restore_req =
  rsq_snapshot_id :: string
  rsq_target :: string
  rsq_include_paths :: "string list"
  rsq_docker :: "docker_resolved_source list option"
  rsq_policy :: "policy_push option"

record preflight_req =
  pfq_agent_id :: string
  pfq_snapshot_id :: string
  pfq_target :: string
  pfq_include_paths :: "string list"
  pfq_restore_mode :: string
  pfq_docker :: "docker_resolved_source list option"

datatype agent_task =
    BackupTask string policy_push
  | VerifyTask string policy_push verification_settings
  | RestoreTask string restore_req policy_push
  | ListTask string policy_push
  | BrowseTask string string policy_push
  | SelfUpdate string string

type_synonym preflight_check = "string \<times> string \<times> string \<times> string"

text \<open>encoding/json on the payloads, and the functions of the handler that are not in \<open>handler_env\<close>.  A docker
  restore tells its progress, source, completed and failed, and its items.\<close>

record request_env =
  rv_env :: handler_env
  rv_policy :: "string \<Rightarrow> policy_push outcome"
  rv_reconcile :: "string \<Rightarrow> (string \<times> string list) outcome"
  rv_backup_now :: "string \<Rightarrow> (string \<times> policy_push option) outcome"
  rv_verify_req :: "string \<Rightarrow> (string \<times> policy_push option \<times> verification_settings option) outcome"
  rv_restore_req :: "string \<Rightarrow> restore_req outcome"
  rv_preflight_req :: "string \<Rightarrow> preflight_req outcome"
  rv_list_req :: "string \<Rightarrow> string outcome"
  rv_browse_req :: "string \<Rightarrow> (string \<times> string) outcome"
  rv_cancel :: "string \<Rightarrow> (string \<times> string) outcome"
  rv_logs_req :: "string \<Rightarrow> int outcome"
  rv_dir_req :: "string \<Rightarrow> (string \<times> int) outcome"
  rv_size_req :: "string \<Rightarrow> string outcome"
  rv_database_req :: "string \<Rightarrow> database_source outcome"
  rv_version :: "string \<Rightarrow> (string \<times> string) outcome"
  rv_restore :: "exec_config \<Rightarrow> string \<Rightarrow> string \<Rightarrow> string list \<Rightarrow> unit shell_prog"
  rv_docker_restore :: "docker_resolved_source list \<Rightarrow>
    ((docker_resolved_source \<times> nat \<times> nat) list \<times> restore_item list) shell_prog"
  rv_list :: "exec_config \<Rightarrow> snapshot_info list shell_prog"
  rv_docker_preflight :: "docker_resolved_source list \<Rightarrow> preflight_check list"
  rv_browse_bytes :: "string \<Rightarrow> file_entry list \<Rightarrow> nat outcome"
  rv_browse :: "string \<Rightarrow> string \<Rightarrow> int \<Rightarrow> dir_entry list outcome"
  rv_dir_size :: "string \<Rightarrow> string \<Rightarrow> int \<times> go_error option"
  rv_databases :: "database_source \<Rightarrow> string list outcome"
  rv_discover :: string
  rv_log_file :: string
  rv_has_updater :: bool

section \<open>Refusals\<close>

definition refuse :: "handler_config \<Rightarrow> string \<Rightarrow> (time \<Rightarrow> task_result) \<Rightarrow> unit handler_prog" where
  "refuse hc messageID result = bnd clock (\<lambda>now. sendTaskResultWithID hc messageID (result now))"

type_synonym handled = "task_manager \<times> agent_task option"

definition start_or_refuse :: "handler_config \<Rightarrow> string \<Rightarrow> string \<Rightarrow> agent_task \<Rightarrow> (go_error \<Rightarrow> time \<Rightarrow> task_result) \<Rightarrow>
    task_manager \<Rightarrow> handled handler_prog" where
  "start_or_refuse hc messageID taskType task result tm = (case start_task messageID taskType tm of
     Inl e \<Rightarrow> bnd (refuse hc messageID (result e)) (\<lambda>_. ret (tm, None))
   | Inr tm1 \<Rightarrow> ret (tm1, Some task))"

definition refused :: "handler_config \<Rightarrow> string \<Rightarrow> (time \<Rightarrow> task_result) \<Rightarrow> task_manager \<Rightarrow> handled handler_prog" where
  "refused hc messageID result tm = bnd (refuse hc messageID result) (\<lambda>_. ret (tm, None))"

text \<open>The policy of a request, or the stored one.\<close>

definition policy_for :: "handler_config \<Rightarrow> policy_push option \<Rightarrow> policy_push handler_prog" where
  "policy_for hc p = (case p of Some p \<Rightarrow> ret p | None \<Rightarrow> LoadPolicy (hc_js hc) (hc_dir hc))"

definition first_id :: "string \<Rightarrow> string \<Rightarrow> string" where
  "first_id a b = (if a = '''' then b else a)"

section \<open>Backups and verifications\<close>

definition handleBackupNow :: "handler_config \<Rightarrow> request_env \<Rightarrow> message \<Rightarrow> task_manager \<Rightarrow> handled handler_prog" where
  "handleBackupNow hc rv msg tm =
     (let mj = hv_meta (rv_env rv) in
      case rv_backup_now rv (m_payload msg) of
        Inl e \<Rightarrow> refused hc (m_id msg) (failedTaskResult mj (hc_agent_id hc) (''parse backup_now: '' @ error_text e)) tm
      | Inr (agentID0, policy) \<Rightarrow> let agentID = first_id agentID0 (hc_agent_id hc) in
          if \<not> hc_has_store hc
          then refused hc (m_id msg) (failedTaskResult mj agentID ''policy store not configured'') tm
          else attempt (policy_for hc policy) (\<lambda>r. case r of
            Inl e \<Rightarrow> refused hc (m_id msg) (failedTaskResult mj agentID (''load policy: '' @ error_text e)) tm
          | Inr p \<Rightarrow> let agentID = first_id agentID (pp_agent_id p) in
              start_or_refuse hc (m_id msg) taskTypeBackup (BackupTask agentID p)
                (\<lambda>e now. failedPolicyTaskResult mj agentID (error_text e) now p) tm))"

definition no_verification :: verification_settings where
  "no_verification = \<lparr>vs_enabled = False, vs_schedule = '''', vs_sample_count = 0, vs_sample_restore_enabled = False,
     vs_timeout_minutes = 0\<rparr>"

definition verification_for :: "verification_settings option \<Rightarrow> policy_push \<Rightarrow> verification_settings" where
  "verification_for v p = (case v of Some v \<Rightarrow> v | None \<Rightarrow> (case pp_verification p of Some v \<Rightarrow> v | None \<Rightarrow> no_verification))"

definition handleBackupVerifyReq :: "handler_config \<Rightarrow> request_env \<Rightarrow> message \<Rightarrow> task_manager \<Rightarrow> handled handler_prog" where
  "handleBackupVerifyReq hc rv msg tm =
     (let failed = (\<lambda>agentID. failedTypedTaskResult (hv_meta (rv_env rv)) agentID ''verify'' '''') in
      case rv_verify_req rv (m_payload msg) of
        Inl e \<Rightarrow> refused hc (m_id msg) (failed (hc_agent_id hc) (''parse backup_verify_req: '' @ error_text e)) tm
      | Inr (agentID0, policy, settings) \<Rightarrow> let agentID = first_id agentID0 (hc_agent_id hc) in
          if \<not> hc_has_store hc then refused hc (m_id msg) (failed agentID ''policy store not configured'') tm
          else attempt (policy_for hc policy) (\<lambda>r. case r of
            Inl e \<Rightarrow> refused hc (m_id msg) (failed agentID (''load policy: '' @ error_text e)) tm
          | Inr p \<Rightarrow> let agentID = first_id agentID (pp_agent_id p) in
              start_or_refuse hc (m_id msg) taskTypeVerify (VerifyTask agentID p (verification_for settings p))
                (\<lambda>e. failed agentID (error_text e)) tm))"

section \<open>Restores\<close>

definition no_policy_text :: "go_error \<Rightarrow> string" where
  "no_policy_text e = (if e = NotFound then ''no backup policy configured for this agent'' else ''load policy: '' @ error_text e)"

definition handleRestoreReq :: "handler_config \<Rightarrow> request_env \<Rightarrow> message \<Rightarrow> task_manager \<Rightarrow> handled handler_prog" where
  "handleRestoreReq hc rv msg tm =
     (let failed = (\<lambda>agentID. failedTypedTaskResult (hv_meta (rv_env rv)) agentID ''restore'') in
      case rv_restore_req rv (m_payload msg) of
        Inl e \<Rightarrow> refused hc (m_id msg) (failed (hc_agent_id hc) '''' (''parse restore: '' @ error_text e)) tm
      | Inr req \<Rightarrow>
          if \<not> hc_has_store hc
          then refused hc (m_id msg) (failed (hc_agent_id hc) (rsq_snapshot_id req) ''policy store not configured'') tm
          else attempt (policy_for hc (rsq_policy req)) (\<lambda>r. case r of
            Inl e \<Rightarrow> refused hc (m_id msg) (failed (hc_agent_id hc) (rsq_snapshot_id req) (no_policy_text e)) tm
          | Inr p \<Rightarrow> let agentID = first_id (hc_agent_id hc) (pp_agent_id p) in
              start_or_refuse hc (m_id msg) taskTypeRestore (RestoreTask agentID req p)
                (\<lambda>e. failed agentID (rsq_snapshot_id req) (error_text e)) tm))"

definition dockerRestorePaths :: "docker_resolved_source list \<Rightarrow> string list" where
  "dockerRestorePaths sources = appendUniqueStrings [] (concat (map rs_resolved_paths sources))"

definition skippedRestoreItems :: "docker_resolved_source list \<Rightarrow> string \<Rightarrow> restore_item list" where
  "skippedRestoreItems sources reason = map (\<lambda>s. \<lparr>ri_source_id = DockerSourceID s, ri_source_name = DockerSourceName s,
     ri_status = RestoreItemStatusSkipped, ri_error = reason, ri_retryable = True, ri_started_at = 0, ri_finished_at = 0\<rparr>) sources"

definition restoreItemResultsStatus :: "restore_item list \<Rightarrow> string" where
  "restoreItemResultsStatus items =
     (let successes = length (filter (\<lambda>i. ri_status i = RestoreItemStatusSuccess) items);
          failures = length (filter (\<lambda>i. ri_status i \<noteq> RestoreItemStatusSuccess \<and> ri_status i \<noteq> RestoreItemStatusCancelled) items)
      in if items = [] then ''failed''
         else if list_ex (\<lambda>i. ri_status i = RestoreItemStatusCancelled) items then ''cancelled''
         else if successes = length items then ''success''
         else if successes > 0 \<and> failures > 0 then ''partial_success'' else ''failed'')"

definition restoreItemResultsError :: "restore_item list \<Rightarrow> go_error option" where
  "restoreItemResultsError items =
     (let failures = map (\<lambda>i. (if ri_source_name i = '''' then ri_source_id i else ri_source_name i) @
            (if ri_error i = '''' then '''' else '': '' @ ri_error i))
            (filter (\<lambda>i. ri_status i \<noteq> RestoreItemStatusSuccess) items)
      in if failures = [] then None else Some (Err (join_with ''; '' failures)))"

definition sendRestoreProgress :: "handler_config \<Rightarrow> float_ops \<Rightarrow> string \<Rightarrow> string \<Rightarrow> string \<Rightarrow> nat \<Rightarrow> nat \<Rightarrow> nat \<Rightarrow>
    docker_resolved_source option \<Rightarrow> unit handler_prog" where
  "sendRestoreProgress hc fo messageID agentID snapshotID total_items completed failed source =
     reply_with hc messageID (RestoreProgress agentID snapshotID
       (if total_items > 0 then fo_div fo (fo_mul fo (fo_of_int fo (int completed)) (float_nat 100)) (fo_of_int fo (int total_items))
        else 0)
       total_items completed failed (case source of None \<Rightarrow> '''' | Some s \<Rightarrow> DockerSourceID s)
       (case source of None \<Rightarrow> '''' | Some s \<Rightarrow> DockerSourceName s))"

fun tell_progress :: "handler_config \<Rightarrow> float_ops \<Rightarrow> string \<Rightarrow> string \<Rightarrow> string \<Rightarrow> nat \<Rightarrow>
    (docker_resolved_source \<times> nat \<times> nat) list \<Rightarrow> unit handler_prog" where
  "tell_progress hc fo messageID agentID snapshotID total_items [] = ret ()"
| "tell_progress hc fo messageID agentID snapshotID total_items ((s, completed, failed) # ps) =
     bnd (sendRestoreProgress hc fo messageID agentID snapshotID total_items completed failed (Some s)) (\<lambda>_.
     tell_progress hc fo messageID agentID snapshotID total_items ps)"

text \<open>One container after the other, as adaptDockerRestoreRunner does it.\<close>

fun adaptDockerRestoreRunner :: "(docker_resolved_source \<Rightarrow> unit shell_prog) \<Rightarrow> (nat \<Rightarrow> ctx_end) \<Rightarrow> nat \<Rightarrow>
    docker_resolved_source list \<Rightarrow> (docker_resolved_source \<times> nat \<times> nat) list \<Rightarrow> restore_item list \<Rightarrow>
    ((docker_resolved_source \<times> nat \<times> nat) list \<times> restore_item list) shell_prog" where
  "adaptDockerRestoreRunner runner ctx failed [] ps items = ret (ps, items)"
| "adaptDockerRestoreRunner runner ctx failed (s # ss) ps items =
     (if ctx (length items) \<noteq> CtxLive
      then ret (ps, items @ skippedRestoreItems (s # ss) (ctx_text (ctx (length items))))
      else bnd clock (\<lambda>startedAt. attempt (runner s) (\<lambda>r. bnd clock (\<lambda>finishedAt.
        let failed1 = (case r of Inl _ \<Rightarrow> failed + 1 | Inr _ \<Rightarrow> failed);
            item = \<lparr>ri_source_id = DockerSourceID s, ri_source_name = DockerSourceName s,
              ri_status = (case r of Inl _ \<Rightarrow> RestoreItemStatusFailed | Inr _ \<Rightarrow> RestoreItemStatusSuccess),
              ri_error = (case r of Inl e \<Rightarrow> error_text e | Inr _ \<Rightarrow> ''''), ri_retryable = isl r,
              ri_started_at = startedAt, ri_finished_at = finishedAt\<rparr>
        in adaptDockerRestoreRunner runner ctx failed1 ss
             (ps @ [(s, length items, failed), (s, length items + 1, failed1)]) (items @ [item])))))"

definition restore_result :: "string \<Rightarrow> string \<Rightarrow> time \<Rightarrow> time \<Rightarrow> restore_item list option \<Rightarrow> go_error option \<Rightarrow> ctx_end \<Rightarrow> task_result" where
  "restore_result agentID snapshotID startedAt finishedAt items err ctx =
     (let status0 = (case items of None \<Rightarrow> ''success'' | Some is \<Rightarrow> restoreItemResultsStatus is);
          status1 = (if err \<noteq> None \<and> status0 = ''success'' then ''failed'' else status0);
          log = (case err of None \<Rightarrow> '''' | Some e \<Rightarrow> error_text e)
      in \<lparr>tr_agent_id = agentID, tr_task_type = ''restore'', tr_status = (if ctx = CtxCancelled then ''cancelled'' else status1),
        tr_snapshot_id = snapshotID, tr_policy_name = '''', tr_backup_mode = '''', tr_archive_format = '''',
        tr_artifact_path = '''', tr_artifact_name = '''', tr_artifact_size = 0, tr_artifact_content_type = '''',
        tr_duration_ms = int64 (time_sub finishedAt startedAt) div 1000000, tr_repo_size = 0,
        tr_error_log = (if ctx = CtxCancelled \<and> log = '''' then ctx_text ctx else log),
        tr_started_at = startedAt, tr_finished_at = finishedAt, tr_snapshots = [], tr_docker = None, tr_database = None,
        tr_verification = None, tr_manifest = None, tr_artifact_naming = None, tr_restore_items = items\<rparr>)"

definition restore_files :: "handler_config \<Rightarrow> request_env \<Rightarrow> restore_req \<Rightarrow> policy_push \<Rightarrow> string \<Rightarrow> string list \<Rightarrow> unit outcome handler_prog" where
  "restore_files hc rv req p target includePaths =
     attempt (on_shell (hv_shell (rv_env rv) ''restore'')
       (rv_restore rv (executorConfigForPolicy (hc_dir hc) p) (rsq_snapshot_id req) target includePaths)) ret"

definition restore_containers :: "handler_config \<Rightarrow> request_env \<Rightarrow> string \<Rightarrow> string \<Rightarrow> restore_req \<Rightarrow> policy_push \<Rightarrow>
    docker_resolved_source list \<Rightarrow> (restore_item list option \<times> go_error option) handler_prog" where
  "restore_containers hc rv messageID agentID req p sources =
     (let fo = hv_floats (rv_env rv); n = length sources; dockerPaths = dockerRestorePaths sources in
      bnd (sendRestoreProgress hc fo messageID agentID (rsq_snapshot_id req) n 0 0 None) (\<lambda>_.
      bnd (if dockerPaths = [] then ret (Inl (Err ''docker restore has no restore paths''))
           else restore_files hc rv req p [slash] (appendUniqueStrings (rsq_include_paths req) dockerPaths)) (\<lambda>r.
      case r of Inl e \<Rightarrow> ret (Some (skippedRestoreItems sources (error_text e)), Some e)
      | Inr _ \<Rightarrow> bnd (on_shell (hv_shell (rv_env rv) ''docker'') (rv_docker_restore rv sources)) (\<lambda>(ps, items).
          bnd (tell_progress hc fo messageID agentID (rsq_snapshot_id req) n ps) (\<lambda>_.
          ret (Some items, restoreItemResultsError items))))))"

definition run_restore :: "handler_config \<Rightarrow> request_env \<Rightarrow> string \<Rightarrow> string \<Rightarrow> restore_req \<Rightarrow> policy_push \<Rightarrow> unit handler_prog" where
  "run_restore hc rv messageID agentID req p = bnd clock (\<lambda>startedAt.
     attempt (ensureRcloneConf hc p) (\<lambda>r. case r of
       Inl e \<Rightarrow> sendTaskResultWithID hc messageID (failedTypedTaskResult (hv_meta (rv_env rv)) agentID ''restore''
         (rsq_snapshot_id req) (''prepare rclone config: '' @ error_text e) startedAt)
     | Inr _ \<Rightarrow>
       bnd (case rsq_docker req of
          Some sources \<Rightarrow> restore_containers hc rv messageID agentID req p sources
        | None \<Rightarrow> bnd (restore_files hc rv req p (rsq_target req) (rsq_include_paths req)) (\<lambda>r.
            bnd (sendRestoreProgress hc (hv_floats (rv_env rv)) messageID agentID (rsq_snapshot_id req) 0 0 0 None) (\<lambda>_.
            ret (None, case r of Inl e \<Rightarrow> Some e | Inr _ \<Rightarrow> None)))) (\<lambda>(items, err).
       bnd clock (\<lambda>finishedAt. sendTaskResultWithID hc messageID
         (restore_result agentID (rsq_snapshot_id req) startedAt finishedAt items err (hv_ctx (rv_env rv) ''restore''))))))"

section \<open>Restore preflight\<close>

definition restorePreflightStatus :: "preflight_check list \<Rightarrow> string" where
  "restorePreflightStatus checks = (if list_ex (\<lambda>(code, severity, message, detail). severity = ''error'') checks then ''failed'' else ''passed'')"

definition writable_dir :: "string \<Rightarrow> unit handler_prog" where
  "writable_dir p =
     bnd (mkdir_all p) (\<lambda>_. bnd (draw_temp p ''.vaultfleet-restore-preflight-'') (\<lambda>probe.
     bnd (create_temp probe) (\<lambda>_.
     attempt (bnd (put_file probe ''ok'') (\<lambda>_. close_file)) (\<lambda>r. case r of
       Inl e \<Rightarrow> bnd (ignoring (remove_file probe)) (\<lambda>_. raise e)
     | Inr _ \<Rightarrow> remove_file probe))))"

definition ensureRestoreTargetWritable :: "string \<Rightarrow> unit handler_prog" where
  "ensureRestoreTargetWritable target0 =
     (let target = trim_space target0; cleaned = path_clean target in
      if target = '''' then raise (Err ''target path is required'')
      else if \<not> is_abs cleaned then raise (Err ''target path must be absolute'')
      else attempt (stat cleaned) (\<lambda>s. case s of
        Inr (File _) \<Rightarrow> raise (Err ''target path exists and is not a directory'')
      | Inr Dir \<Rightarrow> writable_dir cleaned
      | Inl e \<Rightarrow> if e = NotFound then writable_dir cleaned else raise e))"

definition fileRestorePreflightChecks :: "string \<Rightarrow> string list \<Rightarrow> preflight_check list handler_prog" where
  "fileRestorePreflightChecks target includePaths =
     (let checks = [(''restore_mode'', ''info'', ''file restore mode selected'', '''')] @
        (if includePaths = [] then [] else [(''include_paths'', ''info'', ''selected snapshot paths will be restored'', join_with [nl] includePaths)])
      in attempt (ensureRestoreTargetWritable target) (\<lambda>r. ret (checks @ [case r of
           Inl e \<Rightarrow> (''target_path_writable'', ''error'', ''target path is not writable'', error_text e)
         | Inr _ \<Rightarrow> (''target_path_writable'', ''info'', ''target path is writable'', target)])))"

definition restorePreflightChecks :: "request_env \<Rightarrow> preflight_req \<Rightarrow> preflight_check list handler_prog" where
  "restorePreflightChecks rv req =
     (let reached = (''agent_reachable'', ''info'', ''target agent received restore preflight request'', '''') in
      case pfq_docker req of
        Some sources \<Rightarrow> ret (reached # rv_docker_preflight rv sources)
      | None \<Rightarrow> if trim_space (pfq_restore_mode req) = ''docker_container''
          then ret [reached, (''docker_metadata'', ''error'', ''docker restore metadata is missing'', '''')]
          else bnd (fileRestorePreflightChecks (pfq_target req) (pfq_include_paths req)) (\<lambda>cs. ret (reached # cs)))"

definition handleRestorePreflightReq :: "handler_config \<Rightarrow> request_env \<Rightarrow> message \<Rightarrow> unit handler_prog" where
  "handleRestorePreflightReq hc rv msg = (case rv_preflight_req rv (m_payload msg) of
     Inl e \<Rightarrow> reply_with hc (m_id msg) (RestorePreflight (hc_agent_id hc) '''' ''failed''
       [(''invalid_request'', ''error'', ''invalid restore preflight request'', error_text e)] (error_text e))
   | Inr req \<Rightarrow> bnd (restorePreflightChecks rv req) (\<lambda>checks.
       reply_with hc (m_id msg) (RestorePreflight (first_id (pfq_agent_id req) (hc_agent_id hc)) (pfq_snapshot_id req)
         (restorePreflightStatus checks) checks '''')))"

section \<open>Snapshots\<close>

definition sendSnapshotListResp :: "handler_config \<Rightarrow> string \<Rightarrow> string \<Rightarrow> snapshot_info list \<Rightarrow> string \<Rightarrow> unit handler_prog" where
  "sendSnapshotListResp hc messageID agentID snapshots errorText =
     reply_with hc messageID (SnapshotList \<lparr>sl_agent_id = agentID, sl_snapshots = snapshots, sl_error = errorText\<rparr>)"

definition answered :: "unit handler_prog \<Rightarrow> task_manager \<Rightarrow> handled handler_prog" where
  "answered m tm = bnd m (\<lambda>_. ret (tm, None))"

text \<open>A query takes no slot, so that it always starts.\<close>

definition start_query :: "string \<Rightarrow> agent_task \<Rightarrow> task_manager \<Rightarrow> handled" where
  "start_query messageID task tm = (case start_task messageID taskTypeQuery tm of Inl _ \<Rightarrow> (tm, None) | Inr tm1 \<Rightarrow> (tm1, Some task))"

definition handleSnapshotListReq :: "handler_config \<Rightarrow> request_env \<Rightarrow> message \<Rightarrow> task_manager \<Rightarrow> handled handler_prog" where
  "handleSnapshotListReq hc rv msg tm =
     (case rv_list_req rv (m_payload msg) of
        Inl e \<Rightarrow> answered (sendSnapshotListResp hc (m_id msg) (hc_agent_id hc) [] (''parse snapshot list: '' @ error_text e)) tm
      | Inr agentID0 \<Rightarrow> let agentID = first_id agentID0 (hc_agent_id hc) in
          if \<not> hc_has_store hc then answered (sendSnapshotListResp hc (m_id msg) agentID [] ''policy store not configured'') tm
          else attempt (LoadPolicy (hc_js hc) (hc_dir hc)) (\<lambda>r. case r of
            Inl e \<Rightarrow> answered (sendSnapshotListResp hc (m_id msg) agentID [] (no_policy_text e)) tm
          | Inr p \<Rightarrow> ret (start_query (m_id msg) (ListTask (first_id agentID (pp_agent_id p)) p) tm)))"

definition run_list :: "handler_config \<Rightarrow> request_env \<Rightarrow> string \<Rightarrow> string \<Rightarrow> policy_push \<Rightarrow> unit handler_prog" where
  "run_list hc rv messageID agentID p = attempt (ensureRcloneConf hc p) (\<lambda>r. case r of
     Inl e \<Rightarrow> sendSnapshotListResp hc messageID agentID [] (''prepare rclone config: '' @ error_text e)
   | Inr _ \<Rightarrow> attempt (on_shell (hv_shell (rv_env rv) ''list'') (rv_list rv (executorConfigForPolicy (hc_dir hc) p))) (\<lambda>s. case s of
       Inl e \<Rightarrow> sendSnapshotListResp hc messageID agentID [] (error_text e)
     | Inr snapshots \<Rightarrow> sendSnapshotListResp hc messageID agentID snapshots ''''))"

definition snapshotEntriesForBrowse :: "handler_config \<Rightarrow> request_env \<Rightarrow> exec_config \<Rightarrow> string \<Rightarrow> file_entry list handler_prog" where
  "snapshotEntriesForBrowse hc rv cfg snapshotID =
     (let dir = newSnapshotCache (hc_dir hc) in
      attempt (cached_entries (hv_cache (rv_env rv)) dir snapshotID) (\<lambda>c. case c of
        Inr (Some entries) \<Rightarrow> ret entries
      | _ \<Rightarrow> bnd (on_shell (hv_shell (rv_env rv) ''browse'') (hv_browse (rv_env rv) cfg snapshotID '''')) (\<lambda>entries.
          bnd (draw_temp dir ''snapshot-'') (\<lambda>tmp.
          bnd (ignoring (cache_put (hv_cache (rv_env rv)) dir tmp snapshotID entries)) (\<lambda>_. ret entries)))))"

definition filterDirectChildren :: "file_entry list \<Rightarrow> string \<Rightarrow> file_entry list" where
  "filterDirectChildren entries parentPath =
     (let pre = trim_suffix parentPath [slash] @ [slash] in
      filter (\<lambda>e. has_prefix (fe_path e) pre \<and> drop (length pre) (fe_path e) \<noteq> '''' \<and>
        slash \<notin> set (drop (length pre) (fe_path e))) entries)"

definition filterTopLevelEntries :: "file_entry list \<Rightarrow> file_entry list" where
  "filterTopLevelEntries entries =
     filter (\<lambda>e. let path = trim_prefix (fe_path e) [slash] in path \<noteq> '''' \<and> slash \<notin> set path) entries"

definition maxSnapshotBrowseResponseBytes :: nat where "maxSnapshotBrowseResponseBytes = 900 * 1024"

definition browse_body :: "request_env \<Rightarrow> string \<Rightarrow> file_entry list \<Rightarrow> string \<Rightarrow> agent_body" where
  "browse_body rv snapshotID entries errorText =
     (if errorText = '''' \<and> entries \<noteq> [] then (case rv_browse_bytes rv snapshotID entries of
        Inl e \<Rightarrow> SnapshotBrowse snapshotID [] (''encode snapshot browse response: '' @ error_text e)
      | Inr n \<Rightarrow> if n > maxSnapshotBrowseResponseBytes
          then SnapshotBrowse snapshotID [] ''snapshot browse response too large; narrow the snapshot contents before browsing''
          else SnapshotBrowse snapshotID entries errorText)
      else SnapshotBrowse snapshotID entries errorText)"

definition sendSnapshotBrowseResp :: "handler_config \<Rightarrow> request_env \<Rightarrow> string \<Rightarrow> string \<Rightarrow> file_entry list \<Rightarrow> string \<Rightarrow> unit handler_prog" where
  "sendSnapshotBrowseResp hc rv messageID snapshotID entries errorText =
     reply_with hc messageID (browse_body rv snapshotID entries errorText)"

definition handleSnapshotBrowseReq :: "handler_config \<Rightarrow> request_env \<Rightarrow> message \<Rightarrow> task_manager \<Rightarrow> handled handler_prog" where
  "handleSnapshotBrowseReq hc rv msg tm =
     (case rv_browse_req rv (m_payload msg) of
        Inl e \<Rightarrow> answered (sendSnapshotBrowseResp hc rv (m_id msg) '''' [] (''parse snapshot browse: '' @ error_text e)) tm
      | Inr (snapshotID, path) \<Rightarrow>
          if \<not> hc_has_store hc
          then answered (sendSnapshotBrowseResp hc rv (m_id msg) snapshotID [] ''policy store not configured'') tm
          else attempt (LoadPolicy (hc_js hc) (hc_dir hc)) (\<lambda>r. case r of
            Inl e \<Rightarrow> answered (sendSnapshotBrowseResp hc rv (m_id msg) snapshotID [] (no_policy_text e)) tm
          | Inr p \<Rightarrow> ret (start_query (m_id msg) (BrowseTask snapshotID path p) tm)))"

definition run_browse :: "handler_config \<Rightarrow> request_env \<Rightarrow> string \<Rightarrow> string \<Rightarrow> string \<Rightarrow> policy_push \<Rightarrow> unit handler_prog" where
  "run_browse hc rv messageID snapshotID path p = attempt (ensureRcloneConf hc p) (\<lambda>r. case r of
     Inl e \<Rightarrow> sendSnapshotBrowseResp hc rv messageID snapshotID [] (''prepare rclone config: '' @ error_text e)
   | Inr _ \<Rightarrow> attempt (snapshotEntriesForBrowse hc rv (executorConfigForPolicy (hc_dir hc) p) snapshotID) (\<lambda>s. case s of
       Inl e \<Rightarrow> sendSnapshotBrowseResp hc rv messageID snapshotID [] (error_text e)
     | Inr entries \<Rightarrow> sendSnapshotBrowseResp hc rv messageID snapshotID
         (if path = '''' then filterTopLevelEntries entries else filterDirectChildren entries path) ''''))"

section \<open>Cancelling\<close>

definition handleCancelTask :: "handler_config \<Rightarrow> request_env \<Rightarrow> message \<Rightarrow> task_manager \<Rightarrow> handled handler_prog" where
  "handleCancelTask hc rv msg tm = ret ((case rv_cancel rv (m_payload msg) of
     Inl _ \<Rightarrow> tm
   | Inr (agentID, messageID) \<Rightarrow>
       if messageID = '''' \<or> agentID \<noteq> '''' \<and> hc_agent_id hc \<noteq> '''' \<and> agentID \<noteq> hc_agent_id hc then tm
       else snd (cancel_task messageID tm)), None)"

section \<open>Logs of the agent\<close>

definition redactionTailContextBytes :: int where "redactionTailContextBytes = 64 * 1024"

definition tailReadBytes :: "int \<Rightarrow> int" where
  "tailReadBytes maxBytes = (if maxBytes \<le> 0 then redactionTailContextBytes else maxBytes + redactionTailContextBytes)"

definition readTail :: "string \<Rightarrow> int \<Rightarrow> string handler_prog" where
  "readTail path maxBytes = bnd (read_file path) (\<lambda>c.
     ret (if maxBytes \<le> 0 then c else drop (length c - nat maxBytes) c))"

definition journalctlLineLimit :: "int \<Rightarrow> int" where
  "journalctlLineLimit maxBytes = (if maxBytes \<le> 0 then 2000 else
     let ls = maxBytes div 256 + (if maxBytes mod 256 \<noteq> 0 then 1 else 0) in max 50 (min 2000 ls))"

definition redactAndLimit :: "(string \<Rightarrow> string) \<Rightarrow> string \<Rightarrow> int \<Rightarrow> string" where
  "redactAndLimit redact text0 maxBytes =
     (let t = redact text0 in if maxBytes > 0 \<and> int (length t) > maxBytes then drop (length t - nat maxBytes) t else t)"

definition collectLogsFromFile :: "(string \<Rightarrow> string) \<Rightarrow> string \<Rightarrow> int \<Rightarrow> string handler_prog" where
  "collectLogsFromFile redact path maxBytes = attempt (readTail path (tailReadBytes maxBytes)) (\<lambda>r. case r of
     Inl e \<Rightarrow> raise (Err (''read log file '' @ path @ '': '' @ error_text e))
   | Inr data \<Rightarrow> ret (redactAndLimit redact data maxBytes))"

definition collectLogsFromJournalctl :: "(string \<Rightarrow> string) \<Rightarrow> int \<Rightarrow> string shell_prog" where
  "collectLogsFromJournalctl redact maxBytes =
     bnd (run_cmd ''journalctl'' [''-u'', ''vaultfleet-agent'', ''--since'', ''24 hours ago'', ''--no-pager'', ''--lines'',
        dec_digits (nat (journalctlLineLimit maxBytes))] '''') (\<lambda>out. case co_err out of
       Some e \<Rightarrow> raise (Err (''collect journalctl logs: '' @ e))
     | None \<Rightarrow> ret (redactAndLimit redact (co_stdout out) maxBytes))"

definition defaultLogFile :: string where "defaultLogFile = ''/var/log/vaultfleet-agent.log''"

datatype log_source = Journalctl | LogFile | NoSource

text \<open>\<open>exec.LookPath\<close> is a command that fails when journalctl is not there.\<close>

definition journal_active :: "bool shell_prog" where
  "journal_active = bnd (run_cmd ''lookpath'' [''journalctl''] '''') (\<lambda>l.
     if co_err l \<noteq> None then ret False
     else bnd (run_cmd ''systemctl'' [''is-active'', ''vaultfleet-agent''] '''') (\<lambda>out.
       ret (co_err out = None \<and> trim_space (co_stdout out) = ''active'')))"

definition detectLogSource :: "string \<Rightarrow> log_source shell_prog" where
  "detectLogSource fallback = bnd journal_active (\<lambda>b. if b then ret Journalctl
     else attempt (stat fallback) (\<lambda>s. ret (case s of Inl _ \<Rightarrow> NoSource | Inr _ \<Rightarrow> LogFile)))"

definition collectLogs :: "handler_env \<Rightarrow> string \<Rightarrow> int \<Rightarrow> string handler_prog" where
  "collectLogs env logFile maxBytes =
     bnd (on_shell (hv_shell env ''logs'') (detectLogSource logFile)) (\<lambda>s. case s of
       Journalctl \<Rightarrow> on_shell (hv_shell env ''journal'') (collectLogsFromJournalctl (hv_redact env) maxBytes)
     | LogFile \<Rightarrow> collectLogsFromFile (hv_redact env) logFile maxBytes
     | NoSource \<Rightarrow> raise (Err ''no agent log source found''))"

definition log_limit :: "int outcome \<Rightarrow> int" where
  "log_limit r = (case r of Inl _ \<Rightarrow> 5 * 1024 * 1024 | Inr n \<Rightarrow> if n > 0 \<and> n < 5 * 1024 * 1024 then n else 5 * 1024 * 1024)"

definition handleCollectLogsReq :: "handler_config \<Rightarrow> request_env \<Rightarrow> message \<Rightarrow> unit handler_prog" where
  "handleCollectLogsReq hc rv msg =
     (let maxBytes = log_limit (rv_logs_req rv (m_payload msg)) in
      attempt (if rv_log_file rv \<noteq> '''' then collectLogsFromFile (hv_redact (rv_env rv)) (rv_log_file rv) maxBytes
               else collectLogs (rv_env rv) defaultLogFile maxBytes) (\<lambda>r.
      reply_with hc (m_id msg) (case r of Inl e \<Rightarrow> CollectedLogs '''' (error_text e) | Inr t \<Rightarrow> CollectedLogs t '''')))"

section \<open>Browsing and discovery\<close>

definition handleDirBrowseReq :: "handler_config \<Rightarrow> request_env \<Rightarrow> message \<Rightarrow> unit handler_prog" where
  "handleDirBrowseReq hc rv msg = (case rv_dir_req rv (m_payload msg) of
     Inl _ \<Rightarrow> ret ()
   | Inr (path, depth) \<Rightarrow> reply_with hc (m_id msg)
       (case rv_browse rv [slash] path (if depth \<le> 0 \<or> depth > 3 then 2 else depth) of
          Inl e \<Rightarrow> DirBrowse path [] (error_text e) | Inr entries \<Rightarrow> DirBrowse path entries ''''))"

definition handleDockerDiscoveryReq :: "handler_config \<Rightarrow> request_env \<Rightarrow> message \<Rightarrow> unit handler_prog" where
  "handleDockerDiscoveryReq hc rv msg = reply_with hc (m_id msg) (DockerDiscovery (rv_discover rv))"

definition handleDatabaseDiscoveryReq :: "handler_config \<Rightarrow> request_env \<Rightarrow> message \<Rightarrow> unit handler_prog" where
  "handleDatabaseDiscoveryReq hc rv msg = (case rv_database_req rv (m_payload msg) of
     Inl _ \<Rightarrow> ret ()
   | Inr source \<Rightarrow> reply_with hc (m_id msg) (case rv_databases rv source of
       Inl e \<Rightarrow> DatabaseDiscovery False (error_text e) [] | Inr dbs \<Rightarrow> DatabaseDiscovery True '''' dbs))"

definition handleDirSizeReq :: "handler_config \<Rightarrow> request_env \<Rightarrow> message \<Rightarrow> unit handler_prog" where
  "handleDirSizeReq hc rv msg = (case rv_size_req rv (m_payload msg) of
     Inl _ \<Rightarrow> ret ()
   | Inr path \<Rightarrow> reply_with hc (m_id msg) (case rv_dir_size rv [slash] path of
       (n, err) \<Rightarrow> DirSize path n (case err of None \<Rightarrow> '''' | Some e \<Rightarrow> error_text e)))"

section \<open>Updates\<close>

definition handleVersionInfo :: "request_env \<Rightarrow> message \<Rightarrow> agent_task option" where
  "handleVersionInfo rv msg =
     (if \<not> rv_has_updater rv then None
      else case rv_version rv (m_payload msg) of Inl _ \<Rightarrow> None
        | Inr (version, repo) \<Rightarrow> if version = hv_version (rv_env rv) then None else Some (SelfUpdate version repo))"

definition handleUpdateAgent :: "handler_config \<Rightarrow> request_env \<Rightarrow> message \<Rightarrow> agent_task option handler_prog" where
  "handleUpdateAgent hc rv msg = (case rv_version rv (m_payload msg) of
     Inl e \<Rightarrow> bnd (reply_with hc (m_id msg) (UpdateAgent False '''' '''' (error_text e))) (\<lambda>_. ret None)
   | Inr (version, repo) \<Rightarrow>
       if \<not> rv_has_updater rv
       then bnd (reply_with hc (m_id msg) (UpdateAgent False version repo ''agent self-update is disabled'')) (\<lambda>_. ret None)
       else bnd (reply_with hc (m_id msg) (UpdateAgent True version repo '''')) (\<lambda>_. ret (Some (SelfUpdate version repo))))"

section \<open>Dispatch\<close>

definition Handle :: "handler_config \<Rightarrow> request_env \<Rightarrow> message \<Rightarrow> task_manager \<Rightarrow> handled handler_prog" where
  "Handle hc rv msg tm = (case m_type msg of
     TypePolicyPush \<Rightarrow> bnd (handlePolicyPush hc (m_id msg) (rv_policy rv (m_payload msg))) (\<lambda>_. ret (tm, None))
   | TypePolicyReconcile \<Rightarrow> answered (handlePolicyReconcile hc (rv_reconcile rv (m_payload msg))) tm
   | TypeBackupNow \<Rightarrow> handleBackupNow hc rv msg tm
   | TypeBackupVerifyReq \<Rightarrow> handleBackupVerifyReq hc rv msg tm
   | TypeDirBrowseReq \<Rightarrow> answered (handleDirBrowseReq hc rv msg) tm
   | TypeDockerDiscoveryReq \<Rightarrow> answered (handleDockerDiscoveryReq hc rv msg) tm
   | TypeDatabaseDiscoveryReq \<Rightarrow> answered (handleDatabaseDiscoveryReq hc rv msg) tm
   | TypeDirSizeReq \<Rightarrow> answered (handleDirSizeReq hc rv msg) tm
   | TypeRestoreReq \<Rightarrow> handleRestoreReq hc rv msg tm
   | TypeSelectiveRestoreReq \<Rightarrow> handleRestoreReq hc rv msg tm
   | TypeRestorePreflightReq \<Rightarrow> answered (handleRestorePreflightReq hc rv msg) tm
   | TypeSnapshotListReq \<Rightarrow> handleSnapshotListReq hc rv msg tm
   | TypeSnapshotBrowseReq \<Rightarrow> handleSnapshotBrowseReq hc rv msg tm
   | TypeCollectLogsReq \<Rightarrow> answered (handleCollectLogsReq hc rv msg) tm
   | TypeVersionInfo \<Rightarrow> ret (tm, handleVersionInfo rv msg)
   | TypeCancelTask \<Rightarrow> handleCancelTask hc rv msg tm
   | TypeUpdateAgent \<Rightarrow> bnd (handleUpdateAgent hc rv msg) (\<lambda>t. ret (tm, t))
   | _ \<Rightarrow> ret (tm, None))"

text \<open>The goroutine of a task, and the goroutine it leaves behind.  The updater is not modelled.\<close>

definition run_agent_task :: "handler_config \<Rightarrow> request_env \<Rightarrow> string \<Rightarrow> agent_task \<Rightarrow> warm_up handler_prog" where
  "run_agent_task hc rv messageID task = (case task of
     BackupTask agentID p \<Rightarrow> runBackupForPolicy hc (rv_env rv) messageID agentID p
   | VerifyTask agentID p settings \<Rightarrow> bnd (runBackupVerificationForPolicy hc (rv_env rv) messageID agentID p settings) (\<lambda>_. ret None)
   | RestoreTask agentID req p \<Rightarrow> bnd (run_restore hc rv messageID agentID req p) (\<lambda>_. ret None)
   | ListTask agentID p \<Rightarrow> bnd (run_list hc rv messageID agentID p) (\<lambda>_. ret None)
   | BrowseTask snapshotID path p \<Rightarrow> bnd (run_browse hc rv messageID snapshotID path p) (\<lambda>_. ret None)
   | SelfUpdate version repo \<Rightarrow> ret None)"

section \<open>The runners of NewHandler\<close>

text \<open>The functions NewHandler fills in when its configuration leaves them out; the docker runner that restores one
  container is given.\<close>

definition NewHandler_runners :: "archive_io \<Rightarrow> runner_io \<Rightarrow> dump_io \<Rightarrow> nat \<Rightarrow> string \<Rightarrow> string \<Rightarrow> (nat \<Rightarrow> ctx_end) \<Rightarrow>
    (docker_resolved_source \<Rightarrow> unit shell_prog) \<Rightarrow> request_env \<Rightarrow> request_env" where
  "NewHandler_runners ai io di fuel name configDir ctx docker rv =
     rv\<lparr>rv_env := (rv_env rv)\<lparr>hv_backup := runBackupWithProgress ai io fuel, hv_verify := runBackupVerification io name ctx,
          hv_browse := runSnapshotBrowse io, hv_database := Prepare di name configDir\<rparr>,
        rv_restore := runRestore io, rv_list := runSnapshotList io,
        rv_docker_restore := (\<lambda>ss. adaptDockerRestoreRunner docker ctx 0 ss [] [])\<rparr>"

end
