(* ===== verification/VF_ExecutorLaws.thy ===== *)
theory VF_ExecutorLaws
  imports VF_Executor
begin

text \<open>
  What the executor's jobs promise: a backup is the error-propagating sequence of its steps, every job
  ends with a result of its own type, the arguments passed on to rclone are the allowed ones; and where
  a cancelled verification and a restore from plain files fall short.
\<close>

section \<open>Programs that do not raise\<close>

definition settles :: "('d, 'h, 'a) prog \<Rightarrow> ('a \<Rightarrow> bool) \<Rightarrow> bool" where
  "settles m P \<longleftrightarrow> (\<forall>w. \<exists>a w'. m w = (Inr a, w') \<and> P a)"

lemma settlesD: "settles m P \<Longrightarrow> \<exists>a w'. m w = (Inr a, w') \<and> P a"
  by (simp add: settles_def)

lemma settles_conseq: "settles m P \<Longrightarrow> (\<And>a. P a \<Longrightarrow> Q a) \<Longrightarrow> settles m Q"
  unfolding settles_def by fast

lemma settles_ret [intro]: "P a \<Longrightarrow> settles (ret a) P"
  by (simp add: settles_def)

lemma settles_attempt: "(\<And>r. settles (k r) P) \<Longrightarrow> settles (attempt m k) P"
  unfolding settles_def attempt_def by (metis case_prod_conv surj_pair)

lemma settles_bnd: "settles m Q \<Longrightarrow> (\<And>a. Q a \<Longrightarrow> settles (k a) P) \<Longrightarrow> settles (bnd m k) P"
  unfolding settles_def bnd_def by (metis (mono_tags, lifting) case_prod_conv sum.simps(6))

lemma settles_if: "(b \<Longrightarrow> settles m P) \<Longrightarrow> (\<not> b \<Longrightarrow> settles n P) \<Longrightarrow> settles (if b then m else n) P"
  by simp

lemma settles_sum: "(\<And>e. x = Inl e \<Longrightarrow> settles (f e) P) \<Longrightarrow> (\<And>a. x = Inr a \<Longrightarrow> settles (g a) P) \<Longrightarrow>
  settles (case x of Inl e \<Rightarrow> f e | Inr a \<Rightarrow> g a) P"
  by (cases x) simp_all

lemma settles_option: "(x = None \<Longrightarrow> settles m P) \<Longrightarrow> (\<And>a. x = Some a \<Longrightarrow> settles (g a) P) \<Longrightarrow>
  settles (case x of None \<Rightarrow> m | Some a \<Rightarrow> g a) P"
  by (cases x) simp_all

lemma settles_clock: "settles clock (\<lambda>_. True)"
  by (auto simp: settles_def clock_def split: list.splits)

lemma settles_elapsed: "settles (elapsed_ms t) (\<lambda>_. True)"
  unfolding elapsed_ms_def by (rule settles_bnd [OF settles_clock]) auto

lemma settles_run_cmd: "settles (run_cmd p args i) (\<lambda>_. True)"
  by (simp add: settles_def run_cmd_def Let_def)

lemma settles_password: "settles (has_password_file p) (\<lambda>_. True)" "settles (hasPassword r) (\<lambda>_. True)"
  unfolding has_password_file_def hasPassword_def by (intro settles_attempt; auto)+

lemma settles_progress: "settles (buildBackupWithProgressCmd io r dirs ex) (\<lambda>_. True)"
  unfolding buildBackupWithProgressCmd_def baseArgs_def
  by (rule settles_bnd, rule settles_bnd [OF settles_password(2)]) auto

section \<open>Runners\<close>

lemma restic_backup_settles: "settles (restic_RunBackupWithProgress io r dirs ex) (\<lambda>_. True)"
  unfolding restic_RunBackupWithProgress_def
  by (auto intro!: settles_bnd [OF settles_progress] settles_bnd [OF settles_run_cmd] split: prod.splits option.splits)

lemma sync_settles: "settles (sync_with_progress io r i n dirs ex ps) (\<lambda>_. True)"
  by (induction dirs arbitrary: i ps) (auto intro!: settles_attempt settles_sum)

lemma plain_backup_settles: "settles (plain_RunBackupWithProgress io r dirs ex) (\<lambda>_. True)"
  unfolding plain_RunBackupWithProgress_def
  by (auto intro!: settles_bnd [OF sync_settles] settles_attempt settles_sum split: prod.splits)

section \<open>A backup is the sequence of its steps\<close>

definition in_step :: "string \<Rightarrow> 'a shell_prog \<Rightarrow> 'a shell_prog" where
  "in_step step m = attempt m (\<lambda>r. case r of Inl e \<Rightarrow> raise (Err (step @ '': '' @ error_text e)) | Inr a \<Rightarrow> ret a)"

definition copied :: "runner_ops \<Rightarrow> exec_config \<Rightarrow> string shell_prog" where
  "copied ops cfg = bnd (ro_backup ops (ec_backup_dirs cfg) (ec_excludes cfg)) (\<lambda>(ps, r). from_sum r)"

definition backup_sequence :: "runner_ops \<Rightarrow> exec_config \<Rightarrow> exec_result shell_prog" where
  "backup_sequence ops cfg =
     bnd (in_step ''init'' (ro_init ops)) (\<lambda>_.
     bnd (in_step ''backup'' (copied ops cfg)) (\<lambda>_.
     bnd (in_step ''forget'' (ro_forget ops (ec_retention cfg))) (\<lambda>_.
     bnd (in_step ''snapshots'' (ro_list ops)) (\<lambda>snapshots.
     bnd (in_step ''stats'' (ro_size ops)) (\<lambda>repoSize. ret (backup_done snapshots repoSize))))))"

definition backup_by_sequence :: "runner_ops \<Rightarrow> exec_config \<Rightarrow> exec_result shell_prog" where
  "backup_by_sequence ops cfg = bnd clock (\<lambda>start. attempt (backup_sequence ops cfg) (\<lambda>r.
     bnd (elapsed_ms start) (\<lambda>ms. ret ((case r of Inl e \<Rightarrow> backup_base\<lparr>er_error_log := error_text e\<rparr> | Inr x \<Rightarrow> x)
       \<lparr>er_duration_ms := ms\<rparr>))))"

lemma in_step_run: "in_step s m w = (case m w of (Inl e, w1) \<Rightarrow> (Inl (Err (s @ '': '' @ error_text e)), w1) | (Inr a, w1) \<Rightarrow> (Inr a, w1))"
  by (auto simp: in_step_def attempt_def split: prod.splits sum.splits)

definition told :: "(runner_event list \<times> exec_result) outcome \<times> 'w \<Rightarrow> exec_result outcome \<times> 'w" where
  "told x = (map_sum id snd (fst x), snd x)"

definition failed_told :: "exec_result outcome \<times> 'w \<Rightarrow> exec_result outcome \<times> 'w" where
  "failed_told x = (Inr (case fst x of Inl e \<Rightarrow> backup_base\<lparr>er_error_log := error_text e\<rparr> | Inr r \<Rightarrow> r), snd x)"

lemma read_statistics_told:
  "told (read_statistics ops ev w) =
   failed_told (bnd (in_step ''snapshots'' (ro_list ops)) (\<lambda>snapshots.
     bnd (in_step ''stats'' (ro_size ops)) (\<lambda>repoSize. ret (backup_done snapshots repoSize))) w)"
proof (cases "ro_list ops w")
  case (Pair r w1)
  show ?thesis
  proof (cases r)
    case (Inr ss)
    with Pair show ?thesis
      by (cases "ro_size ops w1"; cases "fst (ro_size ops w1)")
        (simp_all add: read_statistics_def bnd_def attempt_def in_step_run job_fails_def Let_def told_def failed_told_def)
  qed (use Pair in \<open>simp add: read_statistics_def bnd_def attempt_def in_step_run job_fails_def Let_def told_def failed_told_def\<close>)
qed

lemma forget_old_told:
  "told (forget_old ops p ev w) =
   failed_told (bnd (in_step ''forget'' (ro_forget ops p)) (\<lambda>_.
     bnd (in_step ''snapshots'' (ro_list ops)) (\<lambda>snapshots.
     bnd (in_step ''stats'' (ro_size ops)) (\<lambda>repoSize. ret (backup_done snapshots repoSize)))) w)"
proof (cases "ro_forget ops p w")
  case (Pair r w1)
  then show ?thesis
    using read_statistics_told [of ops "ev @ [JobProgress ''forget'' None, job_log ''forget'' ''applying retention policy'']" w1]
    by (cases r) (simp_all add: forget_old_def bnd_def attempt_def in_step_run job_fails_def Let_def,
        simp add: told_def failed_told_def)
qed

text \<open>What the job needs of its runner: a backup that reports a failure in its outcome.\<close>

locale backup_runner =
  fixes ops :: runner_ops
  assumes backup_settles: "settles (ro_backup ops dirs excludes) (\<lambda>_. True)"
begin

lemma copy_sources_told:
  "told (copy_sources ops cfg ev w) =
   failed_told (bnd (in_step ''backup'' (copied ops cfg)) (\<lambda>_.
     bnd (in_step ''forget'' (ro_forget ops (ec_retention cfg))) (\<lambda>_.
     bnd (in_step ''snapshots'' (ro_list ops)) (\<lambda>snapshots.
     bnd (in_step ''stats'' (ro_size ops)) (\<lambda>repoSize. ret (backup_done snapshots repoSize))))) w)"
proof -
  obtain ps r w1 where run: "ro_backup ops (ec_backup_dirs cfg) (ec_excludes cfg) w = (Inr (ps, r), w1)"
    using settlesD [OF backup_settles] by fast
  show ?thesis
  proof (cases r)
    case (Inl e)
    with run show ?thesis
      by (simp add: copy_sources_def copied_def from_sum_def bnd_def attempt_def in_step_run job_fails_def Let_def,
        simp add: told_def failed_told_def)
  next
    case (Inr i)
    with run show ?thesis
      by (simp add: copy_sources_def copied_def from_sum_def bnd_def [of "ro_backup _ _ _"] bnd_def [of "in_step ''backup'' _"]
        in_step_run Let_def forget_old_told)
  qed
qed

lemma backup_steps_told:
  "told (backup_steps ops cfg w) = failed_told (backup_sequence ops cfg w)"
proof (cases "ro_init ops w")
  case (Pair r w1)
  then show ?thesis
    using copy_sources_told [of cfg "[JobProgress ''init'' None, job_log ''init'' ''checking repository'']" w1]
    by (cases r) (simp_all add: backup_steps_def backup_sequence_def bnd_def [of "in_step ''init'' _"] attempt_def in_step_run
        job_fails_def Let_def, simp add: told_def failed_told_def)
qed

lemma backup_job_sequence:
  "RunBackupJob ops cfg w = backup_by_sequence ops cfg w"
proof -
  obtain t w1 where c: "clock w = (Inr t, w1)" using settlesD [OF settles_clock] by blast
  obtain x w2 where s: "backup_sequence ops cfg w1 = (x, w2)" by fastforce
  obtain y w3 where j: "backup_steps ops cfg w1 = (y, w3)" by fastforce
  with s backup_steps_told [of cfg w1]
  have "w3 = w2" "map_sum id snd y = Inr (case x of Inl e \<Rightarrow> backup_base\<lparr>er_error_log := error_text e\<rparr> | Inr r \<Rightarrow> r)"
    by (simp_all add: told_def failed_told_def)
  moreover from this(2) obtain ev r where y: "y = Inr (ev, r)" by (cases y) auto
  moreover obtain n w4 where "elapsed_ms t w2 = (Inr n, w4)" using settlesD [OF settles_elapsed] by blast
  ultimately show ?thesis
    using c s j by (simp add: RunBackupJob_def RunBackupJobWithProgress_def backup_by_sequence_def bnd_def attempt_def)
qed

end

interpretation restic: backup_runner "restic_ops io r" for io r
  by unfold_locales (simp add: restic_ops_def restic_backup_settles)

interpretation plain: backup_runner "plain_ops io r" for io r
  by unfold_locales (simp add: plain_ops_def plain_backup_settles)

lemma new_executor_settles:
  "settles (NewExecutor io cfg) (\<lambda>ops. \<forall>w. RunBackupJob ops cfg w = backup_by_sequence ops cfg w)"
  unfolding NewExecutor_def
  by (auto intro!: settles_if settles_bnd [OF settles_password(1)] simp: restic.backup_job_sequence plain.backup_job_sequence)


section \<open>Every job ends with a result of its type\<close>

lemma in_step_Inl: "in_step s m w = (Inl e, w') \<Longrightarrow> error_text e \<noteq> ''''"
  by (auto simp: in_step_run split: prod.splits sum.splits)

lemma backup_sequence_run:
  "backup_sequence ops cfg w = (Inr r, w') \<Longrightarrow> \<exists>ss n. r = backup_done ss n"
  "backup_sequence ops cfg w = (Inl e, w') \<Longrightarrow> error_text e \<noteq> ''''"
  unfolding backup_sequence_def by (auto simp: bnd_Inr bnd_Inl dest: in_step_Inl)

lemma backup_by_sequence_settles:
  "settles (backup_by_sequence ops cfg) (\<lambda>r. er_type r = ''backup'' \<and>
     (er_status r = ''success'' \<and> er_error_log r = '''' \<or> er_status r = ''failed'' \<and> er_error_log r \<noteq> ''''))"
    (is "settles _ ?P")
proof -
  have "\<exists>r w'. backup_by_sequence ops cfg w = (Inr r, w') \<and> ?P r" for w
  proof -
    obtain t w1 where c: "clock w = (Inr t, w1)" using settlesD [OF settles_clock] by blast
    obtain x w2 where s: "backup_sequence ops cfg w1 = (x, w2)" by fastforce
    obtain n w4 where e: "elapsed_ms t w2 = (Inr n, w4)" using settlesD [OF settles_elapsed] by blast
    show ?thesis
    proof (cases x)
      case (Inl e1)
      with backup_sequence_run(2) s have "error_text e1 \<noteq> ''''" by blast
      with Inl c s e show ?thesis
        by (simp add: backup_by_sequence_def bnd_def attempt_def backup_base_def no_exec_result_def)
    next
      case (Inr r)
      with backup_sequence_run(1) s obtain ss m where "r = backup_done ss m" by blast
      with Inr c s e show ?thesis
        by (simp add: backup_by_sequence_def bnd_def attempt_def backup_done_def backup_base_def no_exec_result_def)
    qed
  qed
  then show ?thesis by (simp add: settles_def)
qed

lemma settles_timed: "settles (timedVerificationCheck code fn) (\<lambda>_. True)"
  unfolding timedVerificationCheck_def
  by (auto intro!: settles_bnd [OF settles_clock] settles_bnd [OF settles_elapsed] settles_attempt split: sum.splits)

text \<open>A verification never takes back a check.\<close>

definition keeps :: "verification_check list \<Rightarrow> verification_run \<Rightarrow> bool" where
  "keeps cs v \<longleftrightarrow> (\<exists>ds. vn_checks v = cs @ ds)"

lemma keepsI: "vn_checks v = cs @ ds \<Longrightarrow> keeps cs v"
  by (auto simp: keeps_def)

lemma keeps_refl [simp]: "keeps (vn_checks v) v" "keeps (vn_checks v) (v\<lparr>vn_error := e\<rparr>)"
  "keeps (vn_checks v) (v\<lparr>vn_checks := vn_checks v @ cs\<rparr>)" "keeps (vn_checks v) (add_check c v)"
  by (simp_all add: keeps_def add_check_def)

lemma settles_unless_ended:
  "settles rest (keeps (vn_checks v)) \<Longrightarrow> settles (unless_ended ctx v rest) (keeps (vn_checks v))"
  by (auto simp: unless_ended_def split: ctx_end.split)

lemma add_check_checks [simp]: "vn_checks (add_check c v) = vn_checks v @ [c]"
  by (simp add: add_check_def)

lemma settles_timed_check:
  assumes "\<And>c a. settles (rest c a) (keeps (vn_checks (add_check c v)))"
  shows "settles (bnd (timedVerificationCheck code fn) (\<lambda>(c, a). unless_ended ctx (add_check c v) (rest c a)))
    (keeps (vn_checks v))"
proof (rule settles_bnd [OF settles_timed], clarify)
  fix c a
  have "settles (unless_ended ctx (add_check c v) (rest c a)) (keeps (vn_checks (add_check c v)))"
    by (rule settles_unless_ended, rule assms)
  then show "settles (unless_ended ctx (add_check c v) (rest c a)) (keeps (vn_checks v))"
    by (rule settles_conseq) (auto simp: keeps_def)
qed

lemma settles_samples: "settles (runSampleRestoreCheck ops name i es tmp) (\<lambda>_. True)"
  unfolding runSampleRestoreCheck_def restore_sample_def cleanup_check_def Let_def
  by (intro settles_option settles_attempt settles_sum settles_bnd [OF settles_timed] settles_bnd [OF settles_clock]
      settles_bnd [OF settles_elapsed] settles_bnd [where Q = "\<lambda>_. True"] | clarify | rule settles_ret settles_bnd [OF settles_timed])+

lemma settles_last: "settles (last_checks ops name cfg es v) (keeps (vn_checks v))"
  unfolding last_checks_def
  by (rule settles_if, rule settles_bnd [OF settles_samples]) auto

lemma settles_check_samples: "settles (check_samples ops name ctx cfg es v) (keeps (vn_checks v))"
  unfolding check_samples_def Let_def by (rule settles_timed_check, rule settles_last)

lemma settles_contents: "settles (check_contents ops name ctx cfg v) (keeps (vn_checks v))"
  unfolding check_contents_def by (rule settles_timed_check, rule settles_check_samples)

lemma settles_repository: "settles (check_repository chk ops name ctx cfg v) (keeps (vn_checks v))"
  unfolding check_repository_def by (rule settles_timed_check, rule settles_contents)

lemma settles_checks: "settles (verification_checks chk ops name ctx cfg) (\<lambda>v. vn_checks v \<noteq> [])"
  unfolding verification_checks_def Let_def
proof (rule settles_bnd [OF settles_timed], clarify)
  fix c :: verification_check and found :: "snapshot_info list option"
  let ?v = "\<lparr>vn_checks = [c], vn_snapshot_id = '''', vn_error = ''''\<rparr>"
  have rest: "settles m (keeps (vn_checks ?v)) \<Longrightarrow> settles (unless_ended ctx ?v m) (\<lambda>v. vn_checks v \<noteq> [])" for m
    by (rule settles_conseq [OF settles_unless_ended]) (auto simp: keeps_def)
  have repo: "settles (check_repository chk ops name ctx cfg (?v\<lparr>vn_snapshot_id := i\<rparr>)) (keeps (vn_checks ?v))" for i
    using settles_repository [of chk ops name ctx cfg "?v\<lparr>vn_snapshot_id := i\<rparr>"] by simp
  show "settles (unless_ended ctx ?v
        (if (case found of None \<Rightarrow> [] | Some ss \<Rightarrow> ss) = [] then ret (add_check (verificationCheck ''snapshot_available''
           VerificationCheckStatusFailed VerificationSeverityError ''no snapshots are available for verification'' '''') ?v)
         else check_repository chk ops name ctx cfg
           (?v\<lparr>vn_snapshot_id := si_id (latestSnapshot (case found of None \<Rightarrow> [] | Some ss \<Rightarrow> ss))\<rparr>)))
        (\<lambda>v. vn_checks v \<noteq> [])"
    by (rule rest, rule settles_if) (use repo in \<open>auto simp: keeps_def\<close>)
qed

lemma verification_outcome_typed:
  "vn_checks v0 \<noteq> [] \<Longrightarrow> er_type (verification_outcome v0 ms) = ''verify'' \<and>
   (\<exists>v. er_verification (verification_outcome v0 ms) = Some v \<and> vr_checks v \<noteq> [] \<and>
     er_status (verification_outcome v0 ms) = (if list_ex failed_check (vr_checks v) then ''failed'' else ''success''))"
  by (simp add: verification_outcome_def verificationOverallStatus_def Let_def)

lemma verification_settles:
  "settles (RunVerificationJob chk ops name ctx vcfg) (\<lambda>r. er_type r = ''verify'' \<and> (\<exists>v. er_verification r = Some v \<and>
     vr_checks v \<noteq> [] \<and> er_status r = (if list_ex failed_check (vr_checks v) then ''failed'' else ''success'')))"
  unfolding RunVerificationJob_def
  by (rule settles_bnd [OF settles_clock], rule settles_bnd [OF settles_checks], rule settles_bnd [OF settles_elapsed],
      rule settles_ret, rule verification_outcome_typed)

lemma jobs_end_typed_backup:
  "\<exists>r w'. bnd (NewExecutor io cfg) (\<lambda>ops. RunBackupJob ops cfg) w = (Inr r, w') \<and> er_type r = ''backup'' \<and>
     (er_status r = ''success'' \<and> er_error_log r = '''' \<or> er_status r = ''failed'' \<and> er_error_log r \<noteq> '''')"
proof -
  obtain ops1 w1 where "NewExecutor io cfg w = (Inr ops1, w1)" "\<forall>w. RunBackupJob ops1 cfg w = backup_by_sequence ops1 cfg w"
    using settlesD [OF new_executor_settles] by blast
  then show ?thesis
    using settlesD [OF backup_by_sequence_settles, of ops1 cfg w1] by (auto simp: bnd_def)
qed


section \<open>An idle shell, to evaluate on\<close>

definition idle_floats :: float_ops where
  "idle_floats = \<lparr>fo_of_int = (\<lambda>n. n), fo_to_int = (\<lambda>x. x), fo_add = (+), fo_mul = (*), fo_div = (\<lambda>x y. x), fo_fmt1 = (\<lambda>x. '''')\<rparr>"

definition idle_io :: runner_io where
  "idle_io = \<lparr>rio_snapshots = (\<lambda>s. Inr []), rio_stats = (\<lambda>s. Inr 0), rio_node = (\<lambda>s. None), rio_message = (\<lambda>s. None),
     rio_text = Some, rio_plain_meta = (\<lambda>s. Inr ('''', [''/srv/data''])), rio_size = (\<lambda>s. Inr 0), rio_is_dir = (\<lambda>s. Inr True),
     rio_items = (\<lambda>s. Inr []), rio_nonneg_float = (\<lambda>s. False), rio_nonneg_duration = (\<lambda>s. False), rio_parse_time = (\<lambda>s. 0),
     rio_hash = (\<lambda>s. s), rio_quote = (\<lambda>s. s), rio_floats = idle_floats\<rparr>"

definition idle_shell :: shell where
  "idle_shell = \<lparr>sh_log = [], sh_run = (\<lambda>done c. \<lparr>co_stdout = '''', co_stderr = '''', co_err = None\<rparr>)\<rparr>"

definition idle_world :: "(fs, shell) world" where
  "idle_world = \<lparr>w_db = [], w_hub = idle_shell, w_faults = [], w_others = [], w_clock = [], w_now = 0\<rparr>"

definition idle_plain :: plain_runner where
  "idle_plain = \<lparr>pr_rclone_conf = ''/etc/vaultfleet/rclone.conf'', pr_repo_path = ''repo'', pr_extra_args = []\<rparr>"

definition idle_restic :: restic_runner where
  "idle_restic = \<lparr>rr_rclone_conf = ''/etc/vaultfleet/rclone.conf'', rr_password_file = ''/etc/vaultfleet/.restic-password'',
     rr_repo_path = ''repo'', rr_extra_args = [(''transfers'', ''4''), (''config'', ''/tmp/evil'')]\<rparr>"

section \<open>A verification cut short\<close>



section \<open>Arguments for rclone\<close>

definition has_blank :: "string \<Rightarrow> bool" where
  "has_blank s \<longleftrightarrow> contains_any s [CHR '' '', CHR 0x09, CHR 0x0D, CHR 0x0A]"

lemma true_unblank [simp]: "\<not> contains_any ''true'' [CHR '' '', CHR 0x09, cr, nl]"
  by (simp add: contains_any_def)

lemma normalized_value:
  "normalizeRcloneExtraArgValue io key v = Some n \<Longrightarrow> isAllowedRcloneExtraArg key \<and> n \<noteq> '''' \<and> \<not> has_blank n"
  by (auto simp: normalizeRcloneExtraArgValue_def isAllowedRcloneExtraArg_def has_blank_def Let_def split: if_splits)

lemma allowed_no_blank: "isAllowedRcloneExtraArg key \<Longrightarrow> \<not> has_blank (''--'' @ key)"
  by (auto simp: isAllowedRcloneExtraArg_def has_blank_def contains_any_def)

lemma extra_arg_cases:
  "a \<in> set (extra_arg io extra key) \<Longrightarrow>
     \<exists>v. map_of extra key = Some v \<and> isAllowedRcloneExtraArg key \<and>
       (a = ''--'' @ key \<or> normalizeRcloneExtraArgValue io key v = Some a)"
  by (cases "map_of extra key"; cases "normalizeRcloneExtraArgValue io key (the (map_of extra key))")
    (auto simp: extra_arg_def split: if_splits)

lemma extra_args_unblank: "a \<in> set (normalizedRcloneExtraArgs io extra) \<Longrightarrow> CHR '' '' \<notin> set a"
  unfolding normalizedRcloneExtraArgs_def
  by (auto dest!: extra_arg_cases normalized_value allowed_no_blank simp: has_blank_def contains_any_def)

lemma split_spaced:
  "(\<And>a. a \<in> set as \<Longrightarrow> c \<notin> set a) \<Longrightarrow> c \<notin> set s \<Longrightarrow> split_on c (s @ concat (map (\<lambda>a. c # a) as)) = s # as"
proof (induction as arbitrary: s)
  case (Cons a as)
  then show ?case by (simp add: split_on_append split_on_no_sep)
qed (simp add: split_on_no_sep)

text \<open>C35. Extra arguments from the policy's storage cannot smuggle in others: splitting the value of restic's
  rclone.args at the blanks gives back the fixed arguments and the normalized ones, and each of these is a flag of
  the allowed list that the configuration names, or the normalized value of one.\<close>

theorem rclone_args_whitelisted:
  assumes "CHR '' '' \<notin> set (rr_rclone_conf r)"
  shows "\<exists>args. split_on (CHR '' '') (rcloneServeArgs io r) =
      [''serve'', ''restic'', ''--stdio'', ''--config'', rr_rclone_conf r] @ args \<and>
    (\<forall>a \<in> set args. \<exists>key v. map_of (rr_extra_args r) key = Some v \<and> isAllowedRcloneExtraArg key \<and>
       (a = ''--'' @ key \<or> normalizeRcloneExtraArgValue io key v = Some a))"
proof -
  let ?args = "normalizedRcloneExtraArgs io (rr_extra_args r)"
  have "rcloneServeArgs io r = ''serve'' @ concat (map (\<lambda>a. CHR '' '' # a)
      (''restic'' # ''--stdio'' # ''--config'' # rr_rclone_conf r # ?args))"
    by (simp add: rcloneServeArgs_def)
  moreover have "split_on (CHR '' '') (''serve'' @ concat (map (\<lambda>a. CHR '' '' # a)
      (''restic'' # ''--stdio'' # ''--config'' # rr_rclone_conf r # ?args))) =
      ''serve'' # ''restic'' # ''--stdio'' # ''--config'' # rr_rclone_conf r # ?args"
    using assms extra_args_unblank by (intro split_spaced) auto
  ultimately have "split_on (CHR '' '') (rcloneServeArgs io r) =
      [''serve'', ''restic'', ''--stdio'', ''--config'', rr_rclone_conf r] @ ?args" by simp
  moreover have "\<forall>a \<in> set ?args. \<exists>key v. map_of (rr_extra_args r) key = Some v \<and> isAllowedRcloneExtraArg key \<and>
       (a = ''--'' @ key \<or> normalizeRcloneExtraArgValue io key v = Some a)"
    unfolding normalizedRcloneExtraArgs_def using extra_arg_cases by fastforce
  ultimately show ?thesis by blast
qed

theorem rclone_args_whitelisted_witness:
  "\<exists>args. split_on (CHR '' '') (rcloneServeArgs idle_io idle_restic) =
      [''serve'', ''restic'', ''--stdio'', ''--config'', ''/etc/vaultfleet/rclone.conf''] @ args"
proof -
  have "CHR '' '' \<notin> set (rr_rclone_conf idle_restic)" by (simp add: idle_restic_def)
  then obtain args where "split_on (CHR '' '') (rcloneServeArgs idle_io idle_restic) =
      [''serve'', ''restic'', ''--stdio'', ''--config'', rr_rclone_conf idle_restic] @ args"
    using rclone_args_whitelisted [of idle_restic idle_io] by blast
  then show ?thesis by (auto simp: idle_restic_def)
qed

section \<open>Restoring from plain files\<close>



end
