(* ===== verification/VF_ArchiveLaws.thy ===== *)
theory VF_ArchiveLaws
  imports VF_Archive VF_ExecutorLaws
begin

text \<open>
  What the archive of an archive backup holds: every planned file, at its planned size, unless a warning
  says that it is left out; and what a disk that fills up at the very end does to it.
\<close>

section \<open>Runs that only add to the archive\<close>

definition extends :: "archive_state \<Rightarrow> archive_state \<Rightarrow> bool" where
  "extends s t \<longleftrightarrow> (\<exists>es ws. as_entries t = as_entries s @ es \<and> as_warnings t = as_warnings s @ ws)"

lemma extendsI: "as_entries t = as_entries s @ es \<Longrightarrow> as_warnings t = as_warnings s @ ws \<Longrightarrow> extends s t"
  by (auto simp: extends_def)

lemma extends_refl [simp]: "extends s s" "extends s (s\<lparr>as_reporter := r\<rparr>)"
  by (auto simp: extends_def)

lemma extends_trans: "extends s t \<Longrightarrow> extends t u \<Longrightarrow> extends s u"
  by (fastforce simp: extends_def)

definition holds :: "archive_state \<Rightarrow> archive_file \<Rightarrow> bool" where
  "holds s f \<longleftrightarrow> (\<exists>e \<in> set (as_entries s). ae_name e = af_name f \<and> length (ae_data e) = af_size f) \<or>
     (\<exists>x \<in> set (as_warnings s). mw_source x = af_path f)"

lemma holds_extends: "holds s f \<Longrightarrow> extends s t \<Longrightarrow> holds t f"
  by (auto simp: holds_def extends_def)

lemma length_limited [simp]: "length (limited n c) = n"
  by (simp add: limited_def copyZeroPadding_def)

lemma in_context_run: "in_context_of ai p m w = (Inr a, w') \<Longrightarrow> m w = (Inr a, w')"
  by (auto simp: in_context_of_def split: option.splits)

lemma write_entry_run:
  "write_entry ai out fmt e s w = (Inr t, w') \<Longrightarrow> t = s\<lparr>as_entries := as_entries s @ [e]\<rparr>"
  by (auto simp: write_entry_def bnd_Inr)

lemma copy_run: "copyArchiveSource fo n c p r w = (Inr (data, r'), w') \<Longrightarrow> data = limited n c"
  by (auto simp: copyArchiveSource_def bnd_Inr)

lemma write_regular_run:
  "write_regular ai fo out fmt f s w = (Inr t, w') \<Longrightarrow> extends s t \<and> holds t f"
  unfolding write_regular_def
  by (fastforce simp: attempt_run sum_run if_run bnd_Inr extends_def holds_def skippedArchiveFileWarning_def
      dest!: write_entry_run copy_run)

lemma write_files_run:
  "write_files ai fo out fmt fs s w = (Inr t, w') \<Longrightarrow>
     extends s t \<and> (\<forall>f \<in> set fs. af_regular f \<longrightarrow> holds t f)"
proof (induction fs arbitrary: s w)
  case (Cons f fs)
  let ?first = "if af_regular f then write_regular ai fo out fmt f s
           else if fmt = ArchiveFormatZip then ret s
           else write_entry ai out fmt \<lparr>ae_name = af_name f, ae_data = ''''\<rparr> s"
  from Cons.prems have "bnd ?first (write_files ai fo out fmt fs) w = (Inr t, w')"
    by (auto dest!: in_context_run)
  then obtain u w1 where u: "?first w = (Inr u, w1)" "write_files ai fo out fmt fs u w1 = (Inr t, w')"
    by (auto simp: bnd_Inr)
  from u(1) have "extends s u \<and> (af_regular f \<longrightarrow> holds u f)"
    by (auto split: if_splits dest!: write_regular_run write_entry_run simp: extends_def)
  with Cons.IH [OF u(2)] show ?case
    by (auto intro: extends_trans holds_extends)
qed simp

lemma write_extras_run:
  "write_extras ai fo out fmt xs s w = (Inr t, w') \<Longrightarrow> extends s t"
proof (induction xs arbitrary: s w)
  case (Cons x xs)
  show ?case
  proof (cases "safeArchiveRootName (fst x)")
    case (Some name)
    with Cons.prems obtain u w1 r w2
      where u: "write_entry ai out fmt \<lparr>ae_name = name, ae_data = snd x\<rparr> s w = (Inr u, w1)"
        "write_extras ai fo out fmt xs (u\<lparr>as_reporter := r\<rparr>) w2 = (Inr t, w')"
      by (auto simp: bnd_Inr)
    from write_entry_run [OF u(1)] have "extends s (u\<lparr>as_reporter := r\<rparr>)" by (simp add: extends_def)
    with Cons.IH [OF u(2)] show ?thesis by (rule extends_trans [rotated])
  qed (use Cons in simp)
qed simp

lemma write_archive_run:
  assumes "write_archive_as ai fo out fmt fs xs r w = (Inr t, w')" "f \<in> set fs" "af_regular f"
  shows "holds t f"
proof -
  let ?s0 = "\<lparr>as_entries = [], as_warnings = [], as_reporter = r\<rparr>"
  from assms(1) obtain s1 s2 w1 w2 w3 w4 where s: "write_extras ai fo out fmt xs ?s0 w1 = (Inr s1, w2)"
      "write_files ai fo out fmt fs s1 w2 = (Inr s2, w3)" "as_entries t = as_entries s2" "as_warnings t = as_warnings s2"
    unfolding write_archive_as_def by (auto simp: bnd_Inr attempt_run sum_run)
  from write_files_run [OF s(2)] assms(2,3) have "holds s2 f" by blast
  with s(3,4) show ?thesis by (simp add: holds_def)
qed

text \<open>C37. An archive that was written leaves nothing out silently: every regular file that was planned has an
  entry under its name with exactly as many bytes as were planned, or a warning names it.\<close>

theorem archive_holds_planned_files:
  assumes "planArchiveFiles ai fuel dirs excludes w = (Inr plan, w1)"
    and "writeArchive ai fo fuel output format dirs excludes extra w = (Inr s, w')"
    and "f \<in> set (ap_files plan)" and "af_regular f"
  shows "(\<exists>e \<in> set (as_entries s). ae_name e = af_name f \<and> length (ae_data e) = af_size f) \<or>
    (\<exists>x \<in> set (as_warnings s). mw_source x = af_path f)"
proof -
  from assms(1,2) obtain u xs r fmt where u: "write_archive_as ai fo output fmt (ap_files plan) xs r w1 = (Inr u, w')"
      "as_entries s = as_entries u" "as_warnings s = ap_warnings plan @ as_warnings u"
    unfolding writeArchive_def writeZipArchive_def writeTarGzArchive_def
    by (auto simp: bnd_Inr Let_def split: if_splits)
  from write_archive_run [OF u(1) assms(3,4)] u(2,3) show ?thesis
    by (auto simp: holds_def)
qed

section \<open>Small archives\<close>

text \<open>An archive of which only the number of entries and whether it was closed can be seen.\<close>

definition small_ai :: archive_io where
  "small_ai = \<lparr>ai_bytes = (\<lambda>fmt es closed. concat (map ae_data es) @ (if closed then ''END'' else '''')),
     ai_parse_manifest = (\<lambda>s. None), ai_marshal_manifest = (\<lambda>m. None), ai_ctx = (\<lambda>p. None)\<rparr>"

definition small_world :: "bool list \<Rightarrow> (fs, shell) world" where
  "small_world faults = \<lparr>w_db = [(''/srv/a'', File '''')], w_hub = idle_shell, w_faults = faults, w_others = [],
     w_clock = [], w_now = 1\<rparr>"

definition small_plan :: archive_plan where
  "small_plan = \<lparr>ap_files = [\<lparr>af_path = ''/srv/a'', af_name = ''srv/a'', af_regular = True, af_size = 0\<rparr>], ap_warnings = []\<rparr>"

theorem archive_holds_planned_files_witness:
  "\<exists>s w'. writeArchive small_ai idle_floats 5 ''/x.zip'' ''zip'' [''/srv/a''] [] [] (small_world []) = (Inr s, w') \<and>
    ((\<exists>e \<in> set (as_entries s). ae_name e = ''srv/a'' \<and> length (ae_data e) = 0) \<or>
     (\<exists>x \<in> set (as_warnings s). mw_source x = ''/srv/a''))"
proof -
  let ?f = "\<lparr>af_path = ''/srv/a'', af_name = ''srv/a'', af_regular = True, af_size = 0\<rparr>"
  have "fst (planArchiveFiles small_ai 5 [''/srv/a''] [] (small_world [])) = Inr small_plan" by code_simp
  then obtain w1 where plan: "planArchiveFiles small_ai 5 [''/srv/a''] [] (small_world []) = (Inr small_plan, w1)"
    by (metis prod.collapse)
  have "\<not> isl (fst (writeArchive small_ai idle_floats 5 ''/x.zip'' ''zip'' [''/srv/a''] [] [] (small_world [])))" by code_simp
  then obtain s w' where run: "writeArchive small_ai idle_floats 5 ''/x.zip'' ''zip'' [''/srv/a''] [] [] (small_world []) = (Inr s, w')"
    by (metis prod.collapse sum.collapse(2))
  from archive_holds_planned_files [OF plan run, of ?f] run show ?thesis
    by (simp add: small_plan_def)
qed

section \<open>An archive that was never closed\<close>

definition small_config :: exec_config where
  "small_config = \<lparr>ec_config_dir = ''/c'', ec_repo_path = ''repo'', ec_backup_dirs = [''/srv/a''], ec_excludes = [],
     ec_retention = \<lparr>keep_last = 0, keep_daily = 0, keep_weekly = 0, keep_monthly = 0\<rparr>, ec_rclone_args = [],
     ec_plain_backup = False, ec_backup_mode = ''archive'', ec_archive_format = ''zip'', ec_artifact_context_name = ''data'',
     ec_archive_remote_dir_template = '''', ec_archive_name_template = '''', ec_naming = no_naming, ec_extra_files = [],
     ec_pre_hook = None, ec_post_hook = None\<rparr>"

definition small_naming :: naming_metadata where
  "small_naming = \<lparr>nm_context_name = '''', nm_site_name = '''', nm_source_type = ''path'', nm_remote_dir = ''data'',
     nm_artifact_name = ''data.zip'', nm_artifact_path = ''data/data.zip'', nm_remote_dir_template = '''', nm_name_template = '''',
     nm_variables = [], nm_warnings = [], nm_legacy = True\<rparr>"

lemma no_progress [code]:
  "scanCommandProgressLines out = (if out = '''' then []
     else filter (\<lambda>l. l \<noteq> '''') (map trim_space (takeWhile (\<lambda>l. length l < scan_limit) (progress_split '''' out))))"
  by (simp add: scanCommandProgressLines_def)


end
