(* ===== verification/VF_RequestLaws.thy ===== *)
theory VF_RequestLaws
  imports VF_AgentRequests VF_ArchiveLaws VF_PolicyPushLaws
begin

text \<open>
  Every backup, verification and restore the master asks for is answered by exactly one task result,
  under the id of the request and of its type, however the disk fails and whatever the commands do, as
  long as the connection takes messages.
\<close>

declare quiet_ret [simp del] quiet_raise [simp del]

section \<open>The results a program sends\<close>

definition tells :: "'a handler_prog \<Rightarrow> ('a outcome \<Rightarrow> (string \<times> task_result) list \<Rightarrow> bool) \<Rightarrow> bool" where
  "tells m Q \<longleftrightarrow> (\<forall>w. as_send_fails (w_hub w) = [] \<longrightarrow> (\<exists>r w' rs. m w = (r, w') \<and> as_send_fails (w_hub w') = [] \<and>
     sent_results (w_hub w') = sent_results (w_hub w) @ rs \<and> Q r rs))"

text \<open>Programs that send no result, and those that also do not raise.\<close>

definition silent :: "'a handler_prog \<Rightarrow> bool" where
  "silent m \<longleftrightarrow> tells m (\<lambda>r rs. rs = [])"

definition settled :: "'a handler_prog \<Rightarrow> ('a \<Rightarrow> bool) \<Rightarrow> bool" where
  "settled m P \<longleftrightarrow> tells m (\<lambda>r rs. rs = [] \<and> (\<exists>a. r = Inr a \<and> P a))"

lemma tellsD: "tells m Q \<Longrightarrow> as_send_fails (w_hub w) = [] \<Longrightarrow> \<exists>r w' rs. m w = (r, w') \<and> as_send_fails (w_hub w') = [] \<and>
    sent_results (w_hub w') = sent_results (w_hub w) @ rs \<and> Q r rs"
  by (simp add: tells_def)

lemma tells_conseq: "tells m Q \<Longrightarrow> (\<And>r rs. Q r rs \<Longrightarrow> Q' r rs) \<Longrightarrow> tells m Q'"
  unfolding tells_def by metis

lemma tells_attempt:
  assumes "tells m (\<lambda>r rs. tells (k r) (\<lambda>r' rs'. Q r' (rs @ rs')))"
  shows "tells (attempt m k) Q"
  unfolding tells_def
proof (intro allI impI)
  fix w :: "(fs, agent_state) world" assume up: "as_send_fails (w_hub w) = []"
  from tellsD [OF assms up] obtain r w1 rs where 1: "m w = (r, w1)" "as_send_fails (w_hub w1) = []"
      "sent_results (w_hub w1) = sent_results (w_hub w) @ rs" "tells (k r) (\<lambda>r' rs'. Q r' (rs @ rs'))" by blast
  from tellsD [OF 1(4,2)] obtain r' w2 rs' where "k r w1 = (r', w2)" "as_send_fails (w_hub w2) = []"
      "sent_results (w_hub w2) = sent_results (w_hub w1) @ rs'" "Q r' (rs @ rs')" by blast
  with 1 show "\<exists>r w' rs. attempt m k w = (r, w') \<and> as_send_fails (w_hub w') = [] \<and>
      sent_results (w_hub w') = sent_results (w_hub w) @ rs \<and> Q r rs"
    by (simp add: attempt_def)
qed

lemma tells_ret: "Q (Inr a) [] \<Longrightarrow> tells (ret a) Q"
  by (simp add: tells_def ret_def)

lemma tells_raise: "Q (Inl e) [] \<Longrightarrow> tells (raise e) Q"
  by (simp add: tells_def raise_def)

lemma tells_after_silent: "silent m \<Longrightarrow> (\<And>r. tells (k r) Q) \<Longrightarrow> tells (attempt m k) Q"
  unfolding silent_def by (rule tells_attempt, erule tells_conseq) simp

lemma tells_after: "settled m P \<Longrightarrow> (\<And>a. P a \<Longrightarrow> tells (k a) Q) \<Longrightarrow> tells (bnd m k) Q"
  unfolding settled_def bnd_attempt by (rule tells_attempt, erule tells_conseq) auto

lemma tells_if: "(b \<Longrightarrow> tells m Q) \<Longrightarrow> (\<not> b \<Longrightarrow> tells n Q) \<Longrightarrow> tells (if b then m else n) Q"
  by simp

lemma tells_sum: "(\<And>e. x = Inl e \<Longrightarrow> tells (f e) Q) \<Longrightarrow> (\<And>a. x = Inr a \<Longrightarrow> tells (g a) Q) \<Longrightarrow>
    tells (case x of Inl e \<Rightarrow> f e | Inr a \<Rightarrow> g a) Q"
  by (cases x) simp_all

lemma tells_option: "(x = None \<Longrightarrow> tells m Q) \<Longrightarrow> (\<And>a. x = Some a \<Longrightarrow> tells (g a) Q) \<Longrightarrow>
    tells (case x of None \<Rightarrow> m | Some a \<Rightarrow> g a) Q"
  by (cases x) simp_all

lemma tells_pair: "(\<And>a b. x = (a, b) \<Longrightarrow> tells (f a b) Q) \<Longrightarrow> tells (case x of (a, b) \<Rightarrow> f a b) Q"
  by (cases x) simp

lemmas tells_branches = tells_if tells_sum tells_option tells_pair

section \<open>Programs that send no result\<close>

lemma silent_ret [intro]: "silent (ret a)"
  by (simp add: silent_def tells_ret)

lemma silent_raise [intro]: "silent (raise e)"
  by (simp add: silent_def tells_raise)

lemma silent_attempt: "silent m \<Longrightarrow> (\<And>r. silent (k r)) \<Longrightarrow> silent (attempt m k)"
  unfolding silent_def by (rule tells_attempt, erule tells_conseq) simp

lemma silent_bnd: "silent m \<Longrightarrow> (\<And>a. silent (k a)) \<Longrightarrow> silent (bnd m k)"
  unfolding bnd_attempt by (rule silent_attempt) (auto split: sum.splits)

lemma silent_stmt: "silent (stmt f)"
proof -
  have "w_hub (snd (stmt f w)) = w_hub w" for w :: "(fs, agent_state) world"
    by (auto simp: stmt_def interfere_def in_tx_def Let_def split: prod.splits list.splits)
  then show ?thesis by (auto simp: silent_def tells_def) (metis append_Nil2 prod.collapse)
qed

lemma silent_clock: "silent clock"
  by (auto simp: silent_def tells_def clock_def split: list.splits)

lemma silent_from_sum: "silent (from_sum x)"
  by (cases x) (auto simp: from_sum_def)

lemma silent_ignoring: "silent m \<Longrightarrow> silent (ignoring m)"
  unfolding ignoring_def by (rule silent_attempt) auto

lemma silent_if: "(b \<Longrightarrow> silent m) \<Longrightarrow> (\<not> b \<Longrightarrow> silent n) \<Longrightarrow> silent (if b then m else n)"
  by simp

lemma silent_files:
  "silent (stat p)" "silent (read_file p)" "silent (put_file p c)" "silent (write_file p c)" "silent (mkdir_all p)"
  "silent (chmod p)" "silent (create_temp p)" "silent (mkdir_temp p)" "silent (remove_all p)" "silent (read_dir p)"
  unfolding stat_def read_file_def put_file_def write_file_def mkdir_all_def chmod_def create_temp_def mkdir_temp_def
    remove_all_def read_dir_def
  by (intro silent_stmt silent_bnd)+

lemma settledI: "silent m \<Longrightarrow> (\<And>w. \<exists>a w'. m w = (Inr a, w') \<and> P a) \<Longrightarrow> settled m P"
  unfolding silent_def settled_def tells_def by (metis prod.inject)

lemma settled_silent: "settled m P \<Longrightarrow> silent m"
  unfolding settled_def silent_def by (erule tells_conseq) simp

lemma settled_conseq: "settled m P \<Longrightarrow> (\<And>a. P a \<Longrightarrow> P' a) \<Longrightarrow> settled m P'"
  unfolding settled_def by (erule tells_conseq) auto

lemma settled_ret: "P a \<Longrightarrow> settled (ret a) P"
  by (simp add: settled_def tells_ret)

lemma settled_bnd: "settled m P \<Longrightarrow> (\<And>a. P a \<Longrightarrow> settled (k a) P') \<Longrightarrow> settled (bnd m k) P'"
  unfolding settled_def bnd_attempt by (rule tells_attempt, erule tells_conseq) auto

lemma settled_attempt: "silent m \<Longrightarrow> (\<And>r. settled (k r) P) \<Longrightarrow> settled (attempt m k) P"
  unfolding settled_def by (rule tells_after_silent)

lemma settled_if: "(b \<Longrightarrow> settled m P) \<Longrightarrow> (\<not> b \<Longrightarrow> settled n P) \<Longrightarrow> settled (if b then m else n) P"
  by simp

lemma settled_ignoring: "silent m \<Longrightarrow> settled (ignoring m) (\<lambda>_. True)"
  unfolding ignoring_def by (rule settled_attempt) (auto intro: settled_ret)

lemma settled_clock: "settled clock (\<lambda>_. True)"
  by (rule settledI [OF silent_clock]) (auto simp: clock_def split: list.splits)

lemma settled_draw: "settled (draw_temp dir pre) (\<lambda>_. True)"
  by (simp add: settled_def tells_def draw_temp_def sent_results_def)

lemma settled_send_line: "settled (ignoring (sendMessage hc \<lparr>ao_id = i, ao_body = b\<rparr>)) (\<lambda>_. True)"
  if "\<And>r. b \<noteq> TaskResult r"
proof (rule settled_ignoring)
  have "List.map_filter (\<lambda>m. case ao_body m of TaskResult r \<Rightarrow> Some (ao_id m, r) | _ \<Rightarrow> None)
      [\<lparr>ao_id = i, ao_body = b\<rparr>] = []"
    using that by (cases b) (simp_all add: List.map_filter_def)
  then show "silent (sendMessage hc \<lparr>ao_id = i, ao_body = b\<rparr>)"
    by (auto simp: silent_def tells_def sendMessage_def sent_results_def List.map_filter_def Let_def)
qed

lemma settled_reply: "(\<And>r. b \<noteq> TaskResult r) \<Longrightarrow> settled (reply_with hc mid b) (\<lambda>_. True)"
  unfolding reply_with_def by (intro settled_if settled_send_line) (auto intro: settled_ret)

lemma settled_message_id: "settled (message_id mid) (\<lambda>_. True)"
  unfolding message_id_def
  by (intro settled_if) (simp add: draw_id_def settled_def tells_def sent_results_def, rule settled_ret, simp)

lemma settled_send_lines: "settled (send_lines hc ps) (\<lambda>_. True)"
  by (induction ps) (auto intro!: settled_ret settled_bnd [OF settled_send_line])

lemma settled_log: "settled (log_text hc level phase stream line e) (\<lambda>_. True)"
  unfolding log_text_def Let_def
  by (intro settled_bnd [OF settled_clock] settled_bnd [OF settled_send_lines] settled_ret) simp

lemma settled_logs: "settled (log_info hc phase line e) (\<lambda>_. True)" "settled (log_error hc phase line e) (\<lambda>_. True)"
  by (simp_all add: log_info_def log_error_def settled_log)

lemma settled_progress: "settled (backupProgressCallback hc fo mid a phase p es) (\<lambda>_. True)"
proof -
  have "settled (sendBackupProgress hc mid x) (\<lambda>_. True)" for x
    unfolding sendBackupProgress_def
    by (intro settled_if settled_bnd [OF settled_message_id] settled_send_line) (auto intro: settled_ret)
  then show ?thesis
    unfolding backupProgressCallback_def Let_def
    by (cases es) (auto intro!: settled_bnd [OF settled_clock] settled_bnd [where P = "\<lambda>_. True"] settled_if settled_logs settled_ret)
qed

lemma settled_deliver: "settled (deliver hc fo mid a evs es) (\<lambda>_. True)"
  by (induction hc fo mid a evs es rule: deliver.induct)
    (auto intro!: settled_ret settled_bnd [OF settled_progress] settled_bnd [OF settled_log])

lemma silent_shell: "silent (on_shell sh m)"
  by (auto simp: silent_def tells_def on_shell_def split: prod.splits)

lemma settled_shell: "settles m P \<Longrightarrow> settled (on_shell sh m) P"
proof (rule settledI [OF silent_shell])
  fix w :: "(fs, agent_state) world"
  assume "settles m P"
  from settlesD [OF this] obtain a v where "m \<lparr>w_db = w_db w, w_hub = sh, w_faults = w_faults w, w_others = w_others w,
      w_clock = w_clock w, w_now = w_now w\<rparr> = (Inr a, v) \<and> P a" by blast
  then show "\<exists>a w'. on_shell sh m w = (Inr a, w') \<and> P a" by (auto simp: on_shell_def)
qed

lemma silent_rclone_conf: "silent (ensureRcloneConf hc p)"
  unfolding ensureRcloneConf_def WriteRcloneConf_def
  by (intro silent_if silent_raise silent_bnd silent_files silent_from_sum)

lemma silent_load: "silent (policy_for hc p)" "silent (LoadPolicy js dir)"
proof -
  have one: "silent (loadPolicyFile js p)" for js p
    unfolding loadPolicyFile_def by (intro silent_bnd silent_files silent_from_sum)
  then have "silent (load_entries js dir es acc)" for js dir es acc
    by (induction js dir es acc rule: load_entries.induct) (auto intro!: silent_bnd)
  then have "silent (LoadPolicies js dir)" for js dir
    unfolding LoadPolicies_def
    by (intro silent_attempt one) (auto intro!: silent_attempt silent_files silent_bnd split: sum.splits)
  then show "silent (LoadPolicy js dir)" for js dir
    unfolding LoadPolicy_def by (auto intro!: silent_bnd silent_if)
  then show "silent (policy_for hc p)"
    by (auto simp: policy_for_def split: option.splits)
qed

lemma tells_finally: "silent c \<Longrightarrow> tells m Q \<Longrightarrow> tells (finally_do c m) Q"
  unfolding finally_do_def
proof (rule tells_attempt, erule tells_conseq)
  fix r rs assume c: "silent c" and q: "Q r rs"
  show "tells (bnd (ignoring c) (\<lambda>_. from_sum r)) (\<lambda>r' rs'. Q r' (rs @ rs'))"
    by (rule tells_after [OF settled_ignoring [OF c]])
      (use q in \<open>cases r; auto simp: from_sum_def intro: tells_ret tells_raise\<close>)
qed

section \<open>One result\<close>

definition one_result :: "string \<Rightarrow> string \<Rightarrow> 'a outcome \<Rightarrow> (string \<times> task_result) list \<Rightarrow> bool" where
  "one_result mid taskType r rs \<longleftrightarrow> (\<exists>a. r = Inr a) \<and> (\<exists>t. rs = [(mid, t)] \<and> tr_task_type t = taskType)"

definition connected :: "handler_config \<Rightarrow> bool" where
  "connected hc \<longleftrightarrow> hc_ids hc \<and> hc_has_send hc"

lemma sent_results_snoc:
  "sent_results (h\<lparr>as_send_fails := f, as_sent := as_sent h @ [m]\<rparr>) =
   sent_results h @ (case ao_body m of TaskResult r \<Rightarrow> [(ao_id m, r)] | _ \<Rightarrow> [])"
  by (cases "ao_body m") (simp_all add: sent_results_def List.map_filter_def)

lemma tells_result:
  "connected hc \<Longrightarrow> mid \<noteq> '''' \<Longrightarrow> tr_task_type t = ty \<Longrightarrow> tells (sendTaskResultWithID hc mid t) (one_result mid ty)"
  by (auto simp: tells_def sendTaskResultWithID_def connected_def message_id_def bnd_def attempt_def sendMessage_def
      sent_results_snoc one_result_def ret_def Let_def)

lemma tells_result_then:
  "connected hc \<Longrightarrow> mid \<noteq> '''' \<Longrightarrow> tr_task_type t = ty \<Longrightarrow>
   tells (bnd (sendTaskResultWithID hc mid t) (\<lambda>_. ret a)) (one_result mid ty)"
  unfolding bnd_attempt
  by (rule tells_attempt, rule tells_conseq [OF tells_result]) (auto simp: one_result_def intro!: tells_ret)

lemma failed_types [simp]:
  "tr_task_type (failedTypedTaskResult mj a ty s e t) = ty"
  "tr_task_type (failedTaskResult mj a e t) = ''backup''"
  "tr_task_type (failedPolicyTaskResult mj a e t p) = ''backup''"
  by (simp_all add: failedTypedTaskResult_def failedTaskResult_def failedPolicyTaskResult_def ToProtocol_def no_exec_result_def)

lemma result_type [simp]: "tr_task_type (ToProtocol mj a t r) = er_type r"
  by (simp add: ToProtocol_def)

section \<open>The contract of the runners\<close>

locale agent_runners =
  fixes rv :: request_env
  assumes backup_type: "settles (hv_backup (rv_env rv) cfg) (\<lambda>(evs, r). er_type r = ''backup'')"
    and verify_type: "settles (hv_verify (rv_env rv) cfg settings) (\<lambda>r. er_type r = ''verify'')"
    and database_settles: "settles (hv_database (rv_env rv) sources) (\<lambda>_. True)"
    and docker_settles: "settles (rv_docker_restore rv containers) (\<lambda>_. True)"
begin

abbreviation env :: handler_env where "env \<equiv> rv_env rv"

lemma settled_hook: "settled (runPolicyHookWithLogs hc env h phase e) (\<lambda>_. True)"
proof -
  have failed: "settled (hook_failed hc env ph out err e) (\<lambda>_. True)" for ph out err e
    unfolding hook_failed_def Let_def
    by (intro settled_if) (auto intro!: settled_bnd [OF settled_logs(2)] settled_ret)
  show ?thesis
  proof (cases h)
    case None
    then show ?thesis by (simp add: runPolicyHookWithLogs_def settled_ret)
  next
    case (Some x)
    have "settled (on_shell sh (run_cmd p args i)) (\<lambda>_. True)" for sh p args i
      by (rule settled_shell, rule settles_run_cmd)
    with failed show ?thesis
      unfolding runPolicyHookWithLogs_def Some option.case Let_def
      by (intro settled_if settled_bnd [OF settled_logs(1)] settled_bnd [where P = "\<lambda>_. True"])
        (auto intro!: settled_ret settled_log settled_if settled_bnd [OF settled_logs(1)] split: option.splits)
  qed
qed

lemma backup_fails_tells:
  "connected hc \<Longrightarrow> bk_message_id b \<noteq> '''' \<Longrightarrow>
   tells (backup_fails hc env b p phase line step err e) (one_result (bk_message_id b) ''backup'')"
  unfolding backup_fails_def
  by (rule tells_after [OF settled_logs(2)], rule tells_result_then) simp_all

lemma settled_post_hook:
  "er_type r = ''backup'' \<Longrightarrow> settled (post_hook hc env cfg r e) (\<lambda>(e, r). er_type r = ''backup'')"
  unfolding post_hook_def
  by (auto simp: cancelled_result_def intro!: settled_if settled_bnd [OF settled_hook] settled_bnd [OF settled_logs(2)] settled_ret
      split: option.splits)

lemma backup_finish_tells:
  "connected hc \<Longrightarrow> bk_message_id b \<noteq> '''' \<Longrightarrow> er_type r = ''backup'' \<Longrightarrow>
   tells (backup_finish hc env b cfg r e) (one_result (bk_message_id b) ''backup'')"
  unfolding backup_finish_def
  by (rule tells_after [OF settled_post_hook], assumption, clarify)
    (rule tells_after [where P = "\<lambda>_. True"], rule settled_if, (rule settled_logs)+, rule tells_result_then, simp_all)

lemma backup_execute_tells:
  assumes "connected hc" "bk_message_id b \<noteq> ''''"
  shows "tells (backup_execute hc env b cfg database doc e) (one_result (bk_message_id b) ''backup'')"
proof -
  have "er_type (with_metadata b database doc r) = er_type r" for r
    by (simp add: with_metadata_def Let_def split: option.splits)
  with assms show ?thesis
    unfolding backup_execute_def Let_def
    by (auto intro!: tells_after [OF settled_logs(1)] tells_after [OF settled_shell [OF backup_type]]
        tells_after [OF settled_deliver] backup_finish_tells)
qed

lemma silent_manifest: "silent (prepareBackupManifest hc env b cfg database)"
  unfolding prepareBackupManifest_def Let_def
  by (intro silent_bnd silent_attempt silent_files settled_silent [OF settled_draw] silent_from_sum)
    (auto intro!: silent_bnd silent_ignoring silent_files split: sum.splits)

lemma backup_with_manifest_tells:
  "connected hc \<Longrightarrow> bk_message_id b \<noteq> '''' \<Longrightarrow>
   tells (backup_with_manifest hc env b cfg database e) (one_result (bk_message_id b) ''backup'')"
  unfolding backup_with_manifest_def
  by (rule tells_after_silent [OF silent_manifest], rule tells_sum)
    (auto intro!: backup_fails_tells tells_finally backup_execute_tells silent_files)

lemma backup_databases_tells:
  "connected hc \<Longrightarrow> bk_message_id b \<noteq> '''' \<Longrightarrow>
   tells (backup_databases hc env b cfg e) (one_result (bk_message_id b) ''backup'')"
  unfolding backup_databases_def backup_with_dumps_def Let_def
  by (rule tells_after [OF settled_shell [OF database_settles]], clarify, rule tells_after [OF settled_deliver], clarify,
      rule tells_finally [OF silent_shell])
    (auto intro!: backup_fails_tells backup_with_manifest_tells tells_after [where P = "\<lambda>_. True"] settled_logs settled_ret
      split: sum.splits)

lemma backup_sources_tells:
  "connected hc \<Longrightarrow> bk_message_id b \<noteq> '''' \<Longrightarrow>
   tells (backup_sources hc env b e) (one_result (bk_message_id b) ''backup'')"
proof -
  assume b: "connected hc" "bk_message_id b \<noteq> ''''"
  have "tells (pre_hook hc env b1 e) (one_result (bk_message_id b1) ''backup'')" if "bk_message_id b1 \<noteq> ''''" for b1 e
    unfolding pre_hook_def Let_def
    by (rule tells_after [OF settled_hook], rule tells_pair, rule tells_option)
      (use b(1) that in \<open>auto intro: backup_databases_tells backup_fails_tells\<close>)
  from this [of "b\<lparr>bk_resolved := p, bk_docker := d\<rparr>" for p d] b
  have pre: "tells (pre_hook hc env (b\<lparr>bk_resolved := p, bk_docker := d\<rparr>) e) (one_result (bk_message_id b) ''backup'')" for p d e
    by simp
  show ?thesis
    unfolding backup_sources_def
    by (rule tells_after [OF settled_logs(1)], rule tells_sum, rule backup_fails_tells [OF b], rule tells_pair,
        rule tells_after [where P = "\<lambda>_. True"], rule settled_if)
      (auto intro: settled_ret settled_logs pre)
qed

lemma backup_tells:
  assumes "connected hc" "mid \<noteq> ''''"
  shows "tells (runBackupForPolicy hc env mid a p) (one_result mid ''backup'')"
  unfolding runBackupForPolicy_def Let_def
  using backup_fails_tells [OF assms(1), of "\<lparr>bk_message_id = mid, bk_agent_id = _, bk_started = _, bk_policy = p, bk_resolved = p,
      bk_docker = None\<rparr>"] backup_sources_tells [OF assms(1), of "\<lparr>bk_message_id = mid, bk_agent_id = _, bk_started = _,
      bk_policy = p, bk_resolved = p, bk_docker = None\<rparr>"] assms(2)
  by (intro tells_after [OF settled_clock] tells_after [OF settled_logs(1)] tells_after_silent [OF silent_rclone_conf] tells_sum) auto

lemma verify_tells:
  assumes "connected hc" "mid \<noteq> ''''"
  shows "tells (runBackupVerificationForPolicy hc env mid a p s) (one_result mid ''verify'')"
proof -
  have fails: "tells (verify_fails hc env mid a t l x e) (one_result mid ''verify'')" for a t l x e
    unfolding verify_fails_def using assms by (intro tells_after [OF settled_logs(2)] tells_result) simp_all
  have "er_type (verify_ended c r) = er_type r" for c r
    by (simp add: verify_ended_def cancelled_result_def Let_def split: ctx_end.splits)
  then have "tells (verify_execute hc env mid a t p s e) (one_result mid ''verify'')" for a t e
    unfolding verify_execute_def Let_def using assms
    by (auto intro!: tells_after [OF settled_logs(1)] tells_after [OF settled_shell [OF verify_type]] tells_after [where P = "\<lambda>_. True"]
        settled_if settled_logs tells_result)
  with fails show ?thesis
    unfolding runBackupVerificationForPolicy_def Let_def
    by (intro tells_after [OF settled_clock] tells_if tells_after [OF settled_logs(1)] tells_after_silent [OF silent_rclone_conf] tells_sum)
qed

lemma restore_tells:
  assumes "connected hc" "mid \<noteq> ''''"
  shows "tells (run_restore hc rv mid a req p) (one_result mid ''restore'')"
proof -
  have prog: "settled (sendRestoreProgress hc fo mid a s n c f src) (\<lambda>_. True)" for fo s n c f src
    unfolding sendRestoreProgress_def by (rule settled_reply) simp
  have files: "settled (restore_files hc rv req p target inc) (\<lambda>_. True)" for target inc
    unfolding restore_files_def by (rule settled_attempt [OF silent_shell], rule settled_ret) simp
  have told: "settled (tell_progress hc fo mid a s n ps) (\<lambda>_. True)" for fo s n ps
    by (induction hc fo mid a s n ps rule: tell_progress.induct)
      (auto intro!: settled_ret settled_bnd [OF settled_reply] simp: sendRestoreProgress_def)
  have "settled (restore_containers hc rv mid a req p ss) (\<lambda>_. True)" for ss
    unfolding restore_containers_def Let_def
    by (intro settled_bnd [OF prog] settled_bnd [where P = "\<lambda>_. True"] settled_if settled_ret files)
      (auto intro!: settled_ret settled_bnd [OF settled_shell [OF docker_settles]] settled_bnd [OF told] split: sum.splits)
  with prog files assms show ?thesis
    unfolding run_restore_def
    by (intro tells_after [OF settled_clock] tells_after_silent [OF silent_rclone_conf] tells_sum)
      (auto intro!: tells_result tells_after [where P = "\<lambda>_. True"] tells_after [OF settled_clock] settled_bnd [where P = "\<lambda>_. True"]
        settled_ret simp: restore_result_def Let_def split: option.splits)
qed

end

section \<open>The agent's own runners\<close>

declare settles_ret [intro!]

lemma settles_ignoring: "settles (ignoring m) (\<lambda>_. True)"
  unfolding ignoring_def by (rule settles_attempt) auto

lemma settles_true: "settles m P \<Longrightarrow> settles m (\<lambda>_. True)"
  by (erule settles_conseq) simp

lemma settles_spec: "settles (run_spec di what s spec ev) (\<lambda>_. True)"
  unfolding run_spec_def Let_def by (rule settles_bnd [OF settles_run_cmd]) auto

lemma settles_list: "settles (listDatabases di dir s ev) (\<lambda>_. True)"
  unfolding listDatabases_def Let_def
  by (rule settles_attempt) (auto intro!: settles_bnd [OF settles_spec] split: sum.splits)

lemma settles_single: "settles (dumpSingleDatabase di dir s ev) (\<lambda>_. True)"
  unfolding dumpSingleDatabase_def Let_def
  by (rule settles_bnd [OF settles_clock], rule settles_attempt)
    (auto intro!: settles_bnd [OF settles_spec] settles_attempt split: sum.splits)

lemma settles_each: "settles (dump_each di dir s now ds seen ev ms) (\<lambda>_. True)"
  by (induction ds arbitrary: seen ev ms)
    (auto intro!: settles_bnd [OF settles_single] split: prod.splits sum.splits)

lemma settles_source: "settles (dumpSource di dir s ev) (\<lambda>_. True)"
  unfolding dumpSource_def dumpAllDatabases_def
  by (auto intro!: settles_if settles_bnd [OF settles_single] settles_bnd [OF settles_list] settles_bnd [OF settles_clock]
      settles_each split: sum.splits)

lemma settles_sources: "settles (dump_sources di dir ss ev ms) (\<lambda>_. True)"
  by (induction ss arbitrary: ev ms) (auto intro!: settles_bnd [OF settles_source] split: sum.splits)

lemma settles_prepare: "settles (Prepare di name dir ss) (\<lambda>_. True)"
  unfolding Prepare_def Let_def
  by (intro settles_if settles_attempt)
    (auto intro!: settles_bnd [OF settles_sources] settles_bnd [OF settles_ignoring] split: sum.splits)

lemma settles_docker: "settles (adaptDockerRestoreRunner runner ctx failed ss ps items) (\<lambda>_. True)"
  by (induction ss arbitrary: failed ps items)
    (auto intro!: settles_if settles_bnd [OF settles_clock] settles_attempt simp: Let_def)

lemma settles_upload:
  "er_type r = ''backup'' \<Longrightarrow> settles (upload_archive io cfg n p ws ev r) (\<lambda>(evs, r). er_type r = ''backup'')"
  unfolding upload_archive_def Let_def archive_fails_def CopyFileToRemoteWithTaskLog_def runCommandWithTaskLog_def
  by (intro settles_bnd [where Q = "\<lambda>_. True"] settles_bnd [OF settles_run_cmd] settles_attempt)
    (auto intro!: settles_attempt settles_bnd [OF settles_run_cmd] split: sum.splits)

lemma settles_archive:
  "settles (archive_job ai io fuel cfg t) (\<lambda>(evs, r). er_type r = ''backup'')"
proof -
  have base: "er_type (archive_base f) = ''backup''" for f by (simp add: archive_base_def)
  have "settles (write_and_upload ai io fuel cfg n ev r) (\<lambda>(evs, r). er_type r = ''backup'')" if "er_type r = ''backup''" for n ev r
    unfolding write_and_upload_def Let_def
    by (rule settles_attempt) (use that in \<open>auto intro!: settles_upload simp: archive_fails_def split: sum.splits\<close>)
  with base show ?thesis
    unfolding archive_job_def Let_def
    by (auto intro!: settles_sum settles_attempt simp: archive_fails_def)
qed

lemma settles_backup: "settles (runBackupWithProgress ai io fuel cfg) (\<lambda>(evs, r). er_type r = ''backup'')"
proof -
  have arch: "settles (RunArchiveJobWithProgress ai io fuel cfg) (\<lambda>(evs, r). er_type r = ''backup'')"
    unfolding RunArchiveJobWithProgress_def
    by (intro settles_bnd [OF settles_clock] settles_bnd [OF settles_archive]) (auto intro!: settles_bnd [OF settles_elapsed])
  have "\<exists>evs r w'. bnd (NewExecutor io cfg) (\<lambda>ops. RunBackupJobWithProgress ops cfg) w = (Inr (evs, r), w') \<and>
      er_type r = ''backup''" for w
    using jobs_end_typed_backup [of io cfg w]
    by (auto simp: RunBackupJob_def bnd_def ret_def split: prod.splits sum.splits)
  with arch show ?thesis
    unfolding runBackupWithProgress_def by (intro settles_if) (auto simp: settles_def)
qed

lemma settles_verify: "settles (runBackupVerification io name ctx cfg s) (\<lambda>r. er_type r = ''verify'')"
  unfolding runBackupVerification_def
  by (rule settles_bnd [OF settles_clock], rule settles_bnd [where Q = "\<lambda>_. True"])
    (auto intro!: settles_if settles_password settles_bnd [OF settles_elapsed] settles_conseq [OF verification_settles]
      simp: not_encrypted_def no_exec_result_def)

interpretation own: agent_runners "NewHandler_runners ai io di fuel name configDir ctx docker rv"
  for ai io di fuel name configDir ctx docker rv
  by unfold_locales
    (simp_all add: NewHandler_runners_def settles_backup settles_verify settles_prepare settles_docker)

section \<open>Requests\<close>

definition request_type :: "msg_type \<Rightarrow> string option" where
  "request_type t = (if t = TypeBackupNow then Some ''backup'' else if t = TypeBackupVerifyReq then Some ''verify''
     else if t = TypeRestoreReq \<or> t = TypeSelectiveRestoreReq then Some ''restore'' else None)"

text \<open>A request and the task it starts, to the end.\<close>

definition serve_request :: "handler_config \<Rightarrow> request_env \<Rightarrow> message \<Rightarrow> task_manager \<Rightarrow> warm_up handler_prog" where
  "serve_request hc rv msg tm = bnd (Handle hc rv msg tm) (\<lambda>(tm1, task). case task of
     None \<Rightarrow> ret None | Some t \<Rightarrow> run_agent_task hc rv (m_id msg) t)"

context agent_runners
begin

text \<open>A handler either answers, or starts a task and says nothing.\<close>

definition starts :: "string \<Rightarrow> string \<Rightarrow> handled outcome \<Rightarrow> (string \<times> task_result) list \<Rightarrow> bool" where
  "starts mid ty r rs \<longleftrightarrow> (\<exists>tm. r = Inr (tm, None) \<and> one_result mid ty (Inr ()) rs) \<or>
     (\<exists>tm t. r = Inr (tm, Some t) \<and> rs = [] \<and>
        (case t of BackupTask a p \<Rightarrow> ty = ''backup'' | VerifyTask a p s \<Rightarrow> ty = ''verify'' | RestoreTask a q p \<Rightarrow> ty = ''restore''
         | _ \<Rightarrow> False))"

lemma refused_tells:
  "connected hc \<Longrightarrow> mid \<noteq> '''' \<Longrightarrow> (\<And>now. tr_task_type (f now) = ty) \<Longrightarrow> tells (refused hc mid f tm) (starts mid ty)"
  unfolding refused_def refuse_def bnd_attempt [of "bnd _ _"]
  by (rule tells_attempt, rule tells_after [OF settled_clock], rule tells_conseq [OF tells_result])
    (auto simp: one_result_def starts_def intro!: tells_ret)

lemma start_or_refuse_tells:
  assumes "connected hc" "mid \<noteq> ''''" "\<And>e now. tr_task_type (f e now) = ty"
    and "starts mid ty (Inr (tm, Some t)) []"
  shows "tells (start_or_refuse hc mid slot t f tm) (starts mid ty)"
  using refused_tells [of hc mid "f e" ty tm for e] assms
  by (auto simp: start_or_refuse_def refused_def starts_def intro!: tells_sum tells_ret)

lemma handle_tells:
  assumes "connected hc" "m_id msg \<noteq> ''''" "request_type (m_type msg) = Some ty"
  shows "tells (Handle hc rv msg tm) (starts (m_id msg) ty)"
proof -
  have b: "tells (handleBackupNow hc rv msg tm) (starts (m_id msg) ''backup'')"
    unfolding handleBackupNow_def Let_def
    by (auto intro!: tells_branches tells_after_silent [OF silent_load(1)] refused_tells start_or_refuse_tells assms(1,2) simp: starts_def)
  have v: "tells (handleBackupVerifyReq hc rv msg tm) (starts (m_id msg) ''verify'')"
    unfolding handleBackupVerifyReq_def Let_def
    by (auto intro!: tells_branches tells_after_silent [OF silent_load(1)] refused_tells start_or_refuse_tells assms(1,2) simp: starts_def)
  have r: "tells (handleRestoreReq hc rv msg tm) (starts (m_id msg) ''restore'')"
    unfolding handleRestoreReq_def Let_def
    by (auto intro!: tells_branches tells_after_silent [OF silent_load(1)] refused_tells start_or_refuse_tells assms(1,2) simp: starts_def)
  from assms(3) b v r show ?thesis
    by (auto simp: request_type_def Handle_def split: if_splits)
qed

lemma task_tells:
  assumes "connected hc" "mid \<noteq> ''''" "starts mid ty (Inr (tm, Some t)) []"
  shows "tells (run_agent_task hc rv mid t) (one_result mid ty)"
proof -
  have then_none: "tells (bnd m (\<lambda>_. ret None :: warm_up handler_prog)) (one_result mid ty1)"
    if "tells m (one_result mid ty1)" for m :: "unit handler_prog" and ty1
    unfolding bnd_attempt
    by (rule tells_attempt, rule tells_conseq [OF that]) (auto simp: one_result_def intro!: tells_ret)
  from assms show ?thesis
    using then_none [OF verify_tells] then_none [OF restore_tells] backup_tells
    by (cases t) (simp_all add: run_agent_task_def starts_def)
qed

lemma serve_tells:
  assumes "connected hc" "m_id msg \<noteq> ''''" "request_type (m_type msg) = Some ty"
  shows "tells (serve_request hc rv msg tm) (one_result (m_id msg) ty)"
  unfolding serve_request_def bnd_attempt [of "Handle _ _ _ _"]
proof (rule tells_attempt, rule tells_conseq [OF handle_tells [OF assms]])
  fix r rs
  assume "starts (m_id msg) ty r rs"
  then consider tm where "r = Inr (tm, None)" "one_result (m_id msg) ty (Inr ()) rs"
    | tm t where "r = Inr (tm, Some t)" "rs = []" "starts (m_id msg) ty (Inr (tm, Some t)) []"
    unfolding starts_def by blast
  then show "tells (case r of Inl e \<Rightarrow> raise e | Inr a \<Rightarrow> case a of (tm1, task) \<Rightarrow> case task of
      None \<Rightarrow> ret None | Some t \<Rightarrow> run_agent_task hc rv (m_id msg) t) (\<lambda>r' rs'. one_result (m_id msg) ty r' (rs @ rs'))"
  proof cases
    case 1
    then show ?thesis by (auto simp: one_result_def intro!: tells_ret)
  next
    case 2
    with task_tells [OF assms(1,2) 2(3)] show ?thesis by simp
  qed
qed

end

text \<open>C28. While the connection takes messages, every backup, verification or restore request is answered by exactly
  one task result, under its own id and of its type: whether the payload cannot be parsed, the slot is taken, a
  file operation fails at any point, a hook or a dump fails or the commands do whatever they do.\<close>

theorem every_request_answered_once:
  assumes "connected hc" and "m_id msg \<noteq> ''''" and "request_type (m_type msg) = Some ty"
    and "as_send_fails (w_hub w) = []"
    and "serve_request hc (NewHandler_runners ai io di fuel name configDir ctx docker rv) msg tm w = (r, w')"
  shows "\<exists>t. sent_results (w_hub w') = sent_results (w_hub w) @ [(m_id msg, t)] \<and> tr_task_type t = ty"
  using tellsD [OF own.serve_tells [OF assms(1-3), where tm = tm and ai = ai and io = io and di = di and fuel = fuel and name = name
        and configDir = configDir and ctx = ctx and docker = docker and rv = rv] assms(4)] assms(5)
  by (auto simp: one_result_def)

section \<open>A request on a bare agent\<close>

definition bare_env :: handler_env where
  "bare_env = \<lparr>hv_version = ''1.0'', hv_hostname = ''host'',
     hv_meta = \<lparr>mj_docker = (\<lambda>_. ''''), mj_database = (\<lambda>_. ''''), mj_verification = (\<lambda>_. ''''), mj_manifest = (\<lambda>_. ''''), mj_naming = (\<lambda>_. '''')\<rparr>,
     hv_marshal_manifest = (\<lambda>_. Inr ''{}''), hv_cache = \<lparr>ci_encode = (\<lambda>_. Inr ''[]''), ci_decode = (\<lambda>_. Inr [])\<rparr>, hv_redact = (\<lambda>s. s),
     hv_log_json = (\<lambda>_. True), hv_floats = idle_floats, hv_shell = (\<lambda>_. idle_shell), hv_ctx = (\<lambda>_. CtxLive),
     hv_resolve = (\<lambda>_. Inr ([], None)), hv_database = (\<lambda>_. ret ([], Inr ([], None), ret ())), hv_backup = (\<lambda>_. ret ([], backup_base)),
     hv_verify = (\<lambda>_ _. ret not_encrypted), hv_browse = (\<lambda>_ _ _. ret [])\<rparr>"

definition bare_requests :: request_env where
  "bare_requests = \<lparr>rv_env = bare_env, rv_policy = (\<lambda>_. Inl SysFault), rv_reconcile = (\<lambda>_. Inl SysFault),
     rv_backup_now = (\<lambda>_. Inr (''a1'', Some plain_policy)), rv_verify_req = (\<lambda>_. Inl SysFault), rv_restore_req = (\<lambda>_. Inl SysFault),
     rv_preflight_req = (\<lambda>_. Inl SysFault), rv_list_req = Inr, rv_browse_req = (\<lambda>_. Inl SysFault), rv_cancel = (\<lambda>_. Inl SysFault),
     rv_logs_req = (\<lambda>_. Inl SysFault), rv_dir_req = (\<lambda>_. Inl SysFault), rv_size_req = Inr, rv_database_req = (\<lambda>_. Inl SysFault),
     rv_version = (\<lambda>_. Inl SysFault), rv_restore = (\<lambda>_ _ _ _. ret ()), rv_docker_restore = (\<lambda>_. ret ([], [])), rv_list = (\<lambda>_. ret []),
     rv_docker_preflight = (\<lambda>_. []), rv_browse_bytes = (\<lambda>_ _. Inr 0), rv_browse = (\<lambda>_ _ _. Inr []), rv_dir_size = (\<lambda>_ _. (0, None)),
     rv_databases = (\<lambda>_. Inr []), rv_discover = '''', rv_log_file = '''', rv_has_updater = False\<rparr>"

text \<open>The disk fails at the second and at the fifth call.\<close>

theorem every_request_answered_once_witness:
  "\<exists>t. sent_results (w_hub (snd (serve_request sample_agent
        (NewHandler_runners small_ai idle_io \<lparr>di_gzip = (\<lambda>s. s), di_redact = (\<lambda>s. s)\<rparr> 5 ''1'' ''/etc/vaultfleet'' (\<lambda>_. CtxLive) (\<lambda>_. ret ()) bare_requests)
        \<lparr>m_type = TypeBackupNow, m_id = ''m9'', m_payload = ''''\<rparr> newTaskManager
        (agent_world [False, True, False, False, True])))) = [(''m9'', t)] \<and> tr_task_type t = ''backup''"
proof -
  define tm fs where "tm = newTaskManager" and "fs = [False, True, False, False, True]"
  define go where "go = NewHandler_runners small_ai idle_io \<lparr>di_gzip = (\<lambda>s. s), di_redact = (\<lambda>s. s)\<rparr> 5 ''1'' ''/etc/vaultfleet''
    (\<lambda>_. CtxLive) (\<lambda>_. ret ()) bare_requests"
  let ?m = "\<lparr>m_type = TypeBackupNow, m_id = ''m9'', m_payload = ''''\<rparr>"
  have w: "sent_results (w_hub (agent_world fs)) = []" "as_send_fails (w_hub (agent_world fs)) = []"
    by (simp_all add: agent_world_def sent_results_def List.map_filter_def)
  have c: "connected sample_agent" "m_id ?m \<noteq> ''''" "request_type (m_type ?m) = Some ''backup''"
    by (simp_all add: connected_def sample_agent_def request_type_def)
  obtain r w' where run: "serve_request sample_agent go ?m tm (agent_world fs) = (r, w')" by fastforce
  show ?thesis
    using every_request_answered_once [OF c w(2) run [unfolded go_def]] w(1) run
    unfolding tm_def go_def fs_def by simp
qed

end
