(* ===== verification/Spec2Isabelle.thy ===== *)
theory Spec2Isabelle
  imports VF_ArtifactNaming VF_RolloutLaws VF_WsHandler VF_Delivery VF_TaskLogs VF_AgentLogs VF_LogBuf VF_AuthLaws VF_PolicyPushLaws VF_OutboxLaws VF_RequestLaws
begin

text \<open>
  VaultFleet is a backup fleet: one master with a web API, a SQLite database and a WebSocket hub, and one
  agent on every machine, which runs restic or rclone for the policies the master pushes.  This
  development models both programs, as the Go sources below src/internal and src/pkg have them, and
  proves what their components promise each other.

  \<^bold>\<open>How the programs are modelled.\<close>  A program is a function on a \<open>world\<close> (\<open>VF_World\<close>) to an outcome,
  an error or a value, and the world after it.  A world holds a database (tables of rows for the master,
  a list of paths with what is there for the agent), a hub (what the program talks to: the WebSocket hub,
  the connection to the master, or a shell with the command lines run so far), a list of faults that says
  which of the calls to come fail, what other goroutines do in between (\<open>w_others\<close>), and the clock.
  Errors are values of \<open>go_error\<close> (\<open>VF_Prelude\<close>); every early return and every ignored error of the code
  is a branch of the model.  Go's maps, JSON codecs, AES-GCM, bcrypt, gzip and zip, the cron parser, float
  arithmetic and external commands are fields of parameter records (\<open>service\<close>, \<open>json_io\<close>, \<open>runner_io\<close>,
  \<open>float_ops\<close>, \<open>archive_io\<close>, \<open>dump_io\<close>, \<open>handler_env\<close>, ...); a theorem that relies on one of them says so
  in a hypothesis.  Strings are lists of bytes; times and durations are nanoseconds, with the overflow of
  time.Sub and of \<^verbatim>\<open>int64\<close> written out in \<open>VF_GoLib\<close>.

  \<^bold>\<open>Shared theories.\<close>  \<open>VF_Prelude\<close>: errors, theorem collections, list lemmas.  \<open>VF_GoLib\<close>: packages
  strings, path/filepath, sort and time.  \<open>VF_Protocol\<close>: pkg/protocol/message.go.  \<open>VF_World\<close>: programs,
  transactions, and two calculi for them: \<open>triple\<close> and \<open>obeys\<close> (any faults, any interference) and
  \<open>quiet\<close> (no fault left).  \<open>VF_AgentWp\<close>: weakest preconditions when at most one call fails, for roll-backs.

  \<^bold>\<open>The master.\<close>
  \<^item> \<open>VF_Models\<close>: master/db/models.go.  \<open>VF_Crypto\<close>: master/db/crypto.go, base64, Encrypt and Decrypt, and
    the installation of the master key with its race for the file.
  \<^item> \<open>VF_Commands\<close>, \<open>VF_CommandLaws\<close>: master/commands/service.go, the life of a command and of the task
    history that mirrors it.  \<open>VF_Link\<close> states the hub the services need as the locale \<open>agent_link\<close>;
    \<open>VF_HubLaws\<close> interprets it on the WebSocket hub, and \<open>VF_Delivery\<close> shows what dispatching puts on the wire.
  \<^item> \<open>VF_Hub\<close>, \<open>VF_HubLaws\<close>, \<open>VF_HubRace\<close>: master/ws hub.go, safeconn.go, monitor.go, progress_cache.go;
    the race theory interleaves SendAndWait, timeoutWaiter and HandleResponse where no lock is held.
    \<open>VF_WsHandler\<close>: ws/handler.go, a connection from handshake to clean-up.
  \<^item> \<open>VF_Rollouts\<close>, \<open>VF_RolloutLaws\<close>: master/agentrollout/service.go.
  \<^item> \<open>VF_TaskLogs\<close>: master/tasklogs/buffer.go.  \<open>VF_LogBuf\<close>: master/logbuf/logbuf.go.
  \<^item> \<open>VF_Authz\<close>, \<open>VF_Auth\<close>, \<open>VF_AuthLaws\<close>: master/api authz.go, audit.go, router.go (the routes), auth.go,
    middleware.go, users.go, api_tokens.go, api_token_auth.go.

  \<^bold>\<open>The agent.\<close>
  \<^item> \<open>VF_AgentFiles\<close>: the file system, agent/policy/store.go and agent/snapshot_cache.go.  \<open>VF_AgentLink\<close>:
    the handler's configuration, the messages it sends, its scheduler and the rclone configuration.
  \<^item> \<open>VF_AgentTasks\<close>: agent/task_manager.go and the queue of scheduled backups, as interleaved steps.
  \<^item> \<open>VF_PolicyPush\<close>, \<open>VF_PolicyPushLaws\<close>: handlePolicyPush with staging, commit and roll-back.
  \<^item> \<open>VF_AgentLogs\<close>: agent/task_log.go.  \<open>VF_AgentOutbox\<close>, \<open>VF_OutboxLaws\<close>: results that wait for a
    connection.  \<open>VF_Manifest\<close>: agent/manifest/builder.go.
  \<^item> \<open>VF_Runners\<close>, \<open>VF_PlainRunner\<close>, \<open>VF_Executor\<close>, \<open>VF_ExecutorLaws\<close>, \<open>VF_Archive\<close>, \<open>VF_ArchiveLaws\<close>:
    agent/executor.  The locale \<open>backup_runner\<close> is what a job needs of its runner; it is interpreted on the
    restic and on the plain runner.
  \<^item> \<open>VF_Database\<close>: agent/database/dump.go.
  \<^item> \<open>VF_AgentRuns\<close>, \<open>VF_AgentBackup\<close>, \<open>VF_AgentRequests\<close>, \<open>VF_RequestLaws\<close>: the rest of agent/handler.go and
    agent/logcollect.go, from a message to the task it starts and the result that is sent.  The locale
    \<open>agent_runners\<close> is what the handler needs of the functions it is configured with, and is interpreted
    on those NewHandler fills in.
  \<^item> \<open>VF_ArtifactNaming\<close>: artifactnaming/naming.go, which both programs use.

  \<^bold>\<open>What is shown.\<close>  The text before a theorem states it.  In groups: the life of commands and tasks
  (invariants under all faults and interleavings), delivery over the hub, safety of the hub's waiters and
  connections, finality and order of rollouts, who is admitted, secrets at rest, live logs, the
  roll-back of refused pushes, slots and the queue of the agent's tasks, one answer per request, results
  neither lost nor doubled, jobs as the sequence of their steps, archives and manifests.  Theorems on a
  concrete run record where the code does not do what it means to.

  \<^bold>\<open>Bounds and fuel.\<close>  The walk over a directory tree (\<open>walk\<close>) and Go's directory recursion take a fuel
  that counts the depth of the tree; a walk without fuel fails, so that no theorem holds of a tree it
  has not seen.  All other recursions are structural or have a termination proof.

  \<^bold>\<open>Not modelled.\<close>  HTTP decoding and encoding, network reading and its deadlines, tickers, signal
  handling, wiring of the executables, file modes, environment variables of commands.  The manifest lists
  the parts left out with the reason for each.
\<close>

end
